(* ===== verification/Prelude.thy ===== *)
theory Prelude
  imports Main "HOL-Library.Word" "HOL-Library.Monad_Syntax"
begin

unbundle bit_operations_syntax

text \<open>
  Shared vocabulary of the development: the machine types of the Rust sources, the simp
  collections the component theories add their operations to, and the generic facts on
  \<open>option\<close> binds, association of list folds and byte strings that several components use.

  A call of the library that does not return normally (a Rust panic, an abort, or undefined
  behaviour such as a dangling handle) is the value \<open>None\<close>; a call that returns is
  \<open>Some\<close> of its results and the new state. Operations are chained in the \<open>option\<close> monad.
\<close>

section \<open>Machine types\<close>

text \<open>
  Addresses are natural numbers, \<open>0\<close> is NULL. \<open>usize\<close>, \<open>u64\<close> and \<open>i64\<close> are 64-bit
  words (\<open>+\<close> wraps, as in a release build), read with \<open>unat\<close> or \<open>sint\<close>. The
  \<open>i32\<close> status and error codes take part in no arithmetic and are integers.
\<close>

type_synonym ptr = nat
type_synonym usize = "64 word"
type_synonym u64 = "64 word"
type_synonym i64 = "64 word"
type_synonym u32 = "32 word"
type_synonym u16 = "16 word"
type_synonym u8 = "8 word"
type_synonym i32 = int

abbreviation NULL :: ptr where
  "NULL \<equiv> 0"

section \<open>Simp collections\<close>

named_theorems op_defs \<open>definitions of the library operations\<close>
named_theorems ledger \<open>effect of an operation on the reference ledger\<close>
named_theorems frame \<open>parts of the state an operation leaves alone\<close>

section \<open>The option monad\<close>

text \<open>\<open>Option::expect\<close>: a panic on \<open>None\<close>; here on a null pointer.\<close>

definition expect_nonnull :: "ptr \<Rightarrow> ptr option" where
  "expect_nonnull p = (if p = NULL then None else Some p)"

lemma expect_nonnull_Some [simp]: "expect_nonnull p = Some q \<longleftrightarrow> p = q \<and> p \<noteq> NULL"
  by (auto simp: expect_nonnull_def)

lemma expect_nonnull_None [simp]: "expect_nonnull p = None \<longleftrightarrow> p = NULL"
  by (auto simp: expect_nonnull_def)

lemma expect_nonnull_nonzero: "p \<noteq> NULL \<Longrightarrow> expect_nonnull p = Some p"
  by simp

lemma bind_SomeE:
  assumes "m \<bind> f = Some y"
  obtains x where "m = Some x" "f x = Some y"
  using assms by (cases m) auto

section \<open>Sums over the entries of a finite map\<close>

text \<open>
  \<open>entries_sum w m\<close> adds the weight \<open>w\<close> of every entry of \<open>m\<close>. The ownership invariants
  count references this way, so what matters is how it changes under an update.
\<close>

definition entries_sum :: "('v \<Rightarrow> int) \<Rightarrow> ('k \<rightharpoonup> 'v) \<Rightarrow> int" where
  "entries_sum w m = (\<Sum>k\<in>dom m. w (the (m k)))"

definition opt_weight :: "('v \<Rightarrow> int) \<Rightarrow> 'v option \<Rightarrow> int" where
  "opt_weight w x = (case x of None \<Rightarrow> 0 | Some v \<Rightarrow> w v)"

lemma opt_weight_simps [simp]:
  "opt_weight w None = 0"
  "opt_weight w (Some v) = w v"
  by (simp_all add: opt_weight_def)

lemma entries_sum_empty [simp]: "entries_sum w Map.empty = 0"
  by (simp add: entries_sum_def)

lemma entries_sum_remove:
  assumes "finite (dom m)"
  shows "entries_sum w (m(k := None)) = entries_sum w m - opt_weight w (m k)"
proof (cases "m k")
  case None
  then have "m(k := None) = m" by (simp add: fun_upd_idem)
  with None show ?thesis by simp
next
  case (Some v)
  then have k: "k \<in> dom m" by blast
  have "entries_sum w m = w v + (\<Sum>j\<in>dom m - {k}. w (the (m j)))"
    unfolding entries_sum_def using sum.remove [OF assms k, of "\<lambda>j. w (the (m j))"] Some by simp
  moreover have "entries_sum w (m(k := None)) = (\<Sum>j\<in>dom m - {k}. w (the (m j)))"
    unfolding entries_sum_def by (rule sum.cong) auto
  ultimately show ?thesis using Some by simp
qed

lemma entries_sum_upd:
  assumes "finite (dom m)"
  shows "entries_sum w (m(k \<mapsto> v)) = entries_sum w m - opt_weight w (m k) + w v"
proof -
  let ?m = "m(k := None)"
  have fin: "finite (dom (m(k \<mapsto> v)))" using assms by simp
  have "entries_sum w ((m(k \<mapsto> v))(k := None)) = entries_sum w (m(k \<mapsto> v)) - w v"
    using entries_sum_remove [OF fin, of w k] by simp
  moreover have "(m(k \<mapsto> v))(k := None) = ?m" by simp
  ultimately have "entries_sum w (m(k \<mapsto> v)) = entries_sum w ?m + w v" by simp
  then show ?thesis using entries_sum_remove [OF assms, of w k] by simp
qed

lemma entries_sum_nonneg:
  assumes "\<And>v. 0 \<le> w v"
  shows "0 \<le> entries_sum w m"
  unfolding entries_sum_def using assms by (intro sum_nonneg) auto

lemma entries_sum_ge:
  assumes "finite (dom m)" and "\<And>v. 0 \<le> w v" and "m k = Some v"
  shows "w v \<le> entries_sum w m"
proof -
  have "0 \<le> entries_sum w (m(k := None))" using assms(2) by (rule entries_sum_nonneg)
  then show ?thesis using entries_sum_remove [OF assms(1), of w k] assms(3) by simp
qed

section \<open>Words\<close>

lemma word64_no_overflow:
  fixes a b :: u64
  assumes "unat a + unat b < 2 ^ 64"
  shows "unat (a + b) = unat a + unat b"
  using assms by (simp add: unat_word_ariths)

section \<open>Reachability\<close>

text \<open>
  The state machines of the development are step relations; a property of every reachable
  state is an initial fact and a preservation fact. The locale states that pattern once, and
  each machine interprets it on its own step relation and invariant.
\<close>

inductive reachable_from :: "('s \<Rightarrow> 's \<Rightarrow> bool) \<Rightarrow> 's \<Rightarrow> 's \<Rightarrow> bool"
  for step :: "'s \<Rightarrow> 's \<Rightarrow> bool" and s0 :: 's
where
  reach_start: "reachable_from step s0 s0"
| reach_step: "reachable_from step s0 s \<Longrightarrow> step s t \<Longrightarrow> reachable_from step s0 t"

locale preserved =
  fixes step :: "'s \<Rightarrow> 's \<Rightarrow> bool"
    and inv :: "'s \<Rightarrow> bool"
  assumes inv_step: "step s t \<Longrightarrow> inv s \<Longrightarrow> inv t"
begin

lemma inv_reachable: "reachable_from step s0 s \<Longrightarrow> inv s0 \<Longrightarrow> inv s"
  by (induction rule: reachable_from.induct) (auto intro: inv_step)

end

text \<open>A measure that no step decreases never decreases along a run.\<close>

locale monotone_measure =
  fixes step :: "'s \<Rightarrow> 's \<Rightarrow> bool"
    and clock :: "'s \<Rightarrow> nat"
  assumes clock_step: "step s t \<Longrightarrow> clock s \<le> clock t"
begin

lemma clock_reachable: "reachable_from step s0 s \<Longrightarrow> clock s0 \<le> clock s"
  by (induction rule: reachable_from.induct) (auto dest: clock_step)

end

end
