(* ===== verification/Iree.thy ===== *)
theory Iree
  imports Prelude
begin

text \<open>
  The IREE runtime is linked from prebuilt archives, so it is a parameter of the model. This
  theory holds what \<open>crates/iree-sys\<close> declares of it: the by-value structs and constants the
  port fills in, the inline helpers the crate re-implements, and one constructor per foreign
  function. The environment answers each call from the whole history of calls and answers, so
  every deterministic or scheduled behaviour of the runtime is an instance of it.

  The ledger at the end counts, from the history alone, how many references to an IREE object
  the port has been given and how many it has given back.
\<close>

section \<open>Status words (\<open>iree-sys/src/lib.rs\<close>)\<close>

text \<open>\<open>iree_status_t\<close>: NULL is OK, the low five bits of the pointer carry the code.\<close>

type_synonym iree_status = ptr

definition IREE_STATUS_CODE_MASK :: nat where
  "IREE_STATUS_CODE_MASK = 31"

definition status_code :: "iree_status \<Rightarrow> i32" where
  "status_code s = int (s AND IREE_STATUS_CODE_MASK)"

definition status_is_ok :: "iree_status \<Rightarrow> bool" where
  "status_is_ok s \<longleftrightarrow> s = NULL"

definition iree_status_from_code :: "i32 \<Rightarrow> iree_status" where
  "iree_status_from_code c = nat (c mod 2 ^ 64) AND IREE_STATUS_CODE_MASK"

definition IREE_STATUS_INVALID_ARGUMENT :: i32 where
  "IREE_STATUS_INVALID_ARGUMENT = 3"

definition IREE_STATUS_FAILED_PRECONDITION :: i32 where
  "IREE_STATUS_FAILED_PRECONDITION = 9"

lemma status_code_mod: "status_code s = int s mod 32"
proof -
  have "s AND 31 = take_bit 5 s" by (simp add: take_bit_eq_mask mask_eq_exp_minus_1)
  then show ?thesis
    by (simp add: status_code_def IREE_STATUS_CODE_MASK_def take_bit_eq_mod of_nat_mod)
qed

lemma iree_status_from_code_mod: "iree_status_from_code c = nat (c mod 2 ^ 64) mod 32"
proof -
  have "n AND 31 = take_bit 5 n" for n :: nat by (simp add: take_bit_eq_mask mask_eq_exp_minus_1)
  then show ?thesis
    by (simp add: iree_status_from_code_def IREE_STATUS_CODE_MASK_def take_bit_eq_mod)
qed

lemma status_code_from_code: "0 \<le> c \<Longrightarrow> c < 32 \<Longrightarrow> status_code (iree_status_from_code c) = c"
  by (simp add: status_code_mod iree_status_from_code_mod)

lemma status_is_ok_from_code: "0 \<le> c \<Longrightarrow> c < 32 \<Longrightarrow> status_is_ok (iree_status_from_code c) \<longleftrightarrow> c = 0"
  by (auto simp: status_is_ok_def iree_status_from_code_mod)

section \<open>By-value structs (\<open>iree-sys/src/init.rs\<close>)\<close>

record buffer_params =
  bp_usage :: u32
  bp_access :: u16
  bp_type :: u32
  bp_queue_affinity :: u64
  bp_min_alignment :: u64

definition IREE_HAL_MEMORY_ACCESS_READ :: u16 where "IREE_HAL_MEMORY_ACCESS_READ = 1"
definition IREE_HAL_MEMORY_ACCESS_WRITE :: u16 where "IREE_HAL_MEMORY_ACCESS_WRITE = 2"
definition IREE_HAL_MEMORY_ACCESS_DISCARD :: u16 where "IREE_HAL_MEMORY_ACCESS_DISCARD = 4"
definition IREE_HAL_MEMORY_ACCESS_DISCARD_WRITE :: u16 where
  "IREE_HAL_MEMORY_ACCESS_DISCARD_WRITE = IREE_HAL_MEMORY_ACCESS_WRITE OR IREE_HAL_MEMORY_ACCESS_DISCARD"
definition IREE_HAL_MEMORY_ACCESS_ALL :: u16 where "IREE_HAL_MEMORY_ACCESS_ALL = 7"
definition IREE_HAL_BUFFER_COMPATIBILITY_ALLOCATABLE :: u32 where
  "IREE_HAL_BUFFER_COMPATIBILITY_ALLOCATABLE = 1"
definition IREE_HAL_QUEUE_AFFINITY_ANY :: u64 where
  "IREE_HAL_QUEUE_AFFINITY_ANY = 2 ^ 64 - 1"
definition IREE_HAL_COMMAND_CATEGORY_TRANSFER :: u32 where "IREE_HAL_COMMAND_CATEGORY_TRANSFER = 1"
definition IREE_HAL_COMMAND_CATEGORY_DISPATCH :: u32 where "IREE_HAL_COMMAND_CATEGORY_DISPATCH = 2"

lemmas access_defs =
  IREE_HAL_MEMORY_ACCESS_READ_def IREE_HAL_MEMORY_ACCESS_WRITE_def
  IREE_HAL_MEMORY_ACCESS_DISCARD_def IREE_HAL_MEMORY_ACCESS_DISCARD_WRITE_def
  IREE_HAL_MEMORY_ACCESS_ALL_def

text \<open>\<open>iree_timeout_t\<close>: an absolute deadline or a relative duration, in nanoseconds.\<close>

record iree_timeout =
  timeout_type :: i32
  timeout_nanos :: i64

definition IREE_TIMEOUT_ABSOLUTE :: i32 where "IREE_TIMEOUT_ABSOLUTE = 0"
definition IREE_TIMEOUT_RELATIVE :: i32 where "IREE_TIMEOUT_RELATIVE = 1"
definition IREE_TIME_INFINITE_FUTURE :: i64 where "IREE_TIME_INFINITE_FUTURE = 2 ^ 63 - 1"
definition IREE_TIME_INFINITE_PAST :: i64 where "IREE_TIME_INFINITE_PAST = 2 ^ 63"

definition timeout_infinite :: iree_timeout where
  "timeout_infinite = \<lparr>timeout_type = IREE_TIMEOUT_ABSOLUTE, timeout_nanos = IREE_TIME_INFINITE_FUTURE\<rparr>"

definition timeout_immediate :: iree_timeout where
  "timeout_immediate = \<lparr>timeout_type = IREE_TIMEOUT_ABSOLUTE, timeout_nanos = IREE_TIME_INFINITE_PAST\<rparr>"

definition timeout_relative_ns :: "i64 \<Rightarrow> iree_timeout" where
  "timeout_relative_ns ns = \<lparr>timeout_type = IREE_TIMEOUT_RELATIVE, timeout_nanos = ns\<rparr>"

text \<open>
  \<open>iree_hal_semaphore_list_t\<close> is a count and two parallel arrays: the list of its
  (semaphore, payload) pairs. The empty list is the all-zero struct.
\<close>

type_synonym semaphore_list = "(ptr \<times> u64) list"

record buffer_ref =
  ref_buffer :: ptr
  ref_offset :: u64
  ref_length :: u64

definition make_buffer_ref :: "ptr \<Rightarrow> u64 \<Rightarrow> u64 \<Rightarrow> buffer_ref" where
  "make_buffer_ref b off len = \<lparr>ref_buffer = b, ref_offset = off, ref_length = len\<rparr>"

record dispatch_config =
  workgroup_size :: "u32 \<times> u32 \<times> u32"
  workgroup_count :: "u32 \<times> u32 \<times> u32"
  workgroup_count_ref :: buffer_ref
  dynamic_workgroup_local_memory :: u32

definition dispatch_config_new_static ::
  "u32 \<times> u32 \<times> u32 \<Rightarrow> u32 \<times> u32 \<times> u32 \<Rightarrow> dispatch_config" where
  "dispatch_config_new_static wsize wcount =
     \<lparr>workgroup_size = wsize, workgroup_count = wcount,
      workgroup_count_ref = make_buffer_ref NULL 0 0, dynamic_workgroup_local_memory = 0\<rparr>"

record device_info =
  info_path :: string
  info_name :: string

record function_info =
  fi_name :: ptr
  fi_flags :: u32
  fi_constant_count :: u16
  fi_binding_count :: u16
  fi_parameter_count :: u16
  fi_workgroup_size :: "u32 \<times> u32 \<times> u32"

text \<open>\<open>iree_allocator_t\<close>: the pair of \<open>self\<close> and \<open>ctl\<close>.\<close>

type_synonym iree_allocator = "ptr \<times> ptr"

definition allocator_null :: iree_allocator where
  "allocator_null = (NULL, NULL)"

section \<open>VM values (\<open>iree-sys/src/lib.rs\<close>)\<close>

text \<open>
  \<open>iree_vm_value_t\<close>: a type tag and eight bytes of storage. \<open>to_ne_bytes\<close> is the byte order
  of the (little-endian) target.
\<close>

record vm_value =
  vm_type :: i32
  vm_storage :: "u8 list"

definition IREE_VM_VALUE_TYPE_I64 :: i32 where "IREE_VM_VALUE_TYPE_I64 = 4"

definition i64_to_ne_bytes :: "i64 \<Rightarrow> u8 list" where
  "i64_to_ne_bytes v = map (\<lambda>i. ucast (drop_bit (8 * i) v)) [0..<8]"

definition i64_from_ne_bytes :: "u8 list \<Rightarrow> i64" where
  "i64_from_ne_bytes bs = foldr (\<lambda>b acc. ucast b OR push_bit 8 acc) bs 0"

definition vm_value_make_i64 :: "i64 \<Rightarrow> vm_value" where
  "vm_value_make_i64 v = \<lparr>vm_type = IREE_VM_VALUE_TYPE_I64, vm_storage = i64_to_ne_bytes v\<rparr>"

definition vm_value_as_i64 :: "vm_value \<Rightarrow> i64" where
  "vm_value_as_i64 v = i64_from_ne_bytes (vm_storage v)"

section \<open>Foreign functions\<close>

text \<open>
  The reference-counted IREE object types the port holds references to, and scoped buffer
  mappings, which are not counted objects but are owned in the same way.
\<close>

datatype iree_kind =
    VmInstance | VmModule | VmContext | VmList
  | ProactorPool | FrontierTracker | AsyncNotification
  | TaskExecutor | ExecutableLoader
  | HalDriver | HalDevice | HalDeviceGroup | HalAllocator
  | HalBuffer | HalPool | HalBufferView | HalSemaphore | HalFence
  | HalCommandBuffer | HalExecutable | HalExecutableCache
  | BufferMapping

text \<open>
  Functions that, when they return OK, hand the caller one owned reference through their
  out-pointer.
\<close>

datatype create_fn =
    iree_vm_instance_create
  | iree_vm_bytecode_module_create ptr ptr usize
  | iree_hal_module_create ptr ptr
  | iree_vm_context_create_with_modules ptr "ptr list"
  | iree_vm_list_create usize
  | iree_async_proactor_pool_create
  | iree_async_frontier_tracker_create
  | iree_async_notification_create ptr
  | iree_task_executor_create usize
  | iree_hal_allocator_create_heap
  | iree_hal_task_driver_create ptr "ptr list" ptr
  | iree_hal_driver_registry_try_create ptr string
  | iree_hal_driver_create_default_device ptr ptr
  | iree_hal_driver_create_device_by_ordinal ptr usize ptr
  | iree_hal_device_group_create_from_device ptr ptr
  | iree_hal_allocator_allocate_buffer ptr buffer_params u64
  | iree_hal_allocator_import_buffer ptr buffer_params ptr u64
  | iree_hal_allocator_virtual_memory_reserve ptr u64 u64
  | iree_hal_device_queue_alloca ptr semaphore_list semaphore_list ptr buffer_params u64
  | iree_hal_buffer_view_create ptr "u64 list" u32 u32
  | iree_hal_semaphore_create ptr u64 u64 u32
  | iree_hal_fence_create usize
  | iree_hal_fence_create_at ptr u64
  | iree_hal_command_buffer_create ptr u32 u64
  | iree_hal_executable_cache_create ptr
  | iree_hal_executable_cache_prepare_executable ptr string ptr usize

fun kind_of :: "create_fn \<Rightarrow> iree_kind" where
  "kind_of iree_vm_instance_create = VmInstance"
| "kind_of (iree_vm_bytecode_module_create _ _ _) = VmModule"
| "kind_of (iree_hal_module_create _ _) = VmModule"
| "kind_of (iree_vm_context_create_with_modules _ _) = VmContext"
| "kind_of (iree_vm_list_create _) = VmList"
| "kind_of iree_async_proactor_pool_create = ProactorPool"
| "kind_of iree_async_frontier_tracker_create = FrontierTracker"
| "kind_of (iree_async_notification_create _) = AsyncNotification"
| "kind_of (iree_task_executor_create _) = TaskExecutor"
| "kind_of iree_hal_allocator_create_heap = HalAllocator"
| "kind_of (iree_hal_task_driver_create _ _ _) = HalDriver"
| "kind_of (iree_hal_driver_registry_try_create _ _) = HalDriver"
| "kind_of (iree_hal_driver_create_default_device _ _) = HalDevice"
| "kind_of (iree_hal_driver_create_device_by_ordinal _ _ _) = HalDevice"
| "kind_of (iree_hal_device_group_create_from_device _ _) = HalDeviceGroup"
| "kind_of (iree_hal_allocator_allocate_buffer _ _ _) = HalBuffer"
| "kind_of (iree_hal_allocator_import_buffer _ _ _ _) = HalBuffer"
| "kind_of (iree_hal_allocator_virtual_memory_reserve _ _ _) = HalBuffer"
| "kind_of (iree_hal_device_queue_alloca _ _ _ _ _ _) = HalBuffer"
| "kind_of (iree_hal_buffer_view_create _ _ _ _) = HalBufferView"
| "kind_of (iree_hal_semaphore_create _ _ _ _) = HalSemaphore"
| "kind_of (iree_hal_fence_create _) = HalFence"
| "kind_of (iree_hal_fence_create_at _ _) = HalFence"
| "kind_of (iree_hal_command_buffer_create _ _ _) = HalCommandBuffer"
| "kind_of (iree_hal_executable_cache_create _) = HalExecutableCache"
| "kind_of (iree_hal_executable_cache_prepare_executable _ _ _ _) = HalExecutable"

text \<open>Host runtime: status objects, the host allocator, the VM, task topology and drivers.\<close>

datatype host_fn =
    iree_status_to_string iree_status
  | iree_status_free iree_status
  | iree_status_allocate_f i32 string
  | iree_allocator_malloc iree_allocator usize
  | iree_allocator_malloc_uninitialized iree_allocator usize
  | iree_allocator_realloc iree_allocator usize ptr
  | iree_allocator_clone iree_allocator ptr usize
  | iree_allocator_malloc_aligned iree_allocator usize usize usize
  | iree_allocator_realloc_aligned iree_allocator usize usize usize ptr
  | iree_allocator_free iree_allocator ptr
  | iree_allocator_free_aligned iree_allocator ptr
  | iree_hal_module_register_all_types ptr
  | iree_async_proactor_pool_get ptr usize
  | iree_async_notification_signal ptr
  | iree_hal_create_all_available_executable_loaders usize
  | iree_hal_driver_registry_default
  | iree_hal_amdgpu_driver_module_register ptr
  | iree_hal_driver_query_available_devices ptr

datatype vm_fn =
    iree_vm_list_size ptr
  | iree_vm_list_push_value ptr vm_value
  | iree_vm_list_get_value_as ptr usize i32
  | iree_vm_list_push_ref_move ptr "(iree_kind \<times> ptr) option"
  | iree_vm_context_resolve_function ptr string
  | iree_vm_invoke ptr ptr ptr ptr

text \<open>Allocator and buffer functions.\<close>

datatype mem_fn =
    iree_hal_allocator_query_buffer_compatibility ptr buffer_params u64
  | iree_hal_allocator_supports_virtual_memory ptr
  | iree_hal_allocator_virtual_memory_query_granularity ptr buffer_params
  | iree_hal_allocator_virtual_memory_release ptr ptr
  | iree_hal_allocator_physical_memory_allocate ptr buffer_params u64
  | iree_hal_allocator_physical_memory_free ptr ptr
  | iree_hal_allocator_virtual_memory_map ptr ptr u64 ptr u64 u64
  | iree_hal_allocator_virtual_memory_unmap ptr ptr u64 u64
  | iree_hal_allocator_virtual_memory_protect ptr ptr u64 u64 u64 u32
  | iree_hal_buffer_map_range ptr u16 u64 u64
  | iree_hal_buffer_unmap_range ptr
  | iree_hal_buffer_byte_length ptr
  | iree_hal_buffer_view_shape_rank ptr
  | iree_hal_buffer_view_shape_dim ptr usize

text \<open>Device, queue, synchronisation, command-buffer and executable functions.\<close>

datatype dev_fn =
    iree_hal_device_allocator ptr
  | iree_hal_device_query_i64 ptr string string
  | iree_hal_device_wait_semaphores ptr semaphore_list iree_timeout
  | iree_hal_device_transfer_h2d ptr ptr ptr u64 u64 iree_timeout
  | iree_hal_device_transfer_d2h ptr ptr u64 ptr u64 iree_timeout
  | iree_hal_device_queue_execute ptr u64 semaphore_list semaphore_list ptr
  | iree_hal_device_queue_barrier ptr u64 semaphore_list semaphore_list
  | iree_hal_device_queue_host_call ptr u64 semaphore_list semaphore_list ptr
  | iree_hal_device_queue_dispatch ptr u64 semaphore_list semaphore_list ptr u64 dispatch_config
      "ptr \<times> usize" "buffer_ref list" u64
  | iree_hal_semaphore_query ptr
  | iree_hal_semaphore_wait ptr u64 iree_timeout
  | iree_hal_semaphore_signal ptr u64
  | iree_hal_fence_insert ptr ptr u64
  | iree_hal_fence_extend ptr ptr
  | iree_hal_fence_signal ptr
  | iree_hal_fence_wait ptr iree_timeout

datatype cmd_fn =
    iree_hal_command_buffer_begin ptr
  | iree_hal_command_buffer_end ptr
  | iree_hal_command_buffer_execution_barrier ptr
  | iree_hal_command_buffer_fill_buffer ptr buffer_ref ptr usize
  | iree_hal_command_buffer_copy_buffer ptr buffer_ref buffer_ref
  | iree_hal_command_buffer_update_buffer ptr ptr buffer_ref
  | iree_hal_command_buffer_dispatch ptr ptr u64 dispatch_config "ptr \<times> usize" "buffer_ref list" u64
  | iree_hal_executable_function_count ptr
  | iree_hal_executable_function_info ptr u64
  | iree_hal_executable_lookup_function_by_name ptr string

datatype iree_call =
    Create create_fn
  | Retain iree_kind ptr
  | Release iree_kind ptr
  | Host host_fn
  | Vm vm_fn
  | Mem mem_fn
  | Dev dev_fn
  | Cmd cmd_fn

text \<open>
  What a call hands back: its status and whichever outputs it has (a pointer, integers, a
  boolean, a string, a list of pointers, enumerated devices, resolved buffer parameters).
\<close>

record iree_reply =
  r_status :: iree_status
  r_ptr :: ptr
  r_val :: u64
  r_val2 :: u64
  r_flag :: bool
  r_str :: string
  r_ptrs :: "ptr list"
  r_infos :: "device_info list"
  r_params :: buffer_params
  r_value :: vm_value
  r_function :: function_info

definition reply_ok :: iree_reply where
  "reply_ok = \<lparr>r_status = NULL, r_ptr = NULL, r_val = 0, r_val2 = 0, r_flag = False, r_str = [],
     r_ptrs = [], r_infos = [],
     r_params = \<lparr>bp_usage = 0, bp_access = 0, bp_type = 0, bp_queue_affinity = 0, bp_min_alignment = 0\<rparr>,
     r_value = \<lparr>vm_type = 0, vm_storage = replicate 8 0\<rparr>,
     r_function = \<lparr>fi_name = NULL, fi_flags = 0, fi_constant_count = 0, fi_binding_count = 0,
       fi_parameter_count = 0, fi_workgroup_size = (0, 0, 0)\<rparr>\<rparr>"

type_synonym history = "(iree_call \<times> iree_reply) list"

text \<open>
  The environment of the library: the IREE runtime with the address of its
  \<open>iree_allocator_libc_ctl\<close>, and libc's \<open>malloc\<close>, whose \<open>n\<close>-th call succeeds or fails.
\<close>

record env =
  iree :: "history \<Rightarrow> iree_call \<Rightarrow> iree_reply"
  libc_ctl :: ptr
  malloc_ok :: "nat \<Rightarrow> bool"

definition allocator_system :: "env \<Rightarrow> iree_allocator" where
  "allocator_system E = (NULL, libc_ctl E)"

section \<open>The reference ledger\<close>

text \<open>
  \<open>ref_delta k p e\<close>: how the event \<open>e\<close> changes the number of references to the object
  \<open>p\<close> of kind \<open>k\<close> that the caller of IREE holds. A successful create or a retain adds one,
  a release gives one back; releasing virtual memory consumes the buffer, and a successful
  \<open>push_ref_move\<close> moves the reference into the list. A mapping is identified by the address it
  maps to; a successful map adds it and an unmap ends it.
\<close>

fun ref_delta :: "iree_kind \<Rightarrow> ptr \<Rightarrow> iree_call \<times> iree_reply \<Rightarrow> int" where
  "ref_delta k p (Create f, r) =
     (if kind_of f = k \<and> r_ptr r = p \<and> r_status r = NULL then 1 else 0)"
| "ref_delta k p (Retain k' q, r) = (if k = k' \<and> p = q then 1 else 0)"
| "ref_delta k p (Release k' q, r) = (if k = k' \<and> p = q then -1 else 0)"
| "ref_delta k p (Mem (iree_hal_allocator_virtual_memory_release a q), r) =
     (if k = HalBuffer \<and> p = q then -1 else 0)"
| "ref_delta k p (Vm (iree_vm_list_push_ref_move l x), r) =
     (if x = Some (k, p) \<and> r_status r = NULL then -1 else 0)"
| "ref_delta k p (Host (iree_hal_create_all_available_executable_loaders cap), r) =
     (if k = ExecutableLoader \<and> r_status r = NULL then int (count_list (r_ptrs r) p) else 0)"
| "ref_delta k p (Mem (iree_hal_buffer_map_range b a off len), r) =
     (if k = BufferMapping \<and> r_ptr r = p \<and> r_status r = NULL then 1 else 0)"
| "ref_delta k p (Mem (iree_hal_buffer_unmap_range q), r) = (if k = BufferMapping \<and> p = q then -1 else 0)"
| "ref_delta k p (_, r) = 0"

definition balance :: "iree_kind \<Rightarrow> ptr \<Rightarrow> history \<Rightarrow> int" where
  "balance k p h = sum_list (map (ref_delta k p) h)"

lemma balance_Nil [simp]: "balance k p [] = 0"
  by (simp add: balance_def)

lemma balance_append [simp]: "balance k p (h @ h') = balance k p h + balance k p h'"
  by (simp add: balance_def)

lemma balance_Cons [simp]: "balance k p (e # h) = ref_delta k p e + balance k p h"
  by (simp add: balance_def)

section \<open>VM values: round trip\<close>

lemma length_i64_to_ne_bytes [simp]: "length (i64_to_ne_bytes v) = 8"
  by (simp add: i64_to_ne_bytes_def)

lemma i64_bytes_roundtrip: "i64_from_ne_bytes (i64_to_ne_bytes v) = v"
proof (rule bit_word_eqI)
  fix n assume n: "n < LENGTH(64)"
  then have "n < 64" by simp
  then consider "n < 8" | "8 \<le> n \<and> n < 16" | "16 \<le> n \<and> n < 24" | "24 \<le> n \<and> n < 32"
    | "32 \<le> n \<and> n < 40" | "40 \<le> n \<and> n < 48" | "48 \<le> n \<and> n < 56" | "56 \<le> n \<and> n < 64"
    by linarith
  then show "bit (i64_from_ne_bytes (i64_to_ne_bytes v)) n = bit v n"
    by cases (auto simp: i64_from_ne_bytes_def i64_to_ne_bytes_def upt_rec bit_simps)
qed

end
