(* ===== verification/Objects.thy ===== *)
theory Objects
  imports Iree
begin

text \<open>
  The structs behind the opaque handles of the public ABI, one record per Rust struct, and the
  state of the library: the heap of \<open>Arc\<close> allocations, the globals of \<open>runtime.rs\<close>, the
  caller's memory that out-pointers are written to, the libc allocation and open file counts, and the history
  of foreign calls. Every operation of the library maps such a state to a new one.
\<close>

section \<open>Objects (\<open>hrx-libhrx/src/*.rs\<close>)\<close>

record hrx_allocator_inline =
  al_hal_allocator :: ptr
  al_device :: ptr

record hrx_device_s =
  dev_type :: i32
  dev_ordinal :: i32
  dev_allocator :: hrx_allocator_inline
  dev_hal_device_group :: ptr
  dev_hal_device :: ptr
  dev_name :: string
  dev_architecture :: string

text \<open>A live scoped mapping; \<open>mr_ptr\<close> is \<open>mapping.contents.data\<close>.\<close>

record mapped_range =
  mr_ptr :: ptr

record hrx_buffer_s =
  buf_map :: "mapped_range option"
  buf_hal_buffer :: ptr
  buf_hal_pool :: "ptr option"
  buf_device :: ptr
  buf_mem_type :: u32
  buf_size :: usize

record hrx_buffer_view_s =
  bv_hal :: ptr

record hrx_semaphore_s =
  sem_hal :: ptr
  sem_device :: ptr

record hrx_fence_s =
  fence_hal :: ptr

record hrx_stream_s =
  st_timepoint :: u64
  st_pending_cb :: ptr
  st_has_pending_work :: bool
  st_flags :: u32
  st_semaphore :: ptr
  st_device :: ptr

record hrx_executable_s =
  exe_hal :: ptr
  exe_cache :: ptr
  exe_device :: ptr

record hrx_module_s =
  mod_context :: ptr
  mod_hal_module :: ptr
  mod_bytecode :: ptr
  mod_device :: ptr

record hrx_function_s =
  fn_module :: ptr
  fn_vm :: ptr

record hrx_value_list_s =
  vl_vm_list :: ptr

datatype hobj =
    ODevice hrx_device_s
  | OBuffer hrx_buffer_s
  | OBufferView hrx_buffer_view_s
  | OSemaphore hrx_semaphore_s
  | OFence hrx_fence_s
  | OStream hrx_stream_s
  | OExecutable hrx_executable_s
  | OModule hrx_module_s
  | OFunction hrx_function_s
  | OValueList hrx_value_list_s

text \<open>Reading a handle at the wrong type is undefined behaviour: the projections are partial.\<close>

fun as_device :: "hobj \<Rightarrow> hrx_device_s option" where
  "as_device (ODevice d) = Some d" | "as_device _ = None"
fun as_buffer :: "hobj \<Rightarrow> hrx_buffer_s option" where
  "as_buffer (OBuffer b) = Some b" | "as_buffer _ = None"
fun as_buffer_view :: "hobj \<Rightarrow> hrx_buffer_view_s option" where
  "as_buffer_view (OBufferView b) = Some b" | "as_buffer_view _ = None"
fun as_semaphore :: "hobj \<Rightarrow> hrx_semaphore_s option" where
  "as_semaphore (OSemaphore x) = Some x" | "as_semaphore _ = None"
fun as_fence :: "hobj \<Rightarrow> hrx_fence_s option" where
  "as_fence (OFence x) = Some x" | "as_fence _ = None"
fun as_stream :: "hobj \<Rightarrow> hrx_stream_s option" where
  "as_stream (OStream x) = Some x" | "as_stream _ = None"
fun as_executable :: "hobj \<Rightarrow> hrx_executable_s option" where
  "as_executable (OExecutable x) = Some x" | "as_executable _ = None"
fun as_module :: "hobj \<Rightarrow> hrx_module_s option" where
  "as_module (OModule x) = Some x" | "as_module _ = None"
fun as_function :: "hobj \<Rightarrow> hrx_function_s option" where
  "as_function (OFunction x) = Some x" | "as_function _ = None"
fun as_value_list :: "hobj \<Rightarrow> hrx_value_list_s option" where
  "as_value_list (OValueList x) = Some x" | "as_value_list _ = None"

lemma as_Some [simp]:
  "as_device x = Some d \<longleftrightarrow> x = ODevice d"
  "as_buffer x = Some b \<longleftrightarrow> x = OBuffer b"
  "as_buffer_view x = Some bv \<longleftrightarrow> x = OBufferView bv"
  "as_semaphore x = Some sm \<longleftrightarrow> x = OSemaphore sm"
  "as_fence x = Some f \<longleftrightarrow> x = OFence f"
  "as_stream x = Some st \<longleftrightarrow> x = OStream st"
  "as_executable x = Some ex \<longleftrightarrow> x = OExecutable ex"
  "as_module x = Some md \<longleftrightarrow> x = OModule md"
  "as_function x = Some fn \<longleftrightarrow> x = OFunction fn"
  "as_value_list x = Some vl \<longleftrightarrow> x = OValueList vl"
  by (cases x; auto)+

section \<open>The library state\<close>

text \<open>An \<open>Arc\<close> allocation: strong count and contents.\<close>

record arc =
  strong :: nat
  arc_obj :: hobj

record shared_state =
  vm_instance :: ptr
  proactor_pool :: ptr
  host_allocator :: iree_allocator
  init_count :: i32
  shared_initialized :: bool

text \<open>\<open>CpuState\<close> and \<open>GpuState\<close> have the same fields.\<close>

record accel_state =
  acc_devices :: "ptr list"
  acc_device_count :: i32
  acc_initialized :: bool
  acc_driver :: ptr

record globals =
  g_shared :: shared_state
  g_cpu :: accel_state
  g_gpu :: accel_state

definition G_initial :: globals where
  "G_initial = \<lparr>g_shared = \<lparr>vm_instance = NULL, proactor_pool = NULL, host_allocator = (NULL, NULL),
       init_count = 0, shared_initialized = False\<rparr>,
     g_cpu = \<lparr>acc_devices = [], acc_device_count = 0, acc_initialized = False, acc_driver = NULL\<rparr>,
     g_gpu = \<lparr>acc_devices = [], acc_device_count = 0, acc_initialized = False, acc_driver = NULL\<rparr>\<rparr>"

text \<open>\<open>hrx_iree_exact_pool_t\<close>: the resource header's count and the fields of the pool.\<close>

record exact_pool =
  pool_ref_count :: i32
  pool_host_allocator :: iree_allocator
  pool_allocator :: ptr
  pool_params :: buffer_params
  pool_notification :: ptr

text \<open>\<open>HostCallThunk\<close>: the caller's function and its argument.\<close>

record host_call_thunk =
  thunk_callback :: ptr
  thunk_user_data :: ptr

text \<open>A datum in the caller's memory, at the type the code reads or writes it.\<close>

datatype cell =
    CPtr ptr
  | CU64 u64
  | CU32 u32
  | CI32 i32
  | CBool bool
  | CByte char
  | CStr string
  | CUndef

record hrx =
  trace :: history
  arcs :: "ptr \<rightharpoonup> arc"
  next_addr :: ptr
  mem :: "ptr \<Rightarrow> cell"
  G :: globals
  pool_for_device :: ptr
  pools :: "ptr \<rightharpoonup> exact_pool"
  thunks :: "ptr \<rightharpoonup> host_call_thunk"
  mallocs :: nat
  live :: int
  open_files :: int

definition hrx_initial :: hrx where
  "hrx_initial = \<lparr>trace = [], arcs = Map.empty, next_addr = 1, mem = (\<lambda>_. CUndef), G = G_initial,
     pool_for_device = NULL, pools = Map.empty, thunks = Map.empty, mallocs = 0, live = 0, open_files = 0\<rparr>"

section \<open>Primitive effects\<close>

definition ffi :: "env \<Rightarrow> iree_call \<Rightarrow> hrx \<Rightarrow> iree_reply \<times> hrx" where
  "ffi E c s = (let r = iree E (trace s) c in (r, s\<lparr>trace := trace s @ [(c, r)]\<rparr>))"

text \<open>A call whose outputs are ignored.\<close>

definition ffi_do :: "env \<Rightarrow> iree_call \<Rightarrow> hrx \<Rightarrow> hrx" where
  "ffi_do E c s = snd (ffi E c s)"

definition poke :: "ptr \<Rightarrow> cell \<Rightarrow> hrx \<Rightarrow> hrx" where
  "poke a c s = s\<lparr>mem := (mem s)(a := c)\<rparr>"

definition peek_ptr :: "ptr \<Rightarrow> hrx \<Rightarrow> ptr option" where
  "peek_ptr a s = (case mem s a of CPtr p \<Rightarrow> Some p | _ \<Rightarrow> None)"

definition peek_u64 :: "ptr \<Rightarrow> hrx \<Rightarrow> u64 option" where
  "peek_u64 a s = (case mem s a of CU64 v \<Rightarrow> Some v | _ \<Rightarrow> None)"

definition libc_malloc :: "env \<Rightarrow> hrx \<Rightarrow> bool \<times> hrx" where
  "libc_malloc E s =
     (if malloc_ok E (mallocs s) then (True, s\<lparr>mallocs := mallocs s + 1, live := live s + 1\<rparr>)
      else (False, s\<lparr>mallocs := mallocs s + 1\<rparr>))"

definition libc_free :: "hrx \<Rightarrow> hrx" where
  "libc_free s = s\<lparr>live := live s - 1\<rparr>"

lemma ffi_simps [simp]:
  "fst (ffi E c s) = iree E (trace s) c"
  "snd (ffi E c s) = ffi_do E c s"
  by (simp_all add: ffi_def ffi_do_def Let_def)

lemma ffi_pair: "ffi E c s = (iree E (trace s) c, ffi_do E c s)"
  by (simp add: prod_eq_iff)

lemma ffi_do_fields [simp]:
  "trace (ffi_do E c s) = trace s @ [(c, iree E (trace s) c)]"
  "arcs (ffi_do E c s) = arcs s"
  "next_addr (ffi_do E c s) = next_addr s"
  "mem (ffi_do E c s) = mem s"
  "G (ffi_do E c s) = G s"
  "pool_for_device (ffi_do E c s) = pool_for_device s"
  "pools (ffi_do E c s) = pools s"
  "thunks (ffi_do E c s) = thunks s"
  "mallocs (ffi_do E c s) = mallocs s"
  "open_files (ffi_do E c s) = open_files s"
  "live (ffi_do E c s) = live s"
  by (simp_all add: ffi_do_def ffi_def Let_def)

lemma poke_fields [simp]:
  "trace (poke a c s) = trace s"
  "arcs (poke a c s) = arcs s"
  "next_addr (poke a c s) = next_addr s"
  "mem (poke a c s) = (mem s)(a := c)"
  "G (poke a c s) = G s"
  "pool_for_device (poke a c s) = pool_for_device s"
  "pools (poke a c s) = pools s"
  "thunks (poke a c s) = thunks s"
  "mallocs (poke a c s) = mallocs s"
  "open_files (poke a c s) = open_files s"
  "live (poke a c s) = live s"
  by (simp_all add: poke_def)

lemma libc_free_fields [simp]:
  "trace (libc_free s) = trace s"
  "arcs (libc_free s) = arcs s"
  "next_addr (libc_free s) = next_addr s"
  "mem (libc_free s) = mem s"
  "G (libc_free s) = G s"
  "pool_for_device (libc_free s) = pool_for_device s"
  "pools (libc_free s) = pools s"
  "thunks (libc_free s) = thunks s"
  "mallocs (libc_free s) = mallocs s"
  "open_files (libc_free s) = open_files s"
  "live (libc_free s) = live s - 1"
  by (simp_all add: libc_free_def)

lemma libc_malloc_fields [simp]:
  "fst (libc_malloc E s) = malloc_ok E (mallocs s)"
  "trace (snd (libc_malloc E s)) = trace s"
  "arcs (snd (libc_malloc E s)) = arcs s"
  "next_addr (snd (libc_malloc E s)) = next_addr s"
  "mem (snd (libc_malloc E s)) = mem s"
  "G (snd (libc_malloc E s)) = G s"
  "pool_for_device (snd (libc_malloc E s)) = pool_for_device s"
  "pools (snd (libc_malloc E s)) = pools s"
  "thunks (snd (libc_malloc E s)) = thunks s"
  "mallocs (snd (libc_malloc E s)) = mallocs s + 1"
  "open_files (snd (libc_malloc E s)) = open_files s"
  "live (snd (libc_malloc E s)) = live s + of_bool (malloc_ok E (mallocs s))"
  by (simp_all add: libc_malloc_def)

end
