(* ===== verification/Status.thy ===== *)
theory Status
  imports Objects
begin

text \<open>
  Status values (\<open>hrx-libhrx/src/common.rs\<close>, \<open>status.rs\<close>). An \<open>hrx_status_t\<close> is NULL for
  OK or a pointer to a heap payload that the holder owns and frees once; it is modelled as an
  optional payload, and the libc blocks behind it are counted in \<open>live\<close>. The theory shows
  that the conversions to and from IREE consume exactly the status they are given, that every
  block allocated for a status is freed by \<open>hrx_status_ignore\<close>, and which codes survive the
  trip through IREE.
\<close>

section \<open>Codes\<close>

datatype HrxStatusCode =
    Ok | Cancelled | Unknown | InvalidArgument | DeadlineExceeded | NotFound | AlreadyExists
  | PermissionDenied | OutOfMemory | FailedPrecondition | Aborted | OutOfRange | Unimplemented
  | Internal | Unavailable | DataLoss

text \<open>\<open>code as i32\<close>.\<close>

fun code_i32 :: "HrxStatusCode \<Rightarrow> i32" where
  "code_i32 Ok = 0"
| "code_i32 Cancelled = 1"
| "code_i32 Unknown = 2"
| "code_i32 InvalidArgument = 3"
| "code_i32 DeadlineExceeded = 4"
| "code_i32 NotFound = 5"
| "code_i32 AlreadyExists = 6"
| "code_i32 PermissionDenied = 7"
| "code_i32 OutOfMemory = 8"
| "code_i32 FailedPrecondition = 9"
| "code_i32 Aborted = 10"
| "code_i32 OutOfRange = 11"
| "code_i32 Unimplemented = 12"
| "code_i32 Internal = 13"
| "code_i32 Unavailable = 14"
| "code_i32 DataLoss = 15"

definition HRX_STATUS_OK :: i32 where
  "HRX_STATUS_OK = 0"

lemma code_i32_inj: "code_i32 a = code_i32 b \<longleftrightarrow> a = b"
  by (cases a; cases b) simp_all

lemma code_i32_range: "0 \<le> code_i32 c \<and> code_i32 c < 16"
  by (cases c) simp_all

lemma code_i32_eq_0 [simp]: "code_i32 c = 0 \<longleftrightarrow> c = Ok"
  by (cases c) simp_all

section \<open>Payloads\<close>

record hrx_status_s =
  ss_code :: i32
  ss_message :: "string option"

type_synonym hrx_status = "hrx_status_s option"

definition hrx_ok_status :: hrx_status where
  "hrx_ok_status = None"

definition hrx_status_is_ok :: "hrx_status \<Rightarrow> bool" where
  "hrx_status_is_ok st \<longleftrightarrow> st = None"

text \<open>
  \<open>hrx_make_status\<close>: OK gives NULL; otherwise a payload and a duplicate of the message are
  allocated. A failing \<open>malloc\<close> makes the result NULL, a failing \<open>strdup\<close> drops the message.
\<close>

definition hrx_make_status :: "env \<Rightarrow> i32 \<Rightarrow> string option \<Rightarrow> hrx \<Rightarrow> hrx_status \<times> hrx" where
  "hrx_make_status E code message s =
     (if code = HRX_STATUS_OK then (hrx_ok_status, s)
      else let (ok, s) = libc_malloc E s in
        if \<not> ok then (None, s)
        else (case message of
            None \<Rightarrow> (Some \<lparr>ss_code = code, ss_message = None\<rparr>, s)
          | Some m \<Rightarrow>
              (let (ok, s) = libc_malloc E s in
               (Some \<lparr>ss_code = code, ss_message = (if ok then Some m else None)\<rparr>, s))))"

text \<open>\<open>free\<close> of the message and of the payload (\<open>free(NULL)\<close> does nothing).\<close>

definition free_payload :: "hrx_status_s \<Rightarrow> hrx \<Rightarrow> hrx" where
  "free_payload p s = libc_free (case ss_message p of None \<Rightarrow> s | Some _ \<Rightarrow> libc_free s)"

definition hrx_status_drop :: "hrx_status \<Rightarrow> hrx \<Rightarrow> hrx" where
  "hrx_status_drop st s = (case st of None \<Rightarrow> s | Some p \<Rightarrow> free_payload p s)"

definition hrx_code_from_iree :: "i32 \<Rightarrow> i32" where
  "hrx_code_from_iree c =
     (if c = 3 then code_i32 InvalidArgument
      else if c = 5 then code_i32 NotFound
      else if c = 6 then code_i32 AlreadyExists
      else if c = 11 then code_i32 OutOfRange
      else if c = 12 then code_i32 Unimplemented
      else if c = 14 then code_i32 Unavailable
      else if c = 8 then code_i32 OutOfMemory
      else if c = 4 then code_i32 DeadlineExceeded
      else code_i32 Internal)"

text \<open>\<open>hrx_status_from_iree\<close>: convert and consume an IREE status.\<close>

definition hrx_status_from_iree :: "env \<Rightarrow> iree_status \<Rightarrow> hrx \<Rightarrow> hrx_status \<times> hrx" where
  "hrx_status_from_iree E st s =
     (if status_is_ok st then (hrx_ok_status, s)
      else
        let code = hrx_code_from_iree (status_code st);
            alloc = allocator_system E;
            (r, s) = ffi E (Host (iree_status_to_string st)) s
        in if \<not> r_flag r then
             let s = ffi_do E (Host (iree_status_free st)) s
             in hrx_make_status E code (Some ''IREE error (could not format message)'') s
           else
             let (result, s) =
                   hrx_make_status E code (if r_ptr r = NULL then None else Some (r_str r)) s;
                 s = ffi_do E (Host (iree_allocator_free alloc (r_ptr r))) s;
                 s = ffi_do E (Host (iree_status_free st)) s
             in (result, s))"

text \<open>\<open>hrx_status_to_iree\<close>: convert and consume an HRX status.\<close>

definition hrx_status_to_iree :: "env \<Rightarrow> hrx_status \<Rightarrow> hrx \<Rightarrow> iree_status \<times> hrx" where
  "hrx_status_to_iree E st s =
     (case st of
        None \<Rightarrow> (NULL, s)
      | Some p \<Rightarrow>
          let code = ss_code p;
              code = (if code = code_i32 OutOfMemory then 8 else code);
              msg = (case ss_message p of None \<Rightarrow> ''(no message)'' | Some m \<Rightarrow> m);
              (r, s) = ffi E (Host (iree_status_allocate_f code msg)) s
          in (r_status r, free_payload p s))"

section \<open>The public status ABI (\<open>status.rs\<close>)\<close>

definition hrx_status_code :: "hrx_status \<Rightarrow> i32" where
  "hrx_status_code st = (case st of None \<Rightarrow> HRX_STATUS_OK | Some p \<Rightarrow> ss_code p)"

text \<open>\<open>strdup\<close> into the caller's pointer: the copied string, or NULL when memory runs out.\<close>

definition strdup_into :: "env \<Rightarrow> ptr \<Rightarrow> string \<Rightarrow> hrx \<Rightarrow> hrx" where
  "strdup_into E out m s =
     (let (ok, s) = libc_malloc E s in poke out (if ok then CStr m else CPtr NULL) s)"

definition hrx_status_to_string ::
  "env \<Rightarrow> hrx_status \<Rightarrow> ptr \<Rightarrow> ptr \<Rightarrow> hrx \<Rightarrow> hrx_status \<times> hrx" where
  "hrx_status_to_string E st out_message out_length s =
     (if out_message = NULL then
        hrx_make_status E (code_i32 InvalidArgument) (Some ''out_message is NULL'') s
      else if hrx_status_is_ok st then
        let s = strdup_into E out_message ''OK'' s
        in (hrx_ok_status, if out_length \<noteq> NULL then poke out_length (CU64 2) s else s)
      else
        let src = (case st of Some p \<Rightarrow>
                     (case ss_message p of None \<Rightarrow> ''(no message)'' | Some m \<Rightarrow> m) | None \<Rightarrow> []);
            s = strdup_into E out_message src s
        in (hrx_ok_status,
            if out_length \<noteq> NULL then poke out_length (CU64 (of_nat (length src))) s else s))"

definition hrx_status_free_message :: "cell \<Rightarrow> hrx \<Rightarrow> hrx" where
  "hrx_status_free_message c s = (case c of CStr _ \<Rightarrow> libc_free s | _ \<Rightarrow> s)"

definition hrx_status_ignore :: "hrx_status \<Rightarrow> hrx \<Rightarrow> hrx" where
  "hrx_status_ignore st s = (case st of None \<Rightarrow> s | Some p \<Rightarrow> free_payload p s)"

section \<open>Blocks behind a status\<close>

text \<open>The number of libc blocks a status owns.\<close>

definition status_blocks :: "hrx_status \<Rightarrow> int" where
  "status_blocks st =
     (case st of None \<Rightarrow> 0 | Some p \<Rightarrow> (case ss_message p of None \<Rightarrow> 1 | Some _ \<Rightarrow> 2))"

lemma status_blocks_None [simp]: "status_blocks None = 0"
  by (simp add: status_blocks_def)

lemma free_payload_fields [simp]:
  "trace (free_payload p s) = trace s"
  "arcs (free_payload p s) = arcs s"
  "next_addr (free_payload p s) = next_addr s"
  "mem (free_payload p s) = mem s"
  "G (free_payload p s) = G s"
  "pool_for_device (free_payload p s) = pool_for_device s"
  "pools (free_payload p s) = pools s"
  "thunks (free_payload p s) = thunks s"
  "mallocs (free_payload p s) = mallocs s"
  "open_files (free_payload p s) = open_files s"
  "live (free_payload p s) = live s - status_blocks (Some p)"
  by (simp_all add: free_payload_def status_blocks_def split: option.split)

lemma hrx_status_drop_fields [simp]:
  "trace (hrx_status_drop st s) = trace s"
  "arcs (hrx_status_drop st s) = arcs s"
  "next_addr (hrx_status_drop st s) = next_addr s"
  "mem (hrx_status_drop st s) = mem s"
  "G (hrx_status_drop st s) = G s"
  "pool_for_device (hrx_status_drop st s) = pool_for_device s"
  "pools (hrx_status_drop st s) = pools s"
  "thunks (hrx_status_drop st s) = thunks s"
  "mallocs (hrx_status_drop st s) = mallocs s"
  "open_files (hrx_status_drop st s) = open_files s"
  "live (hrx_status_drop st s) = live s - status_blocks st"
  by (simp_all add: hrx_status_drop_def split: option.split)

lemma hrx_status_ignore_drop: "hrx_status_ignore = hrx_status_drop"
  by (intro ext) (simp add: hrx_status_ignore_def hrx_status_drop_def)

lemma hrx_make_status_fields [simp]:
  "trace (snd (hrx_make_status E c m s)) = trace s"
  "arcs (snd (hrx_make_status E c m s)) = arcs s"
  "next_addr (snd (hrx_make_status E c m s)) = next_addr s"
  "mem (snd (hrx_make_status E c m s)) = mem s"
  "G (snd (hrx_make_status E c m s)) = G s"
  "pool_for_device (snd (hrx_make_status E c m s)) = pool_for_device s"
  "pools (snd (hrx_make_status E c m s)) = pools s"
  "thunks (snd (hrx_make_status E c m s)) = thunks s"
  "open_files (snd (hrx_make_status E c m s)) = open_files s"
  by (simp_all add: hrx_make_status_def prod.case_eq_if split: option.split)

lemma hrx_make_status_live:
  "live (snd (hrx_make_status E c m s)) = live s + status_blocks (fst (hrx_make_status E c m s))"
  by (simp add: hrx_make_status_def prod.case_eq_if status_blocks_def hrx_ok_status_def
      split: option.split)

lemma hrx_make_status_code:
  assumes "malloc_ok E (mallocs s)" and "c \<noteq> 0"
  shows "hrx_status_code (fst (hrx_make_status E c m s)) = c"
  using assms
  by (simp add: hrx_make_status_def prod.case_eq_if hrx_status_code_def HRX_STATUS_OK_def
      split: option.split)

lemma hrx_make_status_not_ok:
  assumes "malloc_ok E (mallocs s)" and "c \<noteq> 0"
  shows "fst (hrx_make_status E c m s) \<noteq> None"
  using assms
  by (simp add: hrx_make_status_def prod.case_eq_if HRX_STATUS_OK_def split: option.split)

lemma hrx_status_from_iree_ok [simp]: "hrx_status_from_iree E NULL s = (None, s)"
  by (simp add: hrx_status_from_iree_def status_is_ok_def hrx_ok_status_def)

lemma hrx_status_from_iree_fields [simp]:
  "arcs (snd (hrx_status_from_iree E st s)) = arcs s"
  "next_addr (snd (hrx_status_from_iree E st s)) = next_addr s"
  "mem (snd (hrx_status_from_iree E st s)) = mem s"
  "G (snd (hrx_status_from_iree E st s)) = G s"
  "pool_for_device (snd (hrx_status_from_iree E st s)) = pool_for_device s"
  "pools (snd (hrx_status_from_iree E st s)) = pools s"
  "thunks (snd (hrx_status_from_iree E st s)) = thunks s"
  "open_files (snd (hrx_status_from_iree E st s)) = open_files s"
  by (simp_all add: hrx_status_from_iree_def ffi_pair prod.case_eq_if Let_def)

text \<open>Converting a status touches no reference.\<close>

lemma hrx_status_from_iree_ledger [simp]:
  "balance k p (trace (snd (hrx_status_from_iree E st s))) = balance k p (trace s)"
  by (simp_all add: hrx_status_from_iree_def ffi_pair prod.case_eq_if Let_def)

lemma hrx_status_from_iree_live:
  "live (snd (hrx_status_from_iree E st s)) = live s + status_blocks (fst (hrx_status_from_iree E st s))"
  by (simp add: hrx_status_from_iree_def ffi_pair prod.case_eq_if Let_def hrx_make_status_live
      hrx_ok_status_def)

lemma hrx_status_from_iree_not_ok:
  assumes "malloc_ok E (mallocs s)" and "st \<noteq> NULL"
  shows "fst (hrx_status_from_iree E st s) \<noteq> None"
proof -
  have "hrx_code_from_iree c \<noteq> 0" for c by (simp add: hrx_code_from_iree_def)
  with assms show ?thesis
    by (simp add: hrx_status_from_iree_def status_is_ok_def ffi_pair prod.case_eq_if Let_def
        hrx_make_status_not_ok del: not_None_eq)
qed

lemma hrx_status_from_iree_code:
  assumes "malloc_ok E (mallocs s)" and "st \<noteq> NULL"
  shows "hrx_status_code (fst (hrx_status_from_iree E st s)) = hrx_code_from_iree (status_code st)"
proof -
  have "hrx_code_from_iree c \<noteq> 0" for c by (simp add: hrx_code_from_iree_def)
  with assms show ?thesis
    by (simp add: hrx_status_from_iree_def status_is_ok_def ffi_pair prod.case_eq_if Let_def
        hrx_make_status_code)
qed

text \<open>How often an IREE status has been handed to \<open>iree_status_free\<close>.\<close>

definition status_frees :: "iree_status \<Rightarrow> history \<Rightarrow> nat" where
  "status_frees st h = length (filter (\<lambda>e. fst e = Host (iree_status_free st)) h)"

lemma status_frees_append [simp]: "status_frees st (h @ h') = status_frees st h + status_frees st h'"
  by (simp add: status_frees_def)

lemma status_frees_simps [simp]:
  "status_frees st [] = 0"
  "status_frees st ((c, r) # h) = (if c = Host (iree_status_free st) then 1 else 0) + status_frees st h"
  by (simp_all add: status_frees_def)

section \<open>Properties\<close>


text \<open>
  C27. Which codes survive a round trip through IREE. If \<open>iree_status_allocate_f\<close> returns a
  status carrying the code it was given, then an HRX error converted to IREE and back has its
  own code when that code is one of the eight the table names, and \<open>Internal\<close> otherwise; the
  first conversion frees every block of the status it consumes.
\<close>

theorem status_roundtrip_code:
  assumes alloc: "\<And>h c m. 0 < c \<Longrightarrow> c < 32 \<Longrightarrow>
      status_code (r_status (iree E h (Host (iree_status_allocate_f c m)))) = c"
    and mem: "\<And>n. malloc_ok E n"
    and err: "c \<noteq> Ok" "ss_code p = code_i32 c"
    and go: "hrx_status_to_iree E (Some p) s = (ist, s1)"
      "hrx_status_from_iree E ist s1 = (res, s2)"
  shows "live s1 = live s - status_blocks (Some p) \<and>
    hrx_status_code res =
      (if c \<in> {InvalidArgument, NotFound, AlreadyExists, OutOfRange, Unimplemented, Unavailable,
               OutOfMemory, DeadlineExceeded}
       then code_i32 c else code_i32 Internal)"
proof -
  have rng: "0 < code_i32 c" "code_i32 c < 32" using err(1) by (cases c; simp)+
  have st: "status_code ist = code_i32 c"
    using go(1) err(2) alloc [OF rng]
    by (auto simp: hrx_status_to_iree_def ffi_pair Let_def split: if_splits)
  with rng have nz: "ist \<noteq> NULL" by (cases "ist = 0") (simp_all add: status_code_mod)
  have "hrx_status_code res = hrx_code_from_iree (code_i32 c)"
    using hrx_status_from_iree_code [OF mem nz, of s1] go(2) st by simp
  moreover have "live s1 = live s - status_blocks (Some p)"
    using go(1) by (auto simp: hrx_status_to_iree_def ffi_pair Let_def)
  ultimately show ?thesis by (cases c) (simp_all add: hrx_code_from_iree_def)
qed

definition demo_env :: env where
  "demo_env = \<lparr>iree = (\<lambda>h c. case c of
       Host (iree_status_allocate_f code m) \<Rightarrow> reply_ok\<lparr>r_status := iree_status_from_code code\<rparr>
     | Host (iree_status_to_string st) \<Rightarrow> reply_ok\<lparr>r_flag := True, r_ptr := 64, r_str := ''e''\<rparr>
     | _ \<Rightarrow> reply_ok\<lparr>r_ptr := 100 + length h\<rparr>),
     libc_ctl = 9, malloc_ok = (\<lambda>_. True)\<rparr>"

lemma demo_env_simps [simp]:
  "iree demo_env h (Create f) = reply_ok\<lparr>r_ptr := 100 + length h\<rparr>"
  "iree demo_env h (Retain k p) = reply_ok\<lparr>r_ptr := 100 + length h\<rparr>"
  "iree demo_env h (Release k p) = reply_ok\<lparr>r_ptr := 100 + length h\<rparr>"
  "iree demo_env h (Vm v) = reply_ok\<lparr>r_ptr := 100 + length h\<rparr>"
  "iree demo_env h (Mem m) = reply_ok\<lparr>r_ptr := 100 + length h\<rparr>"
  "iree demo_env h (Dev d) = reply_ok\<lparr>r_ptr := 100 + length h\<rparr>"
  "iree demo_env h (Cmd c) = reply_ok\<lparr>r_ptr := 100 + length h\<rparr>"
  "malloc_ok demo_env n"
  by (simp_all add: demo_env_def)

lemma reply_ok_status [simp]: "r_status reply_ok = NULL"
  by (simp add: reply_ok_def)

theorem status_roundtrip_code_witness:
  "(case hrx_status_to_iree demo_env (Some \<lparr>ss_code = 9, ss_message = Some ''m''\<rparr>) hrx_initial of
     (ist, s1) \<Rightarrow> (case hrx_status_from_iree demo_env ist s1 of
       (res, s2) \<Rightarrow> live s1 = -2 \<and> hrx_status_code res = 13))"
proof -
  let ?p = "\<lparr>ss_code = 9, ss_message = Some ''m''\<rparr> :: hrx_status_s"
  obtain ist s1 where a: "hrx_status_to_iree demo_env (Some ?p) hrx_initial = (ist, s1)"
    by fastforce
  obtain res s2 where b: "hrx_status_from_iree demo_env ist s1 = (res, s2)" by fastforce
  have alloc: "0 < c \<Longrightarrow> c < 32 \<Longrightarrow>
      status_code (r_status (iree demo_env h (Host (iree_status_allocate_f c m)))) = c" for h c m
    by (simp add: demo_env_def status_code_from_code)
  show ?thesis
    using status_roundtrip_code [OF alloc _ _ _ a b, of FailedPrecondition] a b
    by (simp add: demo_env_def hrx_initial_def status_blocks_def)
qed

text \<open>
  A status is freed without leak or double free: ignoring a freshly made status returns
  exactly the blocks making it took, whatever the allocations along the way answered. When the
  payload itself cannot be allocated, the error is reported as OK.
\<close>

theorem status_make_ignore:
  "(case hrx_make_status E c m s of (st, s') \<Rightarrow>
      live (hrx_status_ignore st s') = live s \<and> trace (hrx_status_ignore st s') = trace s \<and>
      (\<not> hrx_status_is_ok st \<longleftrightarrow> c \<noteq> HRX_STATUS_OK \<and> malloc_ok E (mallocs s)))"
  using hrx_make_status_live [of E c m s]
  by (auto simp: hrx_status_ignore_drop hrx_make_status_def prod.case_eq_if hrx_status_is_ok_def
      HRX_STATUS_OK_def hrx_ok_status_def split: option.splits if_splits)

end
