(* ===== verification/Handle.thy ===== *)
theory Handle
  imports Status
begin

text \<open>
  The handle boundary (\<open>hrx-libhrx/src/handle.rs\<close>): every public handle is the data pointer of
  an \<open>Arc\<close>. Creation puts the object on the heap with one reference, \<open>retain\<close> and
  \<open>release\<close> move the strong count, and the object is dropped when the count reaches zero.
  Using a handle that is not live, or at the wrong type, is undefined behaviour (\<open>None\<close>).

  The locale \<open>refcounted\<close> is the contract the retain and release functions of every object type
  promise; each component interprets it on its own pair of functions.
\<close>

section \<open>Operations\<close>

definition into_handle :: "hobj \<Rightarrow> hrx \<Rightarrow> ptr \<times> hrx" where
  "into_handle x s =
     (next_addr s, s\<lparr>arcs := (arcs s)(next_addr s \<mapsto> \<lparr>strong = 1, arc_obj = x\<rparr>),
                     next_addr := Suc (next_addr s)\<rparr>)"

text \<open>\<open>Arc::new_cyclic\<close>: the object is built from the address it will have.\<close>

definition into_handle_cyclic :: "(ptr \<Rightarrow> hobj) \<Rightarrow> hrx \<Rightarrow> ptr \<times> hrx" where
  "into_handle_cyclic build s = into_handle (build (next_addr s)) s"

definition handle_retain :: "(hobj \<Rightarrow> 'a option) \<Rightarrow> ptr \<Rightarrow> hrx \<Rightarrow> hrx option" where
  "handle_retain as h s =
     (case arcs s h of
        Some a \<Rightarrow> (case as (arc_obj a) of
            Some _ \<Rightarrow> Some (s\<lparr>arcs := (arcs s)(h \<mapsto> a\<lparr>strong := strong a + 1\<rparr>)\<rparr>)
          | None \<Rightarrow> None)
      | None \<Rightarrow> None)"

text \<open>\<open>Arc::decrement_strong_count\<close>: the last reference runs the drop of the contents.\<close>

definition handle_release ::
  "(hobj \<Rightarrow> 'a option) \<Rightarrow> ('a \<Rightarrow> hrx \<Rightarrow> hrx option) \<Rightarrow> ptr \<Rightarrow> hrx \<Rightarrow> hrx option" where
  "handle_release as drop_in_place h s =
     (case arcs s h of
        Some a \<Rightarrow> (case as (arc_obj a) of
            Some x \<Rightarrow>
              (if strong a = 1 then drop_in_place x (s\<lparr>arcs := (arcs s)(h := None)\<rparr>)
               else Some (s\<lparr>arcs := (arcs s)(h \<mapsto> a\<lparr>strong := strong a - 1\<rparr>)\<rparr>))
          | None \<Rightarrow> None)
      | None \<Rightarrow> None)"

definition handle_ref :: "(hobj \<Rightarrow> 'a option) \<Rightarrow> ptr \<Rightarrow> hrx \<Rightarrow> 'a option" where
  "handle_ref as h s = arcs s h \<bind> (\<lambda>a. as (arc_obj a))"

text \<open>
  \<open>Arc::into_inner\<close> on the caller's reference: the contents when it was the last one, otherwise
  nothing, with the reference dropped.
\<close>

definition into_inner_handle :: "(hobj \<Rightarrow> 'a option) \<Rightarrow> ptr \<Rightarrow> hrx \<Rightarrow> ('a option \<times> hrx) option" where
  "into_inner_handle as h s =
     (case arcs s h of
        Some a \<Rightarrow> (case as (arc_obj a) of
            Some x \<Rightarrow>
              (if strong a = 1 then Some (Some x, s\<lparr>arcs := (arcs s)(h := None)\<rparr>)
               else Some (None, s\<lparr>arcs := (arcs s)(h \<mapsto> a\<lparr>strong := strong a - 1\<rparr>)\<rparr>))
          | None \<Rightarrow> None)
      | None \<Rightarrow> None)"

text \<open>Interior mutation (\<open>Cell::set\<close>, \<open>RefCell\<close>) of the object behind a live handle.\<close>

definition handle_set :: "ptr \<Rightarrow> hobj \<Rightarrow> hrx \<Rightarrow> hrx" where
  "handle_set h x s =
     (case arcs s h of Some a \<Rightarrow> s\<lparr>arcs := (arcs s)(h \<mapsto> a\<lparr>arc_obj := x\<rparr>)\<rparr> | None \<Rightarrow> s)"

section \<open>Heap facts\<close>

text \<open>The number of references to a handle, at the type \<open>as\<close>; \<open>0\<close> for a dead handle.\<close>

definition refs :: "(hobj \<Rightarrow> 'a option) \<Rightarrow> hrx \<Rightarrow> ptr \<Rightarrow> nat" where
  "refs as s h =
     (case arcs s h of Some a \<Rightarrow> (case as (arc_obj a) of Some _ \<Rightarrow> strong a | None \<Rightarrow> 0) | None \<Rightarrow> 0)"

definition wf_heap :: "hrx \<Rightarrow> bool" where
  "wf_heap s \<longleftrightarrow> finite (dom (arcs s)) \<and> 0 < next_addr s \<and>
     (\<forall>h a. arcs s h = Some a \<longrightarrow> 0 < strong a \<and> 0 < h \<and> h < next_addr s)"

lemma wf_heap_initial: "wf_heap hrx_initial"
  by (simp add: wf_heap_def hrx_initial_def)

lemma wf_heap_cong: "arcs s = arcs t \<Longrightarrow> next_addr s = next_addr t \<Longrightarrow> wf_heap s = wf_heap t"
  by (simp add: wf_heap_def)

lemma wf_heap_finite: "wf_heap s \<Longrightarrow> finite (dom (arcs s))"
  by (simp add: wf_heap_def)

lemma wf_heap_fresh: "wf_heap s \<Longrightarrow> arcs s (next_addr s) = None"
  by (cases "arcs s (next_addr s)") (auto simp: wf_heap_def)

lemma wf_heap_strong: "wf_heap s \<Longrightarrow> arcs s h = Some a \<Longrightarrow> 0 < strong a"
  by (auto simp: wf_heap_def)

lemma wf_heap_nonnull: "wf_heap s \<Longrightarrow> arcs s h = Some a \<Longrightarrow> h \<noteq> NULL"
  by (auto simp: wf_heap_def)

lemma wf_heap_upd:
  "wf_heap s \<Longrightarrow> arcs s h = Some a \<Longrightarrow> 0 < strong b \<Longrightarrow> arcs t = (arcs s)(h \<mapsto> b) \<Longrightarrow>
   next_addr t = next_addr s \<Longrightarrow> wf_heap t"
  unfolding wf_heap_def by (auto split: if_splits)

lemma wf_heap_del:
  "wf_heap s \<Longrightarrow> arcs t = (arcs s)(h := None) \<Longrightarrow> next_addr t = next_addr s \<Longrightarrow> wf_heap t"
  unfolding wf_heap_def by (auto split: if_splits)

lemma into_handle_fields [simp]:
  "fst (into_handle x s) = next_addr s"
  "trace (snd (into_handle x s)) = trace s"
  "arcs (snd (into_handle x s)) = (arcs s)(next_addr s \<mapsto> \<lparr>strong = 1, arc_obj = x\<rparr>)"
  "next_addr (snd (into_handle x s)) = Suc (next_addr s)"
  "mem (snd (into_handle x s)) = mem s"
  "G (snd (into_handle x s)) = G s"
  "pool_for_device (snd (into_handle x s)) = pool_for_device s"
  "pools (snd (into_handle x s)) = pools s"
  "thunks (snd (into_handle x s)) = thunks s"
  "mallocs (snd (into_handle x s)) = mallocs s"
  "open_files (snd (into_handle x s)) = open_files s"
  "live (snd (into_handle x s)) = live s"
  by (simp_all add: into_handle_def)

lemma wf_heap_into_handle: "wf_heap s \<Longrightarrow> wf_heap (snd (into_handle x s))"
  unfolding wf_heap_def by (auto simp: less_Suc_eq split: if_splits)

lemma handle_ref_Some: "handle_ref as h s = Some x \<longleftrightarrow> (\<exists>a. arcs s h = Some a \<and> as (arc_obj a) = Some x)"
  by (cases "arcs s h") (auto simp: handle_ref_def)

lemma handle_ref_cong: "arcs s = arcs t \<Longrightarrow> handle_ref as h s = handle_ref as h t"
  by (simp add: handle_ref_def)

lemma refs_pos: "wf_heap s \<Longrightarrow> 0 < refs as s h \<longleftrightarrow> (\<exists>x. handle_ref as h s = Some x)"
  by (auto simp: refs_def handle_ref_def wf_heap_def split: option.splits)

lemma refs_cong: "arcs s = arcs t \<Longrightarrow> refs as s h = refs as t h"
  by (simp add: refs_def)

lemma handle_set_fields [simp]:
  "trace (handle_set h x s) = trace s"
  "next_addr (handle_set h x s) = next_addr s"
  "mem (handle_set h x s) = mem s"
  "G (handle_set h x s) = G s"
  "pool_for_device (handle_set h x s) = pool_for_device s"
  "pools (handle_set h x s) = pools s"
  "thunks (handle_set h x s) = thunks s"
  "mallocs (handle_set h x s) = mallocs s"
  "open_files (handle_set h x s) = open_files s"
  "live (handle_set h x s) = live s"
  by (simp_all add: handle_set_def split: option.split)

lemma arcs_handle_set:
  "arcs (handle_set h x s) =
     (case arcs s h of Some a \<Rightarrow> (arcs s)(h \<mapsto> a\<lparr>arc_obj := x\<rparr>) | None \<Rightarrow> arcs s)"
  by (simp add: handle_set_def split: option.split)

lemma handle_ref_handle_set [simp]:
  "arcs s h \<noteq> None \<Longrightarrow> handle_ref as h (handle_set h x s) = as x"
  by (auto simp: handle_ref_def arcs_handle_set)

lemma handle_ref_handle_set_other:
  "h \<noteq> h' \<Longrightarrow> handle_ref as h (handle_set h' x s) = handle_ref as h s"
  by (auto simp: handle_ref_def arcs_handle_set split: option.split)

lemma wf_heap_handle_set: "wf_heap s \<Longrightarrow> wf_heap (handle_set h x s)"
  by (auto simp: wf_heap_def arcs_handle_set split: option.splits if_splits)

lemma handle_retain_Some:
  "handle_retain as h s = Some t \<Longrightarrow>
   \<exists>a x. arcs s h = Some a \<and> as (arc_obj a) = Some x \<and>
     t = s\<lparr>arcs := (arcs s)(h \<mapsto> a\<lparr>strong := strong a + 1\<rparr>)\<rparr>"
  by (auto simp: handle_retain_def split: option.splits)

lemma handle_retain_live:
  "arcs s h = Some a \<Longrightarrow> as (arc_obj a) = Some x \<Longrightarrow>
   handle_retain as h s = Some (s\<lparr>arcs := (arcs s)(h \<mapsto> a\<lparr>strong := strong a + 1\<rparr>)\<rparr>)"
  by (simp add: handle_retain_def)

lemma handle_release_last:
  "arcs s h = Some a \<Longrightarrow> as (arc_obj a) = Some x \<Longrightarrow> strong a = 1 \<Longrightarrow>
   handle_release as dp h s = dp x (s\<lparr>arcs := (arcs s)(h := None)\<rparr>)"
  by (simp add: handle_release_def)

lemma handle_release_shared:
  "arcs s h = Some a \<Longrightarrow> as (arc_obj a) = Some x \<Longrightarrow> strong a \<noteq> 1 \<Longrightarrow>
   handle_release as dp h s = Some (s\<lparr>arcs := (arcs s)(h \<mapsto> a\<lparr>strong := strong a - 1\<rparr>)\<rparr>)"
  by (simp add: handle_release_def)

section \<open>The reference-counting contract\<close>

text \<open>A client's retains (\<open>True\<close>) and releases (\<open>False\<close>) of one handle, in order.\<close>

fun run_refs ::
  "('h \<Rightarrow> 's \<Rightarrow> 's option) \<Rightarrow> ('h \<Rightarrow> 's \<Rightarrow> 's option) \<Rightarrow> 'h \<Rightarrow> bool list \<Rightarrow> 's \<Rightarrow> 's option" where
  "run_refs retain release h [] s = Some s"
| "run_refs retain release h (b # bs) s =
     (if b then retain h s else release h s) \<bind> run_refs retain release h bs"

text \<open>Starting from \<open>n\<close> references, no release of the sequence is the last one.\<close>

fun never_last :: "nat \<Rightarrow> bool list \<Rightarrow> bool" where
  "never_last n [] = True"
| "never_last n (b # bs) = ((b \<or> 1 < n) \<and> never_last (if b then n + 1 else n - 1) bs)"

text \<open>
  \<open>count s h\<close> is the number of references (\<open>0\<close> for a dead handle) and \<open>seen s\<close> what the rest
  of the world can observe of the state. Retaining a live handle adds a reference, releasing one
  that is not the last removes it, neither is observable, and a dead handle cannot be used.
\<close>

locale refcounted =
  fixes retain :: "'h \<Rightarrow> 's \<Rightarrow> 's option"
    and release :: "'h \<Rightarrow> 's \<Rightarrow> 's option"
    and count :: "'s \<Rightarrow> 'h \<Rightarrow> nat"
    and seen :: "'s \<Rightarrow> 'o"
    and inv :: "'s \<Rightarrow> bool"
  assumes retain_live: "inv s \<Longrightarrow> 0 < count s h \<Longrightarrow>
      \<exists>t. retain h s = Some t \<and> inv t \<and> count t = (count s)(h := count s h + 1) \<and> seen t = seen s"
    and retain_dead: "inv s \<Longrightarrow> count s h = 0 \<Longrightarrow> retain h s = None"
    and release_shared: "inv s \<Longrightarrow> 1 < count s h \<Longrightarrow>
      \<exists>t. release h s = Some t \<and> inv t \<and> count t = (count s)(h := count s h - 1) \<and> seen t = seen s"
    and release_dead: "inv s \<Longrightarrow> count s h = 0 \<Longrightarrow> release h s = None"
begin

lemma run_never_last:
  assumes "inv s" and "0 < count s h" and "never_last (count s h) bs"
  shows "\<exists>t. run_refs retain release h bs s = Some t \<and> inv t \<and> seen t = seen s \<and>
    int (count t h) = int (count s h) + (\<Sum>b\<leftarrow>bs. if b then 1 else -1) \<and>
    (\<forall>h'. h' \<noteq> h \<longrightarrow> count t h' = count s h')"
  using assms
proof (induction bs arbitrary: s)
  case Nil
  then show ?case by simp
next
  case (Cons b bs)
  obtain t where t: "(if b then retain h s else release h s) = Some t" "inv t" "seen t = seen s"
      "count t = (count s)(h := if b then count s h + 1 else count s h - 1)"
    using Cons.prems retain_live [of s h] release_shared [of s h] by (cases b) auto
  have "0 < count t h" "never_last (count t h) bs"
    using Cons.prems t by (cases b; simp)+
  from Cons.IH [OF t(2) this] obtain u where u: "run_refs retain release h bs t = Some u" "inv u" "seen u = seen t"
      "int (count u h) = int (count t h) + (\<Sum>b\<leftarrow>bs. if b then 1 else -1)"
      "\<forall>h'. h' \<noteq> h \<longrightarrow> count u h' = count t h'" by blast
  have "int (count t h) = int (count s h) + (if b then 1 else -1)"
    using t(4) Cons.prems by (cases b) auto
  then have "int (count u h) = int (count s h) + (\<Sum>b\<leftarrow>b # bs. if b then 1 else -1)"
    using u(4) by simp
  moreover have "run_refs retain release h (b # bs) s = Some u" using t(1) u(1) by simp
  moreover have "\<forall>h'. h' \<noteq> h \<longrightarrow> count u h' = count s h'" using u(5) t(4) by auto
  ultimately show ?case using u(2,3) t(3) by simp
qed

lemma retain_release:
  assumes "inv s" and "0 < count s h"
  shows "\<exists>t. (retain h s \<bind> release h) = Some t \<and> inv t \<and> count t = count s \<and> seen t = seen s"
proof -
  obtain t where t: "retain h s = Some t" "inv t" "count t = (count s)(h := count s h + 1)"
      "seen t = seen s"
    using retain_live [OF assms] by blast
  then obtain u where "release h t = Some u" "inv u" "count u = (count t)(h := count t h - 1)"
      "seen u = seen t"
    using release_shared [of t h] assms by auto
  with t show ?thesis by (auto simp: fun_eq_iff)
qed

end

text \<open>
  The heap operations satisfy the contract whatever the drop of the contents does, so the pair of
  functions of every object type is an instance. Observable are the history of foreign calls, the
  globals and the caller's memory.
\<close>

definition observe :: "hrx \<Rightarrow> history \<times> globals \<times> (ptr \<Rightarrow> cell)" where
  "observe s = (trace s, G s, mem s)"

lemma refs_upd:
  "arcs s h = Some b \<Longrightarrow> as (arc_obj a) = Some x \<Longrightarrow>
   refs as (s\<lparr>arcs := (arcs s)(h \<mapsto> a)\<rparr>) = (refs as s)(h := strong a)"
  by (auto simp: refs_def fun_eq_iff)

lemma refs_live: "0 < refs as s h \<Longrightarrow> \<exists>a x. arcs s h = Some a \<and> as (arc_obj a) = Some x \<and> refs as s h = strong a"
  by (auto simp: refs_def split: option.splits)

lemma refs_dead: "wf_heap s \<Longrightarrow> refs as s h = 0 \<Longrightarrow> arcs s h = Some a \<Longrightarrow> as (arc_obj a) = None"
  using wf_heap_strong [of s h a] by (auto simp: refs_def split: option.splits)

lemma refcounted_handle:
  "refcounted (handle_retain as) (handle_release as dp) (refs as) observe wf_heap"
proof (standard, goal_cases)
  case (1 s h)
  then obtain a x where a: "arcs s h = Some a" "as (arc_obj a) = Some x" "refs as s h = strong a"
    using refs_live by blast
  with 1 show ?case
    by (simp add: handle_retain_live refs_upd observe_def
        wf_heap_upd [OF 1(1) a(1), of "a\<lparr>strong := Suc (strong a)\<rparr>"])
next
  case (2 s h)
  then show ?case
    using refs_dead [OF 2] by (auto simp: handle_retain_def split: option.splits)
next
  case (3 s h)
  then obtain a x where a: "arcs s h = Some a" "as (arc_obj a) = Some x" "refs as s h = strong a"
    using refs_live [of as s h] by auto
  with 3 show ?case
    by (simp add: handle_release_shared refs_upd observe_def
        wf_heap_upd [OF 3(1) a(1), of "a\<lparr>strong := strong a - 1\<rparr>"])
next
  case (4 s h)
  then show ?case
    using refs_dead [OF 4] by (auto simp: handle_release_def split: option.splits)
qed

interpretation arc: refcounted "handle_retain as" "handle_release as dp" "refs as" observe wf_heap
  for as :: "hobj \<Rightarrow> 'a option" and dp :: "'a \<Rightarrow> hrx \<Rightarrow> hrx option"
  by (rule refcounted_handle)

section \<open>Properties\<close>


definition demo_heap :: hrx where
  "demo_heap = snd (into_handle (OFence \<lparr>fence_hal = 7\<rparr>) hrx_initial)"


end
