(* ===== verification/Iree_Hal.thy ===== *)
theory Iree_Hal
  imports Handle
begin

text \<open>
  The RAII wrappers of \<open>crates/iree-hal\<close>. A wrapper is its non-null pointer and owns one
  reference: \<open>from_owned\<close> refuses NULL, dropping a wrapper releases that reference, cloning one
  retains it, and \<open>into_raw\<close> hands the pointer back without releasing. The create helpers
  return the wrapper on OK and the status otherwise; an OK status with a null object panics.
\<close>

section \<open>Wrappers\<close>

definition HalFence_from_owned :: "ptr \<Rightarrow> ptr option" where
  [simp]: "HalFence_from_owned p = (if p = NULL then None else Some p)"

definition HalFence_drop :: "env \<Rightarrow> ptr \<Rightarrow> hrx \<Rightarrow> hrx" where
  [simp]: "HalFence_drop E p s = ffi_do E (Release HalFence p) s"

definition HalFence_clone :: "env \<Rightarrow> ptr \<Rightarrow> hrx \<Rightarrow> ptr \<times> hrx" where
  [simp]: "HalFence_clone E p s = (p, ffi_do E (Retain HalFence p) s)"

definition HalSemaphore_from_owned :: "ptr \<Rightarrow> ptr option" where
  [simp]: "HalSemaphore_from_owned p = (if p = NULL then None else Some p)"

definition HalSemaphore_drop :: "env \<Rightarrow> ptr \<Rightarrow> hrx \<Rightarrow> hrx" where
  [simp]: "HalSemaphore_drop E p s = ffi_do E (Release HalSemaphore p) s"

definition HalSemaphore_clone :: "env \<Rightarrow> ptr \<Rightarrow> hrx \<Rightarrow> ptr \<times> hrx" where
  [simp]: "HalSemaphore_clone E p s = (p, ffi_do E (Retain HalSemaphore p) s)"

definition HalBufferView_from_owned :: "ptr \<Rightarrow> ptr option" where
  [simp]: "HalBufferView_from_owned p = (if p = NULL then None else Some p)"

definition HalBufferView_drop :: "env \<Rightarrow> ptr \<Rightarrow> hrx \<Rightarrow> hrx" where
  [simp]: "HalBufferView_drop E p s = ffi_do E (Release HalBufferView p) s"

definition HalBufferView_clone :: "env \<Rightarrow> ptr \<Rightarrow> hrx \<Rightarrow> ptr \<times> hrx" where
  [simp]: "HalBufferView_clone E p s = (p, ffi_do E (Retain HalBufferView p) s)"

definition HalDevice_from_owned :: "ptr \<Rightarrow> ptr option" where
  [simp]: "HalDevice_from_owned p = (if p = NULL then None else Some p)"

definition HalDevice_drop :: "env \<Rightarrow> ptr \<Rightarrow> hrx \<Rightarrow> hrx" where
  [simp]: "HalDevice_drop E p s = ffi_do E (Release HalDevice p) s"

definition HalDeviceGroup_from_owned :: "ptr \<Rightarrow> ptr option" where
  [simp]: "HalDeviceGroup_from_owned p = (if p = NULL then None else Some p)"

definition HalDeviceGroup_drop :: "env \<Rightarrow> ptr \<Rightarrow> hrx \<Rightarrow> hrx" where
  [simp]: "HalDeviceGroup_drop E p s = ffi_do E (Release HalDeviceGroup p) s"

definition HalAllocator_from_owned :: "ptr \<Rightarrow> ptr option" where
  [simp]: "HalAllocator_from_owned p = (if p = NULL then None else Some p)"

definition HalAllocator_drop :: "env \<Rightarrow> ptr \<Rightarrow> hrx \<Rightarrow> hrx" where
  [simp]: "HalAllocator_drop E p s = ffi_do E (Release HalAllocator p) s"

definition HalBuffer_from_owned :: "ptr \<Rightarrow> ptr option" where
  [simp]: "HalBuffer_from_owned p = (if p = NULL then None else Some p)"

definition HalBuffer_drop :: "env \<Rightarrow> ptr \<Rightarrow> hrx \<Rightarrow> hrx" where
  [simp]: "HalBuffer_drop E p s = ffi_do E (Release HalBuffer p) s"

definition HalBuffer_into_raw :: "ptr \<Rightarrow> ptr" where
  [simp]: "HalBuffer_into_raw p = p"

definition HalPool_from_owned :: "ptr \<Rightarrow> ptr option" where
  [simp]: "HalPool_from_owned p = (if p = NULL then None else Some p)"

definition HalPool_drop :: "env \<Rightarrow> ptr \<Rightarrow> hrx \<Rightarrow> hrx" where
  [simp]: "HalPool_drop E p s = ffi_do E (Release HalPool p) s"

definition HalExecutable_from_owned :: "ptr \<Rightarrow> ptr option" where
  [simp]: "HalExecutable_from_owned p = (if p = NULL then None else Some p)"

definition HalExecutable_drop :: "env \<Rightarrow> ptr \<Rightarrow> hrx \<Rightarrow> hrx" where
  [simp]: "HalExecutable_drop E p s = ffi_do E (Release HalExecutable p) s"

definition HalExecutableCache_from_owned :: "ptr \<Rightarrow> ptr option" where
  [simp]: "HalExecutableCache_from_owned p = (if p = NULL then None else Some p)"

definition HalExecutableCache_drop :: "env \<Rightarrow> ptr \<Rightarrow> hrx \<Rightarrow> hrx" where
  [simp]: "HalExecutableCache_drop E p s = ffi_do E (Release HalExecutableCache p) s"

definition HalVmModule_from_owned :: "ptr \<Rightarrow> ptr option" where
  [simp]: "HalVmModule_from_owned p = (if p = NULL then None else Some p)"

definition HalVmModule_drop :: "env \<Rightarrow> ptr \<Rightarrow> hrx \<Rightarrow> hrx" where
  [simp]: "HalVmModule_drop E p s = ffi_do E (Release VmModule p) s"

definition HalVmContext_from_owned :: "ptr \<Rightarrow> ptr option" where
  [simp]: "HalVmContext_from_owned p = (if p = NULL then None else Some p)"

definition HalVmContext_drop :: "env \<Rightarrow> ptr \<Rightarrow> hrx \<Rightarrow> hrx" where
  [simp]: "HalVmContext_drop E p s = ffi_do E (Release VmContext p) s"

definition HalVmList_from_owned :: "ptr \<Rightarrow> ptr option" where
  [simp]: "HalVmList_from_owned p = (if p = NULL then None else Some p)"

definition HalVmList_drop :: "env \<Rightarrow> ptr \<Rightarrow> hrx \<Rightarrow> hrx" where
  [simp]: "HalVmList_drop E p s = ffi_do E (Release VmList p) s"

section \<open>Methods and create helpers\<close>

definition HalFence_insert :: "env \<Rightarrow> ptr \<Rightarrow> ptr \<Rightarrow> u64 \<Rightarrow> hrx \<Rightarrow> iree_status \<times> hrx" where
  "HalFence_insert E f sem v s = (let (r, s) = ffi E (Dev (iree_hal_fence_insert f sem v)) s in (r_status r, s))"

definition HalFence_extend :: "env \<Rightarrow> ptr \<Rightarrow> ptr \<Rightarrow> hrx \<Rightarrow> iree_status \<times> hrx" where
  "HalFence_extend E f from_f s = (let (r, s) = ffi E (Dev (iree_hal_fence_extend f from_f)) s in (r_status r, s))"

definition HalFence_signal :: "env \<Rightarrow> ptr \<Rightarrow> hrx \<Rightarrow> iree_status \<times> hrx" where
  "HalFence_signal E f s = (let (r, s) = ffi E (Dev (iree_hal_fence_signal f)) s in (r_status r, s))"

definition HalFence_wait :: "env \<Rightarrow> ptr \<Rightarrow> iree_timeout \<Rightarrow> hrx \<Rightarrow> iree_status \<times> hrx" where
  "HalFence_wait E f t s = (let (r, s) = ffi E (Dev (iree_hal_fence_wait f t)) s in (r_status r, s))"

text \<open>\<open>query_into\<close> writes the caller's storage whatever the status.\<close>

definition HalSemaphore_query_into :: "env \<Rightarrow> ptr \<Rightarrow> ptr \<Rightarrow> hrx \<Rightarrow> iree_status \<times> hrx" where
  "HalSemaphore_query_into E sem out s =
     (let (r, s) = ffi E (Dev (iree_hal_semaphore_query sem)) s in (r_status r, poke out (CU64 (r_val r)) s))"

definition HalSemaphore_wait :: "env \<Rightarrow> ptr \<Rightarrow> u64 \<Rightarrow> iree_timeout \<Rightarrow> hrx \<Rightarrow> iree_status \<times> hrx" where
  "HalSemaphore_wait E sem v t s = (let (r, s) = ffi E (Dev (iree_hal_semaphore_wait sem v t)) s in (r_status r, s))"

definition HalSemaphore_signal :: "env \<Rightarrow> ptr \<Rightarrow> u64 \<Rightarrow> hrx \<Rightarrow> iree_status \<times> hrx" where
  "HalSemaphore_signal E sem v s = (let (r, s) = ffi E (Dev (iree_hal_semaphore_signal sem v)) s in (r_status r, s))"

definition HalBufferView_shape_rank :: "env \<Rightarrow> ptr \<Rightarrow> hrx \<Rightarrow> usize \<times> hrx" where
  "HalBufferView_shape_rank E bv s =
     (let (r, s) = ffi E (Mem (iree_hal_buffer_view_shape_rank bv)) s in (r_val r, s))"

definition HalBufferView_shape_dim :: "env \<Rightarrow> ptr \<Rightarrow> usize \<Rightarrow> hrx \<Rightarrow> u64 \<times> hrx" where
  "HalBufferView_shape_dim E bv i s =
     (let (r, s) = ffi E (Mem (iree_hal_buffer_view_shape_dim bv i)) s in (r_val r, s))"

text \<open>
  The shape of every create helper: call the create function, and on OK take the owned object,
  panicking if it is null.
\<close>

definition create_owned :: "env \<Rightarrow> create_fn \<Rightarrow> hrx \<Rightarrow> ((iree_status + ptr) \<times> hrx) option" where
  "create_owned E f s =
     (let (r, s) = ffi E (Create f) s in
      if status_is_ok (r_status r) then (case expect_nonnull (r_ptr r) of
          Some p \<Rightarrow> Some (Inr p, s)
        | None \<Rightarrow> None)
      else Some (Inl (r_status r), s))"

definition fence_create :: "env \<Rightarrow> usize \<Rightarrow> hrx \<Rightarrow> ((iree_status + ptr) \<times> hrx) option" where
  "fence_create E capacity s = create_owned E (iree_hal_fence_create capacity) s"

definition fence_create_at :: "env \<Rightarrow> ptr \<Rightarrow> u64 \<Rightarrow> hrx \<Rightarrow> ((iree_status + ptr) \<times> hrx) option" where
  "fence_create_at E sem v s = create_owned E (iree_hal_fence_create_at sem v) s"

definition semaphore_create ::
  "env \<Rightarrow> ptr \<Rightarrow> u64 \<Rightarrow> u64 \<Rightarrow> u32 \<Rightarrow> hrx \<Rightarrow> ((iree_status + ptr) \<times> hrx) option" where
  "semaphore_create E dev affinity initial fl s =
     create_owned E (iree_hal_semaphore_create dev affinity initial fl) s"

definition buffer_view_create ::
  "env \<Rightarrow> ptr \<Rightarrow> u64 list \<Rightarrow> u32 \<Rightarrow> u32 \<Rightarrow> hrx \<Rightarrow> ((iree_status + ptr) \<times> hrx) option" where
  "buffer_view_create E buf shape et enc s =
     create_owned E (iree_hal_buffer_view_create buf shape et enc) s"

lemmas create_helpers = fence_create_def fence_create_at_def semaphore_create_def buffer_view_create_def

lemma create_owned_cases:
  assumes "create_owned E f s = Some (x, t)"
  shows "t = ffi_do E (Create f) s \<and>
    ((x = Inl (r_status (iree E (trace s) (Create f))) \<and> r_status (iree E (trace s) (Create f)) \<noteq> NULL) \<or>
     (x = Inr (r_ptr (iree E (trace s) (Create f))) \<and> r_ptr (iree E (trace s) (Create f)) \<noteq> NULL \<and>
      r_status (iree E (trace s) (Create f)) = NULL))"
  using assms
  by (auto simp: create_owned_def ffi_pair Let_def status_is_ok_def split: if_splits option.splits)

text \<open>Dropping a wrapper undoes taking ownership of it, and cloning adds one reference.\<close>

lemma wrapper_balance:
  "balance k q (trace (ffi_do E (Release k p) s)) = balance k q (trace s) - of_bool (p = q)"
  "balance k q (trace (ffi_do E (Retain k p) s)) = balance k q (trace s) + of_bool (p = q)"
  by simp_all

lemma create_owned_balance:
  assumes "create_owned E f s = Some (x, t)"
  shows "balance k q (trace t) = balance k q (trace s) + of_bool (kind_of f = k \<and> x = Inr q)"
  using create_owned_cases [OF assms] by auto

end
