(* ===== verification/Ownership.thy ===== *)
theory Ownership
  imports Iree_Hal
begin

text \<open>
  Ownership of IREE references. Every reference the library has been given is held by a field of
  a live object, of the globals, or of an exact pool; \<open>held\<close> counts them, and \<open>surplus\<close> is
  what the ledger of the history says beyond that. A reference leaked adds one to the surplus,
  one released twice takes one away, so an operation that leaves every surplus alone neither
  leaks nor over-releases, whatever IREE answered.

  The locale \<open>owned_object\<close> is the contract between the drop of an object type and the release
  function of its handles; every object type interprets it.
\<close>

section \<open>References held by the state\<close>

definition one_ref :: "iree_kind \<Rightarrow> ptr \<Rightarrow> iree_kind \<Rightarrow> ptr \<Rightarrow> int" where
  "one_ref k p k' q = (if k = k' \<and> p = q then 1 else 0)"

text \<open>A raw pointer field, which owns a reference only when it is not null.\<close>

definition raw_ref :: "iree_kind \<Rightarrow> ptr \<Rightarrow> iree_kind \<Rightarrow> ptr \<Rightarrow> int" where
  "raw_ref k p k' q = (if q = NULL then 0 else one_ref k p k' q)"

fun obj_refs :: "iree_kind \<Rightarrow> ptr \<Rightarrow> hobj \<Rightarrow> int" where
  "obj_refs k p (ODevice d) =
     one_ref k p HalAllocator (al_hal_allocator (dev_allocator d))
     + one_ref k p HalDeviceGroup (dev_hal_device_group d) + one_ref k p HalDevice (dev_hal_device d)"
| "obj_refs k p (OBuffer b) =
     one_ref k p HalBuffer (buf_hal_buffer b)
     + (case buf_hal_pool b of None \<Rightarrow> 0 | Some q \<Rightarrow> one_ref k p HalPool q)
     + (case buf_map b of None \<Rightarrow> 0 | Some m \<Rightarrow> one_ref k p BufferMapping (mr_ptr m))"
| "obj_refs k p (OBufferView v) = one_ref k p HalBufferView (bv_hal v)"
| "obj_refs k p (OSemaphore x) = one_ref k p HalSemaphore (sem_hal x)"
| "obj_refs k p (OFence f) = one_ref k p HalFence (fence_hal f)"
| "obj_refs k p (OStream st) = raw_ref k p HalCommandBuffer (st_pending_cb st)"
| "obj_refs k p (OExecutable e) =
     one_ref k p HalExecutable (exe_hal e) + one_ref k p HalExecutableCache (exe_cache e)"
| "obj_refs k p (OModule m) =
     one_ref k p VmContext (mod_context m) + one_ref k p VmModule (mod_hal_module m)
     + one_ref k p VmModule (mod_bytecode m)"
| "obj_refs k p (OFunction f) = 0"
| "obj_refs k p (OValueList l) = one_ref k p VmList (vl_vm_list l)"

definition global_refs :: "iree_kind \<Rightarrow> ptr \<Rightarrow> globals \<Rightarrow> int" where
  "global_refs k p g =
     raw_ref k p VmInstance (vm_instance (g_shared g))
     + raw_ref k p ProactorPool (proactor_pool (g_shared g))
     + raw_ref k p HalDriver (acc_driver (g_cpu g)) + raw_ref k p HalDriver (acc_driver (g_gpu g))"

definition pool_refs :: "iree_kind \<Rightarrow> ptr \<Rightarrow> exact_pool \<Rightarrow> int" where
  "pool_refs k p x =
     one_ref k p HalAllocator (pool_allocator x) + one_ref k p AsyncNotification (pool_notification x)"

definition held :: "iree_kind \<Rightarrow> ptr \<Rightarrow> hrx \<Rightarrow> int" where
  "held k p s =
     entries_sum (\<lambda>a. obj_refs k p (arc_obj a)) (arcs s) + global_refs k p (G s)
     + entries_sum (pool_refs k p) (pools s)"

definition surplus :: "iree_kind \<Rightarrow> ptr \<Rightarrow> hrx \<Rightarrow> int" where
  "surplus k p s = balance k p (trace s) - held k p s"

text \<open>Allocations, references and pools are finitely many.\<close>

definition wf_state :: "hrx \<Rightarrow> bool" where
  "wf_state s \<longleftrightarrow> wf_heap s \<and> finite (dom (pools s))"

lemma wf_heapI: "wf_state s \<Longrightarrow> wf_heap s"
  by (simp add: wf_state_def)

lemma wf_initial: "wf_state hrx_initial"
  by (simp add: wf_state_def wf_heap_initial) (simp add: hrx_initial_def)

lemma wf_cong:
  "arcs s = arcs t \<Longrightarrow> next_addr s = next_addr t \<Longrightarrow> pools s = pools t \<Longrightarrow> wf_state s = wf_state t"
  by (simp add: wf_state_def wf_heap_def)

section \<open>How the primitive effects change the surplus\<close>

text \<open>The ledger, in terms of single references.\<close>

lemma ref_delta_refs:
  "ref_delta k p (Create f, r) = (if r_status r = NULL then one_ref k p (kind_of f) (r_ptr r) else 0)"
  "ref_delta k p (Retain k' q, r) = one_ref k p k' q"
  "ref_delta k p (Release k' q, r) = - one_ref k p k' q"
  "ref_delta k p (Mem (iree_hal_allocator_virtual_memory_release a q), r) = - one_ref k p HalBuffer q"
  "ref_delta k p (Vm (iree_vm_list_push_ref_move l x), r) =
     (if r_status r = NULL then (case x of None \<Rightarrow> 0 | Some (k', q) \<Rightarrow> - one_ref k p k' q) else 0)"
  "ref_delta k p (Mem (iree_hal_buffer_map_range b ac off len), r) =
     (if r_status r = NULL then one_ref k p BufferMapping (r_ptr r) else 0)"
  "ref_delta k p (Mem (iree_hal_buffer_unmap_range q), r) = - one_ref k p BufferMapping q"
  by (auto simp: one_ref_def split: option.split)

declare ref_delta.simps(1-5) [simp del]
declare ref_delta.simps(7,8) [simp del]
declare ref_delta_refs [simp]

lemma held_cong: "arcs s = arcs t \<Longrightarrow> G s = G t \<Longrightarrow> pools s = pools t \<Longrightarrow> held k p s = held k p t"
  by (simp add: held_def)

lemma surplus_initial [simp]: "surplus k p hrx_initial = 0"
  by (simp add: surplus_def held_def hrx_initial_def G_initial_def global_refs_def raw_ref_def)

lemma surplus_ffi_do [simp]:
  "surplus k p (ffi_do E c s) = surplus k p s + ref_delta k p (c, iree E (trace s) c)"
  by (simp add: surplus_def held_cong [of "ffi_do E c s" s])

lemma surplus_poke [simp]: "surplus k p (poke a c s) = surplus k p s"
  by (simp add: surplus_def held_cong [of "poke a c s" s])

lemma surplus_libc [simp]:
  "surplus k p (libc_free s) = surplus k p s"
  "surplus k p (snd (libc_malloc E s)) = surplus k p s"
  by (simp_all add: surplus_def held_def)

lemma surplus_status [simp]:
  "surplus k p (snd (hrx_make_status E c m s)) = surplus k p s"
  "surplus k p (hrx_status_drop st s) = surplus k p s"
  "surplus k p (snd (hrx_status_from_iree E ist s)) = surplus k p s"
  by (simp_all add: surplus_def held_def)

lemma wf_effects [simp]:
  "wf_state (ffi_do E c s) = wf_state s"
  "wf_state (poke a x s) = wf_state s"
  "wf_state (libc_free s) = wf_state s"
  "wf_state (snd (libc_malloc E s)) = wf_state s"
  "wf_state (snd (hrx_make_status E e m s)) = wf_state s"
  "wf_state (hrx_status_drop st s) = wf_state s"
  "wf_state (snd (hrx_status_from_iree E ist s)) = wf_state s"
  by (simp_all add: wf_state_def wf_heap_def)

lemma surplus_arcs_upd:
  assumes "wf_state s"
  shows "surplus k p (s\<lparr>arcs := (arcs s)(h \<mapsto> a)\<rparr>) =
    surplus k p s + opt_weight (\<lambda>a. obj_refs k p (arc_obj a)) (arcs s h) - obj_refs k p (arc_obj a)"
  using entries_sum_upd [of "arcs s" "\<lambda>a. obj_refs k p (arc_obj a)" h a] assms
  by (simp add: surplus_def held_def wf_state_def wf_heap_def)

lemma surplus_arcs_del:
  assumes "wf_state s"
  shows "surplus k p (s\<lparr>arcs := (arcs s)(h := None)\<rparr>) =
    surplus k p s + opt_weight (\<lambda>a. obj_refs k p (arc_obj a)) (arcs s h)"
  using entries_sum_remove [of "arcs s" "\<lambda>a. obj_refs k p (arc_obj a)" h] assms
  by (simp add: surplus_def held_def wf_state_def wf_heap_def)

text \<open>Creating an object moves the references it is built from into the heap.\<close>

lemma surplus_into_handle [simp]:
  assumes "wf_state s"
  shows "surplus k p (snd (into_handle x s)) = surplus k p s - obj_refs k p x"
proof -
  have "surplus k p (snd (into_handle x s)) =
      surplus k p (s\<lparr>arcs := (arcs s)(next_addr s \<mapsto> \<lparr>strong = 1, arc_obj = x\<rparr>)\<rparr>)"
    by (simp add: surplus_def held_def)
  then show ?thesis
    using surplus_arcs_upd [OF assms] wf_heap_fresh [OF wf_heapI [OF assms]] by simp
qed

lemma wf_into_handle [simp]: "wf_state s \<Longrightarrow> wf_state (snd (into_handle x s))"
  by (simp add: wf_state_def wf_heap_into_handle)

lemma surplus_handle_set:
  assumes "wf_state s" and "arcs s h = Some a"
  shows "surplus k p (handle_set h x s) = surplus k p s + obj_refs k p (arc_obj a) - obj_refs k p x"
  using surplus_arcs_upd [OF assms(1)] assms(2) by (simp add: handle_set_def)

lemma wf_handle_set [simp]: "wf_state s \<Longrightarrow> wf_state (handle_set h x s)"
  by (simp add: wf_state_def wf_heap_handle_set)

lemma handle_retain_surplus:
  assumes "handle_retain as h s = Some t" and "wf_state s"
  shows "wf_state t \<and> (\<forall>k p. surplus k p t = surplus k p s)"
proof -
  obtain a where a: "arcs s h = Some a" "t = s\<lparr>arcs := (arcs s)(h \<mapsto> a\<lparr>strong := strong a + 1\<rparr>)\<rparr>"
    using handle_retain_Some [OF assms(1)] by blast
  then have "wf_heap t"
    using wf_heap_upd [OF wf_heapI [OF assms(2)] a(1), of "a\<lparr>strong := strong a + 1\<rparr>" t] by simp
  then show ?thesis
    using a surplus_arcs_upd [OF assms(2)] assms(2) by (simp add: wf_state_def)
qed

lemma handle_retain_frame:
  assumes "handle_retain as h s = Some t"
  shows "trace t = trace s \<and> next_addr t = next_addr s \<and> mem t = mem s \<and> G t = G s \<and>
    pools t = pools s \<and> thunks t = thunks s \<and> live t = live s \<and> mallocs t = mallocs s \<and>
    open_files t = open_files s"
  using handle_retain_Some [OF assms] by auto

section \<open>The contract of a drop\<close>

text \<open>
  The drop of an object of type \<open>'a\<close> keeps the heap well formed (\<open>dropped_object\<close>) and gives back
  exactly the references its fields hold (\<open>owned_object\<close>). Then releasing a handle leaves every
  surplus alone, whether or not it is the last reference.
\<close>

locale dropped_object =
  fixes as :: "hobj \<Rightarrow> 'a option"
    and wrap :: "'a \<Rightarrow> hobj"
    and drop_in_place :: "'a \<Rightarrow> hrx \<Rightarrow> hrx option"
  assumes as_wrap: "as x = Some y \<longleftrightarrow> x = wrap y"
    and drop_wf: "drop_in_place y s = Some t \<Longrightarrow> wf_state s \<Longrightarrow> wf_state t"
begin

lemma release_cases:
  assumes "handle_release as drop_in_place h s = Some t"
  obtains (last) a y where "arcs s h = Some a" "arc_obj a = wrap y" "strong a = 1"
      "drop_in_place y (s\<lparr>arcs := (arcs s)(h := None)\<rparr>) = Some t"
    | (shared) a y where "arcs s h = Some a" "arc_obj a = wrap y" "strong a \<noteq> 1"
      "t = s\<lparr>arcs := (arcs s)(h \<mapsto> a\<lparr>strong := strong a - 1\<rparr>)\<rparr>"
  using assms as_wrap by (auto simp: handle_release_def split: option.splits if_splits)

end

locale owned_object = dropped_object +
  assumes drop_refs: "drop_in_place y s = Some t \<Longrightarrow> wf_state s \<Longrightarrow>
      surplus k p t = surplus k p s - obj_refs k p (wrap y)"
begin

lemma release_surplus:
  assumes "handle_release as drop_in_place h s = Some t" and "wf_state s"
  shows "wf_state t \<and> (\<forall>k p. surplus k p t = surplus k p s)"
  using assms(1)
proof (cases rule: release_cases)
  case (last a y)
  let ?s = "s\<lparr>arcs := (arcs s)(h := None)\<rparr>"
  have "wf_state ?s" using assms(2) wf_heap_del [of s ?s h] by (simp add: wf_state_def)
  then show ?thesis
    using drop_wf [OF last(4)] drop_refs [OF last(4)] last surplus_arcs_del [OF assms(2)] by simp
next
  case (shared a y)
  then have "0 < strong a - 1"
    using wf_heap_strong [OF wf_heapI [OF assms(2)] shared(1)] by simp
  then have "wf_heap t"
    using shared wf_heap_upd [OF wf_heapI [OF assms(2)] shared(1), of "a\<lparr>strong := strong a - 1\<rparr>" t]
    by simp
  then show ?thesis
    using shared surplus_arcs_upd [OF assms(2)] assms(2) by (simp add: wf_state_def)
qed

text \<open>Taking the sole reference apart hands its references to the caller.\<close>

lemma into_inner_surplus:
  assumes "into_inner_handle as h s = Some (Some y, t)" and "wf_state s"
  shows "wf_state t \<and> (\<forall>k p. surplus k p t = surplus k p s + obj_refs k p (wrap y)) \<and> trace t = trace s"
proof -
  obtain a where "arcs s h = Some a" "arc_obj a = wrap y" "t = s\<lparr>arcs := (arcs s)(h := None)\<rparr>"
    using assms(1) as_wrap by (auto simp: into_inner_handle_def split: option.splits if_splits)
  then show ?thesis
    using surplus_arcs_del [OF assms(2)] assms(2) wf_heap_del [of s t h] by (simp add: wf_state_def)
qed

end

section \<open>Results as equations\<close>

text \<open>What an equation between a call and its result says of the resulting state.\<close>

lemma make_status_eqD:
  assumes "hrx_make_status E c m s = (res, t)"
  shows "(\<forall>k p. surplus k p t = surplus k p s) \<and> (wf_state t \<longleftrightarrow> wf_state s) \<and> trace t = trace s \<and> arcs t = arcs s \<and>
    next_addr t = next_addr s \<and> mem t = mem s \<and> G t = G s \<and> pools t = pools s \<and> thunks t = thunks s \<and>
    live t = live s + status_blocks res \<and> open_files t = open_files s"
proof -
  have t: "t = snd (hrx_make_status E c m s)" and r: "res = fst (hrx_make_status E c m s)"
    using assms by simp_all
  show ?thesis unfolding t r by (simp add: hrx_make_status_live)
qed

lemma make_status_codeD:
  assumes "hrx_make_status E c m s = (res, t)" and "malloc_ok E (mallocs s)" and "c \<noteq> 0"
  shows "hrx_status_code res = c"
  using hrx_make_status_code [OF assms(2,3), of m] assms(1) by simp

lemma status_from_iree_eqD:
  assumes "hrx_status_from_iree E st s = (res, t)"
  shows "(\<forall>k p. surplus k p t = surplus k p s) \<and> (wf_state t \<longleftrightarrow> wf_state s) \<and> arcs t = arcs s \<and>
    next_addr t = next_addr s \<and> mem t = mem s \<and> G t = G s \<and> pools t = pools s \<and> thunks t = thunks s \<and>
    live t = live s + status_blocks res \<and> open_files t = open_files s \<and>
    (\<forall>k p. balance k p (trace t) = balance k p (trace s))"
proof -
  have t: "t = snd (hrx_status_from_iree E st s)" and r: "res = fst (hrx_status_from_iree E st s)"
    using assms by simp_all
  show ?thesis unfolding t r by (simp add: hrx_status_from_iree_live)
qed

lemma status_from_iree_trace:
  "\<exists>rest. trace (snd (hrx_status_from_iree E st s)) = trace s @ rest \<and> (st = NULL \<longrightarrow> rest = [])"
  by (auto simp: hrx_status_from_iree_def status_is_ok_def ffi_pair prod.case_eq_if Let_def)

lemma status_from_iree_traceD:
  assumes "hrx_status_from_iree E st s = (res, t)"
  shows "\<exists>rest. trace t = trace s @ rest \<and> (st = NULL \<longrightarrow> rest = [])"
  using status_from_iree_trace [of E st s] assms by simp

lemmas status_eqD = make_status_eqD status_from_iree_eqD

lemma into_handle_eq:
  "into_handle x s = (h, t) \<longleftrightarrow> h = next_addr s \<and> t = snd (into_handle x s)"
  by (auto simp: into_handle_def)

section \<open>Create helpers\<close>

lemma create_owned_surplus:
  assumes "create_owned E f s = Some (x, t)" and "wf_state s"
  shows "wf_state t \<and> surplus k p t = surplus k p s + (case x of Inl _ \<Rightarrow> 0 | Inr q \<Rightarrow> one_ref k p (kind_of f) q)"
  using create_owned_cases [OF assms(1)] assms(2) by (auto simp: one_ref_def)

lemma create_owned_InlD:
  assumes "create_owned E f s = Some (Inl st, t)"
  shows "(\<forall>k p. surplus k p t = surplus k p s) \<and> (wf_state t \<longleftrightarrow> wf_state s) \<and> st \<noteq> NULL"
  using create_owned_cases [OF assms] by auto

lemma create_owned_InrD:
  assumes "create_owned E f s = Some (Inr q, t)"
  shows "(\<forall>k p. surplus k p t = surplus k p s + one_ref k p (kind_of f) q) \<and> (wf_state t \<longleftrightarrow> wf_state s) \<and> q \<noteq> NULL"
  using create_owned_cases [OF assms] by (auto simp: one_ref_def)

lemma create_owned_fields:
  assumes "create_owned E f s = Some (x, t)"
  shows "arcs t = arcs s \<and> next_addr t = next_addr s \<and> mem t = mem s \<and> G t = G s \<and> pools t = pools s"
  using create_owned_cases [OF assms] by auto

end
