(* ===== verification/Device.thy ===== *)
theory Device
  imports Ownership
begin

text \<open>
  Devices (\<open>hrx-libhrx/src/device.rs\<close>): the reference every child object holds, the teardown
  order of a device, and the property query with its size checks and byte copies into the
  caller's buffer.
\<close>

section \<open>Lifetime\<close>

definition HRX_ACCELERATOR_GPU :: i32 where "HRX_ACCELERATOR_GPU = 0"
definition HRX_ACCELERATOR_CPU :: i32 where "HRX_ACCELERATOR_CPU = 1"

text \<open>Field drop in declaration order: the allocator, the group, the HAL device.\<close>

definition drop_device :: "env \<Rightarrow> hrx_device_s \<Rightarrow> hrx \<Rightarrow> hrx option" where
  "drop_device E d s =
     (let s = HalAllocator_drop E (al_hal_allocator (dev_allocator d)) s;
          s = HalDeviceGroup_drop E (dev_hal_device_group d) s;
          s = HalDevice_drop E (dev_hal_device d) s
      in Some s)"

definition hrx_device_retain :: "ptr \<Rightarrow> hrx \<Rightarrow> hrx option" where
  "hrx_device_retain device s = handle_retain as_device device s"

definition hrx_device_release :: "env \<Rightarrow> ptr \<Rightarrow> hrx \<Rightarrow> hrx option" where
  "hrx_device_release E device s = handle_release as_device (drop_device E) device s"

text \<open>\<open>DeviceRef\<close>: an owned reference to a device, held by every child object.\<close>

definition DeviceRef_retain :: "ptr \<Rightarrow> hrx \<Rightarrow> (ptr \<times> hrx) option" where
  "DeviceRef_retain device s = hrx_device_retain device s \<bind> (\<lambda>s. Some (device, s))"

definition DeviceRef_drop :: "env \<Rightarrow> ptr \<Rightarrow> hrx \<Rightarrow> hrx option" where
  "DeviceRef_drop E device s = hrx_device_release E device s"

section \<open>Properties of a device\<close>

fun cstr_len :: "string \<Rightarrow> nat" where
  "cstr_len [] = 0"
| "cstr_len (c # cs) = (if c = CHR 0x00 then 0 else Suc (cstr_len cs))"

text \<open>Writing bytes to consecutive addresses.\<close>

fun poke_bytes :: "ptr \<Rightarrow> string \<Rightarrow> hrx \<Rightarrow> hrx" where
  "poke_bytes a [] s = s"
| "poke_bytes a (c # cs) s = poke_bytes (Suc a) cs (poke a (CByte c) s)"

text \<open>
  \<open>copy_nonoverlapping(src, value, len + 1)\<close>: reading past the end of the source array is
  undefined behaviour.
\<close>

definition copy_cstr :: "string \<Rightarrow> ptr \<Rightarrow> hrx \<Rightarrow> hrx option" where
  "copy_cstr src dst s =
     (if cstr_len src + 1 \<le> length src then Some (poke_bytes dst (take (cstr_len src + 1) src) s)
      else None)"

definition HRX_DEVICE_PROPERTY_NAME :: i32 where "HRX_DEVICE_PROPERTY_NAME = 0"
definition HRX_DEVICE_PROPERTY_ARCHITECTURE :: i32 where "HRX_DEVICE_PROPERTY_ARCHITECTURE = 1"
definition HRX_DEVICE_PROPERTY_TOTAL_MEMORY :: i32 where "HRX_DEVICE_PROPERTY_TOTAL_MEMORY = 2"
definition HRX_DEVICE_PROPERTY_COMPUTE_UNITS :: i32 where "HRX_DEVICE_PROPERTY_COMPUTE_UNITS = 3"
definition HRX_DEVICE_PROPERTY_MAX_WORKGROUP_SIZE :: i32 where
  "HRX_DEVICE_PROPERTY_MAX_WORKGROUP_SIZE = 4"

lemmas property_defs =
  HRX_DEVICE_PROPERTY_NAME_def HRX_DEVICE_PROPERTY_ARCHITECTURE_def
  HRX_DEVICE_PROPERTY_TOTAL_MEMORY_def HRX_DEVICE_PROPERTY_COMPUTE_UNITS_def
  HRX_DEVICE_PROPERTY_MAX_WORKGROUP_SIZE_def

definition hrx_device_get_property ::
  "env \<Rightarrow> ptr \<Rightarrow> i32 \<Rightarrow> ptr \<Rightarrow> usize \<Rightarrow> hrx \<Rightarrow> (hrx_status \<times> hrx) option" where
  "hrx_device_get_property E device prop value value_size s =
     (if device = NULL \<or> value = NULL then
        Some (hrx_make_status E (code_i32 InvalidArgument) (Some ''device or value is NULL'') s)
      else do {
        dev \<leftarrow> handle_ref as_device device s;
        if prop = HRX_DEVICE_PROPERTY_NAME then
          (if value_size < of_nat (cstr_len (dev_name dev) + 1) then
             Some (hrx_make_status E (code_i32 OutOfRange) (Some ''buffer too small for device name'') s)
           else do { s \<leftarrow> copy_cstr (dev_name dev) value s; Some (hrx_ok_status, s) })
        else if prop = HRX_DEVICE_PROPERTY_ARCHITECTURE then
          (if value_size < of_nat (cstr_len (dev_architecture dev) + 1) then
             Some (hrx_make_status E (code_i32 OutOfRange)
               (Some ''buffer too small for architecture string'') s)
           else do { s \<leftarrow> copy_cstr (dev_architecture dev) value s; Some (hrx_ok_status, s) })
        else if prop = HRX_DEVICE_PROPERTY_TOTAL_MEMORY then
          (if value_size < 8 then
             Some (hrx_make_status E (code_i32 OutOfRange) (Some ''buffer too small for uint64_t'') s)
           else
             let (r, s) = ffi E (Dev (iree_hal_device_query_i64 (dev_hal_device dev)
                                        ''hal.device'' ''memory.total'')) s;
                 (mem_size, s) =
                   (if status_is_ok (r_status r) then (r_val r, s)
                    else (0, ffi_do E (Host (iree_status_free (r_status r))) s))
             in Some (hrx_ok_status, poke value (CU64 mem_size) s))
        else if prop = HRX_DEVICE_PROPERTY_COMPUTE_UNITS
                \<or> prop = HRX_DEVICE_PROPERTY_MAX_WORKGROUP_SIZE then
          (if value_size < 4 then
             Some (hrx_make_status E (code_i32 OutOfRange) (Some ''buffer too small for uint32_t'') s)
           else Some (hrx_ok_status, poke value (CU32 0) s))
        else
          Some (hrx_make_status E (code_i32 InvalidArgument) (Some ''unknown device property'') s)
      })"

definition hrx_device_synchronize :: "env \<Rightarrow> ptr \<Rightarrow> hrx \<Rightarrow> (hrx_status \<times> hrx) option" where
  "hrx_device_synchronize E device s =
     (if device = NULL then
        Some (hrx_make_status E (code_i32 InvalidArgument) (Some ''device is NULL'') s)
      else do {
        dev \<leftarrow> handle_ref as_device device s;
        let (r, s) = ffi E (Dev (iree_hal_device_wait_semaphores (dev_hal_device dev) [] timeout_infinite)) s;
        Some (hrx_status_from_iree E (r_status r) s)
      })"

definition hrx_device_get_type :: "env \<Rightarrow> ptr \<Rightarrow> ptr \<Rightarrow> hrx \<Rightarrow> (hrx_status \<times> hrx) option" where
  "hrx_device_get_type E device out s =
     (if device = NULL \<or> out = NULL then
        Some (hrx_make_status E (code_i32 InvalidArgument) (Some ''device or type is NULL'') s)
      else do {
        dev \<leftarrow> handle_ref as_device device s;
        Some (hrx_ok_status, poke out (CI32 (dev_type dev)) s)
      })"

section \<open>Facts\<close>

lemma drop_device_fields:
  "\<exists>t. drop_device E d s = Some t \<and> arcs t = arcs s \<and> next_addr t = next_addr s \<and> G t = G s \<and>
     mem t = mem s \<and> live t = live s \<and> pools t = pools s \<and> thunks t = thunks s"
  by (simp add: drop_device_def)

interpretation device: refcounted hrx_device_retain "hrx_device_release E" "refs as_device" observe wf_heap
  for E :: env
  using refcounted_handle [of as_device "drop_device E"]
  by (simp add: hrx_device_retain_def [abs_def] hrx_device_release_def [abs_def] eta_contract_eq)

interpretation device_drop: owned_object as_device ODevice "drop_device E"
  for E :: env
  by unfold_locales (auto simp: drop_device_def one_ref_def)

text \<open>Releasing a device, once or for good, leaks nothing and releases nothing twice.\<close>

lemma device_release_surplus:
  assumes "hrx_device_release E device s = Some t" and "wf_state s"
  shows "wf_state t \<and> (\<forall>k p. surplus k p t = surplus k p s)"
  using assms device_drop.release_surplus unfolding hrx_device_release_def by blast

lemma DeviceRef_drop_surplus:
  assumes "DeviceRef_drop E device s = Some t" and "wf_state s"
  shows "wf_state t \<and> (\<forall>k p. surplus k p t = surplus k p s)"
  using assms device_release_surplus unfolding DeviceRef_drop_def by blast

lemma DeviceRef_retain_Some:
  assumes "DeviceRef_retain device s = Some (d, t)"
  shows "d = device \<and> handle_retain as_device device s = Some t"
  using assms by (auto simp: DeviceRef_retain_def hrx_device_retain_def elim: bind_SomeE)

lemma DeviceRef_retain_surplus:
  assumes "DeviceRef_retain device s = Some (d, t)" and "wf_state s"
  shows "d = device \<and> wf_state t \<and> surplus k p t = surplus k p s \<and> next_addr t = next_addr s \<and> mem t = mem s \<and>
    trace t = trace s"
  using DeviceRef_retain_Some [OF assms(1)] handle_retain_surplus [OF _ assms(2)] handle_retain_frame
  by metis

lemma DeviceRef_retain_eqD:
  assumes "DeviceRef_retain device s = Some (d, t)"
  shows "d = device \<and> (wf_state s \<longrightarrow> wf_state t \<and> (\<forall>k p. surplus k p t = surplus k p s)) \<and> next_addr t = next_addr s \<and>
    mem t = mem s \<and> trace t = trace s \<and> open_files t = open_files s \<and> G t = G s"
  using DeviceRef_retain_Some [OF assms] handle_retain_surplus handle_retain_frame by metis

text \<open>What a release of a device leaves alone, whether or not it was the last one.\<close>

lemma device_release_frame:
  assumes "hrx_device_release E device s = Some t"
  shows "mem t = mem s \<and> G t = G s \<and> pools t = pools s \<and> thunks t = thunks s \<and> live t = live s \<and>
    (\<forall>h. h \<noteq> device \<longrightarrow> arcs t h = arcs s h) \<and> next_addr t = next_addr s"
  using assms
  by (auto simp: hrx_device_release_def handle_release_def drop_device_def Let_def
      split: option.splits if_splits)

lemma mem_poke_bytes:
  "mem (poke_bytes a bs s) x = (if a \<le> x \<and> x < a + length bs then CByte (bs ! (x - a)) else mem s x)"
proof (induction bs arbitrary: a s)
  case Nil
  then show ?case by auto
next
  case (Cons c cs)
  show ?case
  proof (cases "x = a")
    case True
    then show ?thesis using Cons [of "Suc a" "poke a (CByte c) s"] by simp
  next
    case False
    then have "x - a = Suc (x - Suc a)" if "a \<le> x" using that by simp
    then show ?thesis using Cons [of "Suc a" "poke a (CByte c) s"] False by auto
  qed
qed

lemma poke_bytes_frame [simp]:
  "trace (poke_bytes a bs s) = trace s"
  "arcs (poke_bytes a bs s) = arcs s"
  "G (poke_bytes a bs s) = G s"
  "live (poke_bytes a bs s) = live s"
  by (induction a bs s rule: poke_bytes.induct) simp_all

lemma cstr_len_bound: "CHR 0x00 \<in> set cs \<Longrightarrow> cstr_len cs < length cs"
  by (induction cs) auto

lemma cstr_len_nul: "CHR 0x00 \<in> set cs \<Longrightarrow> cs ! cstr_len cs = CHR 0x00"
  by (induction cs) auto

lemma cstr_len_prefix: "i < cstr_len cs \<Longrightarrow> cs ! i \<noteq> CHR 0x00"
  by (induction cs arbitrary: i) (auto simp: nth_Cons' split: if_splits)

text \<open>
  Reading the name of a device never writes outside the caller's buffer and always
  terminates the string. For a device whose name array holds a NUL, the call reports
  \<open>OutOfRange\<close> and writes nothing if the buffer cannot hold the name and its terminator;
  otherwise it writes exactly the characters of the name, none of them NUL, and one NUL after
  them, all inside the first \<open>value_size\<close> bytes, and changes no other address.
\<close>

theorem device_name_copy:
  assumes dev: "handle_ref as_device device s = Some d" "device \<noteq> NULL" "value \<noteq> NULL"
    and nul: "CHR 0x00 \<in> set (dev_name d)" "length (dev_name d) < 2 ^ 64"
  defines "n \<equiv> cstr_len (dev_name d)"
  shows "if unat value_size \<le> n
    then hrx_device_get_property E device HRX_DEVICE_PROPERTY_NAME value value_size s
         = Some (hrx_make_status E (code_i32 OutOfRange) (Some ''buffer too small for device name'') s)
    else \<exists>t. hrx_device_get_property E device HRX_DEVICE_PROPERTY_NAME value value_size s
             = Some (hrx_ok_status, t) \<and> trace t = trace s \<and> arcs t = arcs s \<and>
      (\<forall>i < n. mem t (value + i) = CByte (dev_name d ! i) \<and> dev_name d ! i \<noteq> CHR 0x00) \<and>
      mem t (value + n) = CByte (CHR 0x00) \<and>
      (\<forall>x. x < value \<or> value + unat value_size \<le> x \<longrightarrow> mem t x = mem s x)"
proof -
  have len: "n < length (dev_name d)" unfolding n_def using nul(1) by (rule cstr_len_bound)
  then have un: "unat (of_nat (Suc n) :: 64 word) = Suc n"
    using nul(2) by (simp add: unat_of_nat take_bit_nat_eq_self del: of_nat_Suc)
  have small: "value_size < of_nat (n + 1) \<longleftrightarrow> unat value_size \<le> n"
    using un by (simp add: word_less_nat_alt less_Suc_eq_le del: of_nat_Suc)
  show ?thesis
  proof (cases "unat value_size \<le> n")
    case True
    then show ?thesis
      using dev small by (simp add: hrx_device_get_property_def property_defs n_def)
  next
    case False
    have copy: "copy_cstr (dev_name d) value s = Some (poke_bytes value (take (n + 1) (dev_name d)) s)"
      using len by (simp add: copy_cstr_def n_def)
    have "hrx_device_get_property E device HRX_DEVICE_PROPERTY_NAME value value_size s
        = Some (hrx_ok_status, poke_bytes value (take (n + 1) (dev_name d)) s)"
      using dev small False copy by (simp add: hrx_device_get_property_def property_defs n_def)
    moreover have "dev_name d ! n = CHR 0x00" unfolding n_def using nul(1) by (rule cstr_len_nul)
    ultimately show ?thesis
      using False len cstr_len_prefix [of _ "dev_name d"] by (auto simp: mem_poke_bytes n_def)
  qed
qed

definition demo_device :: hrx_device_s where
  "demo_device = \<lparr>dev_type = 1, dev_ordinal = 0,
     dev_allocator = \<lparr>al_hal_allocator = 50, al_device = 1\<rparr>, dev_hal_device_group = 51,
     dev_hal_device = 52, dev_name = ''cpu'' @ CHR 0x00 # replicate 124 (CHR 0x00),
     dev_architecture = replicate 64 (CHR 0x00)\<rparr>"

text \<open>A state with one device, at address 1.\<close>

definition demo_state :: hrx where
  "demo_state = snd (into_handle (ODevice demo_device) hrx_initial)"

lemma demo_state_ref [simp]: "handle_ref as_device 1 demo_state = Some demo_device"
  by (simp add: handle_ref_def demo_state_def hrx_initial_def)

lemmas demo_state_ref_Suc [simp] = demo_state_ref [unfolded One_nat_def]

lemma wf_demo_state [simp]: "wf_state demo_state"
  by (simp add: demo_state_def wf_initial)

theorem device_name_copy_witness:
  "\<exists>t. hrx_device_get_property demo_env 1 HRX_DEVICE_PROPERTY_NAME 500 4 demo_state = Some (hrx_ok_status, t) \<and>
     mem t 500 = CByte CHR ''c'' \<and> mem t 503 = CByte (CHR 0x00) \<and> mem t 504 = CUndef"
proof -
  have n: "cstr_len (dev_name demo_device) = 3" by (simp add: demo_device_def)
  have "mem demo_state 504 = CUndef" by (simp add: demo_state_def hrx_initial_def)
  moreover have "dev_name demo_device ! 0 = CHR ''c''" by (simp add: demo_device_def)
  ultimately show ?thesis
    using device_name_copy [OF demo_state_ref, of 500 4 demo_env] unfolding n
    by (auto simp: demo_device_def dest: spec [of _ 0] spec [of _ 504])
qed

end
