(* ===== verification/Semaphore.thy ===== *)
theory Semaphore
  imports Device
begin

text \<open>
  Timeline semaphores (\<open>hrx-libhrx/src/semaphore.rs\<close>): creation, the guard a stream holds its
  semaphore by, query, wait and signal. The theory shows the conversion of the timeout argument
  and that a semaphore holds one IREE semaphore and one device reference for its lifetime.
\<close>

section \<open>Operations\<close>

definition IREE_HAL_SEMAPHORE_FLAG_NONE :: u32 where "IREE_HAL_SEMAPHORE_FLAG_NONE = 0"

text \<open>Field drop: the IREE semaphore, then the device reference.\<close>

definition drop_semaphore :: "env \<Rightarrow> hrx_semaphore_s \<Rightarrow> hrx \<Rightarrow> hrx option" where
  "drop_semaphore E x s = (let s = HalSemaphore_drop E (sem_hal x) s in DeviceRef_drop E (sem_device x) s)"

definition semaphore_hal_ptr :: "ptr \<Rightarrow> hrx \<Rightarrow> ptr option" where
  "semaphore_hal_ptr sem s = do { x \<leftarrow> handle_ref as_semaphore sem s; Some (sem_hal x) }"

definition hrx_semaphore_retain :: "ptr \<Rightarrow> hrx \<Rightarrow> hrx option" where
  "hrx_semaphore_retain sem s = handle_retain as_semaphore sem s"

definition hrx_semaphore_release :: "env \<Rightarrow> ptr \<Rightarrow> hrx \<Rightarrow> hrx option" where
  "hrx_semaphore_release E sem s = handle_release as_semaphore (drop_semaphore E) sem s"

definition SemaphoreGuard_drop :: "env \<Rightarrow> ptr \<Rightarrow> hrx \<Rightarrow> hrx option" where
  "SemaphoreGuard_drop E sem s = hrx_semaphore_release E sem s"

text \<open>
  The body of \<open>hrx_semaphore_create\<close> after its argument check. The handle stored through the
  out-pointer is returned, so that the stream can call it on a local variable; \<open>None\<close> when
  nothing is stored.
\<close>

definition semaphore_create_handle ::
  "env \<Rightarrow> ptr \<Rightarrow> u64 \<Rightarrow> hrx \<Rightarrow> (hrx_status \<times> ptr option \<times> hrx) option" where
  "semaphore_create_handle E device initial_value s = do {
     dev \<leftarrow> handle_ref as_device device s;
     (x, s) \<leftarrow> semaphore_create E (dev_hal_device dev) IREE_HAL_QUEUE_AFFINITY_ANY initial_value
                 IREE_HAL_SEMAPHORE_FLAG_NONE s;
     case x of
       Inr hal \<Rightarrow> do {
         (device, s) \<leftarrow> DeviceRef_retain device s;
         let (h, s) = into_handle (OSemaphore \<lparr>sem_hal = hal, sem_device = device\<rparr>) s;
         Some (hrx_ok_status, Some h, s) }
     | Inl st \<Rightarrow> (let (res, s) = hrx_status_from_iree E st s in Some (res, None, s)) }"

definition hrx_semaphore_create ::
  "env \<Rightarrow> ptr \<Rightarrow> u64 \<Rightarrow> ptr \<Rightarrow> hrx \<Rightarrow> (hrx_status \<times> hrx) option" where
  "hrx_semaphore_create E device initial_value semaphore s =
     (if device = NULL \<or> semaphore = NULL then
        Some (hrx_make_status E (code_i32 InvalidArgument) (Some ''device or semaphore is NULL'') s)
      else do {
        (res, h, s) \<leftarrow> semaphore_create_handle E device initial_value s;
        Some (res, case h of Some p \<Rightarrow> poke semaphore (CPtr p) s | None \<Rightarrow> s) })"

definition hrx_semaphore_query :: "env \<Rightarrow> ptr \<Rightarrow> ptr \<Rightarrow> hrx \<Rightarrow> (hrx_status \<times> hrx) option" where
  "hrx_semaphore_query E semaphore out s =
     (if semaphore = NULL \<or> out = NULL then
        Some (hrx_make_status E (code_i32 InvalidArgument) (Some ''semaphore or value is NULL'') s)
      else do {
        x \<leftarrow> handle_ref as_semaphore semaphore s;
        let (st, s) = HalSemaphore_query_into E (sem_hal x) out s;
        Some (hrx_status_from_iree E st s) })"

text \<open>The conversion of \<open>timeout_ns\<close>, written out in the waits of semaphores and fences.\<close>

definition timeout_from_ns :: "u64 \<Rightarrow> iree_timeout" where
  "timeout_from_ns timeout_ns =
     (if timeout_ns = 2 ^ 64 - 1 then timeout_infinite
      else if timeout_ns = 0 then timeout_immediate
      else timeout_relative_ns timeout_ns)"

definition hrx_semaphore_wait :: "env \<Rightarrow> ptr \<Rightarrow> u64 \<Rightarrow> u64 \<Rightarrow> hrx \<Rightarrow> (hrx_status \<times> hrx) option" where
  "hrx_semaphore_wait E semaphore v timeout_ns s =
     (if semaphore = NULL then
        Some (hrx_make_status E (code_i32 InvalidArgument) (Some ''semaphore is NULL'') s)
      else do {
        x \<leftarrow> handle_ref as_semaphore semaphore s;
        let (st, s) = HalSemaphore_wait E (sem_hal x) v (timeout_from_ns timeout_ns) s;
        Some (hrx_status_from_iree E st s) })"

definition hrx_semaphore_signal :: "env \<Rightarrow> ptr \<Rightarrow> u64 \<Rightarrow> hrx \<Rightarrow> (hrx_status \<times> hrx) option" where
  "hrx_semaphore_signal E semaphore v s =
     (if semaphore = NULL then
        Some (hrx_make_status E (code_i32 InvalidArgument) (Some ''semaphore is NULL'') s)
      else do {
        x \<leftarrow> handle_ref as_semaphore semaphore s;
        let (st, s) = HalSemaphore_signal E (sem_hal x) v s;
        Some (hrx_status_from_iree E st s) })"

section \<open>Facts\<close>

interpretation semaphore: refcounted hrx_semaphore_retain "hrx_semaphore_release E" "refs as_semaphore"
  observe wf_heap
  for E :: env
  using refcounted_handle [of as_semaphore "drop_semaphore E"]
  by (simp add: hrx_semaphore_retain_def [abs_def] hrx_semaphore_release_def [abs_def])

interpretation semaphore_drop: owned_object as_semaphore OSemaphore "drop_semaphore E"
  for E :: env
proof unfold_locales
  fix y s t k p
  assume d: "drop_semaphore E y s = Some t" and w: "wf_state s"
  then have "DeviceRef_drop E (sem_device y) (ffi_do E (Release HalSemaphore (sem_hal y)) s) = Some t"
    by (simp add: drop_semaphore_def)
  from DeviceRef_drop_surplus [OF this] w
  show "wf_state t" and "surplus k p t = surplus k p s - obj_refs k p (OSemaphore y)"
    by (auto simp: one_ref_def)
qed (rule as_Some)

lemma semaphore_release_surplus:
  assumes "hrx_semaphore_release E h s = Some t" and "wf_state s"
  shows "wf_state t \<and> (\<forall>k p. surplus k p t = surplus k p s)"
  using assms semaphore_drop.release_surplus unfolding hrx_semaphore_release_def by blast

lemma semaphore_create_handle_surplus:
  assumes "semaphore_create_handle E device v s = Some (res, h, t)" and "wf_state s"
  shows "wf_state t \<and> (\<forall>k p. surplus k p t = surplus k p s)"
  using assms
  by (auto simp: semaphore_create_handle_def semaphore_create_def into_handle_eq
      split: sum.splits prod.splits elim!: bind_SomeE
      dest!: status_eqD DeviceRef_retain_eqD create_owned_InlD create_owned_InrD)

lemma semaphore_create_surplus:
  assumes "hrx_semaphore_create E device v out s = Some (res, t)" and "wf_state s"
  shows "wf_state t \<and> (\<forall>k p. surplus k p t = surplus k p s)"
  using assms
  by (auto simp: hrx_semaphore_create_def split: if_splits option.splits elim!: bind_SomeE
      dest!: status_eqD dest: semaphore_create_handle_surplus)

lemma semaphore_calls_surplus:
  "hrx_semaphore_query E h out s = Some (res, t) \<Longrightarrow> wf_state s \<Longrightarrow> wf_state t \<and> (\<forall>k p. surplus k p t = surplus k p s)"
  "hrx_semaphore_wait E h v ns s = Some (res, t) \<Longrightarrow> wf_state s \<Longrightarrow> wf_state t \<and> (\<forall>k p. surplus k p t = surplus k p s)"
  "hrx_semaphore_signal E h v s = Some (res, t) \<Longrightarrow> wf_state s \<Longrightarrow> wf_state t \<and> (\<forall>k p. surplus k p t = surplus k p s)"
  by (auto simp: hrx_semaphore_query_def hrx_semaphore_wait_def hrx_semaphore_signal_def
      HalSemaphore_query_into_def HalSemaphore_wait_def HalSemaphore_signal_def ffi_pair
      split: if_splits elim!: bind_SomeE dest!: status_eqD)

end
