(* ===== verification/Fence.thy ===== *)
theory Fence
  imports Semaphore
begin

text \<open>
  Timeline fences (\<open>hrx-libhrx/src/fence.rs\<close>). A fence owns one IREE fence and no device
  reference. The theory also states the timeout conversion that fences and semaphores share.
\<close>

section \<open>Operations\<close>

definition drop_fence :: "env \<Rightarrow> hrx_fence_s \<Rightarrow> hrx \<Rightarrow> hrx option" where
  "drop_fence E x s = Some (HalFence_drop E (fence_hal x) s)"

definition fence_hal_ptr :: "ptr \<Rightarrow> hrx \<Rightarrow> ptr option" where
  "fence_hal_ptr fence s = do { x \<leftarrow> handle_ref as_fence fence s; Some (fence_hal x) }"

definition hrx_fence_create :: "env \<Rightarrow> usize \<Rightarrow> ptr \<Rightarrow> hrx \<Rightarrow> (hrx_status \<times> hrx) option" where
  "hrx_fence_create E capacity fence s =
     (if fence = NULL then
        Some (hrx_make_status E (code_i32 InvalidArgument) (Some ''fence is NULL'') s)
      else do {
        let s = poke fence (CPtr NULL) s;
        (x, s) \<leftarrow> fence_create E capacity s;
        case x of
          Inr hal \<Rightarrow>
            (let (h, s) = into_handle (OFence \<lparr>fence_hal = hal\<rparr>) s
             in Some (hrx_ok_status, poke fence (CPtr h) s))
        | Inl st \<Rightarrow> Some (hrx_status_from_iree E st s) })"

definition hrx_fence_create_at ::
  "env \<Rightarrow> ptr \<Rightarrow> u64 \<Rightarrow> ptr \<Rightarrow> hrx \<Rightarrow> (hrx_status \<times> hrx) option" where
  "hrx_fence_create_at E semaphore v fence s =
     (if semaphore = NULL \<or> fence = NULL then
        Some (hrx_make_status E (code_i32 InvalidArgument) (Some ''semaphore or fence is NULL'') s)
      else do {
        let s = poke fence (CPtr NULL) s;
        sem \<leftarrow> semaphore_hal_ptr semaphore s;
        (x, s) \<leftarrow> fence_create_at E sem v s;
        case x of
          Inr hal \<Rightarrow>
            (let (h, s) = into_handle (OFence \<lparr>fence_hal = hal\<rparr>) s
             in Some (hrx_ok_status, poke fence (CPtr h) s))
        | Inl st \<Rightarrow> Some (hrx_status_from_iree E st s) })"

definition hrx_fence_retain :: "ptr \<Rightarrow> hrx \<Rightarrow> hrx option" where
  "hrx_fence_retain fence s = handle_retain as_fence fence s"

definition hrx_fence_release :: "env \<Rightarrow> ptr \<Rightarrow> hrx \<Rightarrow> hrx option" where
  "hrx_fence_release E fence s = handle_release as_fence (drop_fence E) fence s"

definition hrx_fence_insert :: "env \<Rightarrow> ptr \<Rightarrow> ptr \<Rightarrow> u64 \<Rightarrow> hrx \<Rightarrow> (hrx_status \<times> hrx) option" where
  "hrx_fence_insert E fence semaphore v s =
     (if fence = NULL \<or> semaphore = NULL then
        Some (hrx_make_status E (code_i32 InvalidArgument) (Some ''fence or semaphore is NULL'') s)
      else do {
        f \<leftarrow> handle_ref as_fence fence s;
        sem \<leftarrow> semaphore_hal_ptr semaphore s;
        let (st, s) = HalFence_insert E (fence_hal f) sem v s;
        Some (hrx_status_from_iree E st s) })"

definition hrx_fence_extend :: "env \<Rightarrow> ptr \<Rightarrow> ptr \<Rightarrow> hrx \<Rightarrow> (hrx_status \<times> hrx) option" where
  "hrx_fence_extend E into_fence from_fence s =
     (if into_fence = NULL \<or> from_fence = NULL then
        Some (hrx_make_status E (code_i32 InvalidArgument) (Some ''into_fence or from_fence is NULL'') s)
      else do {
        into_ref \<leftarrow> handle_ref as_fence into_fence s;
        from_ref \<leftarrow> handle_ref as_fence from_fence s;
        let (st, s) = HalFence_extend E (fence_hal into_ref) (fence_hal from_ref) s;
        Some (hrx_status_from_iree E st s) })"

definition hrx_fence_signal :: "env \<Rightarrow> ptr \<Rightarrow> hrx \<Rightarrow> (hrx_status \<times> hrx) option" where
  "hrx_fence_signal E fence s =
     (if fence = NULL then
        Some (hrx_make_status E (code_i32 InvalidArgument) (Some ''fence is NULL'') s)
      else do {
        f \<leftarrow> handle_ref as_fence fence s;
        let (st, s) = HalFence_signal E (fence_hal f) s;
        Some (hrx_status_from_iree E st s) })"

definition hrx_fence_wait :: "env \<Rightarrow> ptr \<Rightarrow> u64 \<Rightarrow> hrx \<Rightarrow> (hrx_status \<times> hrx) option" where
  "hrx_fence_wait E fence timeout_ns s =
     (if fence = NULL then
        Some (hrx_make_status E (code_i32 InvalidArgument) (Some ''fence is NULL'') s)
      else do {
        f \<leftarrow> handle_ref as_fence fence s;
        let (st, s) = HalFence_wait E (fence_hal f) (timeout_from_ns timeout_ns) s;
        Some (hrx_status_from_iree E st s) })"

section \<open>Facts\<close>

interpretation fence: refcounted hrx_fence_retain "hrx_fence_release E" "refs as_fence" observe wf_heap
  for E :: env
  using refcounted_handle [of as_fence "drop_fence E"]
  by (simp add: hrx_fence_retain_def [abs_def] hrx_fence_release_def [abs_def])

interpretation fence_drop: owned_object as_fence OFence "drop_fence E"
  for E :: env
  by unfold_locales (auto simp: drop_fence_def one_ref_def)

lemma fence_release_surplus:
  assumes "hrx_fence_release E h s = Some t" and "wf_state s"
  shows "wf_state t \<and> (\<forall>k p. surplus k p t = surplus k p s)"
  using assms fence_drop.release_surplus unfolding hrx_fence_release_def by blast

lemma fence_create_surplus:
  "hrx_fence_create E n out s = Some (res, t) \<Longrightarrow> wf_state s \<Longrightarrow> wf_state t \<and> (\<forall>k p. surplus k p t = surplus k p s)"
  "hrx_fence_create_at E sem v out s = Some (res, t) \<Longrightarrow> wf_state s \<Longrightarrow>
     wf_state t \<and> (\<forall>k p. surplus k p t = surplus k p s)"
  by (auto simp: hrx_fence_create_def hrx_fence_create_at_def fence_create_def fence_create_at_def
      into_handle_eq Let_def split: if_splits sum.splits prod.splits elim!: bind_SomeE
      dest!: status_eqD create_owned_InlD create_owned_InrD)

lemma fence_calls_surplus:
  "hrx_fence_insert E h sem v s = Some (res, t) \<Longrightarrow> wf_state s \<Longrightarrow> wf_state t \<and> (\<forall>k p. surplus k p t = surplus k p s)"
  "hrx_fence_extend E h h' s = Some (res, t) \<Longrightarrow> wf_state s \<Longrightarrow> wf_state t \<and> (\<forall>k p. surplus k p t = surplus k p s)"
  "hrx_fence_signal E h s = Some (res, t) \<Longrightarrow> wf_state s \<Longrightarrow> wf_state t \<and> (\<forall>k p. surplus k p t = surplus k p s)"
  "hrx_fence_wait E h ns s = Some (res, t) \<Longrightarrow> wf_state s \<Longrightarrow> wf_state t \<and> (\<forall>k p. surplus k p t = surplus k p s)"
  by (auto simp: hrx_fence_insert_def hrx_fence_extend_def hrx_fence_signal_def hrx_fence_wait_def
      HalFence_insert_def HalFence_extend_def HalFence_signal_def HalFence_wait_def ffi_pair
      split: if_splits elim!: bind_SomeE dest!: status_eqD)

lemma sint_u64:
  "sint (w :: u64) = (if unat w < 2 ^ 63 then int (unat w) else int (unat w) - 2 ^ 64)"
proof -
  let ?u = "uint w"
  have s: "sint w = (?u + 2 ^ 63) mod 2 ^ 64 - 2 ^ 63"
    by (simp add: sint_uint signed_take_bit_eq_take_bit_shift take_bit_eq_mod)
  have b: "0 \<le> ?u" "?u < 2 ^ 64" using uint_lt2p [of w] by simp_all
  have u: "int (unat w) = ?u" by simp
  have lt: "unat w < 2 ^ 63 \<longleftrightarrow> ?u < 2 ^ 63"
    using of_nat_less_iff [of "unat w" "2 ^ 63", where 'a = int] u by simp
  show ?thesis
  proof (cases "?u < 2 ^ 63")
    case True
    then have "(?u + 2 ^ 63) mod 2 ^ 64 = ?u + 2 ^ 63" using b by (intro mod_pos_pos_trivial) simp_all
    with True s show ?thesis unfolding lt u by simp
  next
    case False
    have "(?u + 2 ^ 63) mod 2 ^ 64 = (?u - 2 ^ 63 + 2 ^ 64) mod 2 ^ 64"
      by (simp add: add.commute)
    also have "\<dots> = (?u - 2 ^ 63) mod 2 ^ 64" by (rule mod_add_self2)
    also have "\<dots> = ?u - 2 ^ 63" using b False by (intro mod_pos_pos_trivial) simp_all
    finally show ?thesis using False s unfolding lt u by simp
  qed
qed

section \<open>Properties\<close>

text \<open>
  The timeout of a wait. Waiting on a live semaphore or fence makes one wait call, whose
  timeout is infinite exactly for the largest 64-bit value, an immediate poll exactly for zero,
  and otherwise relative: for less than \<open>2 ^ 63\<close> nanoseconds it is the requested duration,
  from there on the cast to \<open>i64\<close> makes it a negative duration.
\<close>

theorem wait_timeout_conversion:
  assumes "handle_ref as_semaphore h s = Some x" and "h \<noteq> NULL"
    and "handle_ref as_fence f s = Some y" and "f \<noteq> NULL"
  shows "\<exists>T. hrx_semaphore_wait E h v ns s =
      (let c = Dev (iree_hal_semaphore_wait (sem_hal x) v T)
       in Some (hrx_status_from_iree E (r_status (iree E (trace s) c)) (ffi_do E c s))) \<and>
    hrx_fence_wait E f ns s =
      (let c = Dev (iree_hal_fence_wait (fence_hal y) T)
       in Some (hrx_status_from_iree E (r_status (iree E (trace s) c)) (ffi_do E c s))) \<and>
    (T = timeout_infinite \<longleftrightarrow> unat ns = 2 ^ 64 - 1) \<and> (T = timeout_immediate \<longleftrightarrow> ns = 0) \<and>
    (T \<noteq> timeout_infinite \<and> T \<noteq> timeout_immediate \<longrightarrow> timeout_type T = IREE_TIMEOUT_RELATIVE \<and>
      sint (timeout_nanos T) = (if unat ns < 2 ^ 63 then int (unat ns) else int (unat ns) - 2 ^ 64))"
proof -
  have m: "unat ns = 2 ^ 64 - 1 \<longleftrightarrow> ns = 2 ^ 64 - 1"
    by (simp add: word_unat_eq_iff)
  have ne: "timeout_infinite \<noteq> timeout_immediate"
    by (simp add: timeout_infinite_def timeout_immediate_def IREE_TIME_INFINITE_FUTURE_def
        IREE_TIME_INFINITE_PAST_def)
  have rel: "timeout_relative_ns n \<noteq> timeout_infinite" "timeout_relative_ns n \<noteq> timeout_immediate" for n
    by (simp_all add: timeout_infinite_def timeout_immediate_def timeout_relative_ns_def
        IREE_TIMEOUT_RELATIVE_def IREE_TIMEOUT_ABSOLUTE_def)
  have T: "(timeout_from_ns ns = timeout_infinite \<longleftrightarrow> unat ns = 2 ^ 64 - 1) \<and>
      (timeout_from_ns ns = timeout_immediate \<longleftrightarrow> ns = 0)"
    using ne rel unfolding m by (auto simp: timeout_from_ns_def)
  have R: "timeout_from_ns ns = timeout_relative_ns ns"
    if "timeout_from_ns ns \<noteq> timeout_infinite \<and> timeout_from_ns ns \<noteq> timeout_immediate"
    using that by (auto simp: timeout_from_ns_def split: if_splits)
  show ?thesis
    using assms T R
    by (intro exI [of _ "timeout_from_ns ns"])
      (auto simp: hrx_semaphore_wait_def hrx_fence_wait_def HalSemaphore_wait_def HalFence_wait_def
        ffi_pair sint_u64 timeout_relative_ns_def Let_def)
qed

text \<open>The demo device with a semaphore at address 2 and a fence at address 3.\<close>

definition demo_sync :: hrx where
  "demo_sync = snd (into_handle (OFence \<lparr>fence_hal = 61\<rparr>)
     (snd (into_handle (OSemaphore \<lparr>sem_hal = 60, sem_device = 1\<rparr>) demo_state)))"

lemma demo_sync_refs [simp]:
  "handle_ref as_semaphore 2 demo_sync = Some \<lparr>sem_hal = 60, sem_device = 1\<rparr>"
  "handle_ref as_fence 3 demo_sync = Some \<lparr>fence_hal = 61\<rparr>"
  "handle_ref as_device 1 demo_sync = Some demo_device"
  by (simp_all add: handle_ref_def demo_sync_def demo_state_def hrx_initial_def)

lemmas demo_sync_refs_Suc [simp] = demo_sync_refs [unfolded One_nat_def]

lemma wf_demo_sync [simp]: "wf_state demo_sync"
  by (simp add: demo_sync_def)

theorem wait_timeout_conversion_witness:
  "\<exists>T. hrx_fence_wait demo_env 3 (2 ^ 63) demo_sync =
      (let c = Dev (iree_hal_fence_wait 61 T)
       in Some (hrx_status_from_iree demo_env (r_status (iree demo_env (trace demo_sync) c))
         (ffi_do demo_env c demo_sync))) \<and>
     T \<noteq> timeout_infinite \<and> T \<noteq> timeout_immediate \<and> sint (timeout_nanos T) = - (2 ^ 63)"
  using wait_timeout_conversion [OF demo_sync_refs(1) _ demo_sync_refs(2), of demo_env 0 "2 ^ 63"]
  by auto

end
