(* ===== verification/Buffer.thy ===== *)
theory Buffer
  imports Fence
begin

text \<open>
  Buffers and allocators (\<open>hrx-libhrx/src/buffer.rs\<close>): allocation, import, virtual and physical
  memory, mapping, and the synchronous transfers. The stream-ordered \<open>hrx_buffer_allocate\<close> is in
  \<open>Buffer_Allocate\<close>, since it drives a stream and an exact pool.

  An \<open>hrx_allocator_t\<close> is an interior pointer of its device, and is modelled by the address of
  that device. The mutable map state of a buffer is the field \<open>buf_map\<close>.
\<close>

section \<open>Data\<close>

record hrx_buffer_params =
  hp_type :: u32
  hp_access :: u16
  hp_usage :: u32
  hp_queue_affinity :: u64

definition HRX_MAP_READ :: u32 where "HRX_MAP_READ = ucast IREE_HAL_MEMORY_ACCESS_READ"
definition HRX_MAP_WRITE :: u32 where "HRX_MAP_WRITE = ucast IREE_HAL_MEMORY_ACCESS_WRITE"
definition HRX_MAP_DISCARD :: u32 where "HRX_MAP_DISCARD = ucast IREE_HAL_MEMORY_ACCESS_DISCARD"

text \<open>The drop of a live mapping: unmap and ignore the status.\<close>

definition drop_mapped_range :: "env \<Rightarrow> mapped_range \<Rightarrow> hrx \<Rightarrow> hrx" where
  "drop_mapped_range E m s =
     (let (r, s) = ffi E (Mem (iree_hal_buffer_unmap_range (mr_ptr m))) s
      in ffi_do E (Host (iree_status_free (r_status r))) s)"

text \<open>Field drop: mapping, buffer, pool, device.\<close>

definition drop_buffer :: "env \<Rightarrow> hrx_buffer_s \<Rightarrow> hrx \<Rightarrow> hrx option" where
  "drop_buffer E b s =
     (let s = (case buf_map b of None \<Rightarrow> s | Some m \<Rightarrow> drop_mapped_range E m s);
          s = HalBuffer_drop E (buf_hal_buffer b) s;
          s = (case buf_hal_pool b of None \<Rightarrow> s | Some q \<Rightarrow> HalPool_drop E q s)
      in DeviceRef_drop E (buf_device b) s)"

definition buffer_hal :: "ptr \<Rightarrow> hrx \<Rightarrow> ptr option" where
  "buffer_hal buffer s = do { b \<leftarrow> handle_ref as_buffer buffer s; Some (buf_hal_buffer b) }"

text \<open>A new buffer object, not mapped, holding its device.\<close>

definition new_buffer :: "ptr \<Rightarrow> ptr option \<Rightarrow> ptr \<Rightarrow> u32 \<Rightarrow> usize \<Rightarrow> hobj" where
  "new_buffer hal_buffer hal_pool device mem_type sz =
     OBuffer \<lparr>buf_map = None, buf_hal_buffer = hal_buffer, buf_hal_pool = hal_pool,
       buf_device = device, buf_mem_type = mem_type, buf_size = sz\<rparr>"

section \<open>Allocators\<close>

definition allocator_ref :: "ptr \<Rightarrow> hrx \<Rightarrow> hrx_allocator_inline option" where
  "allocator_ref allocator s = do { d \<leftarrow> handle_ref as_device allocator s; Some (dev_allocator d) }"

definition hrx_device_allocator :: "ptr \<Rightarrow> ptr" where
  "hrx_device_allocator device = device"

definition hrx_allocator_retain :: "env \<Rightarrow> ptr \<Rightarrow> hrx \<Rightarrow> hrx option" where
  "hrx_allocator_retain E allocator s = do {
     al \<leftarrow> allocator_ref allocator s;
     let s = ffi_do E (Retain HalAllocator (al_hal_allocator al)) s;
     hrx_device_retain (al_device al) s }"

definition hrx_allocator_release :: "env \<Rightarrow> ptr \<Rightarrow> hrx \<Rightarrow> hrx option" where
  "hrx_allocator_release E allocator s = do {
     al \<leftarrow> allocator_ref allocator s;
     let s = ffi_do E (Release HalAllocator (al_hal_allocator al)) s;
     hrx_device_release E (al_device al) s }"

definition hal_params :: "hrx_buffer_params \<Rightarrow> buffer_params" where
  "hal_params params = \<lparr>bp_usage = hp_usage params, bp_access = hp_access params, bp_type = hp_type params,
     bp_queue_affinity = hp_queue_affinity params, bp_min_alignment = 0\<rparr>"

text \<open>
  The common tail of the allocating calls: on OK take the buffer (panicking on a null one),
  retain the allocator's device, and store a new handle.
\<close>

definition finish_buffer ::
  "env \<Rightarrow> create_fn \<Rightarrow> ptr \<Rightarrow> u32 \<Rightarrow> usize \<Rightarrow> ptr \<Rightarrow> hrx \<Rightarrow> (hrx_status \<times> hrx) option" where
  "finish_buffer E call device mem_type sz out s = do {
     let (r, s) = ffi E (Create call) s;
     if \<not> status_is_ok (r_status r) then Some (hrx_status_from_iree E (r_status r) s)
     else do {
       hal_buffer \<leftarrow> HalBuffer_from_owned (r_ptr r);
       (device, s) \<leftarrow> DeviceRef_retain device s;
       let (h, s) = into_handle (new_buffer hal_buffer None device mem_type sz) s;
       Some (hrx_ok_status, poke out (CPtr h) s) } }"

definition hrx_allocator_allocate_buffer ::
  "env \<Rightarrow> ptr \<Rightarrow> hrx_buffer_params \<Rightarrow> usize \<Rightarrow> ptr \<Rightarrow> hrx \<Rightarrow> (hrx_status \<times> hrx) option" where
  "hrx_allocator_allocate_buffer E allocator params sz buffer s =
     (if allocator = NULL \<or> buffer = NULL then
        Some (hrx_make_status E (code_i32 InvalidArgument) (Some ''allocator or buffer is NULL'') s)
      else do {
        al \<leftarrow> allocator_ref allocator s;
        finish_buffer E (iree_hal_allocator_allocate_buffer (al_hal_allocator al) (hal_params params) sz)
          (al_device al) (hp_type params) sz buffer s })"

definition hrx_allocator_import_buffer ::
  "env \<Rightarrow> ptr \<Rightarrow> hrx_buffer_params \<Rightarrow> ptr \<Rightarrow> usize \<Rightarrow> ptr \<Rightarrow> hrx \<Rightarrow> (hrx_status \<times> hrx) option" where
  "hrx_allocator_import_buffer E allocator params host_ptr sz buffer s =
     (if allocator = NULL \<or> host_ptr = NULL \<or> buffer = NULL then
        Some (hrx_make_status E (code_i32 InvalidArgument)
          (Some ''allocator, host_ptr, or buffer is NULL'') s)
      else do {
        al \<leftarrow> allocator_ref allocator s;
        finish_buffer E (iree_hal_allocator_import_buffer (al_hal_allocator al) (hal_params params) host_ptr sz)
          (al_device al) (hp_type params) sz buffer s })"

section \<open>Buffers\<close>

definition hrx_buffer_retain :: "ptr \<Rightarrow> hrx \<Rightarrow> hrx option" where
  "hrx_buffer_retain buffer s = handle_retain as_buffer buffer s"

definition hrx_buffer_release :: "env \<Rightarrow> ptr \<Rightarrow> hrx \<Rightarrow> hrx option" where
  "hrx_buffer_release E buffer s = handle_release as_buffer (drop_buffer E) buffer s"

definition map_access :: "u32 \<Rightarrow> u16" where
  "map_access fl =
     (let access = 0;
          access = (if fl AND HRX_MAP_READ \<noteq> 0 then access OR IREE_HAL_MEMORY_ACCESS_READ else access);
          access = (if fl AND HRX_MAP_WRITE \<noteq> 0 then access OR IREE_HAL_MEMORY_ACCESS_WRITE else access)
      in if fl AND HRX_MAP_DISCARD \<noteq> 0 then access OR IREE_HAL_MEMORY_ACCESS_DISCARD_WRITE else access)"

definition hrx_buffer_map ::
  "env \<Rightarrow> ptr \<Rightarrow> u32 \<Rightarrow> usize \<Rightarrow> usize \<Rightarrow> ptr \<Rightarrow> hrx \<Rightarrow> (hrx_status \<times> hrx) option" where
  "hrx_buffer_map E buffer fl off sz mapped_ptr s =
     (if buffer = NULL \<or> mapped_ptr = NULL then
        Some (hrx_make_status E (code_i32 InvalidArgument) (Some ''buffer or mapped_ptr is NULL'') s)
      else do {
        buf \<leftarrow> handle_ref as_buffer buffer s;
        if buf_map buf \<noteq> None then
          Some (hrx_make_status E (code_i32 FailedPrecondition) (Some ''buffer is already mapped'') s)
        else
          let (r, s) = ffi E (Mem (iree_hal_buffer_map_range (buf_hal_buffer buf) (map_access fl) off sz)) s
          in if \<not> status_is_ok (r_status r) then Some (hrx_status_from_iree E (r_status r) s)
             else
               let s = handle_set buffer (OBuffer (buf\<lparr>buf_map := Some \<lparr>mr_ptr = r_ptr r\<rparr>\<rparr>)) s
               in Some (hrx_ok_status, poke mapped_ptr (CPtr (r_ptr r)) s) })"

definition hrx_buffer_unmap :: "env \<Rightarrow> ptr \<Rightarrow> hrx \<Rightarrow> (hrx_status \<times> hrx) option" where
  "hrx_buffer_unmap E buffer s =
     (if buffer = NULL then
        Some (hrx_make_status E (code_i32 InvalidArgument) (Some ''buffer is NULL'') s)
      else do {
        buf \<leftarrow> handle_ref as_buffer buffer s;
        let s = handle_set buffer (OBuffer (buf\<lparr>buf_map := None\<rparr>)) s;
        case buf_map buf of
          None \<Rightarrow> Some (hrx_ok_status, s)
        | Some m \<Rightarrow>
            (let (r, s) = ffi E (Mem (iree_hal_buffer_unmap_range (mr_ptr m))) s
             in Some (hrx_status_from_iree E (r_status r) s)) })"

definition hrx_buffer_get_device_ptr :: "env \<Rightarrow> ptr \<Rightarrow> ptr \<Rightarrow> hrx \<Rightarrow> (hrx_status \<times> hrx) option" where
  "hrx_buffer_get_device_ptr E buffer device_ptr s =
     (if buffer = NULL \<or> device_ptr = NULL then
        Some (hrx_make_status E (code_i32 InvalidArgument) (Some ''buffer or device_ptr is NULL'') s)
      else do {
        buf \<leftarrow> handle_ref as_buffer buffer s;
        case buf_map buf of
          Some m \<Rightarrow> Some (hrx_ok_status, poke device_ptr (CPtr (mr_ptr m)) s)
        | None \<Rightarrow>
            (let (r, s) = ffi E (Mem (iree_hal_buffer_map_range (buf_hal_buffer buf)
                                        IREE_HAL_MEMORY_ACCESS_ALL 0 (buf_size buf))) s
             in if status_is_ok (r_status r) then
                  let s = handle_set buffer (OBuffer (buf\<lparr>buf_map := Some \<lparr>mr_ptr = r_ptr r\<rparr>\<rparr>)) s
                  in Some (hrx_ok_status, poke device_ptr (CPtr (r_ptr r)) s)
                else
                  let s = ffi_do E (Host (iree_status_free (r_status r))) s;
                      s = poke device_ptr (CPtr NULL) s
                  in Some (hrx_make_status E (code_i32 Unavailable)
                       (Some ''cannot get device pointer for this buffer type'') s)) })"

definition hrx_buffer_get_size :: "env \<Rightarrow> ptr \<Rightarrow> ptr \<Rightarrow> hrx \<Rightarrow> (hrx_status \<times> hrx) option" where
  "hrx_buffer_get_size E buffer out s =
     (if buffer = NULL \<or> out = NULL then
        Some (hrx_make_status E (code_i32 InvalidArgument) (Some ''buffer or size is NULL'') s)
      else do {
        buf \<leftarrow> handle_ref as_buffer buffer s;
        Some (hrx_ok_status, poke out (CU64 (buf_size buf)) s) })"

section \<open>Synchronous transfers\<close>

definition hrx_synchronous_h2d ::
  "env \<Rightarrow> ptr \<Rightarrow> ptr \<Rightarrow> ptr \<Rightarrow> usize \<Rightarrow> usize \<Rightarrow> hrx \<Rightarrow> (hrx_status \<times> hrx) option" where
  "hrx_synchronous_h2d E device host_src dst dst_offset sz s =
     (if device = NULL \<or> host_src = NULL \<or> dst = NULL then
        Some (hrx_make_status E (code_i32 InvalidArgument) (Some ''NULL argument'') s)
      else do {
        dst_buf \<leftarrow> handle_ref as_buffer dst s;
        if dst_offset + sz > buf_size dst_buf then
          Some (hrx_make_status E (code_i32 OutOfRange) (Some ''transfer exceeds buffer size'') s)
        else do {
          dev \<leftarrow> handle_ref as_device device s;
          let (r, s) = ffi E (Dev (iree_hal_device_transfer_h2d (dev_hal_device dev) host_src
                                     (buf_hal_buffer dst_buf) dst_offset sz timeout_infinite)) s;
          Some (hrx_status_from_iree E (r_status r) s) } })"

definition hrx_synchronous_d2h ::
  "env \<Rightarrow> ptr \<Rightarrow> ptr \<Rightarrow> usize \<Rightarrow> ptr \<Rightarrow> usize \<Rightarrow> hrx \<Rightarrow> (hrx_status \<times> hrx) option" where
  "hrx_synchronous_d2h E device src src_offset host_dst sz s =
     (if device = NULL \<or> src = NULL \<or> host_dst = NULL then
        Some (hrx_make_status E (code_i32 InvalidArgument) (Some ''NULL argument'') s)
      else do {
        src_buf \<leftarrow> handle_ref as_buffer src s;
        if src_offset + sz > buf_size src_buf then
          Some (hrx_make_status E (code_i32 OutOfRange) (Some ''transfer exceeds buffer size'') s)
        else do {
          dev \<leftarrow> handle_ref as_device device s;
          let (r, s) = ffi E (Dev (iree_hal_device_transfer_d2h (dev_hal_device dev)
                                     (buf_hal_buffer src_buf) src_offset host_dst sz timeout_infinite)) s;
          Some (hrx_status_from_iree E (r_status r) s) } })"

section \<open>Virtual and physical memory\<close>

definition vm_params :: "u32 \<Rightarrow> buffer_params" where
  "vm_params mem_type = \<lparr>bp_usage = 0xC03, bp_access = IREE_HAL_MEMORY_ACCESS_ALL, bp_type = mem_type,
     bp_queue_affinity = 0, bp_min_alignment = 0\<rparr>"

text \<open>\<open>if !out.is_null() { *out = v; }\<close>\<close>

definition poke_opt :: "ptr \<Rightarrow> cell \<Rightarrow> hrx \<Rightarrow> hrx" where
  "poke_opt a c s = (if a = NULL then s else poke a c s)"

definition hrx_allocator_query_virtual_memory ::
  "env \<Rightarrow> ptr \<Rightarrow> u32 \<Rightarrow> ptr \<Rightarrow> ptr \<Rightarrow> ptr \<Rightarrow> hrx \<Rightarrow> (hrx_status \<times> hrx) option" where
  "hrx_allocator_query_virtual_memory E allocator mem_type supported min_page_size recommended_page_size s =
     (if allocator = NULL \<or> supported = NULL then
        Some (hrx_make_status E (code_i32 InvalidArgument) (Some ''allocator or supported is NULL'') s)
      else do {
        al \<leftarrow> allocator_ref allocator s;
        let (r, s) = ffi E (Mem (iree_hal_allocator_supports_virtual_memory (al_hal_allocator al))) s;
        let s = poke supported (CBool (r_flag r)) s;
        if \<not> r_flag r then
          Some (hrx_ok_status, poke_opt recommended_page_size (CU64 0) (poke_opt min_page_size (CU64 0) s))
        else
          let (r, s) = ffi E (Mem (iree_hal_allocator_virtual_memory_query_granularity
                                     (al_hal_allocator al) (vm_params mem_type))) s
          in if \<not> status_is_ok (r_status r) then
               let s = poke supported (CBool False) s;
                   s = poke_opt recommended_page_size (CU64 0) (poke_opt min_page_size (CU64 0) s)
               in Some (hrx_ok_status, ffi_do E (Host (iree_status_free (r_status r))) s)
             else
               Some (hrx_ok_status, poke_opt recommended_page_size (CU64 (r_val2 r))
                      (poke_opt min_page_size (CU64 (r_val r)) s)) })"

definition HRX_MEMORY_TYPE_DEVICE_LOCAL :: u32 where "HRX_MEMORY_TYPE_DEVICE_LOCAL = 0x30"

definition hrx_allocator_virtual_memory_reserve ::
  "env \<Rightarrow> ptr \<Rightarrow> u64 \<Rightarrow> usize \<Rightarrow> ptr \<Rightarrow> hrx \<Rightarrow> (hrx_status \<times> hrx) option" where
  "hrx_allocator_virtual_memory_reserve E allocator affinity sz virtual_buffer s =
     (if allocator = NULL \<or> virtual_buffer = NULL then
        Some (hrx_make_status E (code_i32 InvalidArgument) (Some ''NULL argument'') s)
      else do {
        al \<leftarrow> allocator_ref allocator s;
        finish_buffer E (iree_hal_allocator_virtual_memory_reserve (al_hal_allocator al) affinity sz)
          (al_device al) HRX_MEMORY_TYPE_DEVICE_LOCAL sz virtual_buffer s })"

text \<open>
  The destructive release takes the sole reference apart (it panics when there are others) and
  hands the HAL buffer to \<open>virtual_memory_release\<close> instead of dropping it.
\<close>

definition hrx_allocator_virtual_memory_release ::
  "env \<Rightarrow> ptr \<Rightarrow> ptr \<Rightarrow> hrx \<Rightarrow> (hrx_status \<times> hrx) option" where
  "hrx_allocator_virtual_memory_release E allocator virtual_buffer s =
     (if allocator = NULL \<or> virtual_buffer = NULL then
        Some (hrx_make_status E (code_i32 InvalidArgument) (Some ''NULL argument'') s)
      else do {
        (inner, s) \<leftarrow> into_inner_handle as_buffer virtual_buffer s;
        b \<leftarrow> inner;
        let hal_ptr = HalBuffer_into_raw (buf_hal_buffer b);
        let s = (case buf_map b of None \<Rightarrow> s | Some m \<Rightarrow> drop_mapped_range E m s);
        let s = (case buf_hal_pool b of None \<Rightarrow> s | Some q \<Rightarrow> HalPool_drop E q s);
        al \<leftarrow> allocator_ref allocator s;
        let (r, s) = ffi E (Mem (iree_hal_allocator_virtual_memory_release (al_hal_allocator al) hal_ptr)) s;
        s \<leftarrow> DeviceRef_drop E (buf_device b) s;
        Some (hrx_status_from_iree E (r_status r) s) })"

text \<open>
  The physical memory pointer is written by IREE itself through the caller's out-pointer; the
  reply says whether it was.
\<close>

definition hrx_allocator_physical_memory_allocate ::
  "env \<Rightarrow> ptr \<Rightarrow> u32 \<Rightarrow> usize \<Rightarrow> ptr \<Rightarrow> hrx \<Rightarrow> (hrx_status \<times> hrx) option" where
  "hrx_allocator_physical_memory_allocate E allocator mem_type sz physical s =
     (if allocator = NULL \<or> physical = NULL then
        Some (hrx_make_status E (code_i32 InvalidArgument) (Some ''NULL argument'') s)
      else do {
        al \<leftarrow> allocator_ref allocator s;
        let (r, s) = ffi E (Mem (iree_hal_allocator_physical_memory_allocate (al_hal_allocator al)
                                   (vm_params mem_type) sz)) s;
        let s = (if r_flag r then poke physical (CPtr (r_ptr r)) s else s);
        Some (hrx_status_from_iree E (r_status r) s) })"

definition hrx_allocator_physical_memory_free ::
  "env \<Rightarrow> ptr \<Rightarrow> ptr \<Rightarrow> hrx \<Rightarrow> (hrx_status \<times> hrx) option" where
  "hrx_allocator_physical_memory_free E allocator physical s =
     (if allocator = NULL \<or> physical = NULL then
        Some (hrx_make_status E (code_i32 InvalidArgument) (Some ''NULL argument'') s)
      else do {
        al \<leftarrow> allocator_ref allocator s;
        let (r, s) = ffi E (Mem (iree_hal_allocator_physical_memory_free (al_hal_allocator al) physical)) s;
        Some (hrx_status_from_iree E (r_status r) s) })"

definition hrx_allocator_virtual_memory_map ::
  "env \<Rightarrow> ptr \<Rightarrow> ptr \<Rightarrow> usize \<Rightarrow> ptr \<Rightarrow> usize \<Rightarrow> usize \<Rightarrow> hrx \<Rightarrow> (hrx_status \<times> hrx) option" where
  "hrx_allocator_virtual_memory_map E allocator virtual_buffer virtual_offset physical physical_offset sz s =
     (if allocator = NULL \<or> virtual_buffer = NULL \<or> physical = NULL then
        Some (hrx_make_status E (code_i32 InvalidArgument) (Some ''NULL argument'') s)
      else do {
        al \<leftarrow> allocator_ref allocator s;
        b \<leftarrow> buffer_hal virtual_buffer s;
        let (r, s) = ffi E (Mem (iree_hal_allocator_virtual_memory_map (al_hal_allocator al) b virtual_offset
                                   physical physical_offset sz)) s;
        Some (hrx_status_from_iree E (r_status r) s) })"

definition hrx_allocator_virtual_memory_unmap ::
  "env \<Rightarrow> ptr \<Rightarrow> ptr \<Rightarrow> usize \<Rightarrow> usize \<Rightarrow> hrx \<Rightarrow> (hrx_status \<times> hrx) option" where
  "hrx_allocator_virtual_memory_unmap E allocator virtual_buffer virtual_offset sz s =
     (if allocator = NULL \<or> virtual_buffer = NULL then
        Some (hrx_make_status E (code_i32 InvalidArgument) (Some ''NULL argument'') s)
      else do {
        al \<leftarrow> allocator_ref allocator s;
        b \<leftarrow> buffer_hal virtual_buffer s;
        let (r, s) = ffi E (Mem (iree_hal_allocator_virtual_memory_unmap (al_hal_allocator al) b
                                   virtual_offset sz)) s;
        Some (hrx_status_from_iree E (r_status r) s) })"

definition hrx_allocator_virtual_memory_protect ::
  "env \<Rightarrow> ptr \<Rightarrow> ptr \<Rightarrow> usize \<Rightarrow> usize \<Rightarrow> u32 \<Rightarrow> hrx \<Rightarrow> (hrx_status \<times> hrx) option" where
  "hrx_allocator_virtual_memory_protect E allocator virtual_buffer virtual_offset sz protection s =
     (if allocator = NULL \<or> virtual_buffer = NULL then
        Some (hrx_make_status E (code_i32 InvalidArgument) (Some ''NULL argument'') s)
      else do {
        al \<leftarrow> allocator_ref allocator s;
        b \<leftarrow> buffer_hal virtual_buffer s;
        let (r, s) = ffi E (Mem (iree_hal_allocator_virtual_memory_protect (al_hal_allocator al) b
                                   virtual_offset sz IREE_HAL_QUEUE_AFFINITY_ANY protection)) s;
        Some (hrx_status_from_iree E (r_status r) s) })"

section \<open>Ownership\<close>

interpretation buffer: refcounted hrx_buffer_retain "hrx_buffer_release E" "refs as_buffer" observe wf_heap
  for E :: env
  using refcounted_handle [of as_buffer "drop_buffer E"]
  by (simp add: hrx_buffer_retain_def [abs_def] hrx_buffer_release_def [abs_def])

lemma drop_mapped_range_facts [simp]:
  "wf_state (drop_mapped_range E m s) = wf_state s"
  "surplus k p (drop_mapped_range E m s) = surplus k p s - one_ref k p BufferMapping (mr_ptr m)"
  "arcs (drop_mapped_range E m s) = arcs s"
  by (simp_all add: drop_mapped_range_def ffi_pair)

lemma DeviceRef_drop_eqD:
  assumes "DeviceRef_drop E d s = Some t" and "wf_state s"
  shows "wf_state t \<and> (\<forall>k p. surplus k p t = surplus k p s)"
  using DeviceRef_drop_surplus [OF assms] by blast

interpretation buffer_drop: owned_object as_buffer OBuffer "drop_buffer E"
  for E :: env
  by unfold_locales
    (auto simp: drop_buffer_def Let_def split: option.splits dest!: DeviceRef_drop_eqD)

lemma buffer_release_surplus:
  assumes "hrx_buffer_release E h s = Some t" and "wf_state s"
  shows "wf_state t \<and> (\<forall>k p. surplus k p t = surplus k p s)"
  using assms buffer_drop.release_surplus unfolding hrx_buffer_release_def by blast

lemma finish_buffer_surplus:
  assumes "finish_buffer E f d mt sz out s = Some (res, t)" and "wf_state s" and "kind_of f = HalBuffer"
  shows "wf_state t \<and> (\<forall>k p. surplus k p t = surplus k p s)"
  using assms
  by (auto simp: finish_buffer_def ffi_pair into_handle_eq new_buffer_def status_is_ok_def Let_def
      split: if_splits prod.splits elim!: bind_SomeE dest!: status_eqD DeviceRef_retain_eqD)

lemma allocate_surplus:
  "hrx_allocator_allocate_buffer E al ps n out s = Some (res, t) \<Longrightarrow> wf_state s \<Longrightarrow>
     wf_state t \<and> (\<forall>k p. surplus k p t = surplus k p s)"
  "hrx_allocator_import_buffer E al ps host n out s = Some (res, t) \<Longrightarrow> wf_state s \<Longrightarrow>
     wf_state t \<and> (\<forall>k p. surplus k p t = surplus k p s)"
  "hrx_allocator_virtual_memory_reserve E al aff n out s = Some (res, t) \<Longrightarrow> wf_state s \<Longrightarrow>
     wf_state t \<and> (\<forall>k p. surplus k p t = surplus k p s)"
  by (auto simp: hrx_allocator_allocate_buffer_def hrx_allocator_import_buffer_def
      hrx_allocator_virtual_memory_reserve_def split: if_splits elim!: bind_SomeE
      dest!: status_eqD dest: finish_buffer_surplus)

lemma handle_ref_as_bufferD: "handle_ref as_buffer h s = Some b \<Longrightarrow> \<exists>a. arcs s h = Some a \<and> arc_obj a = OBuffer b"
  by (auto simp: handle_ref_Some)

lemma buffer_map_surplus:
  "hrx_buffer_map E h fl off n out s = Some (res, t) \<Longrightarrow> wf_state s \<Longrightarrow>
     wf_state t \<and> (\<forall>k p. surplus k p t = surplus k p s)"
  "hrx_buffer_unmap E h s = Some (res, t) \<Longrightarrow> wf_state s \<Longrightarrow>
     wf_state t \<and> (\<forall>k p. surplus k p t = surplus k p s)"
  "hrx_buffer_get_device_ptr E h out s = Some (res, t) \<Longrightarrow> wf_state s \<Longrightarrow>
     wf_state t \<and> (\<forall>k p. surplus k p t = surplus k p s)"
  by (auto simp: hrx_buffer_map_def hrx_buffer_unmap_def hrx_buffer_get_device_ptr_def ffi_pair Let_def
      status_is_ok_def surplus_handle_set
      split: if_splits option.splits elim!: bind_SomeE dest!: status_eqD handle_ref_as_bufferD)

lemma virtual_memory_release_surplus:
  assumes "hrx_allocator_virtual_memory_release E al vb s = Some (res, t)" and "wf_state s"
  shows "wf_state t \<and> (\<forall>k p. surplus k p t = surplus k p s)"
  using assms
  by (auto simp: hrx_allocator_virtual_memory_release_def ffi_pair Let_def
      split: if_splits option.splits elim!: bind_SomeE
      dest!: status_eqD DeviceRef_drop_eqD buffer_drop.into_inner_surplus)

section \<open>Properties\<close>

lemma handle_set_same: "arcs s h = Some a \<Longrightarrow> arc_obj a = x \<Longrightarrow> handle_set h x s = s"
  by (auto simp: handle_set_def map_upd_triv)

lemma handle_ref_status [simp]:
  "handle_ref as h (snd (hrx_status_from_iree E st s)) = handle_ref as h s"
  "handle_ref as h (snd (hrx_make_status E c m s)) = handle_ref as h s"
  "handle_ref as h (ffi_do E call s) = handle_ref as h s"
  "handle_ref as h (poke a v s) = handle_ref as h s"
  by (simp_all add: handle_ref_def)

text \<open>
  C33. A scoped mapping. On a live unmapped buffer whose map IREE accepts, \<open>hrx_buffer_map\<close>
  hands out the mapped address and remembers it: mapping again is refused without a foreign call,
  \<open>hrx_buffer_get_device_ptr\<close> returns the same address without a foreign call, unmapping undoes
  exactly that mapping and leaves the buffer as it was before the map, and unmapping once more is
  a no-op.
\<close>

theorem buffer_map_unmap:
  assumes buf: "handle_ref as_buffer h s = Some b" "buf_map b = None"
    and args: "h \<noteq> NULL" "out \<noteq> NULL" "out2 \<noteq> NULL"
    and ok: "r = iree E (trace s) (Mem (iree_hal_buffer_map_range (buf_hal_buffer b) (map_access fl) off n))"
      "r_status r = NULL"
    and mapped: "hrx_buffer_map E h fl off n out s = Some (res, t)"
    and unmapped: "hrx_buffer_unmap E h t = Some (res', u)"
  shows "res = hrx_ok_status \<and> mem t out = CPtr (r_ptr r) \<and>
    hrx_buffer_map E h fl' off' n' out2 t =
      Some (hrx_make_status E (code_i32 FailedPrecondition) (Some ''buffer is already mapped'') t) \<and>
    hrx_buffer_get_device_ptr E h out2 t = Some (hrx_ok_status, poke out2 (CPtr (r_ptr r)) t) \<and>
    (\<exists>r' rest. trace u = trace t @ (Mem (iree_hal_buffer_unmap_range (r_ptr r)), r') # rest) \<and>
    handle_ref as_buffer h u = Some b \<and> arcs u = arcs s \<and> hrx_buffer_unmap E h u = Some (hrx_ok_status, u)"
proof -
  let ?c = "Mem (iree_hal_buffer_map_range (buf_hal_buffer b) (map_access fl) off n)"
  let ?b = "b\<lparr>buf_map := Some \<lparr>mr_ptr = r_ptr r\<rparr>\<rparr>"
  obtain a where a: "arcs s h = Some a" "arc_obj a = OBuffer b"
    using handle_ref_as_bufferD [OF buf(1)] by blast
  have t: "res = hrx_ok_status" "t = poke out (CPtr (r_ptr r)) (handle_set h (OBuffer ?b) (ffi_do E ?c s))"
    using mapped buf args ok by (simp_all add: hrx_buffer_map_def ffi_pair Let_def status_is_ok_def)
  have ht: "handle_ref as_buffer h t = Some ?b" using a by (simp add: t)
  have at: "arcs t = (arcs s)(h \<mapsto> a\<lparr>arc_obj := OBuffer ?b\<rparr>)" using a by (simp add: t arcs_handle_set)
  have b0: "?b\<lparr>buf_map := None\<rparr> = b" using buf(2) by (cases b) simp
  let ?c' = "Mem (iree_hal_buffer_unmap_range (r_ptr r))"
  let ?t = "handle_set h (OBuffer b) t"
  have u: "u = snd (hrx_status_from_iree E (r_status (iree E (trace t) ?c')) (ffi_do E ?c' ?t))"
    using unmapped ht args b0 by (auto simp: hrx_buffer_unmap_def ffi_pair Let_def)
  then have "\<exists>r' rest. trace u = trace t @ (?c', r') # rest"
    using status_from_iree_trace [of E "r_status (iree E (trace t) ?c')" "ffi_do E ?c' ?t"] by auto
  moreover have "arcs u = arcs s"
    using a at by (auto simp: u arcs_handle_set fun_eq_iff)
  moreover have hu: "handle_ref as_buffer h u = Some b"
    using calculation(2) buf(1) by (simp add: handle_ref_def)
  moreover have "hrx_buffer_unmap E h u = Some (hrx_ok_status, u)"
    using hu args buf(2) handle_set_same [of u h a "OBuffer b"] a calculation(2)
    by (cases b) (simp add: hrx_buffer_unmap_def Let_def)
  ultimately show ?thesis
    using t ht args by (simp add: hrx_buffer_map_def hrx_buffer_get_device_ptr_def)
qed

text \<open>
  C12. The bounds check of the synchronous transfers. For live handles and a range whose end
  does not overflow 64 bits, the transfer is submitted to the device exactly when the range lies
  inside the buffer; otherwise the call fails with \<open>OutOfRange\<close> and reaches no device.
\<close>

theorem transfer_bounds_check:
  assumes "handle_ref as_buffer h s = Some b" "h \<noteq> NULL"
    and "handle_ref as_device d s = Some dev" "d \<noteq> NULL" "host \<noteq> NULL"
    and fits: "unat off + unat n < 2 ^ 64"
    and h2d: "hrx_synchronous_h2d E d host h off n s = Some (res, t)"
    and d2h: "hrx_synchronous_d2h E d h off host n s = Some (res', u)"
  shows "if unat off + unat n \<le> unat (buf_size b)
    then (\<exists>r rest. trace t = trace s @
           (Dev (iree_hal_device_transfer_h2d (dev_hal_device dev) host (buf_hal_buffer b) off n timeout_infinite), r)
           # rest) \<and>
         (\<exists>r rest. trace u = trace s @
           (Dev (iree_hal_device_transfer_d2h (dev_hal_device dev) (buf_hal_buffer b) off host n timeout_infinite), r)
           # rest)
    else trace t = trace s \<and> trace u = trace s \<and>
         (malloc_ok E (mallocs s) \<longrightarrow>
            hrx_status_code res = code_i32 OutOfRange \<and> hrx_status_code res' = code_i32 OutOfRange)"
proof -
  have gt: "off + n > buf_size b \<longleftrightarrow> \<not> unat off + unat n \<le> unat (buf_size b)"
    using word64_no_overflow [OF fits] by (auto simp: word_less_nat_alt)
  show ?thesis
  proof (cases "unat off + unat n \<le> unat (buf_size b)")
    case True
    let ?c = "Dev (iree_hal_device_transfer_h2d (dev_hal_device dev) host (buf_hal_buffer b) off n timeout_infinite)"
    let ?c' = "Dev (iree_hal_device_transfer_d2h (dev_hal_device dev) (buf_hal_buffer b) off host n timeout_infinite)"
    have "t = snd (hrx_status_from_iree E (r_status (iree E (trace s) ?c)) (ffi_do E ?c s))"
      using h2d assms(1-5) gt True by (auto simp: hrx_synchronous_h2d_def ffi_pair)
    moreover have "u = snd (hrx_status_from_iree E (r_status (iree E (trace s) ?c')) (ffi_do E ?c' s))"
      using d2h assms(1-5) gt True by (auto simp: hrx_synchronous_d2h_def ffi_pair)
    ultimately show ?thesis
      using True status_from_iree_trace [of E "r_status (iree E (trace s) ?c)" "ffi_do E ?c s"]
        status_from_iree_trace [of E "r_status (iree E (trace s) ?c')" "ffi_do E ?c' s"] by auto
  next
    case False
    let ?m = "Some ''transfer exceeds buffer size''"
    have "hrx_make_status E (code_i32 OutOfRange) ?m s = (res, t)"
      using h2d assms(1,2,4,5) gt False by (simp add: hrx_synchronous_h2d_def)
    moreover have "hrx_make_status E (code_i32 OutOfRange) ?m s = (res', u)"
      using d2h assms(1,2,4,5) gt False by (simp add: hrx_synchronous_d2h_def)
    moreover have "malloc_ok E (mallocs s) \<Longrightarrow>
        hrx_status_code (fst (hrx_make_status E (code_i32 OutOfRange) ?m s)) = code_i32 OutOfRange"
      by (simp add: hrx_make_status_code)
    ultimately show ?thesis
      using False make_status_eqD [of E "code_i32 OutOfRange" ?m s res t] by simp
  qed
qed

text \<open>The demo device with one unmapped buffer of 16 bytes, at address 2.\<close>

definition demo_buffer :: hrx_buffer_s where
  "demo_buffer = \<lparr>buf_map = None, buf_hal_buffer = 70, buf_hal_pool = Some 71, buf_device = 1,
     buf_mem_type = 0, buf_size = 16\<rparr>"

definition demo_mem :: hrx where
  "demo_mem = snd (into_handle (OBuffer demo_buffer) demo_state)"

lemma demo_mem_refs [simp]:
  "handle_ref as_buffer 2 demo_mem = Some demo_buffer"
  "handle_ref as_device 1 demo_mem = Some demo_device"
  by (simp_all add: handle_ref_def demo_mem_def demo_state_def hrx_initial_def)

lemmas demo_mem_refs_Suc [simp] = demo_mem_refs [unfolded One_nat_def]

lemma wf_demo_mem [simp]: "wf_state demo_mem"
  by (simp add: demo_mem_def)

theorem buffer_map_unmap_witness:
  "\<exists>t u. hrx_buffer_map demo_env 2 1 0 16 500 demo_mem = Some (hrx_ok_status, t) \<and> mem t 500 = CPtr 100 \<and>
     (\<exists>res'. hrx_buffer_unmap demo_env 2 t = Some (res', u)) \<and> arcs u = arcs demo_mem"
proof -
  have b: "buf_map demo_buffer = None" by (simp add: demo_buffer_def)
  have ok: "r_status (iree demo_env (trace demo_mem)
      (Mem (iree_hal_buffer_map_range (buf_hal_buffer demo_buffer) (map_access 1) 0 16))) = NULL"
    "r_ptr (iree demo_env (trace demo_mem)
      (Mem (iree_hal_buffer_map_range (buf_hal_buffer demo_buffer) (map_access 1) 0 16))) = 100"
    by (simp_all add: demo_mem_def demo_state_def hrx_initial_def)
  obtain res t where t: "hrx_buffer_map demo_env 2 1 0 16 500 demo_mem = Some (res, t)"
    using ok b by (simp add: hrx_buffer_map_def ffi_pair status_is_ok_def Let_def)
  have "arcs demo_mem 2 \<noteq> None"
    by (simp add: demo_mem_def demo_state_def hrx_initial_def)
  then have "\<exists>x. handle_ref as_buffer 2 t = Some x"
    using t ok b by (auto simp: hrx_buffer_map_def ffi_pair status_is_ok_def Let_def)
  then have "\<exists>x. hrx_buffer_unmap demo_env 2 t = Some x"
    by (auto simp: hrx_buffer_unmap_def ffi_pair Let_def split: option.split)
  then obtain res' u where u: "hrx_buffer_unmap demo_env 2 t = Some (res', u)" by force
  show ?thesis
    using buffer_map_unmap [OF demo_mem_refs(1) b _ _ _ refl ok(1) t u, of 600] t u ok(2) by simp
qed

theorem transfer_bounds_check_witness:
  "\<exists>t r rest. hrx_synchronous_h2d demo_env 1 900 2 8 8 demo_mem = Some (None, t) \<and>
     trace t = trace demo_mem @ (Dev (iree_hal_device_transfer_h2d 52 900 70 8 8 timeout_infinite), r) # rest"
proof -
  have "\<exists>t. hrx_synchronous_h2d demo_env 1 900 2 8 8 demo_mem = Some (None, t)"
    "\<exists>u. hrx_synchronous_d2h demo_env 1 2 8 900 8 demo_mem = Some (None, u)"
    by (simp_all add: hrx_synchronous_h2d_def hrx_synchronous_d2h_def ffi_pair demo_buffer_def)
  then obtain t u where t: "hrx_synchronous_h2d demo_env 1 900 2 8 8 demo_mem = Some (None, t)"
    and u: "hrx_synchronous_d2h demo_env 1 2 8 900 8 demo_mem = Some (None, u)" by blast
  show ?thesis
    using transfer_bounds_check [OF demo_mem_refs(1) _ demo_mem_refs(2) _ _ _ t u] t
    by (simp add: demo_buffer_def demo_device_def)
qed


text \<open>The calls a device makes when its last reference goes.\<close>

definition device_teardown :: "hrx_device_s \<Rightarrow> iree_call list" where
  "device_teardown d = [Release HalAllocator (al_hal_allocator (dev_allocator d)),
     Release HalDeviceGroup (dev_hal_device_group d), Release HalDevice (dev_hal_device d)]"

lemma device_release_calls:
  assumes "arcs s h = Some a" and "arc_obj a = ODevice d"
  shows "\<exists>t. hrx_device_release E h s = Some t \<and>
    map fst (trace t) = map fst (trace s) @ (if strong a = 1 then device_teardown d else []) \<and>
    (\<forall>h'. h' \<noteq> h \<longrightarrow> arcs t h' = arcs s h')"
  using assms
  by (cases "strong a = 1")
    (auto simp: hrx_device_release_def handle_release_def drop_device_def device_teardown_def Let_def)

text \<open>
  The teardown order of a buffer. Releasing the last reference to a buffer makes, in this
  order and nothing else: the unmap of a mapping that is still live (its status freed), the
  release of the IREE buffer, the release of the pool of a stream-ordered allocation, and, when
  the buffer held the last reference to its device, the device's own teardown of allocator,
  group and device. The handle is gone afterwards.
\<close>

theorem buffer_drop_order:
  assumes "arcs s h = Some a" "arc_obj a = OBuffer b" "strong a = 1"
    and "arcs s (buf_device b) = Some c" "arc_obj c = ODevice d"
  shows "\<exists>t. hrx_buffer_release E h s = Some t \<and> arcs t h = None \<and>
    map fst (trace t) = map fst (trace s)
      @ (case buf_map b of None \<Rightarrow> [] | Some m \<Rightarrow>
           [Mem (iree_hal_buffer_unmap_range (mr_ptr m)),
            Host (iree_status_free (r_status (iree E (trace s) (Mem (iree_hal_buffer_unmap_range (mr_ptr m))))))])
      @ [Release HalBuffer (buf_hal_buffer b)]
      @ (case buf_hal_pool b of None \<Rightarrow> [] | Some q \<Rightarrow> [Release HalPool q])
      @ (if strong c = 1 then device_teardown d else [])"
proof -
  let ?s0 = "s\<lparr>arcs := (arcs s)(h := None)\<rparr>"
  define s1 where "s1 = (case buf_map b of None \<Rightarrow> ?s0 | Some m \<Rightarrow> drop_mapped_range E m ?s0)"
  define s2 where "s2 = ffi_do E (Release HalBuffer (buf_hal_buffer b)) s1"
  define s3 where "s3 = (case buf_hal_pool b of None \<Rightarrow> s2 | Some q \<Rightarrow> ffi_do E (Release HalPool q) s2)"
  have ne: "buf_device b \<noteq> h" using assms by auto
  have arcs3: "arcs s3 = (arcs s)(h := None)"
    by (simp add: s3_def s2_def s1_def split: option.split)
  have dev: "arcs s3 (buf_device b) = Some c" using arcs3 ne assms(4) by simp
  obtain t where t: "hrx_device_release E (buf_device b) s3 = Some t"
      "map fst (trace t) = map fst (trace s3) @ (if strong c = 1 then device_teardown d else [])"
      "\<forall>h'. h' \<noteq> buf_device b \<longrightarrow> arcs t h' = arcs s3 h'"
    using device_release_calls [OF dev assms(5)] by blast
  have "hrx_buffer_release E h s = Some t"
    using assms(1-3) t(1)
    by (simp add: hrx_buffer_release_def handle_release_def drop_buffer_def Let_def DeviceRef_drop_def
        s3_def s2_def s1_def split: option.splits)
  moreover have "arcs t h = None" using t(3) ne arcs3 by simp
  moreover have "map fst (trace s3) = map fst (trace s)
      @ (case buf_map b of None \<Rightarrow> [] | Some m \<Rightarrow>
           [Mem (iree_hal_buffer_unmap_range (mr_ptr m)),
            Host (iree_status_free (r_status (iree E (trace s) (Mem (iree_hal_buffer_unmap_range (mr_ptr m))))))])
      @ [Release HalBuffer (buf_hal_buffer b)]
      @ (case buf_hal_pool b of None \<Rightarrow> [] | Some q \<Rightarrow> [Release HalPool q])"
    by (simp add: s3_def s2_def s1_def drop_mapped_range_def ffi_pair split: option.split)
  ultimately show ?thesis using t(2) by simp
qed

theorem buffer_drop_order_witness:
  "\<exists>t. hrx_buffer_release demo_env 2 demo_mem = Some t \<and> arcs t 2 = None \<and>
     map fst (trace t) = [Release HalBuffer 70, Release HalPool 71, Release HalAllocator 50,
       Release HalDeviceGroup 51, Release HalDevice 52]"
proof -
  have a: "arcs demo_mem 2 = Some \<lparr>strong = 1, arc_obj = OBuffer demo_buffer\<rparr>"
    "arcs demo_mem (buf_device demo_buffer) = Some \<lparr>strong = 1, arc_obj = ODevice demo_device\<rparr>"
    "trace demo_mem = []"
    by (simp_all add: demo_mem_def demo_state_def hrx_initial_def demo_buffer_def)
  show ?thesis
    using buffer_drop_order [OF a(1) _ _ a(2), of demo_device demo_env] a(3)
    by (simp add: demo_buffer_def demo_device_def device_teardown_def)
qed

end
