(* ===== verification/Host_Allocator.thy ===== *)
theory Host_Allocator
  imports Buffer
begin

text \<open>
  The public host-allocator ABI (\<open>hrx-libhrx/src/host_allocator.rs\<close>): each function passes its
  arguments on to the IREE allocator of the same name and converts the status. IREE itself writes
  the caller's out-pointer; the reply says whether it did and what it wrote.
\<close>

type_synonym hrx_host_allocator = "ptr \<times> ptr"

definition to_iree :: "hrx_host_allocator \<Rightarrow> iree_allocator" where
  "to_iree a = (fst a, snd a)"

text \<open>The value the load-time constructor stores in \<open>hrx_host_allocator_system_value\<close>.\<close>

definition host_allocator_init :: "env \<Rightarrow> hrx_host_allocator" where
  "host_allocator_init E = (let sys = allocator_system E in (fst sys, snd sys))"

text \<open>A call that stores a pointer through \<open>out\<close>, and the conversion of its status.\<close>

definition host_alloc_call :: "env \<Rightarrow> host_fn \<Rightarrow> ptr \<Rightarrow> hrx \<Rightarrow> hrx_status \<times> hrx" where
  "host_alloc_call E f out s =
     (let (r, s) = ffi E (Host f) s;
          s = (if r_flag r then poke out (CPtr (r_ptr r)) s else s)
      in hrx_status_from_iree E (r_status r) s)"

definition hrx_host_allocator_malloc ::
  "env \<Rightarrow> hrx_host_allocator \<Rightarrow> usize \<Rightarrow> ptr \<Rightarrow> hrx \<Rightarrow> hrx_status \<times> hrx" where
  "hrx_host_allocator_malloc E a n out s = host_alloc_call E (iree_allocator_malloc (to_iree a) n) out s"

definition hrx_host_allocator_malloc_uninitialized ::
  "env \<Rightarrow> hrx_host_allocator \<Rightarrow> usize \<Rightarrow> ptr \<Rightarrow> hrx \<Rightarrow> hrx_status \<times> hrx" where
  "hrx_host_allocator_malloc_uninitialized E a n out s =
     host_alloc_call E (iree_allocator_malloc_uninitialized (to_iree a) n) out s"

definition hrx_host_allocator_realloc ::
  "env \<Rightarrow> hrx_host_allocator \<Rightarrow> usize \<Rightarrow> ptr \<Rightarrow> hrx \<Rightarrow> (hrx_status \<times> hrx) option" where
  "hrx_host_allocator_realloc E a n inout s = do {
     p \<leftarrow> peek_ptr inout s;
     Some (host_alloc_call E (iree_allocator_realloc (to_iree a) n p) inout s) }"

definition hrx_host_allocator_clone ::
  "env \<Rightarrow> hrx_host_allocator \<Rightarrow> ptr \<Rightarrow> usize \<Rightarrow> ptr \<Rightarrow> hrx \<Rightarrow> hrx_status \<times> hrx" where
  "hrx_host_allocator_clone E a src n out s =
     host_alloc_call E (iree_allocator_clone (to_iree a) src n) out s"

definition hrx_host_allocator_free :: "env \<Rightarrow> hrx_host_allocator \<Rightarrow> ptr \<Rightarrow> hrx \<Rightarrow> hrx" where
  "hrx_host_allocator_free E a p s = ffi_do E (Host (iree_allocator_free (to_iree a) p)) s"

definition hrx_host_allocator_malloc_aligned ::
  "env \<Rightarrow> hrx_host_allocator \<Rightarrow> usize \<Rightarrow> usize \<Rightarrow> usize \<Rightarrow> ptr \<Rightarrow> hrx \<Rightarrow> hrx_status \<times> hrx" where
  "hrx_host_allocator_malloc_aligned E a n align off out s =
     host_alloc_call E (iree_allocator_malloc_aligned (to_iree a) n align off) out s"

definition hrx_host_allocator_realloc_aligned ::
  "env \<Rightarrow> hrx_host_allocator \<Rightarrow> usize \<Rightarrow> usize \<Rightarrow> usize \<Rightarrow> ptr \<Rightarrow> hrx \<Rightarrow> (hrx_status \<times> hrx) option" where
  "hrx_host_allocator_realloc_aligned E a n align off inout s = do {
     p \<leftarrow> peek_ptr inout s;
     Some (host_alloc_call E (iree_allocator_realloc_aligned (to_iree a) n align off p) inout s) }"

definition hrx_host_allocator_free_aligned :: "env \<Rightarrow> hrx_host_allocator \<Rightarrow> ptr \<Rightarrow> hrx \<Rightarrow> hrx" where
  "hrx_host_allocator_free_aligned E a p s = ffi_do E (Host (iree_allocator_free_aligned (to_iree a) p)) s"

lemma host_alloc_call_frame:
  assumes "host_alloc_call E f out s = (res, t)"
  shows "arcs t = arcs s \<and> G t = G s \<and> pools t = pools s \<and> next_addr t = next_addr s \<and>
    open_files t = open_files s"
  using assms by (auto simp: host_alloc_call_def ffi_pair Let_def split: if_splits dest!: status_eqD)

lemma host_allocator_surplus:
  "hrx_host_allocator_malloc E a n out s = (res, t) \<Longrightarrow> wf_state s \<Longrightarrow>
     wf_state t \<and> (\<forall>k p. surplus k p t = surplus k p s)"
  "hrx_host_allocator_malloc_uninitialized E a n out s = (res, t) \<Longrightarrow> wf_state s \<Longrightarrow>
     wf_state t \<and> (\<forall>k p. surplus k p t = surplus k p s)"
  "hrx_host_allocator_clone E a src n out s = (res, t) \<Longrightarrow> wf_state s \<Longrightarrow>
     wf_state t \<and> (\<forall>k p. surplus k p t = surplus k p s)"
  "hrx_host_allocator_realloc E a n out s = Some (res, t) \<Longrightarrow> wf_state s \<Longrightarrow>
     wf_state t \<and> (\<forall>k p. surplus k p t = surplus k p s)"
  "hrx_host_allocator_malloc_aligned E a n al off out s = (res, t) \<Longrightarrow> wf_state s \<Longrightarrow>
     wf_state t \<and> (\<forall>k p. surplus k p t = surplus k p s)"
  "hrx_host_allocator_realloc_aligned E a n al off out s = Some (res, t) \<Longrightarrow> wf_state s \<Longrightarrow>
     wf_state t \<and> (\<forall>k p. surplus k p t = surplus k p s)"
  by (auto simp: hrx_host_allocator_malloc_def hrx_host_allocator_malloc_uninitialized_def
      hrx_host_allocator_clone_def hrx_host_allocator_realloc_def hrx_host_allocator_malloc_aligned_def
      hrx_host_allocator_realloc_aligned_def host_alloc_call_def ffi_pair Let_def
      split: if_splits elim!: bind_SomeE dest!: status_eqD)

text \<open>The system allocator the constructor exports is the one the library itself uses.\<close>

lemma host_allocator_init_system: "to_iree (host_allocator_init E) = allocator_system E"
  by (simp add: to_iree_def host_allocator_init_def Let_def)

end
