(* ===== verification/Executable.thy ===== *)
theory Executable
  imports Host_Allocator
begin

text \<open>
  HAL executables (\<open>hrx-libhrx/src/executable.rs\<close>): loading from memory and from a file, and
  export introspection. What libc answers to the file calls is a parameter of the loader.
\<close>

section \<open>Operations\<close>

text \<open>Field drop: executable, cache, device.\<close>

definition drop_executable :: "env \<Rightarrow> hrx_executable_s \<Rightarrow> hrx \<Rightarrow> hrx option" where
  "drop_executable E x s =
     (let s = HalExecutable_drop E (exe_hal x) s;
          s = HalExecutableCache_drop E (exe_cache x) s
      in DeviceRef_drop E (exe_device x) s)"

definition executable_hal :: "ptr \<Rightarrow> hrx \<Rightarrow> ptr option" where
  "executable_hal executable s = do { x \<leftarrow> handle_ref as_executable executable s; Some (exe_hal x) }"

definition wrap_executable :: "ptr \<Rightarrow> ptr \<Rightarrow> ptr \<Rightarrow> ptr \<Rightarrow> hrx \<Rightarrow> (hrx_status \<times> hrx) option" where
  "wrap_executable device cache exe out s = do {
     hal \<leftarrow> HalExecutable_from_owned exe;
     ca \<leftarrow> HalExecutableCache_from_owned cache;
     (device, s) \<leftarrow> DeviceRef_retain device s;
     let (h, s) = into_handle (OExecutable \<lparr>exe_hal = hal, exe_cache = ca, exe_device = device\<rparr>) s;
     Some (hrx_ok_status, poke out (CPtr h) s) }"

definition hrx_executable_load_data ::
  "env \<Rightarrow> ptr \<Rightarrow> ptr \<Rightarrow> usize \<Rightarrow> string option \<Rightarrow> ptr \<Rightarrow> hrx \<Rightarrow> (hrx_status \<times> hrx) option" where
  "hrx_executable_load_data E device data n format executable s =
     (if device = NULL \<or> executable = NULL \<or> data = NULL \<or> n = 0 then
        Some (hrx_make_status E (code_i32 InvalidArgument)
          (Some ''device, executable_data, or executable is invalid'') s)
      else do {
        let s = poke executable (CPtr NULL) s;
        dev \<leftarrow> handle_ref as_device device s;
        let (r, s) = ffi E (Create (iree_hal_executable_cache_create (dev_hal_device dev))) s;
        let cache = r_ptr r;
        if \<not> status_is_ok (r_status r) then Some (hrx_status_from_iree E (r_status r) s)
        else if format = None \<or> format = Some [] then
          let s = ffi_do E (Release HalExecutableCache cache) s
          in Some (hrx_make_status E (code_i32 InvalidArgument) (Some ''executable_format is required'') s)
        else
          let (r, s) = ffi E (Create (iree_hal_executable_cache_prepare_executable cache (the format) data n)) s
          in if \<not> status_is_ok (r_status r) then
               let s = ffi_do E (Release HalExecutableCache cache) s
               in Some (hrx_status_from_iree E (r_status r) s)
             else wrap_executable device cache (r_ptr r) executable s })"

definition hrx_executable_retain :: "ptr \<Rightarrow> hrx \<Rightarrow> hrx option" where
  "hrx_executable_retain executable s =
     (if executable = NULL then Some s else handle_retain as_executable executable s)"

definition hrx_executable_release :: "env \<Rightarrow> ptr \<Rightarrow> hrx \<Rightarrow> hrx option" where
  "hrx_executable_release E executable s =
     (if executable = NULL then Some s
      else handle_release as_executable (drop_executable E) executable s)"

definition hrx_executable_export_count :: "env \<Rightarrow> ptr \<Rightarrow> ptr \<Rightarrow> hrx \<Rightarrow> (hrx_status \<times> hrx) option" where
  "hrx_executable_export_count E executable count s =
     (if executable = NULL \<or> count = NULL then
        Some (hrx_make_status E (code_i32 InvalidArgument) (Some ''executable or count is NULL'') s)
      else do {
        hal \<leftarrow> executable_hal executable s;
        let (r, s) = ffi E (Cmd (iree_hal_executable_function_count hal)) s;
        Some (hrx_ok_status, poke count (CU64 (r_val r)) s) })"

text \<open>The fields of \<open>hrx_executable_export_info_t\<close> are written at their offsets.\<close>

definition hrx_executable_export_info ::
  "env \<Rightarrow> ptr \<Rightarrow> u32 \<Rightarrow> ptr \<Rightarrow> hrx \<Rightarrow> (hrx_status \<times> hrx) option" where
  "hrx_executable_export_info E executable export_ordinal out_info s =
     (if executable = NULL \<or> out_info = NULL then
        Some (hrx_make_status E (code_i32 InvalidArgument) (Some ''executable or out_info is NULL'') s)
      else do {
        hal \<leftarrow> executable_hal executable s;
        let (r, s) = ffi E (Cmd (iree_hal_executable_function_info hal (ucast export_ordinal))) s;
        if \<not> status_is_ok (r_status r) then Some (hrx_status_from_iree E (r_status r) s)
        else
          let i = r_function r;
              s = poke out_info (CPtr (fi_name i)) s;
              s = poke (out_info + 8) (CU32 (fi_flags i)) s;
              s = poke (out_info + 12) (CU32 (ucast (fi_constant_count i))) s;
              s = poke (out_info + 16) (CU32 (ucast (fi_binding_count i))) s;
              s = poke (out_info + 20) (CU32 (ucast (fi_parameter_count i))) s;
              s = poke (out_info + 24) (CU32 (fst (fi_workgroup_size i))) s;
              s = poke (out_info + 28) (CU32 (fst (snd (fi_workgroup_size i)))) s;
              s = poke (out_info + 32) (CU32 (snd (snd (fi_workgroup_size i)))) s
          in Some (hrx_ok_status, s) })"

definition hrx_executable_lookup_export_by_name ::
  "env \<Rightarrow> ptr \<Rightarrow> string option \<Rightarrow> ptr \<Rightarrow> hrx \<Rightarrow> (hrx_status \<times> hrx) option" where
  "hrx_executable_lookup_export_by_name E executable name export_ordinal s =
     (if executable = NULL \<or> name = None \<or> export_ordinal = NULL then
        Some (hrx_make_status E (code_i32 InvalidArgument)
          (Some ''executable, name, or export_ordinal is NULL'') s)
      else do {
        hal \<leftarrow> executable_hal executable s;
        let (r, s) = ffi E (Cmd (iree_hal_executable_lookup_function_by_name hal (the name))) s;
        if \<not> status_is_ok (r_status r) then Some (hrx_status_from_iree E (r_status r) s)
        else if r_val r > 2 ^ 32 - 1 then
          Some (hrx_make_status E (code_i32 Unimplemented)
            (Some ''executable function is not a dense ordinal'') s)
        else Some (hrx_ok_status, poke export_ordinal (CU32 (ucast (r_val r))) s) })"

text \<open>What libc answers: whether \<open>fopen\<close> succeeds and the results of the calls that follow.\<close>

record libc_file =
  fopen_ok :: bool
  fseek_end :: i32
  ftell :: int
  fseek_set :: i32
  fread :: usize

definition fclose :: "hrx \<Rightarrow> hrx" where
  "fclose s = s\<lparr>open_files := open_files s - 1\<rparr>"

text \<open>
  \<open>hrx_executable_load_file\<close>. The file contents are passed on by address only, so the bytes
  \<open>fread\<close> stores are not represented; the allocation and its release are.
\<close>

definition hrx_executable_load_file ::
  "env \<Rightarrow> libc_file \<Rightarrow> ptr \<Rightarrow> string option \<Rightarrow> string option \<Rightarrow> ptr \<Rightarrow> hrx \<Rightarrow> (hrx_status \<times> hrx) option" where
  "hrx_executable_load_file E F device path format executable s =
     (if device = NULL \<or> path = None \<or> executable = NULL then
        Some (hrx_make_status E (code_i32 InvalidArgument) (Some ''device, path, or executable is NULL'') s)
      else
        let s = poke executable (CPtr NULL) s
        in if \<not> fopen_ok F then
             Some (hrx_make_status E (code_i32 NotFound) (Some ''failed to open executable file'') s)
           else
             let s = s\<lparr>open_files := open_files s + 1\<rparr>
             in if fseek_end F \<noteq> 0 then
                  Some (hrx_make_status E (code_i32 Internal) (Some ''failed to seek executable file'') (fclose s))
                else if ftell F \<le> 0 then
                  Some (hrx_make_status E (code_i32 InvalidArgument) (Some ''empty executable file'') (fclose s))
                else if fseek_set F \<noteq> 0 then
                  Some (hrx_make_status E (code_i32 Internal) (Some ''failed to rewind executable file'') (fclose s))
                else
                  let n = word_of_int (ftell F);
                      ha = allocator_system E;
                      (r, s) = ffi E (Host (iree_allocator_malloc_uninitialized (to_iree ha) n)) s;
                      file_data = (if r_flag r then r_ptr r else NULL);
                      (status, s) = hrx_status_from_iree E (r_status r) s
                  in if \<not> hrx_status_is_ok status then Some (status, fclose s)
                     else
                       let s = fclose s
                       in if fread F \<noteq> n then
                            let s = hrx_host_allocator_free E ha file_data s
                            in Some (hrx_make_status E (code_i32 DataLoss)
                                 (Some ''short read while loading executable file'') s)
                          else do {
                            (status, s) \<leftarrow> hrx_executable_load_data E device file_data n format executable s;
                            Some (status, hrx_host_allocator_free E ha file_data s) })"

section \<open>Facts\<close>

interpretation executable_drop: owned_object as_executable OExecutable "drop_executable E"
  for E :: env
  by unfold_locales (auto simp: drop_executable_def Let_def dest!: DeviceRef_drop_eqD)

lemma executable_release_surplus:
  assumes "hrx_executable_release E h s = Some t" and "wf_state s"
  shows "wf_state t \<and> (\<forall>k p. surplus k p t = surplus k p s)"
  using assms executable_drop.release_surplus
  unfolding hrx_executable_release_def by (auto split: if_splits)

lemma wrap_executable_eqD:
  assumes "wrap_executable d c x out s = Some (res, t)" and "wf_state s"
  shows "wf_state t \<and> open_files t = open_files s \<and>
    (\<forall>k p. surplus k p t = surplus k p s - one_ref k p HalExecutable x - one_ref k p HalExecutableCache c)"
  using assms
  by (auto simp: wrap_executable_def into_handle_eq split: if_splits prod.splits elim!: bind_SomeE
      dest!: DeviceRef_retain_eqD)

lemma load_data_surplus:
  assumes "hrx_executable_load_data E d data n fmt out s = Some (res, t)" and "wf_state s"
  shows "wf_state t \<and> open_files t = open_files s \<and> (\<forall>k p. surplus k p t = surplus k p s)"
  using assms
  by (auto simp: hrx_executable_load_data_def ffi_pair Let_def status_is_ok_def split: if_splits
      elim!: bind_SomeE dest!: status_eqD wrap_executable_eqD)

lemma executable_calls_surplus:
  "hrx_executable_export_count E h out s = Some (res, t) \<Longrightarrow> wf_state s \<Longrightarrow>
     wf_state t \<and> (\<forall>k p. surplus k p t = surplus k p s)"
  "hrx_executable_export_info E h i out s = Some (res, t) \<Longrightarrow> wf_state s \<Longrightarrow>
     wf_state t \<and> (\<forall>k p. surplus k p t = surplus k p s)"
  "hrx_executable_lookup_export_by_name E h nm out s = Some (res, t) \<Longrightarrow> wf_state s \<Longrightarrow>
     wf_state t \<and> (\<forall>k p. surplus k p t = surplus k p s)"
  by (auto simp: hrx_executable_export_count_def hrx_executable_export_info_def
      hrx_executable_lookup_export_by_name_def ffi_pair Let_def split: if_splits
      elim!: bind_SomeE dest!: status_eqD)

lemma open_file_facts [simp]:
  "surplus k p (s\<lparr>open_files := n\<rparr>) = surplus k p s"
  "wf_state (s\<lparr>open_files := n\<rparr>) = wf_state s"
  "surplus k p (fclose s) = surplus k p s"
  "wf_state (fclose s) = wf_state s"
  "open_files (fclose s) = open_files s - 1"
  by (simp_all add: surplus_def held_def wf_state_def wf_heap_def fclose_def)

section \<open>Properties\<close>

text \<open>
  Loading an executable from a file releases everything on every path: whatever libc and
  IREE answer, when the call returns the file has been closed if it was opened, and no IREE
  reference is leaked or released twice.
\<close>

theorem load_file_no_leak:
  assumes "hrx_executable_load_file E F d path fmt out s = Some (res, t)" and "wf_state s"
  shows "open_files t = open_files s \<and> (\<forall>k p. surplus k p t = surplus k p s)"
  using assms
  by (auto simp: hrx_executable_load_file_def ffi_pair Let_def hrx_host_allocator_free_def
      split: if_splits prod.splits elim!: bind_SomeE dest!: status_eqD load_data_surplus)

definition demo_file :: libc_file where
  "demo_file = \<lparr>fopen_ok = True, fseek_end = 0, ftell = 10, fseek_set = 0, fread = 4\<rparr>"

theorem load_file_no_leak_witness:
  "\<exists>res t. hrx_executable_load_file demo_env demo_file 1 (Some ''a.so'') (Some ''elf'') 500 demo_state = Some (res, t) \<and>
     open_files t = 0 \<and> surplus HalExecutable 7 t = surplus HalExecutable 7 demo_state"
proof -
  have "\<exists>x. hrx_executable_load_file demo_env demo_file 1 (Some ''a.so'') (Some ''elf'') 500 demo_state = Some x"
    by (simp add: hrx_executable_load_file_def demo_file_def Let_def ffi_pair prod.case_eq_if)
  then obtain res t where t: "hrx_executable_load_file demo_env demo_file 1 (Some ''a.so'') (Some ''elf'') 500 demo_state
      = Some (res, t)" by force
  show ?thesis
    using load_file_no_leak [OF t wf_demo_state] t by (simp add: demo_state_def hrx_initial_def)
qed

text \<open>
  The error ladder of \<open>hrx_executable_load_file\<close>: with valid arguments and memory for the
  status, each failing libc call gives its own code, and only when all succeed, the allocation is
  made and every byte is read does the data reach \<open>hrx_executable_load_data\<close>.
\<close>

theorem load_file_ladder:
  assumes "d \<noteq> NULL" "out \<noteq> NULL" "\<And>n. malloc_ok E n"
    and "hrx_executable_load_file E F d (Some path) fmt out s = Some (res, t)"
  shows "(\<not> fopen_ok F \<longrightarrow> hrx_status_code res = code_i32 NotFound) \<and>
    (fopen_ok F \<and> fseek_end F \<noteq> 0 \<longrightarrow> hrx_status_code res = code_i32 Internal) \<and>
    (fopen_ok F \<and> fseek_end F = 0 \<and> ftell F \<le> 0 \<longrightarrow> hrx_status_code res = code_i32 InvalidArgument) \<and>
    (fopen_ok F \<and> fseek_end F = 0 \<and> 0 < ftell F \<and> fseek_set F \<noteq> 0 \<longrightarrow>
       hrx_status_code res = code_i32 Internal) \<and>
    (fopen_ok F \<and> fseek_end F = 0 \<and> 0 < ftell F \<and> fseek_set F = 0 \<and>
     r_status (iree E (trace s) (Host (iree_allocator_malloc_uninitialized (allocator_system E)
       (word_of_int (ftell F))))) = NULL \<and> fread F \<noteq> word_of_int (ftell F) \<longrightarrow>
       hrx_status_code res = code_i32 DataLoss)"
  using assms make_status_codeD [OF _ assms(3)]
  by (auto simp: hrx_executable_load_file_def ffi_pair Let_def to_iree_def hrx_status_is_ok_def
      hrx_host_allocator_free_def split: if_splits prod.splits)

theorem load_file_ladder_witness:
  "\<exists>res t. hrx_executable_load_file demo_env (demo_file\<lparr>ftell := 0\<rparr>) 1 (Some ''a.so'') None 500 demo_state = Some (res, t) \<and>
     hrx_status_code res = code_i32 InvalidArgument"
proof -
  have "\<exists>x. hrx_executable_load_file demo_env (demo_file\<lparr>ftell := 0\<rparr>) 1 (Some ''a.so'') None 500 demo_state = Some x"
    by (simp add: hrx_executable_load_file_def demo_file_def Let_def)
  then obtain res t where t: "hrx_executable_load_file demo_env (demo_file\<lparr>ftell := 0\<rparr>) 1 (Some ''a.so'') None 500 demo_state
      = Some (res, t)" by force
  show ?thesis
    using load_file_ladder [OF _ _ demo_env_simps(8) t] t by (simp add: demo_file_def)
qed

text \<open>
  The ordinal of an export fits. Looking up an export of a live executable by name stores
  the function value exactly when IREE finds it and it is below \<open>2 ^ 32\<close>; then the stored
  32-bit ordinal has the same value. Otherwise nothing is stored and the call fails.
\<close>

theorem lookup_export_range:
  assumes "executable_hal h s = Some hal" "h \<noteq> NULL" "out \<noteq> NULL"
    and "r = iree E (trace s) (Cmd (iree_hal_executable_lookup_function_by_name hal name))"
    and "hrx_executable_lookup_export_by_name E h (Some name) out s = Some (res, t)"
  shows "if r_status r = NULL \<and> unat (r_val r) < 2 ^ 32
    then res = None \<and> (\<exists>v. mem t out = CU32 v \<and> unat v = unat (r_val r))
    else mem t = mem s \<and> (malloc_ok E (mallocs s) \<longrightarrow> res \<noteq> None)"
proof -
  let ?c = "Cmd (iree_hal_executable_lookup_function_by_name hal name)"
  have gt: "r_val r > 2 ^ 32 - 1 \<longleftrightarrow> \<not> unat (r_val r) < 2 ^ 32"
    by (auto simp: word_less_nat_alt)
  show ?thesis
  proof (cases "r_status r = NULL \<and> unat (r_val r) < 2 ^ 32")
    case True
    have u: "unat (ucast (r_val r) :: u32) = unat (r_val r)"
      using True by (simp add: unsigned_ucast_eq take_bit_nat_eq_self)
    have "(res, t) = (hrx_ok_status, poke out (CU32 (ucast (r_val r))) (ffi_do E ?c s))"
      using assms True gt
      by (simp add: hrx_executable_lookup_export_by_name_def ffi_pair status_is_ok_def)
    then show ?thesis using True u by (simp add: hrx_ok_status_def)
  next
    case False
    show ?thesis
    proof (cases "r_status r = NULL")
      case True
      then have mk: "hrx_make_status E (code_i32 Unimplemented)
          (Some ''executable function is not a dense ordinal'') (ffi_do E ?c s) = (res, t)"
        using False assms gt
        by (simp add: hrx_executable_lookup_export_by_name_def ffi_pair status_is_ok_def)
      show ?thesis
        using False make_status_eqD [OF mk] make_status_codeD [OF mk]
        by (auto simp: hrx_status_code_def HRX_STATUS_OK_def split: option.splits)
    next
      case nz: False
      then have mk: "hrx_status_from_iree E (r_status r) (ffi_do E ?c s) = (res, t)"
        using assms by (simp add: hrx_executable_lookup_export_by_name_def ffi_pair status_is_ok_def)
      show ?thesis
        using False status_from_iree_eqD [OF mk] hrx_status_from_iree_not_ok [of E "ffi_do E ?c s", OF _ nz] mk
        by (metis ffi_do_fields(4) ffi_do_fields(9) fst_conv)
    qed
  qed
qed

definition demo_exe :: hrx where
  "demo_exe = snd (into_handle (OExecutable \<lparr>exe_hal = 90, exe_cache = 91, exe_device = 1\<rparr>) demo_mem)"

lemma demo_exe_hal [simp]: "executable_hal 3 demo_exe = Some 90"
  by (simp add: executable_hal_def handle_ref_def demo_exe_def demo_mem_def demo_state_def hrx_initial_def)

theorem lookup_export_range_witness:
  "\<exists>t v. hrx_executable_lookup_export_by_name demo_env 3 (Some ''main'') 500 demo_exe = Some (None, t) \<and>
     mem t 500 = CU32 v \<and> unat v = 0"
proof -
  let ?r = "iree demo_env (trace demo_exe) (Cmd (iree_hal_executable_lookup_function_by_name 90 ''main''))"
  have r: "r_status ?r = NULL" "r_val ?r = 0" by (simp_all add: reply_ok_def)
  have "\<exists>t. hrx_executable_lookup_export_by_name demo_env 3 (Some ''main'') 500 demo_exe = Some (None, t)"
    using r by (simp add: hrx_executable_lookup_export_by_name_def ffi_pair status_is_ok_def hrx_ok_status_def)
  then obtain t where t:
    "hrx_executable_lookup_export_by_name demo_env 3 (Some ''main'') 500 demo_exe = Some (None, t)" by blast
  show ?thesis
    using lookup_export_range [OF demo_exe_hal _ _ refl t] t r by simp
qed

end
