(* ===== verification/Queue_Ops.thy ===== *)
theory Queue_Ops
  imports Executable
begin

text \<open>
  Direct queue operations (\<open>hrx-libhrx/src/queue_ops.rs\<close>): each call is a complete submission.
  The caller's semaphore lists and bindings are structs in memory and are read field by field;
  the translated semaphore lists live in stack arrays of sixteen slots, and a store past their end
  is undefined behaviour. A host call hands IREE a heap-allocated thunk that the trampoline frees.
\<close>

section \<open>Semaphore lists\<close>

definition HRX_MAX_QUEUE_SEMAPHORES :: nat where "HRX_MAX_QUEUE_SEMAPHORES = 16"

definition normalize_affinity :: "u64 \<Rightarrow> u64" where
  "normalize_affinity affinity = (if affinity = 0 then IREE_HAL_QUEUE_AFFINITY_ANY else affinity)"

text \<open>The loop that fills the stack arrays \<open>hal\<close> and \<open>vals\<close>.\<close>

fun sem_list_loop ::
  "nat list \<Rightarrow> ptr \<Rightarrow> ptr \<Rightarrow> hrx \<Rightarrow> ptr list \<Rightarrow> u64 list \<Rightarrow> (ptr list \<times> u64 list) option" where
  "sem_list_loop [] semaphores vs s hal vals = Some (hal, vals)"
| "sem_list_loop (i # is) semaphores vs s hal vals = do {
     sem \<leftarrow> peek_ptr (semaphores + 8 * i) s;
     h \<leftarrow> semaphore_hal_ptr sem s;
     v \<leftarrow> peek_u64 (vs + 8 * i) s;
     if i < length hal \<and> i < length vals
     then sem_list_loop is semaphores vs s (hal[i := h]) (vals[i := v])
     else None }"

text \<open>
  \<open>HrxSemaphoreList\<close> has the semaphore array at offset 0, the value array at 8 and the count at
  16. The caller passes arrays of \<open>HRX_MAX_QUEUE_SEMAPHORES\<close> slots.
\<close>

definition to_iree_sem_list :: "ptr \<Rightarrow> hrx \<Rightarrow> semaphore_list option" where
  "to_iree_sem_list list s =
     (if list = NULL then Some []
      else do {
        n \<leftarrow> peek_u64 (list + 16) s;
        if n = 0 then Some []
        else do {
          semaphores \<leftarrow> peek_ptr list s;
          vs \<leftarrow> peek_ptr (list + 8) s;
          (hal, vals) \<leftarrow> sem_list_loop [0..<unat n] semaphores vs s
             (replicate HRX_MAX_QUEUE_SEMAPHORES NULL) (replicate HRX_MAX_QUEUE_SEMAPHORES 0);
          Some (zip (take (unat n) hal) (take (unat n) vals)) } })"

section \<open>Command-buffer submissions\<close>

text \<open>
  The sequence \<open>hrx_queue_fill\<close> and \<open>hrx_queue_copy\<close> spell out: create and begin a one-shot
  command buffer, record one command, end, submit, release. Every failure after the creation
  releases the command buffer.
\<close>

definition queue_one_shot ::
  "env \<Rightarrow> ptr \<Rightarrow> u64 \<Rightarrow> ptr \<Rightarrow> ptr \<Rightarrow> (ptr \<Rightarrow> hrx \<Rightarrow> cmd_fn option) \<Rightarrow> hrx \<Rightarrow> (hrx_status \<times> hrx) option" where
  "queue_one_shot E device affinity wait_semaphores signal_semaphores record_cmd s = do {
     let qa = normalize_affinity affinity;
     dev \<leftarrow> handle_ref as_device device s;
     let (r, s) = ffi E (Create (iree_hal_command_buffer_create (dev_hal_device dev)
                                   IREE_HAL_COMMAND_CATEGORY_TRANSFER qa)) s;
     let cb = r_ptr r;
     if \<not> status_is_ok (r_status r) then Some (hrx_status_from_iree E (r_status r) s)
     else
       let (r, s) = ffi E (Cmd (iree_hal_command_buffer_begin cb)) s
       in if \<not> status_is_ok (r_status r) then
            let s = ffi_do E (Release HalCommandBuffer cb) s
            in Some (hrx_status_from_iree E (r_status r) s)
          else do {
            cmd \<leftarrow> record_cmd cb s;
            let (r, s) = ffi E (Cmd cmd) s;
            if \<not> status_is_ok (r_status r) then
              let s = ffi_do E (Release HalCommandBuffer cb) s
              in Some (hrx_status_from_iree E (r_status r) s)
            else
              let (r, s) = ffi E (Cmd (iree_hal_command_buffer_end cb)) s
              in if \<not> status_is_ok (r_status r) then
                   let s = ffi_do E (Release HalCommandBuffer cb) s
                   in Some (hrx_status_from_iree E (r_status r) s)
                 else do {
                   wl \<leftarrow> to_iree_sem_list wait_semaphores s;
                   sl \<leftarrow> to_iree_sem_list signal_semaphores s;
                   let (r, s) = ffi E (Dev (iree_hal_device_queue_execute (dev_hal_device dev) qa wl sl cb)) s;
                   let s = ffi_do E (Release HalCommandBuffer cb) s;
                   Some (hrx_status_from_iree E (r_status r) s) } } }"

definition hrx_queue_fill ::
  "env \<Rightarrow> ptr \<Rightarrow> u64 \<Rightarrow> ptr \<Rightarrow> ptr \<Rightarrow> ptr \<Rightarrow> usize \<Rightarrow> usize \<Rightarrow> ptr \<Rightarrow> usize \<Rightarrow> hrx \<Rightarrow> (hrx_status \<times> hrx) option" where
  "hrx_queue_fill E device affinity wait_semaphores signal_semaphores buffer off sz pattern pattern_size s =
     (if device = NULL \<or> buffer = NULL \<or> pattern = NULL then
        Some (hrx_make_status E (code_i32 InvalidArgument) (Some ''device, buffer, or pattern is NULL'') s)
      else queue_one_shot E device affinity wait_semaphores signal_semaphores
        (\<lambda>cb s. do { b \<leftarrow> buffer_hal buffer s;
                    Some (iree_hal_command_buffer_fill_buffer cb (make_buffer_ref b off sz) pattern pattern_size) }) s)"

definition hrx_queue_copy ::
  "env \<Rightarrow> ptr \<Rightarrow> u64 \<Rightarrow> ptr \<Rightarrow> ptr \<Rightarrow> ptr \<Rightarrow> usize \<Rightarrow> ptr \<Rightarrow> usize \<Rightarrow> usize \<Rightarrow> hrx \<Rightarrow> (hrx_status \<times> hrx) option" where
  "hrx_queue_copy E device affinity wait_semaphores signal_semaphores src src_offset dst dst_offset sz s =
     (if device = NULL \<or> src = NULL \<or> dst = NULL then
        Some (hrx_make_status E (code_i32 InvalidArgument) (Some ''device, src, or dst is NULL'') s)
      else queue_one_shot E device affinity wait_semaphores signal_semaphores
        (\<lambda>cb s. do { a \<leftarrow> buffer_hal src s;
                    b \<leftarrow> buffer_hal dst s;
                    Some (iree_hal_command_buffer_copy_buffer cb (make_buffer_ref a src_offset sz)
                            (make_buffer_ref b dst_offset sz)) }) s)"

definition hrx_queue_barrier ::
  "env \<Rightarrow> ptr \<Rightarrow> u64 \<Rightarrow> ptr \<Rightarrow> ptr \<Rightarrow> hrx \<Rightarrow> (hrx_status \<times> hrx) option" where
  "hrx_queue_barrier E device affinity wait_semaphores signal_semaphores s =
     (if device = NULL then
        Some (hrx_make_status E (code_i32 InvalidArgument) (Some ''device is NULL'') s)
      else do {
        wl \<leftarrow> to_iree_sem_list wait_semaphores s;
        sl \<leftarrow> to_iree_sem_list signal_semaphores s;
        dev \<leftarrow> handle_ref as_device device s;
        let (r, s) = ffi E (Dev (iree_hal_device_queue_barrier (dev_hal_device dev)
                                   (normalize_affinity affinity) wl sl)) s;
        Some (hrx_status_from_iree E (r_status r) s) })"

section \<open>Host calls\<close>

text \<open>The thunk is a libc block; its address is fresh.\<close>

definition new_thunk :: "host_call_thunk \<Rightarrow> hrx \<Rightarrow> ptr \<times> hrx" where
  "new_thunk th s = (next_addr s, s\<lparr>thunks := (thunks s)(next_addr s \<mapsto> th), next_addr := Suc (next_addr s)\<rparr>)"

definition free_thunk :: "ptr \<Rightarrow> hrx \<Rightarrow> hrx" where
  "free_thunk p s = libc_free (s\<lparr>thunks := (thunks s)(p := None)\<rparr>)"

text \<open>
  Run by IREE when the call is executed. The caller's function is a parameter: it takes the
  function pointer and its argument and returns a status. A freed thunk is undefined behaviour.
\<close>

definition host_call_trampoline ::
  "env \<Rightarrow> (ptr \<Rightarrow> ptr \<Rightarrow> hrx \<Rightarrow> hrx_status \<times> hrx) \<Rightarrow> ptr \<Rightarrow> hrx \<Rightarrow> (iree_status \<times> hrx) option" where
  "host_call_trampoline E call_fn user_data s =
     (case thunks s user_data of
        None \<Rightarrow> None
      | Some th \<Rightarrow> do {
          cb \<leftarrow> expect_nonnull (thunk_callback th);
          let (status, s) = call_fn cb (thunk_user_data th) s;
          let s = free_thunk user_data s;
          Some (hrx_status_to_iree E status s) })"

definition hrx_queue_host_call ::
  "env \<Rightarrow> ptr \<Rightarrow> u64 \<Rightarrow> ptr \<Rightarrow> ptr \<Rightarrow> ptr \<Rightarrow> ptr \<Rightarrow> hrx \<Rightarrow> (hrx_status \<times> hrx) option" where
  "hrx_queue_host_call E device affinity wait_semaphores signal_semaphores callback user_data s =
     (if device = NULL \<or> callback = NULL then
        Some (hrx_make_status E (code_i32 InvalidArgument) (Some ''device or callback is NULL'') s)
      else
        let (ok, s) = libc_malloc E s
        in if \<not> ok then
             Some (hrx_make_status E (code_i32 OutOfMemory) (Some ''failed to allocate host call thunk'') s)
           else do {
             let (thunk, s) = new_thunk \<lparr>thunk_callback = callback, thunk_user_data = user_data\<rparr> s;
             wl \<leftarrow> to_iree_sem_list wait_semaphores s;
             sl \<leftarrow> to_iree_sem_list signal_semaphores s;
             dev \<leftarrow> handle_ref as_device device s;
             let (r, s) = ffi E (Dev (iree_hal_device_queue_host_call (dev_hal_device dev)
                                        (normalize_affinity affinity) wl sl thunk)) s;
             let s = (if \<not> status_is_ok (r_status r) then free_thunk thunk s else s);
             Some (hrx_status_from_iree E (r_status r) s) })"

section \<open>Dispatch\<close>

text \<open>An \<open>HrxBufferRef\<close> is 24 bytes: buffer, offset, length. \<open>Inl ()\<close> is a null buffer.\<close>

fun bindings_loop :: "nat list \<Rightarrow> ptr \<Rightarrow> hrx \<Rightarrow> buffer_ref list \<Rightarrow> (unit + buffer_ref list) option" where
  "bindings_loop [] bindings s v = Some (Inr v)"
| "bindings_loop (i # is) bindings s v = do {
     b \<leftarrow> peek_ptr (bindings + 24 * i) s;
     if b = NULL then Some (Inl ())
     else do {
       hal \<leftarrow> buffer_hal b s;
       off \<leftarrow> peek_u64 (bindings + 24 * i + 8) s;
       len \<leftarrow> peek_u64 (bindings + 24 * i + 16) s;
       bindings_loop is bindings s (v @ [make_buffer_ref hal off len]) } }"

definition build_hal_bindings :: "ptr \<Rightarrow> usize \<Rightarrow> hrx \<Rightarrow> (unit + buffer_ref list) option" where
  "build_hal_bindings bindings binding_count s =
     (if binding_count = 0 then Some (Inr [])
      else bindings_loop [0..<unat binding_count] bindings s [])"

definition peek_u32 :: "ptr \<Rightarrow> hrx \<Rightarrow> u32 option" where
  "peek_u32 a s = (case mem s a of CU32 v \<Rightarrow> Some v | _ \<Rightarrow> None)"

definition peek_dims :: "ptr \<Rightarrow> hrx \<Rightarrow> (u32 \<times> u32 \<times> u32) option" where
  "peek_dims a s = do { x \<leftarrow> peek_u32 a s; y \<leftarrow> peek_u32 (a + 4) s; z \<leftarrow> peek_u32 (a + 8) s; Some (x, y, z) }"

text \<open>\<open>HrxDispatchConfig\<close>: workgroup count first, then size (at offset 12).\<close>

definition hal_dispatch_config :: "ptr \<Rightarrow> hrx \<Rightarrow> dispatch_config option" where
  "hal_dispatch_config config s = do {
     count \<leftarrow> peek_dims config s;
     wsize \<leftarrow> peek_dims (config + 12) s;
     Some (dispatch_config_new_static wsize count) }"

definition hrx_queue_dispatch ::
  "env \<Rightarrow> ptr \<Rightarrow> u64 \<Rightarrow> ptr \<Rightarrow> ptr \<Rightarrow> ptr \<Rightarrow> u32 \<Rightarrow> ptr \<Rightarrow> ptr \<Rightarrow> usize \<Rightarrow> ptr \<Rightarrow> usize \<Rightarrow> u32 \<Rightarrow> hrx
   \<Rightarrow> (hrx_status \<times> hrx) option" where
  "hrx_queue_dispatch E device affinity wait_semaphores signal_semaphores executable export_ordinal config
     constants constants_size bindings binding_count fl s =
     (if device = NULL \<or> executable = NULL \<or> config = NULL \<or> (binding_count > 0 \<and> bindings = NULL)
         \<or> (constants_size > 0 \<and> constants = NULL) then
        Some (hrx_make_status E (code_i32 InvalidArgument)
          (Some ''device, executable, config, constants, or bindings are invalid'') s)
      else do {
        bl \<leftarrow> build_hal_bindings bindings binding_count s;
        case bl of
          Inl _ \<Rightarrow> Some (hrx_make_status E (code_i32 InvalidArgument) (Some ''binding buffer is NULL'') s)
        | Inr hal_bindings \<Rightarrow> do {
            wl \<leftarrow> to_iree_sem_list wait_semaphores s;
            sl \<leftarrow> to_iree_sem_list signal_semaphores s;
            hal_config \<leftarrow> hal_dispatch_config config s;
            dev \<leftarrow> handle_ref as_device device s;
            exe \<leftarrow> executable_hal executable s;
            let (r, s) = ffi E (Dev (iree_hal_device_queue_dispatch (dev_hal_device dev)
                (normalize_affinity affinity) wl sl exe (ucast export_ordinal) hal_config
                (constants, constants_size) hal_bindings (ucast fl))) s;
            Some (hrx_status_from_iree E (r_status r) s) } })"

section \<open>Facts\<close>

lemma thunk_facts [simp]:
  "surplus k p (free_thunk h s) = surplus k p s"
  "wf_state (free_thunk h s) = wf_state s"
  "live (free_thunk h s) = live s - 1"
  "thunks (free_thunk h s) = (thunks s)(h := None)"
  "surplus k p (snd (new_thunk th s)) = surplus k p s"
  "wf_state s \<Longrightarrow> wf_state (snd (new_thunk th s))"
  "thunks (snd (new_thunk th s)) = (thunks s)(next_addr s \<mapsto> th)"
  "live (snd (new_thunk th s)) = live s"
  "fst (new_thunk th s) = next_addr s"
  by (auto simp: free_thunk_def new_thunk_def surplus_def held_def wf_state_def wf_heap_def less_Suc_eq)

lemma new_thunk_eq: "new_thunk th s = (h, t) \<longleftrightarrow> h = next_addr s \<and> t = snd (new_thunk th s)"
  by (auto simp: new_thunk_def)

lemma libc_malloc_eqD:
  assumes "libc_malloc E s = (ok, t)"
  shows "(\<forall>k p. surplus k p t = surplus k p s) \<and> (wf_state t \<longleftrightarrow> wf_state s) \<and> thunks t = thunks s \<and>
    next_addr t = next_addr s \<and> live t = live s + of_bool ok \<and> arcs t = arcs s \<and> mem t = mem s \<and> trace t = trace s"
proof -
  have "t = snd (libc_malloc E s)" "ok = fst (libc_malloc E s)" using assms by simp_all
  then show ?thesis by simp
qed

lemma queue_one_shot_surplus:
  assumes "queue_one_shot E d aff wl sl rc s = Some (res, t)" and "wf_state s"
  shows "wf_state t \<and> (\<forall>k p. surplus k p t = surplus k p s)"
  using assms
  by (auto simp: queue_one_shot_def ffi_pair Let_def status_is_ok_def split: if_splits
      elim!: bind_SomeE dest!: status_eqD)

lemma queue_host_call_surplus:
  assumes "hrx_queue_host_call E d aff wl sl cb ud s = Some (res, t)" and "wf_state s"
  shows "wf_state t \<and> (\<forall>k p. surplus k p t = surplus k p s)"
  using assms
  by (auto simp: hrx_queue_host_call_def ffi_pair Let_def new_thunk_eq split: if_splits prod.splits
      elim!: bind_SomeE dest!: status_eqD libc_malloc_eqD)

lemma queue_calls_surplus:
  "hrx_queue_barrier E d aff wl sl s = Some (res, t) \<Longrightarrow> wf_state s \<Longrightarrow>
     wf_state t \<and> (\<forall>k p. surplus k p t = surplus k p s)"
  "hrx_queue_dispatch E d aff wl sl exe ord cfg cs csz bs bn fl s = Some (res, t) \<Longrightarrow> wf_state s \<Longrightarrow>
     wf_state t \<and> (\<forall>k p. surplus k p t = surplus k p s)"
  by (auto simp: hrx_queue_barrier_def hrx_queue_dispatch_def ffi_pair Let_def
      split: if_splits sum.splits elim!: bind_SomeE dest!: status_eqD)

text \<open>A foreign call changes none of what these translations read.\<close>

lemma sem_list_loop_ffi [simp]: "sem_list_loop is a v (ffi_do E c t) x y = sem_list_loop is a v t x y"
  by (induction "is" arbitrary: x y)
    (simp_all add: semaphore_hal_ptr_def peek_ptr_def peek_u64_def cong: if_cong)

lemma to_iree_sem_list_ffi [simp]: "to_iree_sem_list l (ffi_do E c t) = to_iree_sem_list l t"
  by (simp add: to_iree_sem_list_def peek_ptr_def peek_u64_def cong: if_cong)

lemma buffer_hal_ffi [simp]: "buffer_hal b (ffi_do E c t) = buffer_hal b t"
  by (simp add: buffer_hal_def)

lemma sem_list_loop_spec:
  assumes "\<And>i. m \<le> i \<Longrightarrow> i < n \<Longrightarrow> peek_ptr (sp + 8 * i) s = Some (d i)"
    and "\<And>i. m \<le> i \<Longrightarrow> i < n \<Longrightarrow> semaphore_hal_ptr (d i) s = Some (h i)"
    and "\<And>i. m \<le> i \<Longrightarrow> i < n \<Longrightarrow> peek_u64 (vp + 8 * i) s = Some (v i)"
    and "m \<le> n" and "m \<le> length hal" and "length vals = length hal"
    and "take m hal = map h [0..<m]" and "take m vals = map v [0..<m]"
  shows "if n \<le> length hal
    then \<exists>ha va. sem_list_loop [m..<n] sp vp s hal vals = Some (ha, va) \<and>
           take n ha = map h [0..<n] \<and> take n va = map v [0..<n]
    else sem_list_loop [m..<n] sp vp s hal vals = None"
  using assms
proof (induction "n - m" arbitrary: m hal vals)
  case 0
  then show ?case by auto
next
  case (Suc j)
  then have m: "m < n" and j: "j = n - Suc m" by auto
  have rd: "peek_ptr (sp + 8 * m) s = Some (d m)" "semaphore_hal_ptr (d m) s = Some (h m)"
    "peek_u64 (vp + 8 * m) s = Some (v m)"
    using Suc.prems(1-3) m by simp_all
  have step: "sem_list_loop [m..<n] sp vp s hal vals =
      (if m < length hal then sem_list_loop [Suc m..<n] sp vp s (hal[m := h m]) (vals[m := v m]) else None)"
    using rd Suc.prems(6) by (simp only: upt_conv_Cons [OF m] sem_list_loop.simps) simp
  show ?case
  proof (cases "m < length hal")
    case True
    have "take (Suc m) (hal[m := h m]) = map h [0..<Suc m]" "take (Suc m) (vals[m := v m]) = map v [0..<Suc m]"
      using True Suc.prems(6-8) by (simp_all add: take_Suc_conv_app_nth)
    then show ?thesis
      using Suc.hyps(1) [OF j, of "hal[m := h m]" "vals[m := v m]"] Suc.prems m True
      unfolding step by simp
  next
    case False
    then show ?thesis using m Suc.prems(5) unfolding step by simp
  qed
qed

lemma bindings_loop_spec:
  assumes "\<And>i. i \<in> set is \<Longrightarrow> peek_ptr (bp + 24 * i) s = Some (d i)"
    and "\<And>i. i \<in> set is \<Longrightarrow> d i \<noteq> NULL \<Longrightarrow> buffer_hal (d i) s = Some (h i)"
    and "\<And>i. i \<in> set is \<Longrightarrow> peek_u64 (bp + 24 * i + 8) s = Some (off i)"
    and "\<And>i. i \<in> set is \<Longrightarrow> peek_u64 (bp + 24 * i + 16) s = Some (len i)"
  shows "bindings_loop is bp s v =
    Some (if \<exists>i\<in>set is. d i = NULL then Inl ()
          else Inr (v @ map (\<lambda>i. make_buffer_ref (h i) (off i) (len i)) is))"
  using assms by (induction "is" arbitrary: v) auto

lemma to_iree_sem_list_spec:
  assumes "list \<noteq> NULL" "peek_u64 (list + 16) s = Some n" "peek_ptr list s = Some sp"
      "peek_ptr (list + 8) s = Some vp"
    and "\<And>i. i < unat n \<Longrightarrow> peek_ptr (sp + 8 * i) s = Some (d i)"
    and "\<And>i. i < unat n \<Longrightarrow> semaphore_hal_ptr (d i) s = Some (h i)"
    and "\<And>i. i < unat n \<Longrightarrow> peek_u64 (vp + 8 * i) s = Some (v i)"
  shows "to_iree_sem_list list s =
    (if unat n \<le> 16 then Some (map (\<lambda>i. (h i, v i)) [0..<unat n]) else None)"
proof (cases "n = 0")
  case True
  then show ?thesis using assms(1,2) by (simp add: to_iree_sem_list_def)
next
  case False
  let ?hal = "replicate HRX_MAX_QUEUE_SEMAPHORES NULL"
  let ?vals = "replicate HRX_MAX_QUEUE_SEMAPHORES (0 :: u64)"
  have loop: "if unat n \<le> length ?hal
      then \<exists>ha va. sem_list_loop [0..<unat n] sp vp s ?hal ?vals = Some (ha, va) \<and>
             take (unat n) ha = map h [0..<unat n] \<and> take (unat n) va = map v [0..<unat n]
      else sem_list_loop [0..<unat n] sp vp s ?hal ?vals = None"
    by (rule sem_list_loop_spec [where d = d]) (use assms(5-7) in simp_all)
  have eq: "zip (map h is) (map v is) = map (\<lambda>i. (h i, v i)) is" for "is"
    by (induction "is") simp_all
  show ?thesis
    using assms(1-4) False loop eq [of "[0..<unat n]"]
    by (auto simp: to_iree_sem_list_def HRX_MAX_QUEUE_SEMAPHORES_def split: if_splits)
qed

section \<open>Properties\<close>

text \<open>
  C31. Translating a semaphore list. For a readable list of live semaphores, up to sixteen
  entries are handed to IREE exactly, in order, each with its own payload value; with more than
  sixteen entries the stores run past the stack arrays, which is undefined behaviour, although
  every entry of the caller's list is valid.
\<close>

theorem sem_list_exact:
  assumes "list \<noteq> NULL" "peek_u64 (list + 16) s = Some n" "peek_ptr list s = Some sp"
      "peek_ptr (list + 8) s = Some vp"
    and "\<And>i. i < unat n \<Longrightarrow> peek_ptr (sp + 8 * i) s = Some (d i)"
    and "\<And>i. i < unat n \<Longrightarrow> semaphore_hal_ptr (d i) s = Some (h i)"
    and "\<And>i. i < unat n \<Longrightarrow> peek_u64 (vp + 8 * i) s = Some (v i)"
  shows "to_iree_sem_list list s =
    (if unat n \<le> 16 then Some (map (\<lambda>i. (h i, v i)) [0..<unat n]) else None)"
  using assms by (rule to_iree_sem_list_spec)

text \<open>The demo device, semaphore and fence with a semaphore list of \<open>n\<close> equal entries in memory.\<close>

definition demo_sems :: "nat \<Rightarrow> hrx" where
  "demo_sems n = demo_sync\<lparr>mem := (\<lambda>a. if a = 1000 then CPtr 2000 else if a = 1008 then CPtr 3000
       else if a = 1016 then CU64 (of_nat n) else if 2000 \<le> a \<and> a < 3000 then CPtr 2 else CU64 7)\<rparr>"

lemma demo_sems_refs [simp]:
  "handle_ref as h (demo_sems n) = handle_ref as h demo_sync"
  by (simp add: handle_ref_def demo_sems_def)

lemma to_demo_sems:
  assumes "n < 100"
  shows "to_iree_sem_list 1000 (demo_sems n) = (if n \<le> 16 then Some (replicate n (60, 7)) else None)"
proof -
  have u: "unat (of_nat n :: u64) = n" using assms by (simp add: unat_of_nat take_bit_nat_eq_self)
  have "map (\<lambda>i. (60 :: nat, 7 :: u64)) [0..<n] = replicate n (60, 7)" by (simp add: map_replicate_const)
  moreover have "to_iree_sem_list 1000 (demo_sems n) =
      (if unat (of_nat n :: u64) \<le> 16 then Some (map (\<lambda>i. (60, 7)) [0..<unat (of_nat n :: u64)]) else None)"
    by (rule to_iree_sem_list_spec [where sp = 2000 and vp = 3000 and d = "\<lambda>_. 2"])
      (use assms u in \<open>auto simp: demo_sems_def peek_u64_def peek_ptr_def semaphore_hal_ptr_def
        demo_sync_refs(1) [unfolded handle_ref_def] handle_ref_def\<close>)
  ultimately show ?thesis using u by simp
qed

theorem sem_list_exact_witness:
  "to_iree_sem_list 1000 (demo_sems 2) = Some [(60, 7), (60, 7)] \<and> to_iree_sem_list 1000 (demo_sems 17) = None"
proof -
  have rd: "peek_u64 1016 (demo_sems n) = Some (of_nat n)" "peek_ptr 1000 (demo_sems n) = Some 2000"
      "peek_ptr 1008 (demo_sems n) = Some 3000" for n
    by (simp_all add: demo_sems_def peek_u64_def peek_ptr_def)
  have el: "i < 100 \<Longrightarrow> peek_ptr (2000 + 8 * i) (demo_sems n) = Some 2"
      "semaphore_hal_ptr 2 (demo_sems n) = Some 60"
      "i < 100 \<Longrightarrow> peek_u64 (3000 + 8 * i) (demo_sems n) = Some 7" for i n
    by (simp_all add: demo_sems_def peek_u64_def peek_ptr_def semaphore_hal_ptr_def handle_ref_def
        demo_sync_refs(1) [unfolded handle_ref_def])
  show ?thesis
    using sem_list_exact [of 1000 "demo_sems 2" 2 2000 3000 "\<lambda>_. 2" "\<lambda>_. 60" "\<lambda>_. 7"]
      sem_list_exact [of 1000 "demo_sems 17" 17 2000 3000 "\<lambda>_. 2" "\<lambda>_. 60" "\<lambda>_. 7"]
      rd [of 2] rd [of 17] el [where n = 2] el [where n = 17]
    by (simp add: upt_rec)
qed

text \<open>
  Queue fills and copies never leak their command buffer: whatever IREE answers to the
  creation, begin, recording, end and submission, when the call returns every reference it took
  has been given back.
\<close>

theorem queue_ops_no_leak:
  assumes "wf_state s"
    and "hrx_queue_fill E d aff wl sl b off n pat psz s = Some (res, t) \<or>
         hrx_queue_copy E d aff wl sl b off b' off' n s = Some (res, t)"
  shows "wf_state t \<and> surplus k p t = surplus k p s"
  using assms queue_one_shot_surplus
  by (fastforce simp: hrx_queue_fill_def hrx_queue_copy_def split: if_splits dest!: make_status_eqD)

text \<open>
  What a successful fill submits. When every call succeeds, the fill records exactly one
  command, over the requested range of the buffer, between begin and end of one command buffer,
  submits it with the caller's wait and signal lists on the normalised affinity, and releases the
  command buffer once, after the submission.
\<close>

theorem queue_fill_submission:
  assumes dev: "handle_ref as_device d s = Some dev" "d \<noteq> NULL"
    and buf: "buffer_hal b s = Some hal" "b \<noteq> NULL" "pat \<noteq> NULL"
    and lists: "to_iree_sem_list wl s = Some ws" "to_iree_sem_list sl s = Some ss"
    and ok: "\<And>h c. r_status (iree E h c) = NULL"
    and qa: "qa = (if aff = 0 then 2 ^ 64 - 1 else aff)"
    and cb: "cb = r_ptr (iree E (trace s) (Create (iree_hal_command_buffer_create (dev_hal_device dev) 1 qa)))"
  shows "\<exists>t. hrx_queue_fill E d aff wl sl b off n pat psz s = Some (hrx_ok_status, t) \<and>
    map fst (trace t) = map fst (trace s) @
      [Create (iree_hal_command_buffer_create (dev_hal_device dev) 1 qa),
       Cmd (iree_hal_command_buffer_begin cb),
       Cmd (iree_hal_command_buffer_fill_buffer cb (make_buffer_ref hal off n) pat psz),
       Cmd (iree_hal_command_buffer_end cb),
       Dev (iree_hal_device_queue_execute (dev_hal_device dev) qa ws ss cb),
       Release HalCommandBuffer cb]"
proof -
  have qa': "normalize_affinity aff = qa"
    by (simp add: qa normalize_affinity_def IREE_HAL_QUEUE_AFFINITY_ANY_def)
  show ?thesis
    using dev buf lists ok cb
    by (simp add: hrx_queue_fill_def queue_one_shot_def qa' ffi_pair status_is_ok_def
        IREE_HAL_COMMAND_CATEGORY_TRANSFER_def hrx_ok_status_def Let_def)
qed

definition demo_fill :: hrx where
  "demo_fill = snd (into_handle (OBuffer demo_buffer) demo_sync)"

lemma demo_fill_refs [simp]:
  "handle_ref as_device 1 demo_fill = Some demo_device"
  "handle_ref as_device (Suc 0) demo_fill = Some demo_device"
  "buffer_hal 4 demo_fill = Some 70"
  "trace demo_fill = []"
  by (simp_all add: handle_ref_def buffer_hal_def demo_fill_def demo_sync_def demo_state_def hrx_initial_def
      demo_buffer_def)

lemma wf_demo_fill [simp]: "wf_state demo_fill"
  by (simp add: demo_fill_def)

text \<open>An environment in which every call succeeds and returns a fresh pointer.\<close>

definition ok_env :: env where
  "ok_env = \<lparr>iree = (\<lambda>h c. reply_ok\<lparr>r_ptr := 100 + length h\<rparr>), libc_ctl = 9, malloc_ok = (\<lambda>_. True)\<rparr>"

lemma ok_env_simps [simp]:
  "iree ok_env h c = reply_ok\<lparr>r_ptr := 100 + length h\<rparr>"
  "malloc_ok ok_env n"
  by (simp_all add: ok_env_def)

theorem queue_fill_submission_witness:
  "\<exists>t. hrx_queue_fill ok_env 1 0 0 0 4 8 4 900 1 demo_fill = Some (hrx_ok_status, t) \<and>
     map fst (trace t) =
      [Create (iree_hal_command_buffer_create 52 1 (2 ^ 64 - 1)), Cmd (iree_hal_command_buffer_begin 100),
       Cmd (iree_hal_command_buffer_fill_buffer 100 (make_buffer_ref 70 8 4) 900 1),
       Cmd (iree_hal_command_buffer_end 100),
       Dev (iree_hal_device_queue_execute 52 (2 ^ 64 - 1) [] [] 100), Release HalCommandBuffer 100]"
proof -
  have l: "to_iree_sem_list 0 demo_fill = Some []" by (simp add: to_iree_sem_list_def)
  show ?thesis
    using queue_fill_submission [OF demo_fill_refs(1) _ demo_fill_refs(3) _ _ l l, where E = ok_env and aff = 0 and pat = 900 and off = 8 and n = 4 and psz = 1]
    by (simp add: demo_device_def)
qed

theorem queue_ops_no_leak_witness:
  "\<exists>res t. hrx_queue_fill demo_env 1 0 0 0 4 8 4 900 1 demo_fill = Some (res, t) \<and>
     surplus HalCommandBuffer 100 t = surplus HalCommandBuffer 100 demo_fill"
proof -
  have "\<exists>x. hrx_queue_fill demo_env 1 0 0 0 4 8 4 900 1 demo_fill = Some x"
    by (simp add: hrx_queue_fill_def queue_one_shot_def ffi_pair status_is_ok_def to_iree_sem_list_def Let_def)
  then obtain res t where t: "hrx_queue_fill demo_env 1 0 0 0 4 8 4 900 1 demo_fill = Some (res, t)" by force
  show ?thesis using queue_ops_no_leak [OF wf_demo_fill disjI1 [OF t]] t by blast
qed

lemma queue_host_call_cases:
  assumes call: "hrx_queue_host_call E d aff wl sl cb ud s = Some (res, t)" and "d \<noteq> NULL" and "cb \<noteq> NULL"
    and fresh: "thunks s (next_addr s) = None"
  shows "(thunks t = thunks s \<and> live t = live s + status_blocks res) \<or>
    (res = None \<and> live t = live s + 1 \<and>
     thunks t = (thunks s)(next_addr s \<mapsto> \<lparr>thunk_callback = cb, thunk_user_data = ud\<rparr>))"
proof -
  let ?th = "\<lparr>thunk_callback = cb, thunk_user_data = ud\<rparr>"
  obtain ok s0 where m: "libc_malloc E s = (ok, s0)" by fastforce
  note s0 = libc_malloc_eqD [OF m]
  show ?thesis
  proof (cases ok)
    case False
    then have "hrx_make_status E (code_i32 OutOfMemory) (Some ''failed to allocate host call thunk'') s0 = (res, t)"
      using call assms(2,3) m by (simp add: hrx_queue_host_call_def)
    from make_status_eqD [OF this] s0 False show ?thesis by simp
  next
    case True
    let ?s1 = "snd (new_thunk ?th s0)"
    obtain c st where st: "hrx_status_from_iree E st (if st \<noteq> NULL then free_thunk (next_addr s) (ffi_do E c ?s1)
        else ffi_do E c ?s1) = (res, t)"
      using call assms(2,3) m True s0
      by (auto simp: hrx_queue_host_call_def new_thunk_eq ffi_pair Let_def status_is_ok_def
          split: prod.splits elim!: bind_SomeE)
    have rest: "(thunks s)(next_addr s := None) = thunks s" using fresh by (simp add: fun_upd_idem)
    show ?thesis
      using status_from_iree_eqD [OF st] s0 True st rest by (cases "st = NULL") simp_all
  qed
qed



text \<open>
  Translating the bindings of a dispatch. For a readable binding array, one null buffer
  anywhere refuses the whole list; otherwise IREE is given one reference per binding, in order,
  with the HAL buffer, offset and length of that binding.
\<close>

theorem dispatch_bindings:
  assumes "\<And>i. i < unat n \<Longrightarrow> peek_ptr (bs + 24 * i) s = Some (d i)"
    and "\<And>i. i < unat n \<Longrightarrow> d i \<noteq> NULL \<Longrightarrow> buffer_hal (d i) s = Some (h i)"
    and "\<And>i. i < unat n \<Longrightarrow> peek_u64 (bs + 24 * i + 8) s = Some (off i)"
    and "\<And>i. i < unat n \<Longrightarrow> peek_u64 (bs + 24 * i + 16) s = Some (len i)"
  shows "build_hal_bindings bs n s =
    Some (if \<exists>i<unat n. d i = NULL then Inl ()
          else Inr (map (\<lambda>i. \<lparr>ref_buffer = h i, ref_offset = off i, ref_length = len i\<rparr>) [0..<unat n]))"
  using bindings_loop_spec [of "[0..<unat n]" bs s d h off len "[]"] assms
  by (cases "n = 0") (auto simp: build_hal_bindings_def make_buffer_ref_def)

theorem dispatch_bindings_witness:
  "build_hal_bindings 5000 1 (poke 5016 (CU64 4) (poke 5008 (CU64 8) (poke 5000 (CPtr 4) demo_fill))) =
     Some (Inr [\<lparr>ref_buffer = 70, ref_offset = 8, ref_length = 4\<rparr>])"
proof -
  let ?s = "poke 5016 (CU64 4) (poke 5008 (CU64 8) (poke 5000 (CPtr 4) demo_fill))"
  have "buffer_hal 4 ?s = Some 70" using demo_fill_refs(3) by (simp add: buffer_hal_def)
  then show ?thesis
    using dispatch_bindings [of 1 5000 ?s "\<lambda>_. 4" "\<lambda>_. 70" "\<lambda>_. 8" "\<lambda>_. 4"]
    by (simp add: peek_ptr_def peek_u64_def)
qed

end
