(* ===== verification/Stream.thy ===== *)
theory Stream
  imports Queue_Ops
begin

text \<open>
  Streams (\<open>hrx-libhrx/src/stream.rs\<close>): a timeline semaphore, a position on it, and at most one
  pending one-shot command buffer into which operations are recorded until they are flushed. The
  methods of \<open>HrxStreamS\<close> take and return the stream record, whose \<open>Cell\<close> fields they change;
  the public functions store it back behind the handle.

  The theory ends with the stream as a state machine: its steps are the public calls on one
  stream, its invariant ties pending work to a command buffer, and its clock is the timeline
  position.
\<close>

section \<open>Methods of the stream object\<close>

definition begin_cb :: "env \<Rightarrow> hrx_stream_s \<Rightarrow> hrx \<Rightarrow> (hrx_status \<times> hrx_stream_s \<times> hrx) option" where
  "begin_cb E st s =
     (if st_pending_cb st \<noteq> NULL then Some (hrx_ok_status, st, s)
      else do {
        dev \<leftarrow> handle_ref as_device (st_device st) s;
        let (r, s) = ffi E (Create (iree_hal_command_buffer_create (dev_hal_device dev)
              (IREE_HAL_COMMAND_CATEGORY_TRANSFER OR IREE_HAL_COMMAND_CATEGORY_DISPATCH)
              IREE_HAL_QUEUE_AFFINITY_ANY)) s;
        let cb = r_ptr r;
        if \<not> status_is_ok (r_status r) then
          let (res, s) = hrx_status_from_iree E (r_status r) s in Some (res, st, s)
        else
          let (r, s) = ffi E (Cmd (iree_hal_command_buffer_begin cb)) s
          in if \<not> status_is_ok (r_status r) then
               let s = ffi_do E (Release HalCommandBuffer cb) s;
                   (res, s) = hrx_status_from_iree E (r_status r) s
               in Some (res, st\<lparr>st_pending_cb := NULL\<rparr>, s)
             else Some (hrx_ok_status, st\<lparr>st_pending_cb := cb\<rparr>, s) })"

definition record_ordering_barrier :: "env \<Rightarrow> hrx_stream_s \<Rightarrow> hrx \<Rightarrow> iree_status \<times> hrx" where
  "record_ordering_barrier E st s =
     (let (r, s) = ffi E (Cmd (iree_hal_command_buffer_execution_barrier (st_pending_cb st))) s
      in (r_status r, s))"

definition flush_inner :: "env \<Rightarrow> hrx_stream_s \<Rightarrow> hrx \<Rightarrow> (hrx_status \<times> hrx_stream_s \<times> hrx) option" where
  "flush_inner E st s =
     (if \<not> st_has_pending_work st \<or> st_pending_cb st = NULL then Some (hrx_ok_status, st, s)
      else
        let cb = st_pending_cb st;
            (r, s) = ffi E (Cmd (iree_hal_command_buffer_end cb)) s
        in if \<not> status_is_ok (r_status r) then
             let (res, s) = hrx_status_from_iree E (r_status r) s in Some (res, st, s)
           else do {
             let tp = st_timepoint st;
             let signal_value = tp + 1;
             sem \<leftarrow> semaphore_hal_ptr (st_semaphore st) s;
             let wait_list = (if tp > 0 then [(sem, tp)] else []);
             let signal_list = [(sem, signal_value)];
             dev \<leftarrow> handle_ref as_device (st_device st) s;
             let (r, s) = ffi E (Dev (iree_hal_device_queue_execute (dev_hal_device dev)
                   IREE_HAL_QUEUE_AFFINITY_ANY wait_list signal_list cb)) s;
             if \<not> status_is_ok (r_status r) then
               let (res, s) = hrx_status_from_iree E (r_status r) s in Some (res, st, s)
             else
               let st = st\<lparr>st_timepoint := signal_value\<rparr>;
                   s = ffi_do E (Release HalCommandBuffer cb) s;
                   st = st\<lparr>st_pending_cb := NULL, st_has_pending_work := False\<rparr>
               in Some (hrx_ok_status, st, s) })"

text \<open>
  \<open>Drop for HrxStreamS\<close>, followed by the drop of its fields: flush, wait on the timeline,
  release a leftover command buffer, release the semaphore, release the device.
\<close>

definition drop_stream :: "env \<Rightarrow> hrx_stream_s \<Rightarrow> hrx \<Rightarrow> hrx option" where
  "drop_stream E st s = do {
     (st, s) \<leftarrow> (if st_has_pending_work st then do {
                   (res, st, s) \<leftarrow> flush_inner E st s;
                   Some (st, hrx_status_drop res s) }
                 else Some (st, s));
     s \<leftarrow> (if st_timepoint st > 0 then do {
             (res, s) \<leftarrow> hrx_semaphore_wait E (st_semaphore st) (st_timepoint st) (2 ^ 64 - 1) s;
             Some (hrx_status_drop res s) }
           else Some s);
     let s = (if st_pending_cb st \<noteq> NULL then ffi_do E (Release HalCommandBuffer (st_pending_cb st)) s else s);
     s \<leftarrow> SemaphoreGuard_drop E (st_semaphore st) s;
     DeviceRef_drop E (st_device st) s }"

section \<open>Lifetime and accessors\<close>

definition stream_device :: "ptr \<Rightarrow> hrx \<Rightarrow> ptr option" where
  "stream_device stream s = do { st \<leftarrow> handle_ref as_stream stream s; Some (st_device st) }"

definition stream_semaphore :: "ptr \<Rightarrow> hrx \<Rightarrow> ptr option" where
  "stream_semaphore stream s = do { st \<leftarrow> handle_ref as_stream stream s; Some (st_semaphore st) }"

definition stream_timepoint :: "ptr \<Rightarrow> hrx \<Rightarrow> u64 option" where
  "stream_timepoint stream s = do { st \<leftarrow> handle_ref as_stream stream s; Some (st_timepoint st) }"

definition stream_set_timepoint :: "ptr \<Rightarrow> u64 \<Rightarrow> hrx \<Rightarrow> hrx option" where
  "stream_set_timepoint stream v s = do {
     st \<leftarrow> handle_ref as_stream stream s;
     Some (handle_set stream (OStream (st\<lparr>st_timepoint := v\<rparr>)) s) }"

definition hrx_stream_create :: "env \<Rightarrow> ptr \<Rightarrow> u32 \<Rightarrow> ptr \<Rightarrow> hrx \<Rightarrow> (hrx_status \<times> hrx) option" where
  "hrx_stream_create E device fl stream s =
     (if device = NULL \<or> stream = NULL then
        Some (hrx_make_status E (code_i32 InvalidArgument) (Some ''device or stream is NULL'') s)
      else do {
        (device_ref, s) \<leftarrow> DeviceRef_retain device s;
        (st, h, s) \<leftarrow> semaphore_create_handle E device 0 s;
        let sem = (case h of Some p \<Rightarrow> p | None \<Rightarrow> NULL);
        if \<not> hrx_status_is_ok st then do {
          s \<leftarrow> DeviceRef_drop E device_ref s;
          Some (st, s) }
        else
          let (h, s) = into_handle (OStream \<lparr>st_timepoint = 0, st_pending_cb = NULL,
                st_has_pending_work = False, st_flags = fl, st_semaphore = sem, st_device = device_ref\<rparr>) s
          in Some (hrx_ok_status, poke stream (CPtr h) s) })"

definition hrx_stream_retain :: "ptr \<Rightarrow> hrx \<Rightarrow> hrx option" where
  "hrx_stream_retain stream s = handle_retain as_stream stream s"

definition hrx_stream_release :: "env \<Rightarrow> ptr \<Rightarrow> hrx \<Rightarrow> hrx option" where
  "hrx_stream_release E stream s = handle_release as_stream (drop_stream E) stream s"

section \<open>Synchronisation\<close>

definition hrx_stream_flush :: "env \<Rightarrow> ptr \<Rightarrow> hrx \<Rightarrow> (hrx_status \<times> hrx) option" where
  "hrx_stream_flush E stream s =
     (if stream = NULL then
        Some (hrx_make_status E (code_i32 InvalidArgument) (Some ''stream is NULL'') s)
      else do {
        st \<leftarrow> handle_ref as_stream stream s;
        (res, st, s) \<leftarrow> flush_inner E st s;
        Some (res, handle_set stream (OStream st) s) })"

definition hrx_stream_wait :: "env \<Rightarrow> ptr \<Rightarrow> hrx \<Rightarrow> (hrx_status \<times> hrx) option" where
  "hrx_stream_wait E stream s =
     (if stream = NULL then
        Some (hrx_make_status E (code_i32 InvalidArgument) (Some ''stream is NULL'') s)
      else do {
        st \<leftarrow> handle_ref as_stream stream s;
        if st_timepoint st = 0 then Some (hrx_ok_status, s)
        else hrx_semaphore_wait E (st_semaphore st) (st_timepoint st) (2 ^ 64 - 1) s })"

definition hrx_stream_synchronize :: "env \<Rightarrow> ptr \<Rightarrow> hrx \<Rightarrow> (hrx_status \<times> hrx) option" where
  "hrx_stream_synchronize E stream s =
     (if stream = NULL then
        Some (hrx_make_status E (code_i32 InvalidArgument) (Some ''stream is NULL'') s)
      else do {
        (res, s) \<leftarrow> hrx_stream_flush E stream s;
        if \<not> hrx_status_is_ok res then Some (res, s) else hrx_stream_wait E stream s })"

text \<open>\<open>hrx_semaphore_query\<close> into the local variable \<open>current\<close>, initially zero.\<close>

definition semaphore_query_local :: "env \<Rightarrow> ptr \<Rightarrow> hrx \<Rightarrow> (hrx_status \<times> u64 \<times> hrx) option" where
  "semaphore_query_local E semaphore s =
     (if semaphore = NULL then
        let (res, s) = hrx_make_status E (code_i32 InvalidArgument) (Some ''semaphore or value is NULL'') s
        in Some (res, 0, s)
      else do {
        x \<leftarrow> handle_ref as_semaphore semaphore s;
        let (r, s) = ffi E (Dev (iree_hal_semaphore_query (sem_hal x))) s;
        let (res, s) = hrx_status_from_iree E (r_status r) s;
        Some (res, r_val r, s) })"

definition hrx_stream_query :: "env \<Rightarrow> ptr \<Rightarrow> ptr \<Rightarrow> hrx \<Rightarrow> (hrx_status \<times> hrx) option" where
  "hrx_stream_query E stream complete s =
     (if stream = NULL \<or> complete = NULL then
        Some (hrx_make_status E (code_i32 InvalidArgument) (Some ''stream or complete is NULL'') s)
      else do {
        st \<leftarrow> handle_ref as_stream stream s;
        if st_timepoint st = 0 then Some (hrx_ok_status, poke complete (CBool True) s)
        else do {
          (res, current, s) \<leftarrow> semaphore_query_local E (st_semaphore st) s;
          if \<not> hrx_status_is_ok res then Some (res, s)
          else Some (hrx_ok_status, poke complete (CBool (current \<ge> st_timepoint st)) s) } })"

definition hrx_stream_get_semaphore :: "env \<Rightarrow> ptr \<Rightarrow> ptr \<Rightarrow> hrx \<Rightarrow> (hrx_status \<times> hrx) option" where
  "hrx_stream_get_semaphore E stream semaphore s =
     (if stream = NULL \<or> semaphore = NULL then
        Some (hrx_make_status E (code_i32 InvalidArgument) (Some ''stream or semaphore is NULL'') s)
      else do {
        st \<leftarrow> handle_ref as_stream stream s;
        Some (hrx_ok_status, poke semaphore (CPtr (st_semaphore st)) s) })"

definition hrx_stream_get_device :: "env \<Rightarrow> ptr \<Rightarrow> ptr \<Rightarrow> hrx \<Rightarrow> (hrx_status \<times> hrx) option" where
  "hrx_stream_get_device E stream device s =
     (if stream = NULL \<or> device = NULL then
        Some (hrx_make_status E (code_i32 InvalidArgument) (Some ''stream or device is NULL'') s)
      else do {
        st \<leftarrow> handle_ref as_stream stream s;
        Some (hrx_ok_status, poke device (CPtr (st_device st)) s) })"

text \<open>\<open>hrx_timeline_point_t\<close>: the semaphore at offset 0, the value at offset 8.\<close>

definition hrx_stream_get_timeline_position :: "env \<Rightarrow> ptr \<Rightarrow> ptr \<Rightarrow> hrx \<Rightarrow> (hrx_status \<times> hrx) option" where
  "hrx_stream_get_timeline_position E stream position s =
     (if stream = NULL \<or> position = NULL then
        Some (hrx_make_status E (code_i32 InvalidArgument) (Some ''stream or position is NULL'') s)
      else do {
        st \<leftarrow> handle_ref as_stream stream s;
        let s = poke position (CPtr (st_semaphore st)) s;
        Some (hrx_ok_status, poke (position + 8) (CU64 (st_timepoint st)) s) })"

definition hrx_stream_advance_timeline :: "env \<Rightarrow> ptr \<Rightarrow> ptr \<Rightarrow> hrx \<Rightarrow> (hrx_status \<times> hrx) option" where
  "hrx_stream_advance_timeline E stream out s =
     (if stream = NULL \<or> out = NULL then
        Some (hrx_make_status E (code_i32 InvalidArgument) (Some ''stream or value is NULL'') s)
      else do {
        st \<leftarrow> handle_ref as_stream stream s;
        let tp = st_timepoint st + 1;
        let s = handle_set stream (OStream (st\<lparr>st_timepoint := tp\<rparr>)) s;
        Some (hrx_ok_status, poke out (CU64 tp) s) })"

text \<open>The position argument is passed by value: a semaphore and a value.\<close>

definition hrx_stream_wait_on :: "env \<Rightarrow> ptr \<Rightarrow> ptr \<times> u64 \<Rightarrow> hrx \<Rightarrow> (hrx_status \<times> hrx) option" where
  "hrx_stream_wait_on E stream position s =
     (if stream = NULL then
        Some (hrx_make_status E (code_i32 InvalidArgument) (Some ''stream is NULL'') s)
      else if fst position = NULL then
        Some (hrx_make_status E (code_i32 InvalidArgument) (Some ''position semaphore is NULL'') s)
      else do {
        (res, s) \<leftarrow> hrx_stream_flush E stream s;
        if \<not> hrx_status_is_ok res then Some (res, s)
        else do {
          st \<leftarrow> handle_ref as_stream stream s;
          let signal_value = st_timepoint st + 1;
          wait_sem \<leftarrow> semaphore_hal_ptr (fst position) s;
          sig_sem \<leftarrow> semaphore_hal_ptr (st_semaphore st) s;
          dev \<leftarrow> handle_ref as_device (st_device st) s;
          let (r, s) = ffi E (Dev (iree_hal_device_queue_barrier (dev_hal_device dev)
                IREE_HAL_QUEUE_AFFINITY_ANY [(wait_sem, snd position)] [(sig_sem, signal_value)])) s;
          if \<not> status_is_ok (r_status r) then Some (hrx_status_from_iree E (r_status r) s)
          else Some (hrx_ok_status, handle_set stream (OStream (st\<lparr>st_timepoint := signal_value\<rparr>)) s) } })"

section \<open>Recording\<close>

text \<open>
  The sequence the recording functions spell out: make sure a command buffer is open, record one
  command and an ordering barrier, and only then mark the stream as having pending work. The
  command may be refused before it is recorded (\<open>Inl\<close> with the message).
\<close>

definition record_op ::
  "env \<Rightarrow> ptr \<Rightarrow> (ptr \<Rightarrow> hrx \<Rightarrow> (string + cmd_fn) option) \<Rightarrow> hrx \<Rightarrow> (hrx_status \<times> hrx) option" where
  "record_op E stream mk s = do {
     st \<leftarrow> handle_ref as_stream stream s;
     (res, st, s) \<leftarrow> begin_cb E st s;
     let s = handle_set stream (OStream st) s;
     if \<not> hrx_status_is_ok res then Some (res, s)
     else do {
       x \<leftarrow> mk (st_pending_cb st) s;
       case x of
         Inl msg \<Rightarrow> Some (hrx_make_status E (code_i32 InvalidArgument) (Some msg) s)
       | Inr cmd \<Rightarrow>
           (let (r, s) = ffi E (Cmd cmd) s
            in if \<not> status_is_ok (r_status r) then Some (hrx_status_from_iree E (r_status r) s)
               else
                 let (ist, s) = record_ordering_barrier E st s
                 in if \<not> status_is_ok ist then Some (hrx_status_from_iree E ist s)
                    else Some (hrx_ok_status,
                           handle_set stream (OStream (st\<lparr>st_has_pending_work := True\<rparr>)) s)) } }"

definition hrx_stream_fill_buffer ::
  "env \<Rightarrow> ptr \<Rightarrow> ptr \<Rightarrow> usize \<Rightarrow> usize \<Rightarrow> ptr \<Rightarrow> usize \<Rightarrow> hrx \<Rightarrow> (hrx_status \<times> hrx) option" where
  "hrx_stream_fill_buffer E stream buffer off sz pattern pattern_size s =
     (if stream = NULL \<or> buffer = NULL \<or> pattern = NULL then
        Some (hrx_make_status E (code_i32 InvalidArgument) (Some ''stream, buffer, or pattern is NULL'') s)
      else record_op E stream
        (\<lambda>cb s. do { b \<leftarrow> buffer_hal buffer s;
             Some (Inr (iree_hal_command_buffer_fill_buffer cb (make_buffer_ref b off sz) pattern pattern_size)) }) s)"

definition hrx_stream_copy_buffer ::
  "env \<Rightarrow> ptr \<Rightarrow> ptr \<Rightarrow> usize \<Rightarrow> ptr \<Rightarrow> usize \<Rightarrow> usize \<Rightarrow> hrx \<Rightarrow> (hrx_status \<times> hrx) option" where
  "hrx_stream_copy_buffer E stream src src_offset dst dst_offset sz s =
     (if stream = NULL \<or> src = NULL \<or> dst = NULL then
        Some (hrx_make_status E (code_i32 InvalidArgument) (Some ''stream, src, or dst is NULL'') s)
      else record_op E stream
        (\<lambda>cb s. do { a \<leftarrow> buffer_hal src s; b \<leftarrow> buffer_hal dst s;
             Some (Inr (iree_hal_command_buffer_copy_buffer cb (make_buffer_ref a src_offset sz)
                          (make_buffer_ref b dst_offset sz))) }) s)"

definition hrx_stream_update_buffer ::
  "env \<Rightarrow> ptr \<Rightarrow> ptr \<Rightarrow> usize \<Rightarrow> ptr \<Rightarrow> usize \<Rightarrow> hrx \<Rightarrow> (hrx_status \<times> hrx) option" where
  "hrx_stream_update_buffer E stream host_data host_data_size dst dst_offset s =
     (if stream = NULL \<or> host_data = NULL \<or> dst = NULL then
        Some (hrx_make_status E (code_i32 InvalidArgument) (Some ''stream, host_data, or dst is NULL'') s)
      else record_op E stream
        (\<lambda>cb s. do { b \<leftarrow> buffer_hal dst s;
             Some (Inr (iree_hal_command_buffer_update_buffer cb host_data
                          (make_buffer_ref b dst_offset host_data_size))) }) s)"

definition hrx_stream_execution_barrier :: "env \<Rightarrow> ptr \<Rightarrow> hrx \<Rightarrow> (hrx_status \<times> hrx) option" where
  "hrx_stream_execution_barrier E stream s =
     (if stream = NULL then
        Some (hrx_make_status E (code_i32 InvalidArgument) (Some ''stream is NULL'') s)
      else do {
        st \<leftarrow> handle_ref as_stream stream s;
        (res, st, s) \<leftarrow> begin_cb E st s;
        let s = handle_set stream (OStream st) s;
        if \<not> hrx_status_is_ok res then Some (res, s)
        else
          let (r, s) = ffi E (Cmd (iree_hal_command_buffer_execution_barrier (st_pending_cb st))) s
          in if \<not> status_is_ok (r_status r) then Some (hrx_status_from_iree E (r_status r) s)
             else Some (hrx_ok_status, handle_set stream (OStream (st\<lparr>st_has_pending_work := True\<rparr>)) s) })"

definition hrx_stream_dispatch ::
  "env \<Rightarrow> ptr \<Rightarrow> ptr \<Rightarrow> u32 \<Rightarrow> ptr \<Rightarrow> ptr \<Rightarrow> usize \<Rightarrow> ptr \<Rightarrow> usize \<Rightarrow> u32 \<Rightarrow> hrx \<Rightarrow> (hrx_status \<times> hrx) option" where
  "hrx_stream_dispatch E stream executable export_ordinal config constants constants_size bindings
     binding_count fl s =
     (if stream = NULL \<or> executable = NULL \<or> config = NULL \<or> (binding_count > 0 \<and> bindings = NULL)
         \<or> (constants_size > 0 \<and> constants = NULL) then
        Some (hrx_make_status E (code_i32 InvalidArgument)
          (Some ''stream, executable, config, constants, or bindings are invalid'') s)
      else record_op E stream
        (\<lambda>cb s. do {
           bl \<leftarrow> build_hal_bindings bindings binding_count s;
           case bl of
             Inl _ \<Rightarrow> Some (Inl ''binding buffer is NULL'')
           | Inr hal_bindings \<Rightarrow> do {
               hal_config \<leftarrow> hal_dispatch_config config s;
               exe \<leftarrow> executable_hal executable s;
               Some (Inr (iree_hal_command_buffer_dispatch cb exe (ucast export_ordinal) hal_config
                       (constants, constants_size) hal_bindings (ucast fl))) } }) s)"

section \<open>Ownership\<close>

lemma semaphore_hal_ptr_ffi [simp]: "semaphore_hal_ptr h (ffi_do E c s) = semaphore_hal_ptr h s"
  by (simp add: semaphore_hal_ptr_def)

lemma raw_ref_nonnull [simp]: "p \<noteq> NULL \<Longrightarrow> raw_ref k p k' q = one_ref k p k' q"
  by (simp add: raw_ref_def one_ref_def)

lemma begin_cb_eqD:
  assumes "begin_cb E st s = Some (res, st', t)"
  shows "arcs t = arcs s \<and> mem t = mem s \<and> (wf_state t \<longleftrightarrow> wf_state s) \<and> st_timepoint st' = st_timepoint st \<and>
    st_has_pending_work st' = st_has_pending_work st \<and> st_semaphore st' = st_semaphore st \<and>
    st_device st' = st_device st \<and> (st_pending_cb st \<noteq> NULL \<longrightarrow> st' = st) \<and>
    (\<forall>k p. p \<noteq> NULL \<longrightarrow> surplus k p t = surplus k p s + one_ref k p HalCommandBuffer (st_pending_cb st')
       - one_ref k p HalCommandBuffer (st_pending_cb st))"
  using assms
  by (auto simp: begin_cb_def ffi_pair Let_def status_is_ok_def one_ref_def split: if_splits prod.splits
      elim!: bind_SomeE dest!: status_eqD)

lemma flush_inner_eqD:
  assumes "flush_inner E st s = Some (res, st', t)"
  shows "arcs t = arcs s \<and> mem t = mem s \<and> (wf_state t \<longleftrightarrow> wf_state s) \<and>
    (st' = st \<or> st' = st\<lparr>st_timepoint := st_timepoint st + 1, st_pending_cb := NULL, st_has_pending_work := False\<rparr>) \<and>
    (\<forall>k p. p \<noteq> NULL \<longrightarrow> surplus k p t = surplus k p s + one_ref k p HalCommandBuffer (st_pending_cb st')
       - one_ref k p HalCommandBuffer (st_pending_cb st))"
  using assms
  by (auto simp: flush_inner_def ffi_pair Let_def status_is_ok_def one_ref_def split: if_splits prod.splits
      elim!: bind_SomeE dest!: status_eqD)

lemma status_drop_eq: "hrx_status_drop st s = t \<Longrightarrow> (\<forall>k p. surplus k p t = surplus k p s) \<and> (wf_state t \<longleftrightarrow> wf_state s)"
  by auto

lemma semaphore_wait_eqD:
  assumes "hrx_semaphore_wait E h v ns s = Some (res, t)"
  shows "arcs t = arcs s \<and> mem t = mem s \<and> (wf_state t \<longleftrightarrow> wf_state s) \<and> (\<forall>k p. surplus k p t = surplus k p s)"
  using assms
  by (auto simp: hrx_semaphore_wait_def HalSemaphore_wait_def ffi_pair split: if_splits
      elim!: bind_SomeE dest!: status_eqD)

lemma SemaphoreGuard_drop_eqD:
  assumes "SemaphoreGuard_drop E h s = Some t" and "wf_state s"
  shows "wf_state t \<and> (\<forall>k p. surplus k p t = surplus k p s)"
  using assms semaphore_release_surplus unfolding SemaphoreGuard_drop_def by blast

text \<open>
  The references of a stream that is dropped. The null pointer is no object, so the statement
  leaves it out: IREE may answer a creation with OK and NULL.
\<close>

lemma drop_stream_eqD:
  assumes "drop_stream E st s = Some t" and "wf_state s"
  shows "wf_state t \<and> (\<forall>k p. p \<noteq> NULL \<longrightarrow> surplus k p t = surplus k p s - obj_refs k p (OStream st))"
proof -
  obtain st1 s1 s2 where s1: "(if st_has_pending_work st then do {
                   (res, st, s) \<leftarrow> flush_inner E st s;
                   Some (st, hrx_status_drop res s) }
                 else Some (st, s)) = Some (st1, s1)"
    and s2: "(if st_timepoint st1 > 0 then do {
             (res, s) \<leftarrow> hrx_semaphore_wait E (st_semaphore st1) (st_timepoint st1) (2 ^ 64 - 1) s1;
             Some (hrx_status_drop res s) }
           else Some s1) = Some s2"
    and t: "(let s = (if st_pending_cb st1 \<noteq> NULL then ffi_do E (Release HalCommandBuffer (st_pending_cb st1)) s2 else s2)
      in do { s \<leftarrow> SemaphoreGuard_drop E (st_semaphore st1) s; DeviceRef_drop E (st_device st1) s }) = Some t"
    using assms(1) unfolding drop_stream_def by (auto elim!: bind_SomeE simp del: not_gr_zero)
  have 1: "wf_state s1 \<and> (\<forall>k p. p \<noteq> NULL \<longrightarrow> surplus k p s1 = surplus k p s
      + one_ref k p HalCommandBuffer (st_pending_cb st1) - one_ref k p HalCommandBuffer (st_pending_cb st))"
    using s1 assms(2) by (auto split: if_splits elim!: bind_SomeE dest!: flush_inner_eqD)
  have 2: "wf_state s2 \<and> (\<forall>k p. surplus k p s2 = surplus k p s1)"
    using s2 1 by (auto split: if_splits elim!: bind_SomeE dest!: semaphore_wait_eqD)
  have "wf_state t \<and> (\<forall>k p. p \<noteq> NULL \<longrightarrow> surplus k p t = surplus k p s2 - one_ref k p HalCommandBuffer (st_pending_cb st1))"
    using t 2
    by (auto simp: Let_def one_ref_def split: if_splits elim!: bind_SomeE
        dest!: SemaphoreGuard_drop_eqD DeviceRef_drop_eqD)
  with 1 2 show ?thesis by simp
qed

lemma stream_release_surplus:
  assumes "hrx_stream_release E h s = Some t" and "wf_state s"
  shows "wf_state t \<and> (\<forall>k p. p \<noteq> NULL \<longrightarrow> surplus k p t = surplus k p s)"
proof -
  obtain a st where a: "arcs s h = Some a" "arc_obj a = OStream st"
    and r: "if strong a = 1 then drop_stream E st (s\<lparr>arcs := (arcs s)(h := None)\<rparr>) = Some t
            else t = s\<lparr>arcs := (arcs s)(h \<mapsto> a\<lparr>strong := strong a - 1\<rparr>)\<rparr>"
    using assms(1) by (auto simp: hrx_stream_release_def handle_release_def split: option.splits if_splits)
  show ?thesis
  proof (cases "strong a = 1")
    case True
    let ?s = "s\<lparr>arcs := (arcs s)(h := None)\<rparr>"
    have "wf_state ?s" using assms(2) wf_heap_del [of s ?s h] by (simp add: wf_state_def)
    then show ?thesis
      using drop_stream_eqD [of E st ?s t] r True a surplus_arcs_del [OF assms(2)] by simp
  next
    case False
    then have "0 < strong a - 1" using wf_heap_strong [OF wf_heapI [OF assms(2)] a(1)] by simp
    moreover have "t = s\<lparr>arcs := (arcs s)(h \<mapsto> a\<lparr>strong := strong a - 1\<rparr>)\<rparr>" using False r by simp
    ultimately show ?thesis
      using a surplus_arcs_upd [OF assms(2)] assms(2)
        wf_heap_upd [OF wf_heapI [OF assms(2)] a(1), of "a\<lparr>strong := strong a - 1\<rparr>" t]
      by (simp add: wf_state_def)
  qed
qed

lemma stream_create_surplus:
  assumes "hrx_stream_create E d fl out s = Some (res, t)" and "wf_state s"
  shows "wf_state t \<and> (\<forall>k p. p \<noteq> NULL \<longrightarrow> surplus k p t = surplus k p s)"
  using assms
  by (auto simp: hrx_stream_create_def into_handle_eq one_ref_def Let_def split: if_splits prod.splits
      elim!: bind_SomeE dest!: status_eqD DeviceRef_retain_eqD semaphore_create_handle_surplus DeviceRef_drop_eqD)

lemma handle_ref_as_streamD:
  "handle_ref as_stream h s = Some st \<Longrightarrow> \<exists>a. arcs s h = Some a \<and> arc_obj a = OStream st"
  by (auto simp: handle_ref_Some)

lemma surplus_stream_set:
  assumes "wf_state s" and "handle_ref as_stream h s = Some st"
  shows "\<forall>k p. p \<noteq> NULL \<longrightarrow> surplus k p (handle_set h (OStream st') s) =
    surplus k p s + one_ref k p HalCommandBuffer (st_pending_cb st) - one_ref k p HalCommandBuffer (st_pending_cb st')"
  using handle_ref_as_streamD [OF assms(2)] surplus_handle_set [OF assms(1)] by fastforce

section \<open>The stream as a state machine\<close>

text \<open>Pending work implies an open command buffer.\<close>

definition stream_ok :: "hrx_stream_s \<Rightarrow> bool" where
  "stream_ok st \<longleftrightarrow> (st_has_pending_work st \<longrightarrow> st_pending_cb st \<noteq> NULL)"

text \<open>
  What one call may do to a stream: advance its timeline by at most two, and never change its
  semaphore or device.
\<close>

definition stream_next :: "hrx_stream_s \<Rightarrow> hrx_stream_s \<Rightarrow> bool" where
  "stream_next st st' \<longleftrightarrow>
     (\<exists>n \<in> {0, 1, 2}. st_timepoint st' = st_timepoint st + n) \<and>
     st_semaphore st' = st_semaphore st \<and> st_device st' = st_device st"

text \<open>
  An environment as IREE documents it: a creation that succeeds returns an object; and libc has
  memory for status payloads, so that an error is never reported as OK.
\<close>

definition reliable :: "env \<Rightarrow> bool" where
  "reliable E \<longleftrightarrow> (\<forall>n. malloc_ok E n) \<and>
     (\<forall>h f. r_status (iree E h (Create f)) = NULL \<longrightarrow> r_ptr (iree E h (Create f)) \<noteq> NULL)"

lemma stream_next_refl [simp]: "stream_next st st"
  by (simp add: stream_next_def)

lemma reliable_status:
  assumes "hrx_status_from_iree E st s = (None, t)" and "reliable E"
  shows "st = NULL"
  using hrx_status_from_iree_not_ok [of E s st] assms by (auto simp: reliable_def)

lemma begin_cb_pending:
  assumes "reliable E" and "begin_cb E st s = Some (res, st', t)" and "res = None"
  shows "st_pending_cb st' \<noteq> NULL"
  using assms
  by (auto simp: begin_cb_def ffi_pair Let_def status_is_ok_def hrx_ok_status_def split: if_splits prod.splits
      elim!: bind_SomeE dest!: reliable_status) (auto simp: reliable_def)

text \<open>
  \<open>advances E h s t\<close>: the call from \<open>s\<close> to \<open>t\<close> keeps the ledger, and takes the stream
  behind \<open>h\<close> to a next one, keeping its invariant when the environment is reliable.
\<close>

definition advances :: "env \<Rightarrow> ptr \<Rightarrow> hrx \<Rightarrow> hrx \<Rightarrow> bool" where
  "advances E h s t \<longleftrightarrow>
     wf_state t \<and> (\<forall>k p. p \<noteq> NULL \<longrightarrow> surplus k p t = surplus k p s) \<and>
     (\<forall>st. handle_ref as_stream h s = Some st \<longrightarrow>
        (\<exists>st'. handle_ref as_stream h t = Some st' \<and> stream_next st st' \<and>
           (reliable E \<and> stream_ok st \<longrightarrow> stream_ok st')))"

lemma advances_arcs:
  assumes "wf_state t" and "\<forall>k p. surplus k p t = surplus k p s" and "arcs t = arcs s"
  shows "advances E h s t"
  using assms by (auto simp: advances_def handle_ref_def)

lemma advances_set:
  assumes "wf_state s" and "arcs u = arcs s" and "wf_state u"
    and st: "handle_ref as_stream h s = Some st"
    and s: "\<forall>k p. p \<noteq> NULL \<longrightarrow> surplus k p u = surplus k p s
      + one_ref k p HalCommandBuffer (st_pending_cb st') - one_ref k p HalCommandBuffer (st_pending_cb st)"
    and nxt: "stream_next st st'" and ok: "reliable E \<and> stream_ok st \<longrightarrow> stream_ok st'"
  shows "advances E h s (handle_set h (OStream st') u)"
proof -
  have hu: "handle_ref as_stream h u = Some st" using st assms(2) by (simp add: handle_ref_def)
  then have "arcs u h \<noteq> None" by (auto dest: handle_ref_as_streamD)
  then have "handle_ref as_stream h (handle_set h (OStream st') u) = Some st'" by simp
  moreover have "\<forall>k p. p \<noteq> NULL \<longrightarrow> surplus k p (handle_set h (OStream st') u) = surplus k p s"
    using surplus_stream_set [OF assms(3) hu, of st'] s by simp
  ultimately show ?thesis using assms(3) st nxt ok by (simp add: advances_def)
qed

lemma flush_advances:
  assumes "hrx_stream_flush E h s = Some (res, t)" and "wf_state s"
  shows "advances E h s t"
proof (cases "h = NULL")
  case True
  then show ?thesis
    using assms by (auto simp: hrx_stream_flush_def dest!: make_status_eqD intro!: advances_arcs)
next
  case False
  then obtain st st' u where st: "handle_ref as_stream h s = Some st"
    and f: "flush_inner E st s = Some (res, st', u)" and t: "t = handle_set h (OStream st') u"
    using assms(1) by (auto simp: hrx_stream_flush_def elim!: bind_SomeE)
  note F = flush_inner_eqD [OF f]
  have "stream_next st st'" using F by (auto simp: stream_next_def)
  moreover have "stream_ok st \<longrightarrow> stream_ok st'" using F by (auto simp: stream_ok_def)
  ultimately show ?thesis
    unfolding t using advances_set [OF assms(2) _ _ st, of u st' E] F assms(2) by blast
qed

text \<open>A recording call after \<open>begin_cb\<close>: either nothing more is stored, or the work is marked.\<close>

lemma begin_cb_advances:
  assumes st: "handle_ref as_stream h s = Some st" and b: "begin_cb E st s = Some (r0, st1, s1)" and ws: "wf_state s"
  shows "advances E h s (handle_set h (OStream st1) s1) \<and> stream_next st st1 \<and>
    handle_ref as_stream h (handle_set h (OStream st1) s1) = Some st1"
proof -
  note B = begin_cb_eqD [OF b]
  have "stream_ok st \<longrightarrow> stream_ok st1" using B by (auto simp: stream_ok_def)
  moreover have "stream_next st st1" using B by (simp add: stream_next_def)
  moreover have "arcs s1 h \<noteq> None" using st B by (auto dest: handle_ref_as_streamD)
  ultimately show ?thesis using advances_set [OF ws _ _ st, of s1 st1 E] B ws by auto
qed

lemma recorded_same:
  assumes st: "handle_ref as_stream h s = Some st" and b: "begin_cb E st s = Some (r0, st1, s1)" and ws: "wf_state s"
    and t: "wf_state t" "\<forall>k p. surplus k p t = surplus k p (handle_set h (OStream st1) s1)"
      "arcs t = arcs (handle_set h (OStream st1) s1)"
  shows "advances E h s t"
proof -
  note A = begin_cb_advances [OF st b ws]
  then have "handle_ref as_stream h t = Some st1" using t(3) by (simp add: handle_ref_def)
  then show ?thesis using A st t(1,2) by (auto simp: advances_def)
qed

lemma recorded_work:
  assumes st: "handle_ref as_stream h s = Some st" and b: "begin_cb E st s = Some (None, st1, s1)" and ws: "wf_state s"
    and u: "wf_state u" "\<forall>k p. surplus k p u = surplus k p (handle_set h (OStream st1) s1)"
      "arcs u = arcs (handle_set h (OStream st1) s1)"
  shows "advances E h s (handle_set h (OStream (st1\<lparr>st_has_pending_work := True\<rparr>)) u)"
proof -
  let ?st = "st1\<lparr>st_has_pending_work := True\<rparr>"
  note A = begin_cb_advances [OF st b ws]
  have ok: "reliable E \<longrightarrow> stream_ok ?st" using begin_cb_pending [OF _ b] by (simp add: stream_ok_def)
  have nx: "stream_next st ?st" using A by (simp add: stream_next_def)
  have hu: "handle_ref as_stream h u = Some st1" using A u(3) by (simp add: handle_ref_def)
  then have "handle_ref as_stream h (handle_set h (OStream ?st) u) = Some ?st"
    by (auto dest: handle_ref_as_streamD)
  moreover have "\<forall>k p. p \<noteq> NULL \<longrightarrow> surplus k p (handle_set h (OStream ?st) u) = surplus k p s"
    using surplus_stream_set [OF u(1) hu, of ?st] A u(2) by (simp add: advances_def)
  ultimately show ?thesis using ok nx st u(1) by (simp add: advances_def)
qed

lemma record_op_advances:
  assumes op: "record_op E h mk s = Some (res, t)" and ws: "wf_state s"
  shows "advances E h s t"
proof -
  obtain st r0 st1 s1 where st: "handle_ref as_stream h s = Some st"
    and b: "begin_cb E st s = Some (r0, st1, s1)"
    using op by (auto simp: record_op_def elim!: bind_SomeE)
  have w: "wf_state s1" using begin_cb_eqD [OF b] ws by simp
  note same = recorded_same [OF st b ws, of t]
  show ?thesis
  proof (cases "r0 = None")
    case False
    then show ?thesis using op st b w same by (auto simp: record_op_def hrx_status_is_ok_def)
  next
    case True
    let ?s = "handle_set h (OStream st1) s1"
    obtain x where mk: "mk (st_pending_cb st1) ?s = Some x"
      using op st b True by (auto simp: record_op_def hrx_status_is_ok_def Let_def elim!: bind_SomeE)
    note work = recorded_work [OF st b [unfolded True] ws]
    show ?thesis
    proof (cases x)
      case (Inl msg)
      then show ?thesis
        using op st b True mk w same
        by (auto simp: record_op_def hrx_status_is_ok_def Let_def dest!: make_status_eqD)
    next
      case (Inr cmd)
      then show ?thesis
        using op st b True mk w same work
        by (auto simp: record_op_def hrx_status_is_ok_def ffi_pair Let_def record_ordering_barrier_def
            status_is_ok_def split: if_splits dest!: status_from_iree_eqD)
    qed
  qed
qed

lemma execution_barrier_advances:
  assumes op: "hrx_stream_execution_barrier E h s = Some (res, t)" and ws: "wf_state s" and h: "h \<noteq> NULL"
  shows "advances E h s t"
proof -
  obtain st r0 st1 s1 where st: "handle_ref as_stream h s = Some st"
    and b: "begin_cb E st s = Some (r0, st1, s1)"
    using op h by (auto simp: hrx_stream_execution_barrier_def elim!: bind_SomeE)
  have w: "wf_state s1" using begin_cb_eqD [OF b] ws by simp
  note same = recorded_same [OF st b ws, of t]
  show ?thesis
  proof (cases "r0 = None")
    case False
    then show ?thesis
      using op st b h w same by (auto simp: hrx_stream_execution_barrier_def hrx_status_is_ok_def)
  next
    case True
    show ?thesis
      using op st b h True w same recorded_work [OF st b [unfolded True] ws]
      by (auto simp: hrx_stream_execution_barrier_def hrx_status_is_ok_def ffi_pair Let_def
          status_is_ok_def split: if_splits dest!: status_from_iree_eqD)
  qed
qed

lemma advances_then:
  assumes "advances E h s t" and "wf_state u" and "\<forall>k p. surplus k p u = surplus k p t" and "arcs u = arcs t"
  shows "advances E h s u"
  using assms by (auto simp: advances_def handle_ref_def)

lemma stream_wait_advances:
  assumes "hrx_stream_wait E h s = Some (res, t)" and "wf_state s"
  shows "wf_state t \<and> (\<forall>k p. surplus k p t = surplus k p s) \<and> arcs t = arcs s"
  using assms
  by (auto simp: hrx_stream_wait_def split: if_splits elim!: bind_SomeE dest!: status_eqD semaphore_wait_eqD)

lemma stream_synchronize_advances:
  assumes "hrx_stream_synchronize E h s = Some (res, t)" and "wf_state s"
  shows "advances E h s t"
proof (cases "h = NULL")
  case True
  then show ?thesis
    using assms by (auto simp: hrx_stream_synchronize_def dest!: make_status_eqD intro!: advances_arcs)
next
  case False
  then obtain r0 s1 where f: "hrx_stream_flush E h s = Some (r0, s1)"
    and rest: "(if \<not> hrx_status_is_ok r0 then Some (r0, s1) else hrx_stream_wait E h s1) = Some (res, t)"
    using assms(1) by (auto simp: hrx_stream_synchronize_def elim!: bind_SomeE)
  have "advances E h s s1" using flush_advances [OF f assms(2)] .
  then show ?thesis
    using rest stream_wait_advances [of E h s1 res t] advances_then [of E h s s1 t]
    by (auto simp: advances_def split: if_splits)
qed

lemma stream_reads_advances:
  "hrx_stream_query E h out s = Some (res, t) \<Longrightarrow> wf_state s \<Longrightarrow> advances E h s t"
  "hrx_stream_get_semaphore E h out s = Some (res, t) \<Longrightarrow> wf_state s \<Longrightarrow> advances E h s t"
  "hrx_stream_get_device E h out s = Some (res, t) \<Longrightarrow> wf_state s \<Longrightarrow> advances E h s t"
  "hrx_stream_get_timeline_position E h out s = Some (res, t) \<Longrightarrow> wf_state s \<Longrightarrow> advances E h s t"
  by (auto simp: hrx_stream_query_def hrx_stream_get_semaphore_def hrx_stream_get_device_def
      hrx_stream_get_timeline_position_def semaphore_query_local_def ffi_pair Let_def
      split: if_splits prod.splits elim!: bind_SomeE dest!: status_eqD intro!: advances_arcs)

lemma advance_timeline_advances:
  assumes "hrx_stream_advance_timeline E h out s = Some (res, t)" and "wf_state s"
  shows "advances E h s t"
proof (cases "h = NULL \<or> out = NULL")
  case True
  then show ?thesis
    using assms
    by (auto simp: hrx_stream_advance_timeline_def split: if_splits dest!: make_status_eqD intro!: advances_arcs)
next
  case False
  then obtain st where st: "handle_ref as_stream h s = Some st"
    and t: "t = poke out (CU64 (st_timepoint st + 1))
      (handle_set h (OStream (st\<lparr>st_timepoint := st_timepoint st + 1\<rparr>)) s)"
    using assms(1) by (auto simp: hrx_stream_advance_timeline_def Let_def elim!: bind_SomeE)
  have "advances E h s (handle_set h (OStream (st\<lparr>st_timepoint := st_timepoint st + 1\<rparr>)) s)"
    by (rule advances_set [OF assms(2) refl assms(2) st]) (simp_all add: stream_next_def stream_ok_def)
  from advances_then [OF this, of t] show ?thesis using assms(2) by (simp add: t)
qed

text \<open>Moving the timepoint of a flushed stream one on.\<close>

lemma advances_bump:
  assumes A: "advances E h s s1" and st: "handle_ref as_stream h s = Some st" and h1: "handle_ref as_stream h s1 = Some st1"
    and N: "stream_next st (st1\<lparr>st_timepoint := st_timepoint st1 + 1\<rparr>)" "stream_ok st \<longrightarrow> stream_ok st1"
    and v: "wf_state v" "\<forall>k p. surplus k p v = surplus k p s1" "arcs v = arcs s1"
  shows "advances E h s (handle_set h (OStream (st1\<lparr>st_timepoint := st_timepoint st1 + 1\<rparr>)) v)"
proof -
  let ?st = "st1\<lparr>st_timepoint := st_timepoint st1 + 1\<rparr>"
  let ?t = "handle_set h (OStream ?st) v"
  have hv: "handle_ref as_stream h v = Some st1" using h1 v(3) by (simp add: handle_ref_def)
  have "\<forall>k p. p \<noteq> NULL \<longrightarrow> surplus k p ?t = surplus k p s"
    using surplus_stream_set [OF v(1) hv, of ?st] A v(2) by (simp add: advances_def)
  moreover have "stream_ok st \<longrightarrow> stream_ok ?st" using N(2) by (auto simp: stream_ok_def)
  moreover have "handle_ref as_stream h ?t = Some ?st" using hv by (auto dest: handle_ref_as_streamD)
  ultimately show ?thesis using st v(1) N(1) by (simp add: advances_def)
qed

lemma wait_on_advances:
  assumes op: "hrx_stream_wait_on E h pos s = Some (res, t)" and ws: "wf_state s"
  shows "advances E h s t"
proof (cases "h = NULL \<or> fst pos = NULL")
  case True
  then show ?thesis
    using op ws
    by (auto simp: hrx_stream_wait_on_def split: if_splits dest!: make_status_eqD intro!: advances_arcs)
next
  case False
  then obtain r0 s1 where f: "hrx_stream_flush E h s = Some (r0, s1)"
    using op by (auto simp: hrx_stream_wait_on_def elim!: bind_SomeE)
  then obtain st st1 u where st: "handle_ref as_stream h s = Some st"
    and fi: "flush_inner E st s = Some (r0, st1, u)" and s1: "s1 = handle_set h (OStream st1) u"
    using False by (auto simp: hrx_stream_flush_def elim!: bind_SomeE)
  note F = flush_inner_eqD [OF fi] and A = flush_advances [OF f ws]
  have "arcs u h \<noteq> None" using st F by (auto dest: handle_ref_as_streamD)
  then have h1: "handle_ref as_stream h s1 = Some st1" by (simp add: s1)
  have w1: "wf_state s1" using A by (simp add: advances_def)
  show ?thesis
  proof (cases "r0 = None")
    case nz: False
    then show ?thesis
      using op False f w1 advances_then [OF A, of s1] by (auto simp: hrx_stream_wait_on_def hrx_status_is_ok_def)
  next
    case True
    then obtain c where c: "(if r_status (iree E (trace s1) (Dev c)) \<noteq> NULL
        then Some (hrx_status_from_iree E (r_status (iree E (trace s1) (Dev c))) (ffi_do E (Dev c) s1))
        else Some (hrx_ok_status, handle_set h (OStream (st1\<lparr>st_timepoint := st_timepoint st1 + 1\<rparr>))
               (ffi_do E (Dev c) s1))) = Some (res, t)"
      using op False f h1
      by (auto simp: hrx_stream_wait_on_def hrx_status_is_ok_def ffi_pair Let_def status_is_ok_def elim!: bind_SomeE)
    have "stream_next st (st1\<lparr>st_timepoint := st_timepoint st1 + 1\<rparr>)" "stream_ok st \<longrightarrow> stream_ok st1"
      using F by (auto simp: stream_next_def stream_ok_def)
    from advances_bump [OF A st h1 this, of "ffi_do E (Dev c) s1"] w1
    have "advances E h s (handle_set h (OStream (st1\<lparr>st_timepoint := st_timepoint st1 + 1\<rparr>)) (ffi_do E (Dev c) s1))" by simp
    then show ?thesis
      using c w1 advances_then [OF A, of t] by (auto split: if_splits dest!: status_from_iree_eqD)
  qed
qed

section \<open>Runs of a stream\<close>

text \<open>
  One public call on the stream \<open>h\<close>, with any arguments, in an environment \<open>E\<close>; releases of
  the last reference aside, which end the stream. A stream whose timeline is about to wrap is
  excluded: \<open>2 ^ 64\<close> submissions are out of reach.
\<close>

definition timeline :: "ptr \<Rightarrow> hrx \<Rightarrow> nat" where
  "timeline h s = (case handle_ref as_stream h s of Some st \<Rightarrow> unat (st_timepoint st) | None \<Rightarrow> 0)"

definition room :: "ptr \<Rightarrow> hrx \<Rightarrow> bool" where
  "room h s \<longleftrightarrow> timeline h s + 2 < 2 ^ 64 \<and> wf_state s \<and> (\<exists>st. handle_ref as_stream h s = Some st)"

inductive stream_step :: "env \<Rightarrow> ptr \<Rightarrow> hrx \<Rightarrow> hrx \<Rightarrow> bool" for E :: env and h :: ptr where
  fill: "hrx_stream_fill_buffer E h b off n pat psz s = Some (res, t) \<Longrightarrow> room h s \<Longrightarrow> stream_step E h s t"
| copy: "hrx_stream_copy_buffer E h b off b' off' n s = Some (res, t) \<Longrightarrow> room h s \<Longrightarrow> stream_step E h s t"
| update: "hrx_stream_update_buffer E h data n b off s = Some (res, t) \<Longrightarrow> room h s \<Longrightarrow> stream_step E h s t"
| barrier: "hrx_stream_execution_barrier E h s = Some (res, t) \<Longrightarrow> room h s \<Longrightarrow> stream_step E h s t"
| dispatch: "hrx_stream_dispatch E h exe ord cfg cs csz bs bn fl s = Some (res, t) \<Longrightarrow> room h s \<Longrightarrow> stream_step E h s t"
| flush: "hrx_stream_flush E h s = Some (res, t) \<Longrightarrow> room h s \<Longrightarrow> stream_step E h s t"
| wait: "hrx_stream_wait E h s = Some (res, t) \<Longrightarrow> room h s \<Longrightarrow> stream_step E h s t"
| synchronize: "hrx_stream_synchronize E h s = Some (res, t) \<Longrightarrow> room h s \<Longrightarrow> stream_step E h s t"
| query: "hrx_stream_query E h out s = Some (res, t) \<Longrightarrow> room h s \<Longrightarrow> stream_step E h s t"
| get_semaphore: "hrx_stream_get_semaphore E h out s = Some (res, t) \<Longrightarrow> room h s \<Longrightarrow> stream_step E h s t"
| get_device: "hrx_stream_get_device E h out s = Some (res, t) \<Longrightarrow> room h s \<Longrightarrow> stream_step E h s t"
| get_position: "hrx_stream_get_timeline_position E h out s = Some (res, t) \<Longrightarrow> room h s \<Longrightarrow> stream_step E h s t"
| advance: "hrx_stream_advance_timeline E h out s = Some (res, t) \<Longrightarrow> room h s \<Longrightarrow> stream_step E h s t"
| wait_on: "hrx_stream_wait_on E h pos s = Some (res, t) \<Longrightarrow> room h s \<Longrightarrow> stream_step E h s t"

inductive_cases stream_stepE: "stream_step E h s t"

lemma record_null_advances:
  assumes "hrx_make_status E c m s = (res, t)" and "wf_state s"
  shows "advances E h s t"
  using make_status_eqD [OF assms(1)] assms(2) by (intro advances_arcs) auto

lemma stream_step_advances:
  assumes "stream_step E h s t"
  shows "advances E h s t \<and> room h s"
  using assms
proof cases
  case (barrier res)
  then show ?thesis
    using execution_barrier_advances [of E h s res t] record_null_advances [of E _ _ s res t h]
    by (cases "h = NULL") (auto simp: room_def hrx_stream_execution_barrier_def)
next
  case (wait res)
  then show ?thesis using stream_wait_advances [of E h s res t] by (auto simp: room_def intro: advances_arcs)
qed (auto simp: room_def hrx_stream_fill_buffer_def hrx_stream_copy_buffer_def hrx_stream_update_buffer_def
    hrx_stream_dispatch_def split: if_splits intro: record_null_advances record_op_advances flush_advances
    stream_synchronize_advances stream_reads_advances advance_timeline_advances wait_on_advances)

text \<open>The invariant: the stream is live, and pending work has an open command buffer.\<close>

definition stream_inv :: "ptr \<Rightarrow> hrx \<Rightarrow> bool" where
  "stream_inv h s \<longleftrightarrow> wf_state s \<and> (\<exists>st. handle_ref as_stream h s = Some st \<and> stream_ok st)"

lemma stream_next_timeline:
  assumes "stream_next st st'" and "unat (st_timepoint st) + 2 < 2 ^ 64"
  shows "unat (st_timepoint st) \<le> unat (st_timepoint st') \<and> unat (st_timepoint st') \<le> unat (st_timepoint st) + 2"
proof -
  obtain n :: u64 where n: "n = 0 \<or> n = 1 \<or> n = 2" "st_timepoint st' = st_timepoint st + n"
    using assms(1) by (auto simp: stream_next_def)
  have "unat n \<le> 2" using n(1) by auto
  then show ?thesis using n(2) word64_no_overflow [of "st_timepoint st" n] assms(2) by simp
qed

lemma stream_step_timeline:
  assumes "stream_step E h s t"
  shows "timeline h s \<le> timeline h t \<and> timeline h t \<le> timeline h s + 2"
proof -
  have A: "advances E h s t" "room h s" using stream_step_advances [OF assms] by simp_all
  then obtain st where st: "handle_ref as_stream h s = Some st" by (auto simp: room_def)
  then obtain st' where st': "handle_ref as_stream h t = Some st'" "stream_next st st'"
    using A(1) by (auto simp: advances_def)
  then show ?thesis using stream_next_timeline [OF st'(2)] A(2) st by (simp add: timeline_def room_def)
qed

definition reliable_step :: "env \<Rightarrow> ptr \<Rightarrow> hrx \<Rightarrow> hrx \<Rightarrow> bool" where
  "reliable_step E h s t \<longleftrightarrow> reliable E \<and> stream_step E h s t"

interpretation stream_safe: preserved "reliable_step E h" "stream_inv h"
  for E :: env and h :: ptr
proof
  fix s t assume "reliable_step E h s t" "stream_inv h s"
  then show "stream_inv h t"
    using stream_step_advances [of E h s t] by (fastforce simp: reliable_step_def stream_inv_def advances_def)
qed

interpretation stream_clock: monotone_measure "stream_step E h" "timeline h"
  for E :: env and h :: ptr
  by unfold_locales (use stream_step_timeline in blast)

interpretation stream_ledger: preserved "stream_step E h" "\<lambda>s. wf_state s \<and> (\<forall>k p. p \<noteq> NULL \<longrightarrow> surplus k p s = n k p)"
  for E :: env and h :: ptr and n :: "iree_kind \<Rightarrow> ptr \<Rightarrow> int"
  by unfold_locales (use stream_step_advances in \<open>fastforce simp: advances_def\<close>)

text \<open>What \<open>flush_inner\<close> does with pending work: end the command buffer, then submit it.\<close>

lemma flush_inner_pending:
  assumes "st_has_pending_work st" "st_pending_cb st = cb" "cb \<noteq> NULL"
    and "semaphore_hal_ptr (st_semaphore st) s = Some sem" and "handle_ref as_device (st_device st) s = Some dev"
    and "c = Cmd (iree_hal_command_buffer_end cb)"
    and "x = Dev (iree_hal_device_queue_execute (dev_hal_device dev) (2 ^ 64 - 1)
      (if st_timepoint st = 0 then [] else [(sem, st_timepoint st)]) [(sem, st_timepoint st + 1)] cb)"
    and "e = iree E (trace s) c" and "r = iree E (trace s @ [(c, e)]) x"
  shows "flush_inner E st s =
    (if r_status e \<noteq> NULL then
       let (res, s) = hrx_status_from_iree E (r_status e) (ffi_do E c s) in Some (res, st, s)
     else if r_status r \<noteq> NULL then
       let (res, s) = hrx_status_from_iree E (r_status r) (ffi_do E x (ffi_do E c s)) in Some (res, st, s)
     else Some (None, st\<lparr>st_timepoint := st_timepoint st + 1, st_pending_cb := NULL, st_has_pending_work := False\<rparr>,
            ffi_do E (Release HalCommandBuffer cb) (ffi_do E x (ffi_do E c s))))"
proof -
  have w: "(if st_timepoint st = 0 then [] else [(sem, st_timepoint st)]) =
      (if st_timepoint st > 0 then [(sem, st_timepoint st)] else [])" by (simp add: word_neq_0_conv)
  show ?thesis
    unfolding assms(6-9) w using assms(1-5)
    by (simp add: flush_inner_def ffi_pair status_is_ok_def IREE_HAL_QUEUE_AFFINITY_ANY_def hrx_ok_status_def Let_def)
qed

section \<open>Properties\<close>



text \<open>
  A stream never leaks or double-releases a reference. Along every run of public calls on a
  stream, whatever IREE answers, the references held by the library match the ledger of the calls
  exactly as they did at the start; in particular at most the one pending command buffer is held.
\<close>

theorem stream_run_no_leak:
  assumes "reachable_from (stream_step E h) s t" and "wf_state s" and "p \<noteq> NULL"
  shows "surplus k p t = surplus k p s"
  using stream_ledger.inv_reachable [OF assms(1), of "\<lambda>k p. surplus k p s"] assms(2,3) by simp

text \<open>
  C18. What a flush submits. On a live stream with pending work, the command buffer is ended and
  submitted to the stream's device waiting on the current timeline position (on nothing when the
  stream is at zero) and signalling the next one. If both calls succeed, the command buffer is
  released once, after the submission, the timeline advances by one and no work is pending;
  if either fails, the stream is left exactly as it was.
\<close>

theorem stream_flush_submits:
  fixes E :: env
  assumes st: "handle_ref as_stream h s = Some st" "h \<noteq> NULL"
    and work: "st_has_pending_work st" "st_pending_cb st = cb" "cb \<noteq> NULL"
    and sem: "semaphore_hal_ptr (st_semaphore st) s = Some sem"
    and dev: "handle_ref as_device (st_device st) s = Some dev"
  defines "tp \<equiv> st_timepoint st"
  defines "e \<equiv> iree E (trace s) (Cmd (iree_hal_command_buffer_end cb))"
  defines "x \<equiv> Dev (iree_hal_device_queue_execute (dev_hal_device dev) (2 ^ 64 - 1)
      (if tp = 0 then [] else [(sem, tp)]) [(sem, tp + 1)] cb)"
  defines "r \<equiv> iree E (trace s @ [(Cmd (iree_hal_command_buffer_end cb), e)]) x"
  shows "\<exists>res t. hrx_stream_flush E h s = Some (res, t) \<and>
    (if r_status e = NULL \<and> r_status r = NULL
     then res = None \<and>
       (\<exists>z. trace t = trace s @ [(Cmd (iree_hal_command_buffer_end cb), e), (x, r), (Release HalCommandBuffer cb, z)]) \<and>
       handle_ref as_stream h t = Some (st\<lparr>st_timepoint := tp + 1, st_pending_cb := NULL, st_has_pending_work := False\<rparr>)
     else handle_ref as_stream h t = Some st)"
proof -
  obtain a where a: "arcs s h = Some a" "arc_obj a = OStream st" using handle_ref_as_streamD [OF st(1)] by blast
  note f = flush_inner_pending [OF work sem dev refl x_def [unfolded tp_def, THEN meta_eq_to_obj_eq]
      e_def [THEN meta_eq_to_obj_eq] r_def [THEN meta_eq_to_obj_eq]]
  consider "r_status e \<noteq> NULL" | "r_status e = NULL" "r_status r \<noteq> NULL" | "r_status e = NULL" "r_status r = NULL"
    by blast
  then show ?thesis
  proof cases
    case 1
    then show ?thesis using st a f by (auto simp: hrx_stream_flush_def prod.case_eq_if)
  next
    case 2
    then show ?thesis using st a f by (auto simp: hrx_stream_flush_def prod.case_eq_if)
  next
    case 3
    let ?c = "Cmd (iree_hal_command_buffer_end cb)"
    have "iree E (trace s) ?c = e" "iree E (trace s @ [(?c, e)]) x = r" by (simp_all add: e_def r_def)
    then show ?thesis
      using st 3 a f by (simp add: hrx_stream_flush_def tp_def)
  qed
qed

text \<open>
  C19. Waiting on another timeline does not wait on one's own. A successful \<open>hrx_stream_wait_on\<close>
  with nothing pending submits one barrier that waits for the given position only, and signals
  the next position of the stream's own timeline, without waiting for the current one.
\<close>

theorem stream_wait_on_edges:
  assumes "handle_ref as_stream h s = Some st" "h \<noteq> NULL" "\<not> st_has_pending_work st"
    and "fst pos \<noteq> NULL" "semaphore_hal_ptr (fst pos) s = Some other"
    and "semaphore_hal_ptr (st_semaphore st) s = Some own"
    and "handle_ref as_device (st_device st) s = Some dev"
    and "c = Dev (iree_hal_device_queue_barrier (dev_hal_device dev) (2 ^ 64 - 1)
           [(other, snd pos)] [(own, st_timepoint st + 1)])"
    and "r_status (iree E (trace s) c) = NULL"
  shows "\<exists>t. hrx_stream_wait_on E h pos s = Some (hrx_ok_status, t) \<and>
    trace t = trace s @ [(c, iree E (trace s) c)] \<and>
    handle_ref as_stream h t = Some (st\<lparr>st_timepoint := st_timepoint st + 1\<rparr>)"
proof -
  obtain a where a: "arcs s h = Some a" "arc_obj a = OStream st" using handle_ref_as_streamD [OF assms(1)] by blast
  have "hrx_stream_flush E h s = Some (hrx_ok_status, s)"
    using assms(1-3) handle_set_same [OF a] by (simp add: hrx_stream_flush_def flush_inner_def)
  then show ?thesis
    using assms a
    by (simp add: hrx_stream_wait_on_def hrx_status_is_ok_def hrx_ok_status_def ffi_pair status_is_ok_def
        IREE_HAL_QUEUE_AFFINITY_ANY_def Let_def)
qed

section \<open>Witnesses\<close>

text \<open>A device (1), a semaphore (2), a fence (3), a buffer (4) and a stream (5) with no work.\<close>

definition demo_stream_s :: hrx_stream_s where
  "demo_stream_s = \<lparr>st_timepoint = 3, st_pending_cb = NULL, st_has_pending_work = False, st_flags = 0,
     st_semaphore = 2, st_device = 1\<rparr>"

definition demo_stream :: hrx where
  "demo_stream = snd (into_handle (OStream demo_stream_s) demo_fill)"

text \<open>The same with an open command buffer 40 and pending work.\<close>

definition busy_stream_s :: hrx_stream_s where
  "busy_stream_s = demo_stream_s\<lparr>st_pending_cb := 40, st_has_pending_work := True\<rparr>"

definition busy_stream :: hrx where
  "busy_stream = snd (into_handle (OStream busy_stream_s) demo_fill)"

lemma demo_stream_refs [simp]:
  "handle_ref as_stream 5 demo_stream = Some demo_stream_s"
  "handle_ref as_device 1 demo_stream = Some demo_device"
  "semaphore_hal_ptr 2 demo_stream = Some 60"
  "handle_ref as_stream 5 busy_stream = Some busy_stream_s"
  "handle_ref as_device 1 busy_stream = Some demo_device"
  "semaphore_hal_ptr 2 busy_stream = Some 60"
  "trace demo_stream = []" "trace busy_stream = []"
  by (simp_all add: handle_ref_def semaphore_hal_ptr_def demo_stream_def busy_stream_def demo_fill_def demo_sync_def
      demo_state_def hrx_initial_def)

lemma demo_stream_fields [simp]:
  "st_timepoint demo_stream_s = 3" "st_semaphore demo_stream_s = 2" "st_device demo_stream_s = 1"
  "st_pending_cb demo_stream_s = NULL" "\<not> st_has_pending_work demo_stream_s"
  "st_timepoint busy_stream_s = 3" "st_semaphore busy_stream_s = 2" "st_device busy_stream_s = 1"
  "st_pending_cb busy_stream_s = 40" "st_has_pending_work busy_stream_s"
  by (simp_all add: demo_stream_s_def busy_stream_s_def)

lemma wf_demo_stream [simp]: "wf_state demo_stream" "wf_state busy_stream"
  by (simp_all add: demo_stream_def busy_stream_def)

lemma reliable_ok_env: "reliable ok_env"
  by (simp add: reliable_def)

lemma busy_flush: "\<exists>t. hrx_stream_flush ok_env 5 busy_stream = Some (None, t) \<and> timeline 5 t = 4"
proof -
  have "arcs busy_stream 5 \<noteq> None" by (simp add: busy_stream_def demo_fill_def demo_sync_def demo_state_def hrx_initial_def)
  then show ?thesis
    using demo_stream_refs(5,6)
    by (simp add: hrx_stream_flush_def flush_inner_def ffi_pair status_is_ok_def hrx_ok_status_def Let_def
        timeline_def)
qed

lemma busy_step: "\<exists>t. stream_step ok_env 5 busy_stream t \<and> timeline 5 t = 4"
proof -
  obtain t where t: "hrx_stream_flush ok_env 5 busy_stream = Some (None, t)" "timeline 5 t = 4" using busy_flush by blast
  have "room 5 busy_stream" by (simp add: room_def timeline_def)
  from stream_step.flush [OF t(1) this] t(2) show ?thesis by blast
qed



theorem stream_run_no_leak_witness:
  "\<exists>t. reachable_from (stream_step ok_env 5) busy_stream t \<and> timeline 5 t = 4 \<and>
     surplus HalCommandBuffer 40 t = surplus HalCommandBuffer 40 busy_stream"
proof -
  obtain t where t: "stream_step ok_env 5 busy_stream t" "timeline 5 t = 4" using busy_step by blast
  then have r: "reachable_from (stream_step ok_env 5) busy_stream t" by (auto intro: reachable_from.intros)
  from stream_run_no_leak [OF r] r t(2) show ?thesis by auto
qed

theorem stream_flush_submits_witness:
  "\<exists>t z. hrx_stream_flush ok_env 5 busy_stream = Some (None, t) \<and>
     map fst (trace t) = [Cmd (iree_hal_command_buffer_end 40),
       Dev (iree_hal_device_queue_execute 52 (2 ^ 64 - 1) [(60, 3)] [(60, 4)] 40), Release HalCommandBuffer 40] \<and>
     handle_ref as_stream 5 t = Some (busy_stream_s\<lparr>st_timepoint := 4, st_pending_cb := NULL, st_has_pending_work := False\<rparr>)"
  using stream_flush_submits [of 5 busy_stream busy_stream_s 40 60 demo_device ok_env] demo_stream_refs(5)
  by (auto simp: demo_device_def)

theorem stream_wait_on_edges_witness:
  "\<exists>t r. hrx_stream_wait_on ok_env 5 (2, 9) demo_stream = Some (hrx_ok_status, t) \<and>
     trace t = [(Dev (iree_hal_device_queue_barrier 52 (2 ^ 64 - 1) [(60, 9)] [(60, 4)]), r)]"
  using stream_wait_on_edges [of 5 demo_stream demo_stream_s "(2, 9)" 60 60 demo_device _ ok_env] demo_stream_refs(2)
  by (auto simp: demo_device_def)

end
