(* ===== verification/Text.thy ===== *)
theory Text
  imports Prelude
begin

text \<open>
  The text handling of the Rust standard library that the sources use: the \<open>format!\<close>
  conversions, substring search, splitting, trimming, the parsing of decimal numbers and the
  lossy reading of C strings. A string is its UTF-8 encoding, one \<open>char\<close> per byte.

  The theory shows that what is printed in decimal is read back, that a search finds exactly the
  substrings, that splitting loses nothing, and that the lossy reading changes no ASCII text and
  always yields valid UTF-8.
\<close>

section \<open>Formatting\<close>

text \<open>\<open>{}\<close> of a non-negative number.\<close>

fun decimal :: "nat \<Rightarrow> string" where
  "decimal n = (if n < 10 then [char_of (48 + n)] else decimal (n div 10) @ [char_of (48 + n mod 10)])"

declare decimal.simps [simp del]

text \<open>\<open>{}\<close> of a signed number.\<close>

definition show_int :: "int \<Rightarrow> string" where
  "show_int i = (if i < 0 then ''-'' @ decimal (nat (- i)) else decimal (nat i))"

definition hex_digit :: "nat \<Rightarrow> char" where
  "hex_digit d = (if d < 10 then char_of (48 + d) else char_of (87 + d))"

text \<open>\<open>{:x}\<close>.\<close>

fun hex :: "nat \<Rightarrow> string" where
  "hex n = (if n < 16 then [hex_digit n] else hex (n div 16) @ [hex_digit (n mod 16)])"

declare hex.simps [simp del]

text \<open>Zero padding to a width: \<open>{:02x}\<close>, \<open>{:016x}\<close>, \<open>{:06}\<close>.\<close>

definition pad0 :: "nat \<Rightarrow> string \<Rightarrow> string" where
  "pad0 w t = replicate (w - length t) (CHR ''0'') @ t"

text \<open>\<open>{:x}\<close> of a \<open>c_int\<close> prints its two's complement.\<close>

definition hex_i32 :: "i32 \<Rightarrow> string" where
  "hex_i32 i = hex (unat (word_of_int i :: u32))"

text \<open>
  \<open>{:.6}\<close> of an \<open>f32\<close> given by its bits: the exact value times \<open>10^6\<close>, rounded to nearest, ties
  to even.
\<close>

definition round_half_even :: "nat \<Rightarrow> nat \<Rightarrow> nat" where
  "round_half_even n d =
     (let q = n div d; r = n mod d
      in if 2 * r > d \<or> 2 * r = d \<and> odd q then q + 1 else q)"

definition f32_micros :: "u32 \<Rightarrow> nat" where
  "f32_micros b =
     (let e = unat (drop_bit 23 b) mod 256; m = unat b mod 2 ^ 23
      in if e = 0 then round_half_even (m * 10 ^ 6) (2 ^ 149)
         else if e < 150 then round_half_even ((2 ^ 23 + m) * 10 ^ 6) (2 ^ (150 - e))
         else (2 ^ 23 + m) * 2 ^ (e - 150) * 10 ^ 6)"

definition show_f32_6 :: "u32 \<Rightarrow> string" where
  "show_f32_6 b =
     (let e = unat (drop_bit 23 b) mod 256; m = unat b mod 2 ^ 23;
          sign = (if bit b 31 then ''-'' else [])
      in if e = 255 \<and> m \<noteq> 0 then ''NaN''
         else if e = 255 then sign @ ''inf''
         else let v = f32_micros b
              in sign @ decimal (v div 10 ^ 6) @ ''.'' @ pad0 6 (decimal (v mod 10 ^ 6)))"

section \<open>Searching and splitting\<close>

fun starts_with :: "string \<Rightarrow> string \<Rightarrow> bool" where
  "starts_with [] t = True"
| "starts_with (a # p) [] = False"
| "starts_with (a # p) (b # t) = (a = b \<and> starts_with p t)"

text \<open>\<open>str::contains\<close>.\<close>

fun contains :: "string \<Rightarrow> string \<Rightarrow> bool" where
  "contains p [] = (p = [])"
| "contains p (b # t) = (starts_with p (b # t) \<or> contains p t)"

text \<open>\<open>str::split(c)\<close>: always at least one piece.\<close>

fun split_at_char :: "char \<Rightarrow> string \<Rightarrow> string list" where
  "split_at_char c [] = [[]]"
| "split_at_char c (a # t) =
     (if a = c then [] # split_at_char c t
      else case split_at_char c t of [] \<Rightarrow> [[a]] | w # ws \<Rightarrow> (a # w) # ws)"

section \<open>Parsing\<close>

text \<open>
  \<open>str::trim_start\<close>: the characters with the Unicode property \<open>White_Space\<close>. The first argument
  of \<open>of_char\<close> patterns below are their UTF-8 bytes.
\<close>

definition white_spaces :: "nat list list" where
  "white_spaces =
     [[9], [10], [11], [12], [13], [32], [0xC2, 0x85], [0xC2, 0xA0], [0xE1, 0x9A, 0x80]] @
     map (\<lambda>b. [0xE2, 0x80, b]) [0x80 ..< 0x8B] @
     [[0xE2, 0x80, 0xA8], [0xE2, 0x80, 0xA9], [0xE2, 0x80, 0xAF], [0xE2, 0x81, 0x9F], [0xE3, 0x80, 0x80]]"

definition white_prefix :: "string \<Rightarrow> nat" where
  "white_prefix t = (case find (\<lambda>w. starts_with (map char_of w) t) white_spaces of
     Some w \<Rightarrow> length w | None \<Rightarrow> 0)"

lemma white_prefix_le: "white_prefix t \<le> length t"
proof -
  have "starts_with p u \<Longrightarrow> length p \<le> length u" for p u
    by (induction p u rule: starts_with.induct) auto
  then show ?thesis
    by (auto simp: white_prefix_def find_Some_iff split: option.splits) (metis length_map)
qed

function trim_start :: "string \<Rightarrow> string" where
  "trim_start t = (if white_prefix t = 0 then t else trim_start (drop (white_prefix t) t))"
  by pat_completeness auto
termination
  by (relation "measure length") (auto dest: order_trans [OF _ white_prefix_le], metis diff_less le_zero_eq length_greater_0_conv list.size(3) neq0_conv white_prefix_le)

declare trim_start.simps [simp del]

definition is_ascii_digit :: "char \<Rightarrow> bool" where
  "is_ascii_digit c = (48 \<le> (of_char c :: nat) \<and> (of_char c :: nat) \<le> 57)"

definition digits_value :: "string \<Rightarrow> nat" where
  "digits_value ds = foldl (\<lambda>v c. 10 * v + (of_char c - 48)) 0 ds"

text \<open>
  \<open>digits.parse()\<close> for a signed type with the given maximum, on a string of ASCII digits: an error
  on the empty string and on overflow.
\<close>

definition parse_digits :: "nat \<Rightarrow> string \<Rightarrow> nat option" where
  "parse_digits mx ds = (if ds = [] \<or> mx < digits_value ds then None else Some (digits_value ds))"

text \<open>A number with an optional sign; 0 when there is none or it does not fit.\<close>

definition parse_signed :: "nat \<Rightarrow> string \<Rightarrow> int" where
  "parse_signed mx s =
     (let s = trim_start s;
          (neg, rest) = (case s of
             [] \<Rightarrow> (False, s)
           | c # r \<Rightarrow> if c = CHR ''-'' then (True, r) else if c = CHR ''+'' then (False, r) else (False, s));
          digits = takeWhile is_ascii_digit rest;
          v = (case parse_digits mx digits of Some n \<Rightarrow> int n | None \<Rightarrow> 0)
      in if neg then - v else v)"

section \<open>Lossy UTF-8\<close>

definition byte_in :: "nat \<Rightarrow> nat \<Rightarrow> string \<Rightarrow> nat \<Rightarrow> bool" where
  "byte_in lo hi t i = (i < length t \<and> lo \<le> of_char (t ! i) \<and> of_char (t ! i) \<le> hi)"

text \<open>The range of the second byte of a sequence of three or four bytes, by the first one.\<close>

definition second_range :: "nat \<Rightarrow> nat \<times> nat" where
  "second_range b =
     (if b = 0xE0 then (0xA0, 0xBF) else if b = 0xED then (0x80, 0x9F)
      else if b = 0xF0 then (0x90, 0xBF) else if b = 0xF4 then (0x80, 0x8F) else (0x80, 0xBF))"

text \<open>
  The next character of a non-empty byte string: how many bytes it takes and whether they are a
  character; an ill-formed sequence takes its longest proper prefix of a character.
\<close>

definition utf8_next :: "string \<Rightarrow> nat \<times> bool" where
  "utf8_next t =
     (let b = (of_char (t ! 0) :: nat);
          second = byte_in (fst (second_range b)) (snd (second_range b)) t 1;
          cont = byte_in 0x80 0xBF t
      in if b < 0x80 then (1, True)
         else if 0xC2 \<le> b \<and> b \<le> 0xDF then (if cont 1 then (2, True) else (1, False))
         else if 0xE0 \<le> b \<and> b \<le> 0xEF then
           (if \<not> second then (1, False) else if \<not> cont 2 then (2, False) else (3, True))
         else if 0xF0 \<le> b \<and> b \<le> 0xF4 then
           (if \<not> second then (1, False) else if \<not> cont 2 then (2, False)
            else if \<not> cont 3 then (3, False) else (4, True))
         else (1, False))"

lemma utf8_next_pos: "0 < fst (utf8_next t)"
  by (simp add: utf8_next_def Let_def)

lemma utf8_next_less [simp]: "t \<noteq> [] \<Longrightarrow> length t - fst (utf8_next t) < length t"
  using utf8_next_pos [of t] by simp

text \<open>\<open>CStr::to_string_lossy\<close>: each ill-formed sequence becomes U+FFFD.\<close>

definition replacement :: string where
  "replacement = map char_of [0xEF, 0xBF, 0xBD :: nat]"

function to_string_lossy :: "string \<Rightarrow> string" where
  "to_string_lossy t =
     (if t = [] then []
      else let (n, ok) = utf8_next t
           in (if ok then take n t else replacement) @ to_string_lossy (drop n t))"
  by pat_completeness auto
termination
  by (relation "measure length") (auto dest: sym [of "(_, _)"] simp: utf8_next_pos [THEN less_not_refl2], (metis fst_conv utf8_next_less))

declare to_string_lossy.simps [simp del]

section \<open>Facts\<close>

lemma starts_with_iff: "starts_with p t \<longleftrightarrow> (\<exists>r. t = p @ r)"
  by (induction p t rule: starts_with.induct) auto

lemma contains_iff: "contains p t \<longleftrightarrow> (\<exists>a b. t = a @ p @ b)"
proof (induction t)
  case (Cons c t)
  have "(\<exists>a b. c # t = a @ p @ b) \<longleftrightarrow> (\<exists>b. c # t = p @ b) \<or> (\<exists>a b. t = a @ p @ b)"
    by (metis append_Cons append_Nil list.exhaust list.inject)
  then show ?case using Cons by (simp add: starts_with_iff)
qed simp

text \<open>A splitting is undone by putting the separator back, and no piece contains it.\<close>

fun join_with :: "char \<Rightarrow> string list \<Rightarrow> string" where
  "join_with c [] = []"
| "join_with c [w] = w"
| "join_with c (w # v # ws) = w @ c # join_with c (v # ws)"

lemma split_nonempty [simp]: "split_at_char c t \<noteq> []"
  by (cases t) (auto split: list.splits)

lemma join_split: "join_with c (split_at_char c t) = t"
proof (induction t)
  case (Cons a t)
  obtain w ws where w: "split_at_char c t = w # ws" by (metis split_nonempty list.exhaust)
  show ?case using Cons w by (cases ws) auto
qed simp

lemma split_no_separator: "w \<in> set (split_at_char c t) \<Longrightarrow> c \<notin> set w"
  by (induction t arbitrary: w) (auto split: if_splits list.splits)

subsection \<open>Decimal numbers\<close>

lemma decimal_nonempty [simp]: "decimal n \<noteq> []"
  by (subst decimal.simps) simp

lemma of_char_digit [simp]: "d < 10 \<Longrightarrow> (of_char (char_of (48 + d) :: char) :: nat) = 48 + d"
  by simp

lemma decimal_small: "n < 10 \<Longrightarrow> decimal n = [char_of (48 + n)]"
  by (simp add: decimal.simps)

lemma decimal_large: "\<not> n < 10 \<Longrightarrow> decimal n = decimal (n div 10) @ [char_of (48 + n mod 10)]"
  by (subst decimal.simps) simp

lemma decimal_digits: "c \<in> set (decimal n) \<Longrightarrow> is_ascii_digit c"
proof (induction n rule: less_induct)
  case (less n)
  show ?case
  proof (cases "n < 10")
    case True
    then show ?thesis using less.prems by (simp add: decimal_small is_ascii_digit_def)
  next
    case False
    then show ?thesis
      using less.prems less.IH [of "n div 10"] by (auto simp: decimal_large is_ascii_digit_def)
  qed
qed

lemma digits_value_snoc: "digits_value (ds @ [c]) = 10 * digits_value ds + (of_char c - 48)"
  by (simp add: digits_value_def)

lemma digits_value_decimal [simp]: "digits_value (decimal n) = n"
proof (induction n rule: less_induct)
  case (less n)
  show ?case
  proof (cases "n < 10")
    case True
    then show ?thesis by (simp add: decimal_small digits_value_def)
  next
    case False
    then show ?thesis using less.IH [of "n div 10"] by (simp add: decimal_large digits_value_snoc)
  qed
qed

lemma takeWhile_decimal: "takeWhile is_ascii_digit (decimal n @ r) = decimal n @ takeWhile is_ascii_digit r"
  using decimal_digits by (simp add: takeWhile_append2)

lemma white_prefix_no:
  assumes "\<And>w. w \<in> set white_spaces \<Longrightarrow> char_of (w ! 0) \<noteq> c"
  shows "white_prefix (c # t) = 0"
proof -
  have "\<not> starts_with (map char_of w) (c # t)" if "w \<in> set white_spaces" for w
    using assms [OF that] that by (cases w) (auto simp: white_spaces_def)
  then show ?thesis by (auto simp: white_prefix_def find_Some_iff split: option.splits)
qed

lemma trim_start_printable:
  assumes "33 \<le> (of_char c :: nat)" and "(of_char c :: nat) < 128"
  shows "trim_start (c # t) = c # t"
proof -
  have "white_prefix (c # t) = 0"
  proof (rule white_prefix_no)
    fix w assume "w \<in> set white_spaces"
    then have "w ! 0 < 33 \<or> w ! 0 \<ge> 128 \<and> w ! 0 < 256" by (auto simp: white_spaces_def)
    then have "(of_char (char_of (w ! 0) :: char) :: nat) \<noteq> of_char c" using assms by auto
    then show "char_of (w ! 0) \<noteq> c" by metis
  qed
  then show ?thesis by (subst trim_start.simps) simp
qed

lemma parse_signed_decimal:
  "n \<le> mx \<Longrightarrow> parse_signed mx (decimal n @ r) = int n"
  if "r = [] \<or> \<not> is_ascii_digit (hd r)"
proof -
  assume n: "n \<le> mx"
  obtain c ds where d: "decimal n = c # ds" by (metis decimal_nonempty list.exhaust)
  then have c: "is_ascii_digit c" using decimal_digits [of c n] by simp
  then have "trim_start (decimal n @ r) = decimal n @ r" "c \<noteq> CHR ''-''" "c \<noteq> CHR ''+''"
    using d trim_start_printable [of c] by (auto simp: is_ascii_digit_def)
  moreover have "takeWhile is_ascii_digit (decimal n @ r) = decimal n"
    using that by (simp add: takeWhile_decimal) (cases r; simp)
  ultimately show ?thesis
    using n d digits_value_decimal [of n] by (simp add: parse_signed_def parse_digits_def Let_def)
qed

subsection \<open>UTF-8\<close>

function utf8_valid :: "string \<Rightarrow> bool" where
  "utf8_valid t = (if t = [] then True else snd (utf8_next t) \<and> utf8_valid (drop (fst (utf8_next t)) t))"
  by pat_completeness auto
termination
  by (relation "measure length") auto

declare utf8_valid.simps [simp del]

lemma byte_in_append: "i < n \<Longrightarrow> n \<le> length t \<Longrightarrow> byte_in lo hi (take n t @ u) i = byte_in lo hi t i"
  by (simp add: byte_in_def nth_append)

lemma utf8_next_length: "utf8_next t = (n, True) \<Longrightarrow> t \<noteq> [] \<Longrightarrow> n \<le> length t"
  by (cases t) (auto simp: utf8_next_def Let_def byte_in_def Suc_le_eq split: if_splits)

lemma utf8_next_append:
  assumes "utf8_next t = (n, True)" and "t \<noteq> []"
  shows "utf8_next (take n t @ u) = (n, True)"
proof -
  have n: "n \<le> length t" "0 < n" using utf8_next_length [OF assms] utf8_next_pos [of t] assms by auto
  then have z: "(take n t @ u) ! 0 = t ! 0" by (simp add: nth_append)
  show ?thesis
    using assms n byte_in_append [of _ n t]
    unfolding utf8_next_def z Let_def by (auto split: if_splits)
qed

lemma utf8_next_replacement: "utf8_next (replacement @ u) = (3, True)"
  by (simp add: replacement_def utf8_next_def byte_in_def second_range_def)

lemma lossy_valid: "utf8_valid (to_string_lossy t)"
proof (induction t rule: to_string_lossy.induct)
  case (1 t)
  show ?case
  proof (cases "t = []")
    case True
    then show ?thesis by (simp add: to_string_lossy.simps utf8_valid.simps)
  next
    case False
    obtain n ok where n: "utf8_next t = (n, ok)" by fastforce
    then have IH: "utf8_valid (to_string_lossy (drop n t))" using 1 False by simp
    let ?w = "if ok then take n t else replacement"
    have nx: "utf8_next (?w @ u) = (length ?w, True)" for u
    proof (cases ok)
      case True
      then show ?thesis using n False utf8_next_append [of t n u] utf8_next_length [of t n] by simp
    next
      case False
      then show ?thesis using utf8_next_replacement [of u] by (simp add: replacement_def)
    qed
    have "to_string_lossy t = ?w @ to_string_lossy (drop n t)"
      using n False by (subst to_string_lossy.simps) simp
    then show ?thesis using nx IH utf8_valid.simps [of "?w @ to_string_lossy (drop n t)"] by simp
  qed
qed

lemma lossy_ascii:
  assumes "\<And>c. c \<in> set t \<Longrightarrow> (of_char c :: nat) < 128"
  shows "to_string_lossy t = t"
  using assms
proof (induction t)
  case (Cons c t)
  then have "utf8_next (c # t) = (1, True)" by (simp add: utf8_next_def)
  then show ?case using Cons by (subst to_string_lossy.simps) simp
qed (simp add: to_string_lossy.simps)

end
