(* ===== verification/Runtime.thy ===== *)
theory Runtime
  imports Stream Text
begin

text \<open>
  The runtime singletons (\<open>hrx-libhrx/src/runtime.rs\<close>): the shared VM instance and proactor pool,
  counted by the accelerators that use them, and the CPU and GPU accelerators with their devices.
  Every entry point takes the one lock for its whole body, so calls are atomic.

  The theory shows that the count of the shared state is the number of initialised accelerators in
  every reachable state, that a failing initialisation gives back everything it took, and which
  devices an initialised accelerator exposes.
\<close>

section \<open>Strings\<close>

text \<open>Copying into a fixed array: at most \<open>N - 1\<close> characters, the rest NUL.\<close>

definition cstr_array :: "nat \<Rightarrow> string \<Rightarrow> string" where
  "cstr_array N str = (let n = min (length str) (N - 1) in take n str @ replicate (N - n) (CHR 0x00))"

definition cstr_array_from_raw :: "nat \<Rightarrow> string \<Rightarrow> string" where
  "cstr_array_from_raw N str = (let n = min (length str) (N - 1) in take n str @ replicate (N - n) (CHR 0x00))"

definition gpu_architecture :: "env \<Rightarrow> ptr \<Rightarrow> hrx \<Rightarrow> string \<times> hrx" where
  "gpu_architecture E hal_device s =
     (let (r, s) = ffi E (Dev (iree_hal_device_query_i64 hal_device ''hal.device'' ''gfxip'')) s
      in if \<not> status_is_ok (r_status r) then
           (cstr_array 64 ''unknown'', ffi_do E (Host (iree_status_free (r_status r))) s)
         else
           let gfxip = r_val r;
               major = drop_bit 16 gfxip AND 0xff;
               minor = drop_bit 8 gfxip AND 0xff;
               stepping = gfxip AND 0xff
           in (cstr_array 64 (''gfx'' @ decimal (unat major) @ decimal (unat minor) @ decimal (unat stepping)), s))"

section \<open>Shared state\<close>

definition upd_shared :: "(shared_state \<Rightarrow> shared_state) \<Rightarrow> hrx \<Rightarrow> hrx" where
  "upd_shared f s = s\<lparr>G := (G s)\<lparr>g_shared := f (g_shared (G s))\<rparr>\<rparr>"

definition upd_cpu :: "(accel_state \<Rightarrow> accel_state) \<Rightarrow> hrx \<Rightarrow> hrx" where
  "upd_cpu f s = s\<lparr>G := (G s)\<lparr>g_cpu := f (g_cpu (G s))\<rparr>\<rparr>"

definition upd_gpu :: "(accel_state \<Rightarrow> accel_state) \<Rightarrow> hrx \<Rightarrow> hrx" where
  "upd_gpu f s = s\<lparr>G := (G s)\<lparr>g_gpu := f (g_gpu (G s))\<rparr>\<rparr>"

definition HRX_MAX_DEVICES :: nat where "HRX_MAX_DEVICES = 64"

definition hrx_runtime_version :: "ptr \<Rightarrow> ptr \<Rightarrow> ptr \<Rightarrow> hrx \<Rightarrow> hrx" where
  "hrx_runtime_version major minor patch s =
     (let s = (if major \<noteq> NULL then poke major (CI32 0) s else s);
          s = (if minor \<noteq> NULL then poke minor (CI32 1) s else s)
      in if patch \<noteq> NULL then poke patch (CI32 0) s else s)"

definition shared_vm_instance :: "hrx \<Rightarrow> ptr \<times> bool" where
  "shared_vm_instance s = (vm_instance (g_shared (G s)), shared_initialized (g_shared (G s)))"

definition shared_proactor_and_host_allocator :: "hrx \<Rightarrow> ptr \<times> iree_allocator" where
  "shared_proactor_and_host_allocator s = (proactor_pool (g_shared (G s)), host_allocator (g_shared (G s)))"

definition ensure_shared_state :: "env \<Rightarrow> hrx \<Rightarrow> hrx_status \<times> hrx" where
  "ensure_shared_state E s =
     (if shared_initialized (g_shared (G s)) then
        (hrx_ok_status, upd_shared (\<lambda>g. g\<lparr>init_count := init_count g + 1\<rparr>) s)
      else
        let s = upd_shared (\<lambda>g. g\<lparr>host_allocator := allocator_system E\<rparr>) s;
            (r, s) = ffi E (Create iree_vm_instance_create) s;
            inst = r_ptr r
        in if \<not> status_is_ok (r_status r) then hrx_status_from_iree E (r_status r) s
           else
             let (r, s) = ffi E (Host (iree_hal_module_register_all_types inst)) s
             in if \<not> status_is_ok (r_status r) then
                  let s = ffi_do E (Release VmInstance inst) s
                  in hrx_status_from_iree E (r_status r) s
                else
                  let s = upd_shared (\<lambda>g. g\<lparr>vm_instance := inst\<rparr>) s;
                      (r, s) = ffi E (Create iree_async_proactor_pool_create) s
                  in if \<not> status_is_ok (r_status r) then
                       let s = ffi_do E (Release VmInstance inst) s;
                           s = upd_shared (\<lambda>g. g\<lparr>vm_instance := NULL\<rparr>) s
                       in hrx_status_from_iree E (r_status r) s
                     else
                       let s = upd_shared (\<lambda>g. g\<lparr>proactor_pool := r_ptr r\<rparr>) s;
                           s = upd_shared (\<lambda>g. g\<lparr>shared_initialized := True\<rparr>) s;
                           s = upd_shared (\<lambda>g. g\<lparr>init_count := 1\<rparr>) s
                       in (hrx_ok_status, s))"

definition release_shared_state :: "env \<Rightarrow> hrx \<Rightarrow> hrx" where
  "release_shared_state E s =
     (if \<not> shared_initialized (g_shared (G s)) then s
      else
        let s = upd_shared (\<lambda>g. g\<lparr>init_count := init_count g - 1\<rparr>) s
        in if init_count (g_shared (G s)) > 0 then s
           else
             let pool = proactor_pool (g_shared (G s));
                 s = (if pool \<noteq> NULL then
                        upd_shared (\<lambda>g. g\<lparr>proactor_pool := NULL\<rparr>) (ffi_do E (Release ProactorPool pool) s)
                      else s);
                 inst = vm_instance (g_shared (G s));
                 s = (if inst \<noteq> NULL then
                        upd_shared (\<lambda>g. g\<lparr>vm_instance := NULL\<rparr>) (ffi_do E (Release VmInstance inst) s)
                      else s)
             in upd_shared (\<lambda>g. g\<lparr>shared_initialized := False\<rparr>) s)"

section \<open>Building devices\<close>

text \<open>The status and the group, which is meaningful only when the status is OK.\<close>

definition create_single_device_group :: "env \<Rightarrow> ptr \<Rightarrow> hrx \<Rightarrow> iree_status \<times> ptr \<times> hrx" where
  "create_single_device_group E device s =
     (let (r, s) = ffi E (Create iree_async_frontier_tracker_create) s;
          tracker = r_ptr r
      in if \<not> status_is_ok (r_status r) then (r_status r, NULL, s)
         else
           let (r, s) = ffi E (Create (iree_hal_device_group_create_from_device device tracker)) s;
               s = ffi_do E (Release FrontierTracker tracker) s
           in (r_status r, r_ptr r, s))"

text \<open>The loops over the loader array, which has eight slots: a larger count panics.\<close>

fun release_loaders :: "env \<Rightarrow> ptr list \<Rightarrow> hrx \<Rightarrow> hrx" where
  "release_loaders E [] s = s"
| "release_loaders E (l # ls) s = release_loaders E ls (ffi_do E (Release ExecutableLoader l) s)"

definition create_local_task_device ::
  "env \<Rightarrow> usize \<Rightarrow> hrx \<Rightarrow> ((hrx_status + ptr \<times> ptr) \<times> hrx) option" where
  "create_local_task_device E group_count s =
     (let (r, s) = ffi E (Create (iree_task_executor_create group_count)) s;
          executor = r_ptr r
      in if \<not> status_is_ok (r_status r) then
           let (res, s) = hrx_status_from_iree E (r_status r) s in Some (Inl res, s)
         else
           let (r, s) = ffi E (Host (iree_hal_create_all_available_executable_loaders 8)) s;
               loaders = r_ptrs r
           in if \<not> status_is_ok (r_status r) then
                let s = ffi_do E (Release TaskExecutor executor) s;
                    (res, s) = hrx_status_from_iree E (r_status r) s
                in Some (Inl res, s)
              else
                let (r, s) = ffi E (Create iree_hal_allocator_create_heap) s;
                    device_allocator = r_ptr r
                in if length loaders > 8 then None
                   else if \<not> status_is_ok (r_status r) then
                     let s = release_loaders E loaders s;
                         s = ffi_do E (Release TaskExecutor executor) s;
                         (res, s) = hrx_status_from_iree E (r_status r) s
                     in Some (Inl res, s)
                   else
                     let (r, s) = ffi E (Create (iree_hal_task_driver_create executor loaders device_allocator)) s;
                         driver = r_ptr r;
                         s = ffi_do E (Release TaskExecutor executor) s;
                         s = release_loaders E loaders s;
                         s = ffi_do E (Release HalAllocator device_allocator) s
                     in if \<not> status_is_ok (r_status r) then
                          let (res, s) = hrx_status_from_iree E (r_status r) s in Some (Inl res, s)
                        else
                          let (r, s) = ffi E (Create (iree_hal_driver_create_default_device driver
                                                        (pool_for_device s))) s
                          in if \<not> status_is_ok (r_status r) then
                               let s = ffi_do E (Release HalDriver driver) s;
                                   (res, s) = hrx_status_from_iree E (r_status r) s
                               in Some (Inl res, s)
                             else Some (Inr (driver, r_ptr r), s))"

text \<open>
  The device object, built around its own address: \<open>expect\<close> refuses null HAL objects.
\<close>

definition new_device ::
  "i32 \<Rightarrow> i32 \<Rightarrow> ptr \<Rightarrow> ptr \<Rightarrow> ptr \<Rightarrow> string \<Rightarrow> string \<Rightarrow> hrx \<Rightarrow> (ptr \<times> hrx) option" where
  "new_device ty ordinal hal_device device_group hal_alloc name arch s = do {
     hd \<leftarrow> HalDevice_from_owned hal_device;
     gr \<leftarrow> HalDeviceGroup_from_owned device_group;
     al \<leftarrow> HalAllocator_from_owned hal_alloc;
     Some (into_handle_cyclic (\<lambda>self_ptr. ODevice \<lparr>dev_type = ty, dev_ordinal = ordinal,
       dev_allocator = \<lparr>al_hal_allocator = al, al_device = self_ptr\<rparr>,
       dev_hal_device_group = gr, dev_hal_device = hd, dev_name = name, dev_architecture = arch\<rparr>) s) }"

section \<open>The CPU accelerator\<close>

definition hrx_cpu_initialize :: "env \<Rightarrow> u32 \<Rightarrow> hrx \<Rightarrow> (hrx_status \<times> hrx) option" where
  "hrx_cpu_initialize E fl s =
     (if acc_initialized (g_cpu (G s)) then
        Some (hrx_make_status E (code_i32 AlreadyExists) (Some ''CPU accelerator already initialized'') s)
      else
        let (res, s) = ensure_shared_state E s
        in if \<not> hrx_status_is_ok res then Some (res, s)
           else do {
             let s = s\<lparr>pool_for_device := proactor_pool (g_shared (G s))\<rparr>;
             (x, s) \<leftarrow> create_local_task_device E 4 s;
             case x of
               Inl e \<Rightarrow> Some (e, release_shared_state E s)
             | Inr (driver, hal_device) \<Rightarrow>
                 (let (ist, device_group, s) = create_single_device_group E hal_device s
                  in if \<not> status_is_ok ist then
                       let s = ffi_do E (Release HalDevice hal_device) s;
                           s = ffi_do E (Release HalDriver driver) s;
                           s = release_shared_state E s
                       in Some (hrx_status_from_iree E ist s)
                     else do {
                       let (r, s) = ffi E (Dev (iree_hal_device_allocator hal_device)) s;
                       let hal_alloc = r_ptr r;
                       let s = ffi_do E (Retain HalAllocator hal_alloc) s;
                       (dev, s) \<leftarrow> new_device HRX_ACCELERATOR_CPU 0 hal_device device_group hal_alloc
                          (cstr_array 128 ''CPU 0 (local-task)'') (cstr_array 64 ''host'') s;
                       Some (hrx_ok_status, upd_cpu (\<lambda>c. \<lparr>acc_devices = [dev], acc_device_count = 1,
                          acc_initialized = True, acc_driver = driver\<rparr>) s) }) })"

fun release_devices :: "env \<Rightarrow> ptr list \<Rightarrow> hrx \<Rightarrow> hrx option" where
  "release_devices E [] s = Some s"
| "release_devices E (d # ds) s = hrx_device_release E d s \<bind> release_devices E ds"

definition hrx_cpu_shutdown :: "env \<Rightarrow> hrx \<Rightarrow> (hrx_status \<times> hrx) option" where
  "hrx_cpu_shutdown E s =
     (if \<not> acc_initialized (g_cpu (G s)) then
        Some (hrx_make_status E (code_i32 InvalidArgument) (Some ''CPU accelerator not initialized'') s)
      else do {
        let devices = acc_devices (g_cpu (G s));
        let s = upd_cpu (\<lambda>c. c\<lparr>acc_devices := []\<rparr>) s;
        s \<leftarrow> release_devices E devices s;
        let driver = acc_driver (g_cpu (G s));
        let s = (if driver \<noteq> NULL then
                   upd_cpu (\<lambda>c. c\<lparr>acc_driver := NULL\<rparr>) (ffi_do E (Release HalDriver driver) s)
                 else s);
        let s = upd_cpu (\<lambda>c. c\<lparr>acc_device_count := 0, acc_initialized := False\<rparr>) s;
        Some (hrx_ok_status, release_shared_state E s) })"

definition hrx_cpu_device_count :: "env \<Rightarrow> ptr \<Rightarrow> hrx \<Rightarrow> (hrx_status \<times> hrx) option" where
  "hrx_cpu_device_count E count s =
     (if count = NULL then
        Some (hrx_make_status E (code_i32 InvalidArgument) (Some ''count is NULL'') s)
      else if \<not> acc_initialized (g_cpu (G s)) then
        Some (hrx_make_status E (code_i32 Unavailable) (Some ''CPU accelerator not initialized'') s)
      else Some (hrx_ok_status, poke count (CI32 (acc_device_count (g_cpu (G s)))) s))"

text \<open>Indexing the device vector out of bounds panics.\<close>

definition vec_index :: "'a list \<Rightarrow> int \<Rightarrow> 'a option" where
  "vec_index xs i = (if nat i < length xs then Some (xs ! nat i) else None)"

definition hrx_cpu_device_get :: "env \<Rightarrow> i32 \<Rightarrow> ptr \<Rightarrow> hrx \<Rightarrow> (hrx_status \<times> hrx) option" where
  "hrx_cpu_device_get E index device s =
     (if device = NULL then
        Some (hrx_make_status E (code_i32 InvalidArgument) (Some ''device is NULL'') s)
      else if \<not> acc_initialized (g_cpu (G s)) then
        Some (hrx_make_status E (code_i32 Unavailable) (Some ''CPU accelerator not initialized'') s)
      else if index < 0 \<or> index \<ge> acc_device_count (g_cpu (G s)) then
        Some (hrx_make_status E (code_i32 OutOfRange) (Some ''CPU device index out of range'') s)
      else do {
        d \<leftarrow> vec_index (acc_devices (g_cpu (G s))) index;
        Some (hrx_ok_status, poke device (CPtr d) s) })"

section \<open>The GPU accelerator\<close>

definition is_physical :: "device_info \<Rightarrow> bool" where
  "is_physical info \<longleftrightarrow> info_path info \<noteq> []"

text \<open>
  One iteration of the device loop, on a physical device: the error that stops the loop, or the
  new device.
\<close>

definition gpu_device_step ::
  "env \<Rightarrow> ptr \<Rightarrow> ptr \<Rightarrow> nat \<Rightarrow> device_info \<Rightarrow> nat \<Rightarrow> hrx \<Rightarrow> ((iree_status + ptr) \<times> hrx) option" where
  "gpu_device_step E driver pool idx info ordinal s =
     (let (r, s) = ffi E (Create (iree_hal_driver_create_device_by_ordinal driver (of_nat idx) pool)) s;
          hal_device = r_ptr r
      in if \<not> status_is_ok (r_status r) then Some (Inl (r_status r), s)
         else
           let (gs, device_group, s) = create_single_device_group E hal_device s
           in if \<not> status_is_ok gs then Some (Inl gs, ffi_do E (Release HalDevice hal_device) s)
              else do {
                let (r, s) = ffi E (Dev (iree_hal_device_allocator hal_device)) s;
                let hal_alloc = r_ptr r;
                let s = ffi_do E (Retain HalAllocator hal_alloc) s;
                let (arch, s) = gpu_architecture E hal_device s;
                (dev, s) \<leftarrow> new_device HRX_ACCELERATOR_GPU (int ordinal) hal_device device_group
                   hal_alloc (cstr_array_from_raw 128 (info_name info)) arch s;
                Some (Inr dev, s) })"

text \<open>
  The device loop: the result is the error that stopped it, if any, and the devices created so
  far. \<open>idx\<close> is the ordinal of the first of the remaining infos.
\<close>

fun gpu_device_loop ::
  "env \<Rightarrow> ptr \<Rightarrow> ptr \<Rightarrow> nat \<Rightarrow> nat \<Rightarrow> device_info list \<Rightarrow> ptr list \<Rightarrow> hrx
   \<Rightarrow> (iree_status option \<times> ptr list \<times> hrx) option" where
  "gpu_device_loop E driver pool cnt idx [] devices s = Some (None, devices, s)"
| "gpu_device_loop E driver pool cnt idx (info # infos) devices s =
     (if \<not> length devices < cnt then Some (None, devices, s)
      else if \<not> is_physical info then gpu_device_loop E driver pool cnt (Suc idx) infos devices s
      else do {
        (x, s) \<leftarrow> gpu_device_step E driver pool idx info (length devices) s;
        case x of
          Inl st \<Rightarrow> Some (Some st, devices, s)
        | Inr dev \<Rightarrow> gpu_device_loop E driver pool cnt (Suc idx) infos (devices @ [dev]) s })"

text \<open>
  The first part of \<open>hrx_gpu_initialize\<close> after the shared state is taken: register the AMDGPU
  driver module, which may have been registered before (code 6 is tolerated and its status freed),
  and create the driver.
\<close>

definition gpu_open_driver :: "env \<Rightarrow> hrx \<Rightarrow> (iree_status + ptr) \<times> hrx" where
  "gpu_open_driver E s =
     (let (r, s) = ffi E (Host iree_hal_driver_registry_default) s;
          registry = r_ptr r;
          (r, s) = ffi E (Host (iree_hal_amdgpu_driver_module_register registry)) s
      in if \<not> status_is_ok (r_status r) \<and> status_code (r_status r) \<noteq> 6 then (Inl (r_status r), s)
         else
           let s = (if \<not> status_is_ok (r_status r) then ffi_do E (Host (iree_status_free (r_status r))) s else s);
               (r, s) = ffi E (Create (iree_hal_driver_registry_try_create registry ''amdgpu'')) s
           in if \<not> status_is_ok (r_status r) then (Inl (r_status r), s) else (Inr (r_ptr r), s))"

text \<open>
  The second part: list the devices and create one device object per physical device. On an error
  the devices created so far are released. The device list is freed on every path but that of a
  failed query.
\<close>

datatype gpu_error = GpuStatus iree_status | GpuNone string

definition gpu_open_devices ::
  "env \<Rightarrow> iree_allocator \<Rightarrow> ptr \<Rightarrow> ptr \<Rightarrow> hrx \<Rightarrow> ((gpu_error + ptr list) \<times> hrx) option" where
  "gpu_open_devices E alloc pool driver s =
     (let (r, s) = ffi E (Host (iree_hal_driver_query_available_devices driver)) s;
          infos = r_infos r; infos_ptr = r_ptr r
      in if \<not> status_is_ok (r_status r) then Some (Inl (GpuStatus (r_status r)), s)
         else if length infos = 0 then
           Some (Inl (GpuNone ''no GPU devices found''), ffi_do E (Host (iree_allocator_free alloc infos_ptr)) s)
         else
           let physical_count = length (filter is_physical infos)
           in if physical_count = 0 then
                Some (Inl (GpuNone ''no physical GPU devices found''),
                      ffi_do E (Host (iree_allocator_free alloc infos_ptr)) s)
              else do {
                (err, devices, s) \<leftarrow> gpu_device_loop E driver pool (min physical_count HRX_MAX_DEVICES) 0 infos [] s;
                case err of
                  Some st \<Rightarrow> do {
                    s \<leftarrow> release_devices E devices s;
                    Some (Inl (GpuStatus st), ffi_do E (Host (iree_allocator_free alloc infos_ptr)) s) }
                | None \<Rightarrow> Some (Inr devices, ffi_do E (Host (iree_allocator_free alloc infos_ptr)) s) })"

definition hrx_gpu_initialize :: "env \<Rightarrow> u32 \<Rightarrow> hrx \<Rightarrow> (hrx_status \<times> hrx) option" where
  "hrx_gpu_initialize E fl s =
     (if acc_initialized (g_gpu (G s)) then
        Some (hrx_make_status E (code_i32 AlreadyExists) (Some ''GPU accelerator already initialized'') s)
      else
        let (res, s) = ensure_shared_state E s
        in if \<not> hrx_status_is_ok res then Some (res, s)
           else
             let alloc = host_allocator (g_shared (G s));
                 pool = proactor_pool (g_shared (G s));
                 (x, s) = gpu_open_driver E s
             in case x of
                  Inl st \<Rightarrow> let s = release_shared_state E s in Some (hrx_status_from_iree E st s)
                | Inr driver \<Rightarrow> do {
                    (y, s) \<leftarrow> gpu_open_devices E alloc pool driver s;
                    case y of
                      Inl err \<Rightarrow>
                        let s = ffi_do E (Release HalDriver driver) s;
                            s = release_shared_state E s
                        in (case err of
                              GpuStatus st \<Rightarrow> Some (hrx_status_from_iree E st s)
                            | GpuNone msg \<Rightarrow> Some (hrx_make_status E (code_i32 Unavailable) (Some msg) s))
                    | Inr devices \<Rightarrow>
                        Some (hrx_ok_status, upd_gpu (\<lambda>c. \<lparr>acc_devices = devices,
                          acc_device_count = int (length devices), acc_initialized = True,
                          acc_driver = driver\<rparr>) s) })"

definition hrx_gpu_shutdown :: "env \<Rightarrow> hrx \<Rightarrow> (hrx_status \<times> hrx) option" where
  "hrx_gpu_shutdown E s =
     (if \<not> acc_initialized (g_gpu (G s)) then
        Some (hrx_make_status E (code_i32 InvalidArgument) (Some ''GPU accelerator not initialized'') s)
      else do {
        let devices = acc_devices (g_gpu (G s));
        let s = upd_gpu (\<lambda>c. c\<lparr>acc_devices := []\<rparr>) s;
        s \<leftarrow> release_devices E devices s;
        let driver = acc_driver (g_gpu (G s));
        let s = (if driver \<noteq> NULL then
                   upd_gpu (\<lambda>c. c\<lparr>acc_driver := NULL\<rparr>) (ffi_do E (Release HalDriver driver) s)
                 else s);
        let s = upd_gpu (\<lambda>c. c\<lparr>acc_device_count := 0, acc_initialized := False\<rparr>) s;
        Some (hrx_ok_status, release_shared_state E s) })"

definition hrx_gpu_device_count :: "env \<Rightarrow> ptr \<Rightarrow> hrx \<Rightarrow> (hrx_status \<times> hrx) option" where
  "hrx_gpu_device_count E count s =
     (if count = NULL then
        Some (hrx_make_status E (code_i32 InvalidArgument) (Some ''count is NULL'') s)
      else if \<not> acc_initialized (g_gpu (G s)) then
        Some (hrx_make_status E (code_i32 Unavailable) (Some ''GPU accelerator not initialized'') s)
      else Some (hrx_ok_status, poke count (CI32 (acc_device_count (g_gpu (G s)))) s))"

definition hrx_gpu_device_get :: "env \<Rightarrow> i32 \<Rightarrow> ptr \<Rightarrow> hrx \<Rightarrow> (hrx_status \<times> hrx) option" where
  "hrx_gpu_device_get E index device s =
     (if device = NULL then
        Some (hrx_make_status E (code_i32 InvalidArgument) (Some ''device is NULL'') s)
      else if \<not> acc_initialized (g_gpu (G s)) then
        Some (hrx_make_status E (code_i32 Unavailable) (Some ''GPU accelerator not initialized'') s)
      else if index < 0 \<or> index \<ge> acc_device_count (g_gpu (G s)) then
        Some (hrx_make_status E (code_i32 OutOfRange) (Some ''GPU device index out of range'') s)
      else do {
        d \<leftarrow> vec_index (acc_devices (g_gpu (G s))) index;
        Some (hrx_ok_status, poke device (CPtr d) s) })"


section \<open>Updates of the singletons\<close>

lemma upd_fields [simp]:
  "trace (upd_shared f s) = trace s" "trace (upd_cpu g s) = trace s" "trace (upd_gpu g s) = trace s"
  "arcs (upd_shared f s) = arcs s" "arcs (upd_cpu g s) = arcs s" "arcs (upd_gpu g s) = arcs s"
  "next_addr (upd_shared f s) = next_addr s" "next_addr (upd_cpu g s) = next_addr s"
  "next_addr (upd_gpu g s) = next_addr s"
  "mem (upd_shared f s) = mem s" "mem (upd_cpu g s) = mem s" "mem (upd_gpu g s) = mem s"
  "pools (upd_shared f s) = pools s" "pools (upd_cpu g s) = pools s" "pools (upd_gpu g s) = pools s"
  by (simp_all add: upd_shared_def upd_cpu_def upd_gpu_def)

lemma upd_globals [simp]:
  "G (upd_shared f s) = (G s)\<lparr>g_shared := f (g_shared (G s))\<rparr>"
  "G (upd_cpu g s) = (G s)\<lparr>g_cpu := g (g_cpu (G s))\<rparr>"
  "G (upd_gpu g s) = (G s)\<lparr>g_gpu := g (g_gpu (G s))\<rparr>"
  by (simp_all add: upd_shared_def upd_cpu_def upd_gpu_def)

lemma wf_upd [simp]:
  "wf_state (upd_shared f s) = wf_state s" "wf_state (upd_cpu g s) = wf_state s"
  "wf_state (upd_gpu g s) = wf_state s" "wf_state (s\<lparr>pool_for_device := q\<rparr>) = wf_state s"
  by (simp_all add: wf_state_def wf_heap_def)

definition shared_refs :: "iree_kind \<Rightarrow> ptr \<Rightarrow> shared_state \<Rightarrow> int" where
  "shared_refs k p g = raw_ref k p VmInstance (vm_instance g) + raw_ref k p ProactorPool (proactor_pool g)"

lemma surplus_upd:
  "surplus k p (upd_shared f s) =
     surplus k p s + shared_refs k p (g_shared (G s)) - shared_refs k p (f (g_shared (G s)))"
  "surplus k p (upd_cpu g s) =
     surplus k p s + raw_ref k p HalDriver (acc_driver (g_cpu (G s)))
       - raw_ref k p HalDriver (acc_driver (g (g_cpu (G s))))"
  "surplus k p (upd_gpu g s) =
     surplus k p s + raw_ref k p HalDriver (acc_driver (g_gpu (G s)))
       - raw_ref k p HalDriver (acc_driver (g (g_gpu (G s))))"
  "surplus k p (s\<lparr>pool_for_device := q\<rparr>) = surplus k p s"
  by (simp_all add: surplus_def held_def global_refs_def shared_refs_def)

lemma shared_refs_null:
  "p \<noteq> NULL \<Longrightarrow> raw_ref k p k' q = one_ref k p k' q"
  "p \<noteq> NULL \<Longrightarrow> one_ref k p k' NULL = 0"
  by (simp_all add: raw_ref_def one_ref_def)

section \<open>The shared state\<close>

text \<open>
  \<open>shared_ok g n\<close>: the shared state serves \<open>n\<close> accelerators, and holds nothing when it serves
  none.
\<close>

definition shared_ok :: "shared_state \<Rightarrow> int \<Rightarrow> bool" where
  "shared_ok g n \<longleftrightarrow> 0 \<le> n \<and> init_count g = n \<and> (shared_initialized g \<longleftrightarrow> 0 < n) \<and>
     (n = 0 \<longrightarrow> vm_instance g = NULL \<and> proactor_pool g = NULL)"

lemma ensure_shared_frame:
  assumes "ensure_shared_state E s = (res, t)"
  shows "arcs t = arcs s \<and> next_addr t = next_addr s \<and> mem t = mem s \<and> pools t = pools s \<and>
    g_cpu (G t) = g_cpu (G s) \<and> g_gpu (G t) = g_gpu (G s) \<and> (wf_state t \<longleftrightarrow> wf_state s)"
  using assms
  by (auto simp: ensure_shared_state_def ffi_pair Let_def split: if_splits dest!: status_eqD)

lemma reliable_from_iree_eqD:
  assumes "hrx_status_from_iree E st s = (res, t)" and "reliable E"
  shows "G t = G s \<and> (res = None \<longleftrightarrow> st = NULL)"
  using status_from_iree_eqD [OF assms(1)] reliable_status [OF _ assms(2), of st s t] assms(1) by auto

lemma reliable_make_eqD:
  assumes "hrx_make_status E c m s = (res, t)" and "reliable E" and "c \<noteq> 0"
  shows "G t = G s \<and> res \<noteq> None"
  using make_status_eqD [OF assms(1)] hrx_make_status_not_ok [of E s c m] assms by (auto simp: reliable_def)

lemma ensure_shared_ok:
  assumes "ensure_shared_state E s = (res, t)" and "reliable E" and "shared_ok (g_shared (G s)) n"
  shows "shared_ok (g_shared (G t)) (if res = None then n + 1 else n)"
  using assms(1,3)
  by (auto simp: ensure_shared_state_def ffi_pair Let_def status_is_ok_def hrx_ok_status_def shared_ok_def
      split: if_splits dest!: reliable_from_iree_eqD [OF _ assms(2)])

lemma ensure_shared_surplus:
  assumes "ensure_shared_state E s = (res, t)" and "shared_ok (g_shared (G s)) n" and "p \<noteq> NULL"
  shows "surplus k p t = surplus k p s"
  using assms
  by (auto simp: ensure_shared_state_def ffi_pair Let_def status_is_ok_def hrx_ok_status_def shared_ok_def
      surplus_upd shared_refs_def raw_ref_def one_ref_def
      split: if_splits dest!: status_from_iree_eqD)

lemma release_shared_frame:
  "arcs (release_shared_state E s) = arcs s \<and> next_addr (release_shared_state E s) = next_addr s \<and>
   mem (release_shared_state E s) = mem s \<and> pools (release_shared_state E s) = pools s \<and>
   g_cpu (G (release_shared_state E s)) = g_cpu (G s) \<and> g_gpu (G (release_shared_state E s)) = g_gpu (G s) \<and>
   (wf_state (release_shared_state E s) \<longleftrightarrow> wf_state s)"
  by (simp add: release_shared_state_def Let_def)

lemma release_shared_ok:
  assumes "shared_ok (g_shared (G s)) n" and "0 < n"
  shows "shared_ok (g_shared (G (release_shared_state E s))) (n - 1)"
  using assms by (auto simp: release_shared_state_def shared_ok_def Let_def)

lemma release_shared_surplus: "surplus k p (release_shared_state E s) = surplus k p s"
  by (simp add: release_shared_state_def Let_def surplus_upd shared_refs_def raw_ref_def)

section \<open>Building devices\<close>

lemma release_loaders_fields [simp]:
  "arcs (release_loaders E ls s) = arcs s" "next_addr (release_loaders E ls s) = next_addr s"
  "mem (release_loaders E ls s) = mem s" "pools (release_loaders E ls s) = pools s"
  "G (release_loaders E ls s) = G s" "pool_for_device (release_loaders E ls s) = pool_for_device s"
  "wf_state (release_loaders E ls s) = wf_state s"
  by (induction E ls s rule: release_loaders.induct) simp_all

lemma release_loaders_surplus:
  "surplus k p (release_loaders E ls s) =
     surplus k p s - (if k = ExecutableLoader then int (count_list ls p) else 0)"
  by (induction E ls s rule: release_loaders.induct) (auto simp: one_ref_def)

lemma create_group_eqD:
  assumes "create_single_device_group E d s = (st, g, t)"
  shows "G t = G s \<and> arcs t = arcs s \<and> next_addr t = next_addr s \<and> mem t = mem s \<and> pools t = pools s \<and>
    (wf_state t \<longleftrightarrow> wf_state s) \<and>
    (\<forall>k p. surplus k p t = surplus k p s + (if st = NULL then one_ref k p HalDeviceGroup g else 0))"
  using assms
  by (auto simp: create_single_device_group_def ffi_pair Let_def status_is_ok_def split: if_splits)

lemma gpu_architecture_eqD:
  assumes "gpu_architecture E d s = (a, t)"
  shows "G t = G s \<and> arcs t = arcs s \<and> next_addr t = next_addr s \<and> mem t = mem s \<and> pools t = pools s \<and>
    (wf_state t \<longleftrightarrow> wf_state s) \<and> (\<forall>k p. surplus k p t = surplus k p s)"
  using assms by (auto simp: gpu_architecture_def ffi_pair Let_def split: if_splits)

lemma local_task_InlD:
  assumes "create_local_task_device E n s = Some (Inl e, t)"
  shows "G t = G s \<and> arcs t = arcs s \<and> next_addr t = next_addr s \<and> mem t = mem s \<and> pools t = pools s \<and>
    (wf_state t \<longleftrightarrow> wf_state s) \<and> (\<forall>k p. surplus k p t = surplus k p s) \<and> (reliable E \<longrightarrow> e \<noteq> None)"
proof -
  have "\<exists>st u. hrx_status_from_iree E st u = (e, t) \<and> st \<noteq> NULL \<and> G u = G s \<and> arcs u = arcs s \<and>
      next_addr u = next_addr s \<and> mem u = mem s \<and> pools u = pools s \<and> (wf_state u \<longleftrightarrow> wf_state s) \<and>
      (\<forall>k p. surplus k p u = surplus k p s)"
    using assms
    by (auto simp: create_local_task_device_def ffi_pair Let_def status_is_ok_def release_loaders_surplus
        one_ref_def split: if_splits prod.splits intro!: exI)
  then show ?thesis using status_from_iree_eqD reliable_from_iree_eqD by metis
qed

lemma local_task_InrD:
  assumes "create_local_task_device E n s = Some (Inr (driver, dev), t)"
  shows "G t = G s \<and> arcs t = arcs s \<and> next_addr t = next_addr s \<and> mem t = mem s \<and> pools t = pools s \<and>
    (wf_state t \<longleftrightarrow> wf_state s) \<and>
    (\<forall>k p. surplus k p t = surplus k p s + one_ref k p HalDriver driver + one_ref k p HalDevice dev)"
  using assms
  by (auto simp: create_local_task_device_def ffi_pair Let_def status_is_ok_def release_loaders_surplus
      one_ref_def split: if_splits prod.splits)

lemma new_device_eqD:
  assumes "new_device ty ord d g a name arch s = Some (h, t)"
  shows "h = next_addr s \<and> next_addr t = Suc (next_addr s) \<and> G t = G s \<and> mem t = mem s \<and> pools t = pools s \<and>
    trace t = trace s \<and>
    arcs t = (arcs s)(h \<mapsto> \<lparr>strong = 1, arc_obj = ODevice \<lparr>dev_type = ty, dev_ordinal = ord,
       dev_allocator = \<lparr>al_hal_allocator = a, al_device = h\<rparr>,
       dev_hal_device_group = g, dev_hal_device = d, dev_name = name, dev_architecture = arch\<rparr>\<rparr>) \<and>
    (wf_state s \<longrightarrow> wf_state t \<and> (\<forall>k p. surplus k p t = surplus k p s - one_ref k p HalAllocator a
       - one_ref k p HalDeviceGroup g - one_ref k p HalDevice d))"
  using assms
  by (auto simp: new_device_def HalDevice_from_owned_def HalDeviceGroup_from_owned_def
      HalAllocator_from_owned_def into_handle_cyclic_def into_handle_eq elim!: bind_SomeE)
     (auto simp: into_handle_def split: if_splits)

lemma release_devices_eqD:
  assumes "release_devices E ds s = Some t"
  shows "G t = G s \<and> mem t = mem s \<and> pools t = pools s \<and> next_addr t = next_addr s \<and>
    (\<forall>h. h \<notin> set ds \<longrightarrow> arcs t h = arcs s h) \<and>
    (wf_state s \<longrightarrow> wf_state t \<and> (\<forall>k p. surplus k p t = surplus k p s))"
  using assms
proof (induction ds arbitrary: s)
  case Nil
  then show ?case by simp
next
  case (Cons d ds)
  then obtain u where u: "hrx_device_release E d s = Some u" "release_devices E ds u = Some t"
    by (auto elim: bind_SomeE)
  show ?case using Cons.IH [OF u(2)] device_release_frame [OF u(1)] device_release_surplus [OF u(1)] by auto
qed

section \<open>The invariant of the singletons\<close>

text \<open>An accelerator that is not initialised has no driver and no devices.\<close>

definition accel_ok :: "accel_state \<Rightarrow> bool" where
  "accel_ok a \<longleftrightarrow> acc_device_count a = int (length (acc_devices a)) \<and>
     (\<not> acc_initialized a \<longrightarrow> acc_driver a = NULL \<and> acc_devices a = [])"

definition users :: "globals \<Rightarrow> int" where
  "users g = (if acc_initialized (g_cpu g) then 1 else 0) + (if acc_initialized (g_gpu g) then 1 else 0)"

definition globals_ok :: "globals \<Rightarrow> bool" where
  "globals_ok g \<longleftrightarrow> shared_ok (g_shared g) (users g) \<and> accel_ok (g_cpu g) \<and> accel_ok (g_gpu g)"

text \<open>What every runtime call keeps: the singletons and the balance of every IREE object.\<close>

definition keeps :: "hrx \<Rightarrow> hrx \<Rightarrow> bool" where
  "keeps s t \<longleftrightarrow> globals_ok (G t) \<and> wf_state t \<and> (\<forall>k p. p \<noteq> NULL \<longrightarrow> surplus k p t = surplus k p s)"

lemma keeps_same:
  assumes "G t = G s" and "wf_state t" and "\<forall>k p. surplus k p t = surplus k p s" and "globals_ok (G s)"
  shows "keeps s t"
  using assms by (simp add: keeps_def)

lemma globals_ok_initial: "globals_ok (G hrx_initial)"
  by (simp add: globals_ok_def shared_ok_def accel_ok_def users_def hrx_initial_def G_initial_def)

text \<open>After the shared state was taken for an accelerator, giving it back restores the invariant.\<close>

lemma give_back:
  assumes "shared_ok (g_shared (G u)) (n + 1)" and "0 \<le> n" and "n = users (G u)"
    and "accel_ok (g_cpu (G u))" and "accel_ok (g_gpu (G u))"
  shows "globals_ok (G (release_shared_state E u))"
proof -
  have "users (G (release_shared_state E u)) = users (G u)"
    using release_shared_frame [of E u] by (simp add: users_def)
  then show ?thesis
    using release_shared_ok [OF assms(1), of E] release_shared_frame [of E u] assms by (simp add: globals_ok_def)
qed

lemma shut_down:
  assumes "shared_ok (g_shared (G u)) (users (G u) + 1)" and "accel_ok (g_cpu (G u))" and "accel_ok (g_gpu (G u))"
  shows "globals_ok (G (release_shared_state E u))"
  using give_back [OF assms(1) _ refl assms(2,3)] by (simp add: users_def)

text \<open>The state after the shared state was taken by an accelerator that is not initialised yet.\<close>

definition taken :: "hrx \<Rightarrow> hrx \<Rightarrow> bool" where
  "taken s u \<longleftrightarrow> shared_ok (g_shared (G u)) (users (G u) + 1) \<and> g_cpu (G u) = g_cpu (G s) \<and>
     g_gpu (G u) = g_gpu (G s) \<and> accel_ok (g_cpu (G u)) \<and> accel_ok (g_gpu (G u)) \<and> wf_state u \<and>
     (\<forall>k p. p \<noteq> NULL \<longrightarrow> surplus k p u = surplus k p s)"

lemma taken_then:
  assumes "taken s u" and "G v = G u" and "wf_state v" and "\<forall>k p. p \<noteq> NULL \<longrightarrow> surplus k p v = surplus k p u"
  shows "taken s v"
  using assms unfolding taken_def by simp metis

lemma taken_back:
  assumes "taken s u"
  shows "keeps s (release_shared_state E u)"
  using assms shut_down [of u E] release_shared_frame [of E u] release_shared_surplus
  unfolding taken_def keeps_def by simp metis

lemma ensure_taken:
  assumes "ensure_shared_state E s = (res, u)" and "reliable E" and "globals_ok (G s)" and "wf_state s"
  shows "if res = None then taken s u else keeps s u"
proof -
  note f = ensure_shared_frame [OF assms(1)]
  have ok: "shared_ok (g_shared (G s)) (users (G s))" using assms(3) by (simp add: globals_ok_def)
  have "users (G u) = users (G s)" using f by (simp add: users_def)
  then show ?thesis
    using f assms(3,4) ensure_shared_ok [OF assms(1,2) ok] ensure_shared_surplus [OF assms(1) ok]
    by (cases res) (simp_all add: taken_def keeps_def globals_ok_def)
qed

lemma status_keeps:
  assumes "keeps s u"
  shows "hrx_status_from_iree E st u = (res, t) \<Longrightarrow> keeps s t"
    and "hrx_make_status E c m u = (res, t) \<Longrightarrow> keeps s t"
  using assms by (auto simp: keeps_def dest: status_eqD)

section \<open>The calls keep the invariant\<close>

text \<open>
  The two ends of \<open>hrx_cpu_initialize\<close> once the device exists: its group cannot be created, or
  the device is listed.
\<close>

lemma cpu_group_refused:
  assumes "taken s u" and "create_local_task_device E n u = Some (Inr (driver, dev), u1)"
    and "create_single_device_group E dev u1 = (ist, gr, u2)" and "ist \<noteq> NULL"
  shows "keeps s (release_shared_state E (ffi_do E (Release HalDriver driver) (ffi_do E (Release HalDevice dev) u2)))"
  using local_task_InrD [OF assms(2)] create_group_eqD [OF assms(3)] assms(1,4)
  by (intro taken_back taken_then [OF assms(1)]) (auto simp: taken_def)

lemma cpu_device_listed:
  assumes "taken s u" and "create_local_task_device E n u = Some (Inr (driver, dev), u1)"
    and "create_single_device_group E dev u1 = (NULL, gr, u2)" and "\<not> acc_initialized (g_cpu (G s))"
    and "new_device HRX_ACCELERATOR_CPU 0 dev gr al nm arch
      (ffi_do E (Retain HalAllocator al) (ffi_do E (Dev c) u2)) = Some (d, v)"
  shows "keeps s (upd_cpu (\<lambda>c. \<lparr>acc_devices = [d], acc_device_count = 1, acc_initialized = True, acc_driver = driver\<rparr>) v)"
    (is "keeps s ?t")
proof -
  note facts = local_task_InrD [OF assms(2)] create_group_eqD [OF assms(3)] new_device_eqD [OF assms(5)] assms(1,4)
  have "globals_ok (G ?t)" using facts by (auto simp: taken_def globals_ok_def users_def accel_ok_def)
  then show ?thesis using facts by (auto simp: keeps_def taken_def surplus_upd shared_refs_null accel_ok_def)
qed

lemma cpu_initialize_keeps:
  assumes op: "hrx_cpu_initialize E fl s = Some (res, t)" and "reliable E" and "globals_ok (G s)" and "wf_state s"
  shows "keeps s t"
proof (cases "acc_initialized (g_cpu (G s))")
  case True
  then show ?thesis
    using assms by (auto simp: hrx_cpu_initialize_def dest!: make_status_eqD intro!: keeps_same)
next
  case ni: False
  obtain r0 u0 where e: "ensure_shared_state E s = (r0, u0)" by fastforce
  note et = ensure_taken [OF e assms(2-4)]
  show ?thesis
  proof (cases "r0 = None")
    case False
    then show ?thesis using op et ni e by (auto simp: hrx_cpu_initialize_def hrx_status_is_ok_def)
  next
    case True
    let ?u = "u0\<lparr>pool_for_device := proactor_pool (g_shared (G u0))\<rparr>"
    have tu: "taken s ?u" using et True by (auto intro!: taken_then [of s u0] simp: surplus_upd taken_def)
    obtain x u1 where c: "create_local_task_device E 4 ?u = Some (x, u1)"
      using op ni e True by (auto simp: hrx_cpu_initialize_def hrx_status_is_ok_def elim!: bind_SomeE)
    note op' = op [unfolded hrx_cpu_initialize_def] and start = ni e True c
    show ?thesis
    proof (cases x)
      case (Inl err)
      have "taken s u1"
        using local_task_InlD [OF c [unfolded Inl]] tu by (auto intro!: taken_then [OF tu] simp: taken_def)
      then show ?thesis using op' start Inl taken_back [of s u1 E] by (simp add: hrx_status_is_ok_def)
    next
      case (Inr y)
      then obtain driver dev where y: "x = Inr (driver, dev)" by (cases y) auto
      obtain ist gr u2 where g: "create_single_device_group E dev u1 = (ist, gr, u2)" by (metis prod_cases3)
      show ?thesis
      proof (cases "ist = NULL")
        case False
        then show ?thesis
          using op' start y g cpu_group_refused [OF tu c [unfolded y] g]
          by (auto simp: hrx_status_is_ok_def status_is_ok_def Let_def intro: status_keeps)
      next
        case ok: True
        then show ?thesis
          using op' start y g cpu_device_listed [OF tu c [unfolded y] g [unfolded ok] ni]
          by (auto simp: hrx_status_is_ok_def status_is_ok_def ffi_pair Let_def elim!: bind_SomeE)
      qed
    qed
  qed
qed

lemma gpu_device_step_InlD:
  assumes "gpu_device_step E driver pool idx info n s = Some (Inl st, t)"
  shows "G t = G s \<and> pools t = pools s \<and> arcs t = arcs s \<and> st \<noteq> NULL \<and> (wf_state t \<longleftrightarrow> wf_state s) \<and>
    (\<forall>k p. surplus k p t = surplus k p s)"
  using assms
  by (auto simp: gpu_device_step_def ffi_pair Let_def status_is_ok_def
      split: if_splits prod.splits elim!: bind_SomeE dest!: create_group_eqD)

lemma gpu_device_step_InrD:
  assumes "gpu_device_step E driver pool idx info n s = Some (Inr d, t)" and "wf_state s"
  shows "G t = G s \<and> pools t = pools s \<and> wf_state t \<and> (\<forall>k p. surplus k p t = surplus k p s)"
  using assms
  by (auto simp: gpu_device_step_def ffi_pair Let_def status_is_ok_def
      split: if_splits prod.splits elim!: bind_SomeE
      dest!: create_group_eqD gpu_architecture_eqD new_device_eqD)

lemma gpu_device_loop_ledger:
  assumes "gpu_device_loop E driver pool cnt idx infos devices s = Some (err, ds, t)" and "wf_state s"
  shows "G t = G s \<and> pools t = pools s \<and> wf_state t \<and> (\<forall>k p. surplus k p t = surplus k p s) \<and> (\<forall>st. err = Some st \<longrightarrow> st \<noteq> NULL)"
  using assms
proof (induction infos arbitrary: idx devices s)
  case Nil
  then show ?case by auto
next
  case (Cons info infos)
  consider "\<not> length devices < cnt" | "length devices < cnt" "\<not> is_physical info"
    | x u where "length devices < cnt" "is_physical info"
      "gpu_device_step E driver pool idx info (length devices) s = Some (x, u)"
    using Cons.prems by (auto simp: gpu_device_loop.simps(2) split: if_splits elim!: bind_SomeE)
  then show ?case
  proof cases
    case 1
    then show ?thesis using Cons.prems by auto
  next
    case 2
    then show ?thesis using Cons.IH [of "Suc idx" devices s] Cons.prems by simp
  next
    case (3 x u)
    show ?thesis
    proof (cases x)
      case (Inl st)
      then show ?thesis
        using 3 Cons.prems gpu_device_step_InlD [of E driver pool idx info "length devices" s st u]
        by (auto simp: gpu_device_loop.simps(2))
    next
      case (Inr d)
      then have u: "G u = G s" "wf_state u" "\<forall>k p. surplus k p u = surplus k p s" "pools u = pools s"
        using 3 Cons.prems(2) gpu_device_step_InrD [of E driver pool idx info "length devices" s d u] by auto
      have "gpu_device_loop E driver pool cnt (Suc idx) infos (devices @ [d]) u = Some (err, ds, t)"
        using Cons.prems(1) 3 Inr by (simp add: gpu_device_loop.simps(2))
      from Cons.IH [OF this u(2)] show ?thesis using u by simp
    qed
  qed
qed

lemma gpu_open_driver_eqD:
  assumes "gpu_open_driver E s = (x, t)"
  shows "G t = G s \<and> pools t = pools s \<and> (wf_state t \<longleftrightarrow> wf_state s) \<and> arcs t = arcs s \<and> next_addr t = next_addr s \<and>
    (\<forall>k p. surplus k p t = surplus k p s + (case x of Inl _ \<Rightarrow> 0 | Inr d \<Rightarrow> one_ref k p HalDriver d)) \<and>
    (\<forall>st. x = Inl st \<longrightarrow> st \<noteq> NULL)"
  using assms by (auto simp: gpu_open_driver_def ffi_pair Let_def status_is_ok_def split: if_splits)

lemma gpu_open_devices_eqD:
  assumes "gpu_open_devices E alloc pool driver s = Some (y, t)" and "wf_state s"
  shows "G t = G s \<and> pools t = pools s \<and> wf_state t \<and> (\<forall>k p. surplus k p t = surplus k p s)"
  using assms
  by (auto simp: gpu_open_devices_def ffi_pair Let_def split: if_splits option.splits elim!: bind_SomeE
      dest!: gpu_device_loop_ledger release_devices_eqD)

lemma gpu_devices_listed:
  assumes "taken s u" and "G w = G u" "wf_state w" "\<forall>k p. surplus k p w = surplus k p u + one_ref k p HalDriver driver"
    and "\<not> acc_initialized (g_gpu (G s))"
  shows "keeps s (upd_gpu (\<lambda>c. \<lparr>acc_devices = ds, acc_device_count = int (length ds), acc_initialized = True, acc_driver = driver\<rparr>) w)"
  using assms by (auto simp: keeps_def taken_def globals_ok_def users_def accel_ok_def surplus_upd shared_refs_null)

lemma gpu_initialize_keeps:
  assumes op: "hrx_gpu_initialize E fl s = Some (res, t)" and "reliable E" and "globals_ok (G s)" and "wf_state s"
  shows "keeps s t"
proof (cases "acc_initialized (g_gpu (G s))")
  case True
  then show ?thesis
    using assms by (auto simp: hrx_gpu_initialize_def dest!: make_status_eqD intro!: keeps_same)
next
  case ni: False
  obtain r0 u where e: "ensure_shared_state E s = (r0, u)" by fastforce
  obtain x v where d: "gpu_open_driver E u = (x, v)" by fastforce
  note et = ensure_taken [OF e assms(2-4)] and D = gpu_open_driver_eqD [OF d]
  note unf = hrx_gpu_initialize_def hrx_status_is_ok_def Let_def
  consider "r0 \<noteq> None" | st where "r0 = None" "x = Inl st" | driver where "r0 = None" "x = Inr driver"
    by (cases x) auto
  then show ?thesis
  proof cases
    case 1
    then show ?thesis using op et ni e by (auto simp: unf)
  next
    case (2 st)
    then have tu: "taken s u" using et by simp
    then have "wf_state u" by (simp add: taken_def)
    then have "taken s v" using D 2 by (intro taken_then [OF tu]) simp_all
    from status_keeps(1) [OF taken_back [OF this, of E], of E st res t]
    show ?thesis using op ni e d 2 by (simp add: unf)
  next
    case (3 driver)
    then have tu: "taken s u" using et by simp
    obtain y w where y: "gpu_open_devices E (host_allocator (g_shared (G u)))
        (proactor_pool (g_shared (G u))) driver v = Some (y, w)"
      using op ni e d 3 by (auto simp: unf elim!: bind_SomeE)
    have W: "G w = G u" "wf_state w" "\<forall>k p. surplus k p w = surplus k p u + one_ref k p HalDriver driver"
      using gpu_open_devices_eqD [OF y] D tu 3 by (auto simp: taken_def)
    have "taken s (ffi_do E (Release HalDriver driver) w)" using W by (intro taken_then [OF tu]) auto
    note K = status_keeps [OF taken_back [OF this, of E], of E]
    show ?thesis
      using op ni e d y 3 K gpu_devices_listed [OF tu W ni]
      by (cases y; cases "projl y") (auto simp: unf)
  qed
qed

text \<open>Shutting down, once the devices are released.\<close>

definition cpu_stop :: "env \<Rightarrow> hrx \<Rightarrow> hrx" where
  "cpu_stop E s = upd_cpu (\<lambda>c. c\<lparr>acc_device_count := 0, acc_initialized := False\<rparr>)
     (if acc_driver (g_cpu (G s)) \<noteq> NULL then
        upd_cpu (\<lambda>c. c\<lparr>acc_driver := NULL\<rparr>) (ffi_do E (Release HalDriver (acc_driver (g_cpu (G s)))) s)
      else s)"

definition gpu_stop :: "env \<Rightarrow> hrx \<Rightarrow> hrx" where
  "gpu_stop E s = upd_gpu (\<lambda>c. c\<lparr>acc_device_count := 0, acc_initialized := False\<rparr>)
     (if acc_driver (g_gpu (G s)) \<noteq> NULL then
        upd_gpu (\<lambda>c. c\<lparr>acc_driver := NULL\<rparr>) (ffi_do E (Release HalDriver (acc_driver (g_gpu (G s)))) s)
      else s)"

lemma stop_taken:
  assumes "globals_ok (G s)" and "wf_state u" and "\<forall>k p. surplus k p u = surplus k p s"
  shows "acc_initialized (g_cpu (G s)) \<Longrightarrow> G u = (G s)\<lparr>g_cpu := (g_cpu (G s))\<lparr>acc_devices := []\<rparr>\<rparr> \<Longrightarrow>
      keeps s (release_shared_state E (cpu_stop E u))"
    and "acc_initialized (g_gpu (G s)) \<Longrightarrow> G u = (G s)\<lparr>g_gpu := (g_gpu (G s))\<lparr>acc_devices := []\<rparr>\<rparr> \<Longrightarrow>
      keeps s (release_shared_state E (gpu_stop E u))"
proof -
  assume i: "acc_initialized (g_cpu (G s))" and g: "G u = (G s)\<lparr>g_cpu := (g_cpu (G s))\<lparr>acc_devices := []\<rparr>\<rparr>"
  have "globals_ok (G (release_shared_state E (cpu_stop E u)))"
    by (rule shut_down) (use assms i g in \<open>auto simp: cpu_stop_def globals_ok_def users_def accel_ok_def\<close>)
  then show "keeps s (release_shared_state E (cpu_stop E u))"
    using assms release_shared_frame [of E "cpu_stop E u"]
    by (auto simp: keeps_def release_shared_surplus cpu_stop_def surplus_upd shared_refs_null)
next
  assume i: "acc_initialized (g_gpu (G s))" and g: "G u = (G s)\<lparr>g_gpu := (g_gpu (G s))\<lparr>acc_devices := []\<rparr>\<rparr>"
  have "globals_ok (G (release_shared_state E (gpu_stop E u)))"
    by (rule shut_down) (use assms i g in \<open>auto simp: gpu_stop_def globals_ok_def users_def accel_ok_def\<close>)
  then show "keeps s (release_shared_state E (gpu_stop E u))"
    using assms release_shared_frame [of E "gpu_stop E u"]
    by (auto simp: keeps_def release_shared_surplus gpu_stop_def surplus_upd shared_refs_null)
qed

lemma cpu_shutdown_keeps:
  assumes op: "hrx_cpu_shutdown E s = Some (res, t)" and ok: "globals_ok (G s)" and ws: "wf_state s"
  shows "keeps s t"
proof (cases "acc_initialized (g_cpu (G s))")
  case False
  then show ?thesis using assms by (auto simp: hrx_cpu_shutdown_def dest!: make_status_eqD intro!: keeps_same)
next
  case True
  let ?s = "upd_cpu (\<lambda>c. c\<lparr>acc_devices := []\<rparr>) s"
  obtain u where u: "release_devices E (acc_devices (g_cpu (G s))) ?s = Some u"
    and t: "t = release_shared_state E (cpu_stop E u)"
    using op True by (auto simp: hrx_cpu_shutdown_def cpu_stop_def Let_def elim!: bind_SomeE)
  show ?thesis
    using stop_taken(1) [OF ok, of u E] release_devices_eqD [OF u] True ws t by (simp add: surplus_upd)
qed

lemma gpu_shutdown_keeps:
  assumes op: "hrx_gpu_shutdown E s = Some (res, t)" and ok: "globals_ok (G s)" and ws: "wf_state s"
  shows "keeps s t"
proof (cases "acc_initialized (g_gpu (G s))")
  case False
  then show ?thesis using assms by (auto simp: hrx_gpu_shutdown_def dest!: make_status_eqD intro!: keeps_same)
next
  case True
  let ?s = "upd_gpu (\<lambda>c. c\<lparr>acc_devices := []\<rparr>) s"
  obtain u where u: "release_devices E (acc_devices (g_gpu (G s))) ?s = Some u"
    and t: "t = release_shared_state E (gpu_stop E u)"
    using op True by (auto simp: hrx_gpu_shutdown_def gpu_stop_def Let_def elim!: bind_SomeE)
  show ?thesis
    using stop_taken(2) [OF ok, of u E] release_devices_eqD [OF u] True ws t by (simp add: surplus_upd)
qed

lemma query_keeps:
  assumes "globals_ok (G s)" and "wf_state s"
  shows "hrx_cpu_device_count E p s = Some (res, t) \<Longrightarrow> keeps s t \<and> arcs t = arcs s"
    and "hrx_cpu_device_get E i p s = Some (res, t) \<Longrightarrow> keeps s t \<and> arcs t = arcs s"
    and "hrx_gpu_device_count E p s = Some (res, t) \<Longrightarrow> keeps s t \<and> arcs t = arcs s"
    and "hrx_gpu_device_get E i p s = Some (res, t) \<Longrightarrow> keeps s t \<and> arcs t = arcs s"
  using assms
  by (auto simp: hrx_cpu_device_count_def hrx_cpu_device_get_def hrx_gpu_device_count_def
      hrx_gpu_device_get_def split: if_splits elim!: bind_SomeE dest!: make_status_eqD intro!: keeps_same)

section \<open>Runs\<close>

text \<open>One call of the runtime interface, or one of a client on a device it was handed.\<close>

inductive runtime_step :: "env \<Rightarrow> hrx \<Rightarrow> hrx \<Rightarrow> bool" for E :: env where
  cpu_initialize: "hrx_cpu_initialize E fl s = Some (res, t) \<Longrightarrow> runtime_step E s t"
| cpu_shutdown: "hrx_cpu_shutdown E s = Some (res, t) \<Longrightarrow> runtime_step E s t"
| cpu_device_count: "hrx_cpu_device_count E p s = Some (res, t) \<Longrightarrow> runtime_step E s t"
| cpu_device_get: "hrx_cpu_device_get E i p s = Some (res, t) \<Longrightarrow> runtime_step E s t"
| gpu_initialize: "hrx_gpu_initialize E fl s = Some (res, t) \<Longrightarrow> runtime_step E s t"
| gpu_shutdown: "hrx_gpu_shutdown E s = Some (res, t) \<Longrightarrow> runtime_step E s t"
| gpu_device_count: "hrx_gpu_device_count E p s = Some (res, t) \<Longrightarrow> runtime_step E s t"
| gpu_device_get: "hrx_gpu_device_get E i p s = Some (res, t) \<Longrightarrow> runtime_step E s t"
| device_retain: "hrx_device_retain d s = Some t \<Longrightarrow> runtime_step E s t"
| device_release: "hrx_device_release E d s = Some t \<Longrightarrow> runtime_step E s t"

inductive_cases runtime_stepE: "runtime_step E s t"

lemma runtime_step_keeps:
  assumes "runtime_step E s t" and "reliable E" and "globals_ok (G s)" and "wf_state s"
  shows "keeps s t"
  using assms(1)
proof cases
  case (device_retain d)
  then show ?thesis
    using handle_retain_surplus [of as_device d s t] handle_retain_frame [of as_device d s t] assms
    by (auto simp: hrx_device_retain_def intro!: keeps_same)
next
  case (device_release d)
  then show ?thesis
    using device_release_surplus [of E d s t] device_release_frame [of E d s t] assms
    by (auto intro!: keeps_same)
qed (auto dest: query_keeps [OF assms(3,4)] cpu_initialize_keeps [OF _ assms(2-4)] cpu_shutdown_keeps [OF _ assms(3,4)]
    gpu_initialize_keeps [OF _ assms(2-4)] gpu_shutdown_keeps [OF _ assms(3,4)])

definition runtime_run :: "env \<Rightarrow> hrx \<Rightarrow> hrx \<Rightarrow> bool" where
  "runtime_run E s t \<longleftrightarrow> reliable E \<and> runtime_step E s t"

interpretation runtime: preserved "runtime_run E"
  "\<lambda>s. globals_ok (G s) \<and> wf_state s \<and> (\<forall>k p. p \<noteq> NULL \<longrightarrow> surplus k p s = n k p)"
  for E :: env and n :: "iree_kind \<Rightarrow> ptr \<Rightarrow> int"
  by unfold_locales (use runtime_step_keeps in \<open>auto simp: runtime_run_def keeps_def\<close>)

section \<open>The devices of the GPU accelerator\<close>

text \<open>
  Specification: the device object for the \<open>info\<close> at index \<open>idx\<close> of the driver's list, exposed
  under \<open>ordinal\<close>. Its HAL device is the one the driver returned for that index.
\<close>

definition gpu_device_of :: "env \<Rightarrow> ptr \<Rightarrow> ptr \<Rightarrow> nat \<times> device_info \<Rightarrow> nat \<Rightarrow> hrx_device_s \<Rightarrow> bool" where
  "gpu_device_of E driver pool src ordinal d \<longleftrightarrow>
     dev_type d = HRX_ACCELERATOR_GPU \<and> dev_ordinal d = int ordinal \<and>
     dev_name d = cstr_array_from_raw 128 (info_name (snd src)) \<and>
     (\<exists>h. dev_hal_device d =
        r_ptr (iree E h (Create (iree_hal_driver_create_device_by_ordinal driver (of_nat (fst src)) pool))))"

text \<open>The physical devices of a list, with their indices.\<close>

definition physical :: "nat \<Rightarrow> device_info list \<Rightarrow> (nat \<times> device_info) list" where
  "physical idx infos = filter (\<lambda>x. is_physical (snd x)) (enumerate idx infos)"

lemma physical_simps [simp]:
  "physical idx [] = []"
  "physical idx (i # is) = (if is_physical i then (idx, i) # physical (Suc idx) is else physical (Suc idx) is)"
  by (simp_all add: physical_def)

lemma length_physical: "length (physical idx infos) = length (filter is_physical infos)"
  by (induction infos arbitrary: idx) simp_all

lemma gpu_device_step_makes:
  assumes "gpu_device_step E driver pool idx info n s = Some (Inr d, t)"
  shows "d = next_addr s \<and> next_addr t = Suc d \<and>
    (\<exists>x. arcs t = (arcs s)(d \<mapsto> \<lparr>strong = 1, arc_obj = ODevice x\<rparr>) \<and> gpu_device_of E driver pool (idx, info) n x)"
proof -
  let ?c = "Create (iree_hal_driver_create_device_by_ordinal driver (of_nat idx) pool)"
  let ?dev = "r_ptr (iree E (trace s) ?c)"
  obtain gr al arch u where u: "arcs u = arcs s" "next_addr u = next_addr s"
    and nd: "new_device HRX_ACCELERATOR_GPU (int n) ?dev gr al (cstr_array_from_raw 128 (info_name info)) arch u
      = Some (d, t)"
    using assms
    by (auto simp: gpu_device_step_def ffi_pair Let_def split: if_splits prod.splits elim!: bind_SomeE
        dest!: create_group_eqD gpu_architecture_eqD)
  define x where "x = \<lparr>dev_type = HRX_ACCELERATOR_GPU, dev_ordinal = int n,
       dev_allocator = \<lparr>al_hal_allocator = al, al_device = d\<rparr>, dev_hal_device_group = gr,
       dev_hal_device = ?dev, dev_name = cstr_array_from_raw 128 (info_name info), dev_architecture = arch\<rparr>"
  have "gpu_device_of E driver pool (idx, info) n x" by (auto simp: gpu_device_of_def x_def)
  then show ?thesis using new_device_eqD [OF nd] u by (auto simp: x_def)
qed

text \<open>What the loop has added to the heap: one device of its own per handle in \<open>new\<close>.\<close>

definition adds_devices ::
  "env \<Rightarrow> ptr \<Rightarrow> ptr \<Rightarrow> (nat \<times> device_info) list \<Rightarrow> nat \<Rightarrow> ptr list \<Rightarrow> hrx \<Rightarrow> hrx \<Rightarrow> bool" where
  "adds_devices E driver pool srcs n new s t \<longleftrightarrow>
     distinct new \<and> length new \<le> length srcs \<and> next_addr s \<le> next_addr t \<and>
     (\<forall>d \<in> set new. next_addr s \<le> d) \<and> (\<forall>h. h \<notin> set new \<longrightarrow> arcs t h = arcs s h) \<and>
     (\<forall>j < length new. \<exists>x. arcs t (new ! j) = Some \<lparr>strong = 1, arc_obj = ODevice x\<rparr> \<and>
        gpu_device_of E driver pool (srcs ! j) (n + j) x)"

lemma adds_devices_Nil: "arcs t = arcs s \<Longrightarrow> next_addr s \<le> next_addr t \<Longrightarrow> adds_devices E driver pool srcs n [] s t"
  by (simp add: adds_devices_def)

lemma adds_devices_Cons:
  assumes "d = next_addr s" and "next_addr u = Suc d"
    and "arcs u = (arcs s)(d \<mapsto> \<lparr>strong = 1, arc_obj = ODevice x\<rparr>)" and "gpu_device_of E driver pool src n x"
    and A: "adds_devices E driver pool srcs (Suc n) new u t"
  shows "adds_devices E driver pool (src # srcs) n (d # new) s t"
proof -
  have new: "d \<notin> set new" using assms(2) A by (fastforce simp: adds_devices_def)
  then have d: "arcs t d = Some \<lparr>strong = 1, arc_obj = ODevice x\<rparr>"
    using A assms(3) by (simp add: adds_devices_def)
  have "\<exists>y. arcs t ((d # new) ! j) = Some \<lparr>strong = 1, arc_obj = ODevice y\<rparr> \<and>
      gpu_device_of E driver pool ((src # srcs) ! j) (n + j) y" if "j < length (d # new)" for j
    using that d assms(4) A by (cases j) (auto simp: adds_devices_def)
  then show ?thesis
    using A assms(1-3) new by (fastforce simp: adds_devices_def)
qed

lemma gpu_device_loop_makes:
  assumes "gpu_device_loop E driver pool cnt idx infos devices s = Some (err, ds, t)" and "length devices \<le> cnt"
  shows "\<exists>new. ds = devices @ new \<and> adds_devices E driver pool (physical idx infos) (length devices) new s t \<and>
    (err = None \<longrightarrow> length new = min (cnt - length devices) (length (physical idx infos)))"
  using assms
proof (induction infos arbitrary: idx devices s)
  case Nil
  then show ?case by (auto intro!: adds_devices_Nil)
next
  case (Cons info infos)
  consider "\<not> length devices < cnt" | "length devices < cnt" "\<not> is_physical info"
    | st where "length devices < cnt" "is_physical info"
      "gpu_device_step E driver pool idx info (length devices) s = Some (Inl st, t)" "err = Some st" "ds = devices"
    | d u where "length devices < cnt" "is_physical info"
      "gpu_device_step E driver pool idx info (length devices) s = Some (Inr d, u)"
      "gpu_device_loop E driver pool cnt (Suc idx) infos (devices @ [d]) u = Some (err, ds, t)"
    using Cons.prems(1) by (auto split: if_splits sum.splits elim!: bind_SomeE)
  then show ?case
  proof cases
    case 1
    then show ?thesis using Cons.prems by (auto intro!: adds_devices_Nil)
  next
    case 2
    then show ?thesis using Cons.IH [of "Suc idx" devices s] Cons.prems by simp
  next
    case (3 st)
    have "arcs t = arcs s \<and> next_addr t = next_addr s"
      using 3(3) by (auto simp: gpu_device_step_def ffi_pair Let_def status_is_ok_def
          split: if_splits prod.splits elim!: bind_SomeE dest!: create_group_eqD)
    then show ?thesis using 3 by (auto intro!: adds_devices_Nil)
  next
    case (4 d u)
    obtain new where n: "ds = (devices @ [d]) @ new"
      "adds_devices E driver pool (physical (Suc idx) infos) (length (devices @ [d])) new u t"
      "err = None \<longrightarrow> length new = min (cnt - length (devices @ [d])) (length (physical (Suc idx) infos))"
      using Cons.IH [OF 4(4)] 4(1) by auto
    obtain x where x: "d = next_addr s" "next_addr u = Suc d"
      "arcs u = (arcs s)(d \<mapsto> \<lparr>strong = 1, arc_obj = ODevice x\<rparr>)"
      "gpu_device_of E driver pool (idx, info) (length devices) x"
      using gpu_device_step_makes [OF 4(3)] by blast
    have "adds_devices E driver pool (physical idx (info # infos)) (length devices) (d # new) s t"
      using adds_devices_Cons [OF x] n(2) 4(2) by simp
    then show ?thesis using n 4(1,2) by (intro exI [of _ "d # new"]) auto
  qed
qed

lemma release_devices_last:
  assumes "distinct ds" and "\<forall>d \<in> set ds. \<exists>x. arcs s d = Some \<lparr>strong = 1, arc_obj = ODevice x\<rparr>"
  shows "\<exists>t. release_devices E ds s = Some t \<and> arcs t = (\<lambda>h. if h \<in> set ds then None else arcs s h)"
  using assms
proof (induction ds arbitrary: s)
  case Nil
  then show ?case by simp
next
  case (Cons d ds)
  then obtain x where d: "arcs s d = Some \<lparr>strong = 1, arc_obj = ODevice x\<rparr>" by auto
  then obtain u where u: "hrx_device_release E d s = Some u" "arcs u = (arcs s)(d := None)"
    by (auto simp: hrx_device_release_def handle_release_def drop_device_def Let_def)
  have "\<forall>d' \<in> set ds. \<exists>x. arcs u d' = Some \<lparr>strong = 1, arc_obj = ODevice x\<rparr>"
    using Cons.prems u(2) by auto
  from Cons.IH [OF _ this] Cons.prems(1) obtain t where
    "release_devices E ds u = Some t" "arcs t = (\<lambda>h. if h \<in> set ds then None else arcs u h)" by auto
  then show ?case using u by (auto simp: fun_eq_iff)
qed

text \<open>Releasing what the loop added leaves the heap as it was.\<close>

lemma release_added:
  assumes "adds_devices E driver pool srcs n new s t" and "wf_state s"
  shows "\<exists>u. release_devices E new t = Some u \<and> arcs u = arcs s"
proof -
  have "\<forall>d \<in> set new. \<exists>x. arcs t d = Some \<lparr>strong = 1, arc_obj = ODevice x\<rparr>"
    using assms(1) unfolding adds_devices_def by (metis in_set_conv_nth)
  then obtain u where u: "release_devices E new t = Some u"
    "arcs u = (\<lambda>h. if h \<in> set new then None else arcs t h)"
    using release_devices_last [of new t E] assms(1) by (auto simp: adds_devices_def)
  have "arcs s d = None" if "d \<in> set new" for d
    using assms that by (fastforce simp: adds_devices_def wf_state_def wf_heap_def)
  then have "arcs u = arcs s" using u(2) assms(1) by (auto simp: adds_devices_def fun_eq_iff)
  then show ?thesis using u(1) by blast
qed

lemma gpu_open_devices_InlD:
  assumes "gpu_open_devices E alloc pool driver s = Some (Inl err, t)" and "wf_state s"
  shows "arcs t = arcs s"
proof -
  let ?q = "Host (iree_hal_driver_query_available_devices driver)"
  let ?infos = "r_infos (iree E (trace s) ?q)"
  let ?n = "min (length (filter is_physical ?infos)) HRX_MAX_DEVICES"
  have "arcs t = arcs s" if l: "gpu_device_loop E driver pool ?n 0 ?infos [] (ffi_do E ?q s) = Some (e, ds, u)"
    and r: "release_devices E ds u = Some v" and t: "arcs t = arcs v" for e ds u v
    using gpu_device_loop_makes [OF l] release_added [of E driver pool _ _ ds "ffi_do E ?q s" u] assms(2) r t
    by fastforce
  then show ?thesis
    using assms(1)
    by (auto simp: gpu_open_devices_def ffi_pair Let_def split: if_splits option.splits elim!: bind_SomeE)
qed

lemma gpu_open_devices_InrD:
  assumes "gpu_open_devices E alloc pool driver s = Some (Inr ds, t)"
  shows "\<exists>infos h. infos = r_infos (iree E h (Host (iree_hal_driver_query_available_devices driver))) \<and>
    length ds = min (length (physical 0 infos)) HRX_MAX_DEVICES \<and> ds \<noteq> [] \<and>
    (\<forall>j < length ds. \<exists>x. arcs t (ds ! j) = Some \<lparr>strong = 1, arc_obj = ODevice x\<rparr> \<and>
       gpu_device_of E driver pool (physical 0 infos ! j) j x)"
proof -
  let ?q = "Host (iree_hal_driver_query_available_devices driver)"
  let ?infos = "r_infos (iree E (trace s) ?q)"
  let ?n = "min (length (physical 0 ?infos)) HRX_MAX_DEVICES"
  obtain u where l: "gpu_device_loop E driver pool ?n 0 ?infos [] (ffi_do E ?q s) = Some (None, ds, u)"
    and t: "arcs t = arcs u" and n: "length (physical 0 ?infos) \<noteq> 0"
    using assms
    by (auto simp: gpu_open_devices_def ffi_pair Let_def length_physical split: if_splits option.splits
        elim!: bind_SomeE)
  have "adds_devices E driver pool (physical 0 ?infos) 0 ds (ffi_do E ?q s) u" "length ds = ?n"
    using gpu_device_loop_makes [OF l] by auto
  moreover from this have "ds \<noteq> []" using n by (cases "physical 0 ?infos") (auto simp: HRX_MAX_DEVICES_def)
  ultimately show ?thesis
    using t by (intro exI [of _ ?infos] exI [of _ "trace s"]) (auto simp: adds_devices_def)
qed

section \<open>Failing initialisations\<close>

text \<open>Taking the shared state and giving it back restores it, up to the allocator it was set to.\<close>

lemma ensure_release_same:
  assumes "ensure_shared_state E s = (None, u)" and "reliable E" and "shared_ok (g_shared (G s)) n" and "G v = G u"
  shows "(g_shared (G (release_shared_state E v)))\<lparr>host_allocator := a\<rparr> = (g_shared (G s))\<lparr>host_allocator := a\<rparr>"
  using assms(1,3,4)
  by (auto simp: ensure_shared_state_def release_shared_state_def ffi_pair Let_def status_is_ok_def
      shared_ok_def split: if_splits dest!: reliable_from_iree_eqD [OF _ assms(2)])

lemma ensure_failed_same:
  assumes "ensure_shared_state E s = (Some e, u)" and "reliable E" and "shared_ok (g_shared (G s)) n"
  shows "(g_shared (G u))\<lparr>host_allocator := a\<rparr> = (g_shared (G s))\<lparr>host_allocator := a\<rparr>"
  using assms(1,3)
  by (auto simp: ensure_shared_state_def ffi_pair Let_def status_is_ok_def hrx_ok_status_def
      shared_ok_def split: if_splits dest!: reliable_from_iree_eqD [OF _ assms(2)])

text \<open>Everything an initialisation can touch is as before.\<close>

definition untouched :: "hrx \<Rightarrow> hrx \<Rightarrow> bool" where
  "untouched s t \<longleftrightarrow> arcs t = arcs s \<and> pools t = pools s \<and> g_cpu (G t) = g_cpu (G s) \<and> g_gpu (G t) = g_gpu (G s) \<and>
     (g_shared (G t))\<lparr>host_allocator := allocator_null\<rparr> = (g_shared (G s))\<lparr>host_allocator := allocator_null\<rparr>"

lemma untouched_balance:
  assumes "untouched s t" and "surplus k p t = surplus k p s"
  shows "balance k p (trace t) = balance k p (trace s)"
proof -
  have "vm_instance (g_shared (G t)) = vm_instance (g_shared (G s))"
    "proactor_pool (g_shared (G t)) = proactor_pool (g_shared (G s))"
    using assms(1) unfolding untouched_def
    by (metis shared_state.ext_inject shared_state.surjective shared_state.update_convs(3))+
  then have "held k p t = held k p s"
    using assms(1) by (simp add: untouched_def held_def global_refs_def)
  then show ?thesis using assms(2) by (simp add: surplus_def)
qed

lemma untouched_status:
  assumes "untouched s u"
  shows "hrx_status_from_iree E st u = (res, t) \<Longrightarrow> untouched s t"
    and "hrx_make_status E c m u = (res, t) \<Longrightarrow> untouched s t"
  using assms by (auto simp: untouched_def dest!: status_eqD)

lemma untouched_release:
  assumes "ensure_shared_state E s = (None, u)" and "reliable E" and "shared_ok (g_shared (G s)) n"
    and "G v = G u" and "arcs v = arcs s" and "pools v = pools s"
  shows "untouched s (release_shared_state E v)"
  using ensure_release_same [OF assms(1-4)] release_shared_frame [of E v] ensure_shared_frame [OF assms(1)] assms(4-6)
  by (simp add: untouched_def)

lemma gpu_initialize_failed:
  assumes op: "hrx_gpu_initialize E fl s = Some (Some e, t)" and rel: "reliable E" and ok: "globals_ok (G s)"
    and ws: "wf_state s"
  shows "untouched s t"
proof (cases "acc_initialized (g_gpu (G s))")
  case True
  then show ?thesis using op by (auto simp: hrx_gpu_initialize_def untouched_def dest!: make_status_eqD)
next
  case ni: False
  have sh: "shared_ok (g_shared (G s)) (users (G s))" using ok by (simp add: globals_ok_def)
  obtain r0 u where e: "ensure_shared_state E s = (r0, u)" by fastforce
  obtain x v where d: "gpu_open_driver E u = (x, v)" by fastforce
  note F = ensure_shared_frame [OF e] and D = gpu_open_driver_eqD [OF d]
  note unf = hrx_gpu_initialize_def hrx_status_is_ok_def Let_def
  consider e' where "r0 = Some e'" | st where "r0 = None" "x = Inl st" | driver where "r0 = None" "x = Inr driver"
    by (cases r0; cases x) auto
  then show ?thesis
  proof cases
    case (1 e')
    then show ?thesis
      using op ni e F ensure_failed_same [OF e [unfolded 1] rel sh] by (auto simp: unf untouched_def)
  next
    case (2 st)
    have "untouched s (release_shared_state E v)"
      using untouched_release [OF e [unfolded 2(1)] rel sh] D F by simp
    from untouched_status(1) [OF this, of E st "Some e" t] show ?thesis using op ni e d 2 by (simp add: unf)
  next
    case (3 driver)
    obtain y w where y: "gpu_open_devices E (host_allocator (g_shared (G u)))
        (proactor_pool (g_shared (G u))) driver v = Some (y, w)"
      using op ni e d 3 by (auto simp: unf elim!: bind_SomeE)
    obtain err where err: "y = Inl err"
      using op ni e d y 3 by (cases y) (simp_all add: unf hrx_ok_status_def)
    have wv: "wf_state v" using D F ws by simp
    let ?w = "ffi_do E (Release HalDriver driver) w"
    have U: "untouched s (release_shared_state E ?w)"
      using untouched_release [OF e [unfolded 3(1)] rel sh, of ?w] D F gpu_open_devices_eqD [OF y wv]
        gpu_open_devices_InlD [OF y [unfolded err] wv] by simp
    show ?thesis
    proof (cases err)
      case (GpuStatus st)
      then show ?thesis using op ni e d y 3 err untouched_status(1) [OF U, of E st "Some e" t] by (simp add: unf)
    next
      case (GpuNone msg)
      then show ?thesis
        using op ni e d y 3 err untouched_status(2) [OF U, of E "code_i32 Unavailable" "Some msg" "Some e" t]
        by (simp add: unf)
    qed
  qed
qed

lemma cpu_initialize_failed:
  assumes op: "hrx_cpu_initialize E fl s = Some (Some e, t)" and rel: "reliable E" and ok: "globals_ok (G s)"
    and ws: "wf_state s"
  shows "untouched s t"
proof (cases "acc_initialized (g_cpu (G s))")
  case True
  then show ?thesis using op by (auto simp: hrx_cpu_initialize_def untouched_def dest!: make_status_eqD)
next
  case ni: False
  have sh: "shared_ok (g_shared (G s)) (users (G s))" using ok by (simp add: globals_ok_def)
  obtain r0 u where e: "ensure_shared_state E s = (r0, u)" by fastforce
  note F = ensure_shared_frame [OF e]
  note unf = hrx_cpu_initialize_def hrx_status_is_ok_def Let_def
  show ?thesis
  proof (cases r0)
    case (Some e')
    then show ?thesis
      using op ni e F ensure_failed_same [OF e [unfolded Some] rel sh] by (auto simp: unf untouched_def)
  next
    case None
    let ?u = "u\<lparr>pool_for_device := proactor_pool (g_shared (G u))\<rparr>"
    obtain x v where c: "create_local_task_device E 4 ?u = Some (x, v)"
      using op ni e None by (auto simp: unf elim!: bind_SomeE)
    note R = untouched_release [OF e [unfolded None] rel sh]
    show ?thesis
    proof (cases x)
      case (Inl err)
      have "untouched s (release_shared_state E v)" using R [of v] local_task_InlD [OF c [unfolded Inl]] F by simp
      then show ?thesis using op ni e c None Inl by (simp add: unf)
    next
      case (Inr z)
      obtain driver dev where z: "x = Inr (driver, dev)" using Inr by (cases z) auto
      obtain ist gr w where g: "create_single_device_group E dev v = (ist, gr, w)" by (metis prod_cases3)
      have nz: "ist \<noteq> NULL"
      proof
        assume "ist = NULL"
        then show False
          using op ni e c None z g
          by (auto simp: unf status_is_ok_def hrx_ok_status_def ffi_pair elim!: bind_SomeE)
      qed
      let ?w = "ffi_do E (Release HalDriver driver) (ffi_do E (Release HalDevice dev) w)"
      have "untouched s (release_shared_state E ?w)"
        using R [of ?w] local_task_InrD [OF c [unfolded z]] create_group_eqD [OF g] F by simp
      from untouched_status(1) [OF this, of E ist "Some e" t] show ?thesis
        using op ni e c None z g nz by (simp add: unf status_is_ok_def)
    qed
  qed
qed

section \<open>Properties\<close>


lemma reliable_demo_env: "reliable demo_env"
  by (simp add: reliable_def)

lemma cpu_initialize_demo:
  "\<exists>t. hrx_cpu_initialize demo_env 0 hrx_initial = Some (None, t) \<and> acc_initialized (g_cpu (G t))"
  by (simp add: hrx_cpu_initialize_def ensure_shared_state_def create_local_task_device_def ffi_pair Let_def
      status_is_ok_def hrx_status_is_ok_def hrx_ok_status_def create_single_device_group_def new_device_def
      HalDevice_from_owned_def HalDeviceGroup_from_owned_def HalAllocator_from_owned_def
      into_handle_cyclic_def into_handle_def)
     (simp add: hrx_initial_def G_initial_def demo_env_def reply_ok_def)


text \<open>
  C15. A failing initialisation undoes itself. When \<open>hrx_cpu_initialize\<close> or
  \<open>hrx_gpu_initialize\<close> returns an error, at whatever point of it, no device object is left on the
  heap, the accelerators and the shared state (but for the allocator it records) are as they were,
  and every IREE reference it was given has been released.
\<close>

theorem initialize_failure_undone:
  assumes "hrx_cpu_initialize E fl s = Some (Some e, t) \<or> hrx_gpu_initialize E fl s = Some (Some e, t)"
    and "reliable E" and "globals_ok (G s)" and "wf_state s" and "p \<noteq> NULL"
  shows "untouched s t \<and> balance k p (trace t) = balance k p (trace s)"
proof -
  have u: "untouched s t" using assms(1) cpu_initialize_failed gpu_initialize_failed assms(2-4) by blast
  have "keeps s t" using assms(1) cpu_initialize_keeps gpu_initialize_keeps assms(2-4) by blast
  then have "surplus k p t = surplus k p s" using assms(5) by (simp add: keeps_def)
  from u untouched_balance [OF u this] show ?thesis by blast
qed

text \<open>A driver that lists no devices: the call fails after the driver was created.\<close>

lemma gpu_initialize_demo:
  "\<exists>e t. hrx_gpu_initialize demo_env 0 hrx_initial = Some (Some e, t)"
proof -
  have H: "iree demo_env h (Host iree_hal_driver_registry_default) = reply_ok\<lparr>r_ptr := 100 + length h\<rparr>"
    "iree demo_env h (Host (iree_hal_amdgpu_driver_module_register p)) = reply_ok\<lparr>r_ptr := 100 + length h\<rparr>"
    "iree demo_env h (Host (iree_hal_module_register_all_types p)) = reply_ok\<lparr>r_ptr := 100 + length h\<rparr>"
    "iree demo_env h (Host (iree_hal_driver_query_available_devices p)) = reply_ok\<lparr>r_ptr := 100 + length h\<rparr>"
    for h p by (simp_all add: demo_env_def)
  obtain r0 u where e: "ensure_shared_state demo_env hrx_initial = (r0, u)" by fastforce
  have r0: "r0 = None"
    using e by (simp add: ensure_shared_state_def ffi_pair Let_def status_is_ok_def hrx_ok_status_def H
        hrx_initial_def G_initial_def)
  obtain driver v where d: "gpu_open_driver demo_env u = (Inr driver, v)"
    by (simp add: gpu_open_driver_def ffi_pair Let_def status_is_ok_def H)
  obtain msg w where y: "gpu_open_devices demo_env (host_allocator (g_shared (G u)))
      (proactor_pool (g_shared (G u))) driver v = Some (Inl (GpuNone msg), w)"
    by (simp add: gpu_open_devices_def ffi_pair Let_def status_is_ok_def H) (simp add: reply_ok_def)
  let ?s = "release_shared_state demo_env (ffi_do demo_env (Release HalDriver driver) w)"
  obtain res t where r: "hrx_make_status demo_env (code_i32 Unavailable) (Some msg) ?s = (res, t)" by fastforce
  have "hrx_gpu_initialize demo_env 0 hrx_initial = Some (res, t)"
    using e r0 d y r by (simp add: hrx_gpu_initialize_def hrx_status_is_ok_def Let_def)
       (simp add: hrx_initial_def G_initial_def)
  moreover have "res \<noteq> None" using reliable_make_eqD [OF r reliable_demo_env] by simp
  ultimately show ?thesis by blast
qed

theorem initialize_failure_undone_witness:
  "\<exists>e t. hrx_gpu_initialize demo_env 0 hrx_initial = Some (Some e, t) \<and>
     untouched hrx_initial t \<and> balance HalDriver 7 (trace t) = balance HalDriver 7 (trace hrx_initial)"
proof -
  obtain e t where t: "hrx_gpu_initialize demo_env 0 hrx_initial = Some (Some e, t)"
    using gpu_initialize_demo by blast
  have "untouched hrx_initial t \<and> balance HalDriver 7 (trace t) = balance HalDriver 7 (trace hrx_initial)"
    by (rule initialize_failure_undone [OF disjI2 [OF t] reliable_demo_env globals_ok_initial wf_initial]) simp
  then show ?thesis using t by blast
qed

lemma gpu_initialize_success:
  assumes op: "hrx_gpu_initialize E fl s = Some (res, t)" and ws: "wf_state s"
    and ni: "\<not> acc_initialized (g_gpu (G s))" and i: "acc_initialized (g_gpu (G t))"
  shows "\<exists>alloc driver v ds w. gpu_open_devices E alloc (proactor_pool (g_shared (G w))) driver v = Some (Inr ds, w) \<and>
    t = upd_gpu (\<lambda>c. \<lparr>acc_devices = ds, acc_device_count = int (length ds), acc_initialized = True,
      acc_driver = driver\<rparr>) w"
proof -
  obtain r0 u where e: "ensure_shared_state E s = (r0, u)" by fastforce
  obtain x v where d: "gpu_open_driver E u = (x, v)" by fastforce
  note F = ensure_shared_frame [OF e] and D = gpu_open_driver_eqD [OF d]
  note unf = hrx_gpu_initialize_def hrx_status_is_ok_def Let_def
  have idle: "g_gpu (G w) = g_gpu (G s) \<Longrightarrow> \<not> acc_initialized (g_gpu (G (release_shared_state E w)))" for w
    using ni release_shared_frame [of E w] by simp
  have r0: "r0 = None" using op ni i e F by (cases r0) (auto simp: unf)
  have "x \<noteq> Inl st" for st
    using op ni i e d r0 F D idle [of v] by (auto simp: unf dest!: status_from_iree_eqD)
  then obtain driver where driver: "x = Inr driver" by (cases x) auto
  obtain y w where y: "gpu_open_devices E (host_allocator (g_shared (G u)))
      (proactor_pool (g_shared (G u))) driver v = Some (y, w)"
    using op ni e d r0 driver by (auto simp: unf elim!: bind_SomeE)
  have W: "G w = G u" using gpu_open_devices_eqD [OF y] D F ws by simp
  have "y \<noteq> Inl err" for err
    using op ni i e d r0 driver y F W idle [of "ffi_do E (Release HalDriver driver) w"]
    by (auto simp: unf split: gpu_error.splits dest!: status_eqD)
  then obtain ds where ds: "y = Inr ds" by (cases y) auto
  have "t = upd_gpu (\<lambda>c. \<lparr>acc_devices = ds, acc_device_count = int (length ds), acc_initialized = True,
      acc_driver = driver\<rparr>) w"
    using op ni e d r0 driver y ds by (simp add: unf)
  with y show ?thesis unfolding ds W [symmetric] by blast
qed

text \<open>
  C16. Which devices the GPU accelerator exposes. A successful \<open>hrx_gpu_initialize\<close> creates one
  device per physical device of the driver's list, in its order and skipping entries without a
  path, at most 64 and at least one; the device at position \<open>j\<close> has ordinal \<open>j\<close>, one reference,
  the name of its entry and the HAL device the driver created for that entry's index.
\<close>

theorem gpu_initialize_devices:
  assumes "hrx_gpu_initialize E fl s = Some (res, t)"
    and "\<not> acc_initialized (g_gpu (G s))" and "acc_initialized (g_gpu (G t))" and "wf_state s"
  shows "\<exists>driver pool infos h. infos = r_infos (iree E h (Host (iree_hal_driver_query_available_devices driver))) \<and>
    acc_driver (g_gpu (G t)) = driver \<and> proactor_pool (g_shared (G t)) = pool \<and>
    (let ds = acc_devices (g_gpu (G t)) in
       length ds = min (length (physical 0 infos)) 64 \<and> ds \<noteq> [] \<and>
       acc_device_count (g_gpu (G t)) = int (length ds) \<and>
       (\<forall>j < length ds. \<exists>x. arcs t (ds ! j) = Some \<lparr>strong = 1, arc_obj = ODevice x\<rparr> \<and>
          gpu_device_of E driver pool (physical 0 infos ! j) j x))"
proof -
  obtain alloc driver v ds w where o: "gpu_open_devices E alloc (proactor_pool (g_shared (G w))) driver v = Some (Inr ds, w)"
    and t: "t = upd_gpu (\<lambda>c. \<lparr>acc_devices = ds, acc_device_count = int (length ds), acc_initialized = True,
      acc_driver = driver\<rparr>) w"
    using gpu_initialize_success [OF assms(1,4,2,3)] by blast
  show ?thesis
    using gpu_open_devices_InrD [OF o] by (auto simp: t HRX_MAX_DEVICES_def)
qed

text \<open>A driver with a pseudo-device and two physical devices.\<close>

definition two_gpus :: "device_info list" where
  "two_gpus = [\<lparr>info_path = [], info_name = ''all''\<rparr>, \<lparr>info_path = ''a'', info_name = ''GPU A''\<rparr>,
     \<lparr>info_path = ''b'', info_name = ''GPU B''\<rparr>]"

definition gpu_env :: env where
  "gpu_env = demo_env\<lparr>iree := (\<lambda>h c. case c of
       Host (iree_hal_driver_query_available_devices d) \<Rightarrow> reply_ok\<lparr>r_ptr := 64, r_infos := two_gpus\<rparr>
     | _ \<Rightarrow> reply_ok\<lparr>r_ptr := 100 + length h\<rparr>)\<rparr>"

lemma gpu_env_simps [simp]:
  "iree gpu_env h (Create f) = reply_ok\<lparr>r_ptr := 100 + length h\<rparr>"
  "iree gpu_env h (Dev x) = reply_ok\<lparr>r_ptr := 100 + length h\<rparr>"
  "iree gpu_env h (Host iree_hal_driver_registry_default) = reply_ok\<lparr>r_ptr := 100 + length h\<rparr>"
  "iree gpu_env h (Host (iree_hal_amdgpu_driver_module_register p)) = reply_ok\<lparr>r_ptr := 100 + length h\<rparr>"
  "iree gpu_env h (Host (iree_hal_module_register_all_types p)) = reply_ok\<lparr>r_ptr := 100 + length h\<rparr>"
  "iree gpu_env h (Host (iree_hal_driver_query_available_devices d)) = reply_ok\<lparr>r_ptr := 64, r_infos := two_gpus\<rparr>"
  by (simp_all add: gpu_env_def)

lemma new_device_some:
  assumes "d \<noteq> NULL" and "g \<noteq> NULL" and "a \<noteq> NULL"
  shows "new_device ty ord d g a name arch s = Some (next_addr s, snd (into_handle (ODevice
     \<lparr>dev_type = ty, dev_ordinal = ord, dev_allocator = \<lparr>al_hal_allocator = a, al_device = next_addr s\<rparr>,
      dev_hal_device_group = g, dev_hal_device = d, dev_name = name, dev_architecture = arch\<rparr>) s))"
  using assms
  by (simp add: new_device_def HalDevice_from_owned_def HalDeviceGroup_from_owned_def
      HalAllocator_from_owned_def into_handle_cyclic_def into_handle_def)

lemma gpu_device_step_demo:
  "\<exists>t. gpu_device_step gpu_env driver pool idx info n s = Some (Inr (next_addr s), t)"
  by (simp add: gpu_device_step_def ffi_pair Let_def status_is_ok_def create_single_device_group_def
      gpu_architecture_def new_device_some)

lemma gpu_initialize_two:
  "\<exists>t. hrx_gpu_initialize gpu_env 0 hrx_initial = Some (None, t) \<and> acc_initialized (g_gpu (G t))"
proof -
  obtain r0 u where e: "ensure_shared_state gpu_env hrx_initial = (r0, u)" by fastforce
  have r0: "r0 = None"
    using e by (simp add: ensure_shared_state_def ffi_pair Let_def status_is_ok_def hrx_ok_status_def
        hrx_initial_def G_initial_def)
  obtain driver v where d: "gpu_open_driver gpu_env u = (Inr driver, v)"
    by (simp add: gpu_open_driver_def ffi_pair Let_def status_is_ok_def)
  let ?v = "ffi_do gpu_env (Host (iree_hal_driver_query_available_devices driver)) v"
  let ?pool = "proactor_pool (g_shared (G u))"
  obtain s1 where 1: "gpu_device_step gpu_env driver ?pool 1 (two_gpus ! 1) 0 ?v = Some (Inr (next_addr ?v), s1)"
    using gpu_device_step_demo by blast
  obtain s2 where 2: "gpu_device_step gpu_env driver ?pool 2 (two_gpus ! 2) 1 s1 = Some (Inr (next_addr s1), s2)"
    using gpu_device_step_demo by blast
  have "gpu_device_loop gpu_env driver ?pool 2 0 two_gpus [] ?v = Some (None, [next_addr ?v, next_addr s1], s2)"
    using 1 2 by (simp add: two_gpus_def is_physical_def numeral_2_eq_2)
  moreover have "length (filter is_physical two_gpus) = 2" "two_gpus \<noteq> []"
    by (simp_all add: two_gpus_def is_physical_def)
  ultimately have "\<exists>w. gpu_open_devices gpu_env (host_allocator (g_shared (G u))) ?pool driver v =
      Some (Inr [next_addr ?v, next_addr s1], w)"
    by (simp add: gpu_open_devices_def ffi_pair Let_def status_is_ok_def HRX_MAX_DEVICES_def)
  then show ?thesis
    using e r0 d
    by (auto simp: hrx_gpu_initialize_def hrx_status_is_ok_def Let_def hrx_ok_status_def)
       (simp add: hrx_initial_def G_initial_def)
qed

theorem gpu_initialize_devices_witness:
  "\<exists>t. hrx_gpu_initialize gpu_env 0 hrx_initial = Some (None, t) \<and> acc_devices (g_gpu (G t)) \<noteq> []"
proof -
  obtain t where t: "hrx_gpu_initialize gpu_env 0 hrx_initial = Some (None, t)" "acc_initialized (g_gpu (G t))"
    using gpu_initialize_two by blast
  have "\<not> acc_initialized (g_gpu (G hrx_initial))" by (simp add: hrx_initial_def G_initial_def)
  from gpu_initialize_devices [OF t(1) this t(2) wf_initial] t(1) show ?thesis
    by (auto simp: Let_def)
qed

text \<open>
  Looking up a device. On an initialised accelerator, an index of the list stores that
  device's handle and changes nothing else, so the handle is borrowed: no reference is taken;
  any other index, negative ones included, is reported as \<open>OutOfRange\<close> and nothing is stored. The
  call never fails otherwise.
\<close>

theorem device_get_borrows:
  assumes "globals_ok (G s)" and "acc_initialized (g_gpu (G s))" and "device \<noteq> NULL" and "reliable E"
  shows "\<exists>st t. hrx_gpu_device_get E i device s = Some (st, t) \<and>
    (if 0 \<le> i \<and> i < int (length (acc_devices (g_gpu (G s))))
     then st = hrx_ok_status \<and> t = poke device (CPtr (acc_devices (g_gpu (G s)) ! nat i)) s
     else hrx_status_code st = code_i32 OutOfRange \<and> mem t = mem s \<and> arcs t = arcs s)"
proof (cases "0 \<le> i \<and> i < int (length (acc_devices (g_gpu (G s))))")
  case True
  then show ?thesis using assms by (simp add: hrx_gpu_device_get_def vec_index_def globals_ok_def accel_ok_def nat_less_iff)
next
  case False
  obtain st t where r: "hrx_make_status E (code_i32 OutOfRange) (Some ''GPU device index out of range'') s = (st, t)"
    by fastforce
  have "malloc_ok E (mallocs s)" using assms(4) by (simp add: reliable_def)
  then have "hrx_status_code st = code_i32 OutOfRange" using make_status_codeD [OF r] by simp
  then show ?thesis
    using make_status_eqD [OF r] False r assms
    by (intro exI [of _ st] exI [of _ t]) (auto simp: hrx_gpu_device_get_def globals_ok_def accel_ok_def)
qed

definition demo_gpu :: hrx where
  "demo_gpu = hrx_initial\<lparr>G := G_initial\<lparr>
     g_shared := \<lparr>vm_instance = 30, proactor_pool = 31, host_allocator = (NULL, 9), init_count = 1,
       shared_initialized = True\<rparr>,
     g_gpu := \<lparr>acc_devices = [40, 41], acc_device_count = 2, acc_initialized = True, acc_driver = 32\<rparr>\<rparr>\<rparr>"

theorem device_get_borrows_witness:
  "(\<exists>st t. hrx_gpu_device_get demo_env 1 500 demo_gpu = Some (st, t) \<and> st = hrx_ok_status \<and>
      t = poke 500 (CPtr 41) demo_gpu) \<and>
   (\<exists>st t. hrx_gpu_device_get demo_env (-1) 500 demo_gpu = Some (st, t) \<and>
      hrx_status_code st = code_i32 OutOfRange \<and> mem t = mem demo_gpu)"
proof -
  have g: "globals_ok (G demo_gpu)" "acc_initialized (g_gpu (G demo_gpu))"
    "acc_devices (g_gpu (G demo_gpu)) = [40, 41]"
    by (simp_all add: demo_gpu_def G_initial_def globals_ok_def shared_ok_def accel_ok_def users_def)
  show ?thesis
    using device_get_borrows [OF g(1,2), of 500 demo_env 1] device_get_borrows [OF g(1,2), of 500 demo_env "-1"]
      reliable_demo_env g(3) by auto
qed

text \<open>Reading a fixed array back as a C string.\<close>

lemma cstr_array_props:
  assumes "0 < N"
  shows "length (cstr_array N str) = N" and "CHR 0x00 \<in> set (cstr_array N str)"
  using assms by (auto simp: cstr_array_def Let_def min_def)

lemma cstr_len_append:
  assumes "CHR 0x00 \<notin> set xs"
  shows "cstr_len (xs @ CHR 0x00 # ys) = length xs"
  using assms by (induction xs) auto

text \<open>
  The device strings are C strings. For a string without NUL characters the fixed array built
  from it has its full length and is terminated inside, and what a reader of the C string sees is
  the string cut to one less than the size of the array; so every device name and architecture can
  be copied out by \<open>hrx_device_get_property\<close>.
\<close>

theorem cstr_array_terminated:
  assumes "0 < N" and "CHR 0x00 \<notin> set str"
  shows "length (cstr_array N str) = N \<and> cstr_len (cstr_array N str) < N \<and>
    take (cstr_len (cstr_array N str)) (cstr_array N str) = take (N - 1) str \<and>
    cstr_array_from_raw N str = cstr_array N str"
proof -
  have e: "cstr_array N str = take (N - 1) str @ CHR 0x00 # replicate (N - min (length str) (N - 1) - 1) (CHR 0x00)"
  proof -
    have "N - min (length str) (N - 1) = Suc (N - min (length str) (N - 1) - 1)" using assms(1) by simp
    then have "replicate (N - min (length str) (N - 1)) (CHR 0x00) =
        CHR 0x00 # replicate (N - min (length str) (N - 1) - 1) (CHR 0x00)" by (metis replicate_Suc)
    then show ?thesis by (simp add: cstr_array_def Let_def min.commute take_all_iff min_def)
  qed
  have "CHR 0x00 \<notin> set (take (N - 1) str)" using assms(2) by (meson in_set_takeD)
  then have "cstr_len (cstr_array N str) = length (take (N - 1) str)" unfolding e by (rule cstr_len_append)
  moreover have "cstr_array_from_raw N str = cstr_array N str"
    by (simp add: cstr_array_from_raw_def cstr_array_def)
  ultimately show ?thesis
    using cstr_array_props [OF assms(1), of str] assms(1) by (auto simp: e min_def)
qed

theorem cstr_array_terminated_witness:
  "cstr_len (cstr_array 64 ''gfx942'') < 64 \<and>
   take (cstr_len (cstr_array 64 ''gfx942'')) (cstr_array 64 ''gfx942'') = ''gfx942''"
  using cstr_array_terminated [of 64 "''gfx942''"] by simp

end
