(* ===== verification/Pool.thy ===== *)
theory Pool
  imports Runtime
begin

text \<open>
  The exact pool (\<open>hrx-libhrx/src/pool.rs\<close>): an implementation of IREE's pool interface whose
  reservations are single buffers of exactly the requested size. IREE calls the functions of the
  vtable and keeps the pool's reference count; the port creates the pool and fills the vtable in,
  so here each vtable function is an operation that the environment may call.

  A reservation is the 32-byte struct at the address it is passed by: the length at offset 8 and,
  at offset 16, the buffer's address as an integer.

  The theory shows who owns the buffer of a reservation, and that creating and destroying a pool
  are balanced on every path.
\<close>

section \<open>Operations\<close>

definition IREE_HAL_POOL_ACQUIRE_OK_FRESH :: u32 where
  "IREE_HAL_POOL_ACQUIRE_OK_FRESH = 1"

definition IREE_HAL_POOL_MATERIALIZE_FLAG_TRANSFER_RESERVATION_OWNERSHIP :: u32 where
  "IREE_HAL_POOL_MATERIALIZE_FLAG_TRANSFER_RESERVATION_OWNERSHIP = 1"

definition params_match :: "buffer_params \<Rightarrow> buffer_params \<Rightarrow> bool" where
  "params_match lhs rhs \<longleftrightarrow> bp_type lhs = bp_type rhs \<and> bp_access lhs = bp_access rhs \<and>
     bp_usage lhs = bp_usage rhs \<and> bp_queue_affinity lhs = bp_queue_affinity rhs \<and>
     bp_min_alignment lhs = bp_min_alignment rhs"

text \<open>\<open>write_bytes(p, 0, n)\<close> on a struct of \<open>n\<close> eight-byte fields.\<close>

fun poke_zeros :: "ptr \<Rightarrow> nat \<Rightarrow> hrx \<Rightarrow> hrx" where
  "poke_zeros a 0 s = s"
| "poke_zeros a (Suc n) s = poke_zeros (a + 8) n (poke a (CU64 0) s)"

definition pool_destroy :: "env \<Rightarrow> ptr \<Rightarrow> hrx \<Rightarrow> hrx option" where
  "pool_destroy E base s = do {
     pool \<leftarrow> pools s base;
     let s = ffi_do E (Release AsyncNotification (pool_notification pool)) s;
     let s = ffi_do E (Release HalAllocator (pool_allocator pool)) s;
     let s = ffi_do E (Host (iree_allocator_free (pool_host_allocator pool) base)) s;
     Some (s\<lparr>pools := (pools s)(base := None)\<rparr>) }"

definition pool_acquire_reservation ::
  "env \<Rightarrow> ptr \<Rightarrow> u64 \<Rightarrow> ptr \<Rightarrow> ptr \<Rightarrow> ptr \<Rightarrow> hrx \<Rightarrow> (iree_status \<times> hrx) option" where
  "pool_acquire_reservation E base sz out_reservation out_info out_result s =
     (if sz = 0 then Some (iree_status_from_code IREE_STATUS_INVALID_ARGUMENT, s)
      else do {
        let s = poke_zeros out_reservation 4 s;
        let s = poke_zeros out_info 2 s;
        pool \<leftarrow> pools s base;
        let (r, s) = ffi E (Create (iree_hal_allocator_allocate_buffer (pool_allocator pool) (pool_params pool) sz)) s;
        let buffer = r_ptr r;
        if \<not> status_is_ok (r_status r) then Some (r_status r, s)
        else
          let (l, s) = ffi E (Mem (iree_hal_buffer_byte_length buffer)) s;
              s = poke (out_reservation + 8) (CU64 (r_val l)) s;
              s = poke (out_reservation + 16) (CU64 (of_nat buffer)) s;
              s = poke out_result (CU32 IREE_HAL_POOL_ACQUIRE_OK_FRESH) s
          in Some (NULL, s) })"

definition pool_release_reservation :: "env \<Rightarrow> ptr \<Rightarrow> ptr \<Rightarrow> hrx \<Rightarrow> hrx option" where
  "pool_release_reservation E base reservation s = do {
     v \<leftarrow> peek_u64 (reservation + 16) s;
     let buffer = unat v;
     if buffer \<noteq> NULL then do {
       let s = ffi_do E (Release HalBuffer buffer) s;
       pool \<leftarrow> pools s base;
       Some (ffi_do E (Host (iree_async_notification_signal (pool_notification pool))) s) }
     else Some s }"

definition pool_materialize_reservation ::
  "env \<Rightarrow> ptr \<Rightarrow> buffer_params \<Rightarrow> ptr \<Rightarrow> u32 \<Rightarrow> ptr \<Rightarrow> hrx \<Rightarrow> (iree_status \<times> hrx) option" where
  "pool_materialize_reservation E base params reservation fl out_buffer s = do {
     let s = poke out_buffer (CPtr NULL) s;
     pool \<leftarrow> pools s base;
     if \<not> params_match (pool_params pool) params then
       Some (iree_status_from_code IREE_STATUS_INVALID_ARGUMENT, s)
     else do {
       v \<leftarrow> peek_u64 (reservation + 16) s;
       let buffer = unat v;
       if buffer = NULL then Some (iree_status_from_code IREE_STATUS_INVALID_ARGUMENT, s)
       else
         let s = (if fl AND IREE_HAL_POOL_MATERIALIZE_FLAG_TRANSFER_RESERVATION_OWNERSHIP = 0
                  then ffi_do E (Retain HalBuffer buffer) s else s)
         in Some (NULL, poke out_buffer (CPtr buffer) s) } }"

definition pool_query_capabilities :: "ptr \<Rightarrow> ptr \<Rightarrow> hrx \<Rightarrow> hrx option" where
  "pool_query_capabilities base out_capabilities s = do {
     pool \<leftarrow> pools s base;
     let s = poke out_capabilities (CU32 (bp_type (pool_params pool))) s;
     let s = poke (out_capabilities + 4) (CU32 (bp_usage (pool_params pool))) s;
     let s = poke (out_capabilities + 8) (CU64 0) s;
     Some (poke (out_capabilities + 16) (CU64 0) s) }"

definition pool_query_stats :: "ptr \<Rightarrow> ptr \<Rightarrow> hrx \<Rightarrow> hrx" where
  "pool_query_stats base out_stats s = poke_zeros out_stats 13 s"

definition pool_trim :: "ptr \<Rightarrow> hrx \<Rightarrow> iree_status \<times> hrx" where
  "pool_trim base s = (NULL, s)"

definition vtable_notification :: "ptr \<Rightarrow> hrx \<Rightarrow> ptr option" where
  "vtable_notification base s = do { pool \<leftarrow> pools s base; Some (pool_notification pool) }"

text \<open>
  \<open>hrx_iree_exact_pool_create\<close>: the status, and the pool, null unless the status is OK. The struct
  lives in \<open>pools\<close> at the address the host allocator returned.
\<close>

definition hrx_iree_exact_pool_create ::
  "env \<Rightarrow> ptr \<Rightarrow> buffer_params \<Rightarrow> hrx \<Rightarrow> iree_status \<times> ptr \<times> hrx" where
  "hrx_iree_exact_pool_create E allocator params s =
     (let (pp, alloc) = shared_proactor_and_host_allocator s
      in if pp = NULL then (iree_status_from_code IREE_STATUS_FAILED_PRECONDITION, NULL, s)
         else
           let (r, s) = ffi E (Host (iree_async_proactor_pool_get pp 0)) s;
               proactor = r_ptr r
           in if \<not> status_is_ok (r_status r) then (r_status r, NULL, s)
              else
                let (r, s) = ffi E (Host (iree_allocator_malloc alloc 80)) s;
                    pool = r_ptr r
                in if \<not> status_is_ok (r_status r) then (r_status r, NULL, s)
                   else
                     let s = ffi_do E (Retain HalAllocator allocator) s;
                         (r, s) = ffi E (Create (iree_async_notification_create proactor)) s
                     in if \<not> status_is_ok (r_status r) then
                          let s = ffi_do E (Release HalAllocator allocator) s;
                              s = ffi_do E (Host (iree_allocator_free alloc pool)) s
                          in (r_status r, NULL, s)
                        else
                          (NULL, pool, s\<lparr>pools := (pools s)(pool \<mapsto>
                             \<lparr>pool_ref_count = 1, pool_host_allocator = alloc, pool_allocator = allocator,
                              pool_params = params, pool_notification = r_ptr r\<rparr>)\<rparr>))"

section \<open>Ledger\<close>

lemma surplus_pools_upd:
  assumes "wf_state s" and "m = pools s"
  shows "surplus k p (s\<lparr>pools := m(a \<mapsto> x)\<rparr>) =
    surplus k p s + opt_weight (pool_refs k p) (m a) - pool_refs k p x"
  using entries_sum_upd [of "pools s" "pool_refs k p" a x] assms
  by (simp add: surplus_def held_def wf_state_def)

lemma surplus_pools_del:
  assumes "wf_state s" and "m = pools s"
  shows "surplus k p (s\<lparr>pools := m(a := None)\<rparr>) = surplus k p s + opt_weight (pool_refs k p) (m a)"
  using entries_sum_remove [of "pools s" "pool_refs k p" a] assms
  by (simp add: surplus_def held_def wf_state_def)

lemma wf_pools:
  "m = pools s \<Longrightarrow> wf_state (s\<lparr>pools := m(a := x)\<rparr>) \<longleftrightarrow> wf_state s"
  by (cases x) (simp_all add: wf_state_def wf_heap_def)

lemma poke_zeros_fields [simp]:
  "trace (poke_zeros a n s) = trace s" "arcs (poke_zeros a n s) = arcs s" "G (poke_zeros a n s) = G s"
  "pools (poke_zeros a n s) = pools s" "wf_state (poke_zeros a n s) = wf_state s"
  "surplus k p (poke_zeros a n s) = surplus k p s"
  by (induction a n s rule: poke_zeros.induct) simp_all

lemma poke_zeros_mem: "x < a \<or> a + 8 * n \<le> x \<Longrightarrow> mem (poke_zeros a n s) x = mem s x"
  by (induction a n s rule: poke_zeros.induct) auto

text \<open>The address of a new pool is not that of a live one.\<close>

definition fresh_pool :: "env \<Rightarrow> hrx \<Rightarrow> bool" where
  "fresh_pool E s \<longleftrightarrow> (\<forall>h a n. pools s (r_ptr (iree E h (Host (iree_allocator_malloc a n)))) = None)"

lemma fresh_poolD: "fresh_pool E s \<Longrightarrow> pools s (r_ptr (iree E h (Host (iree_allocator_malloc a n)))) = None"
  by (simp add: fresh_pool_def del: split_paired_All)

lemma pool_create_eqD:
  assumes "hrx_iree_exact_pool_create E al params s = (st, pool, t)" and "wf_state s" and "fresh_pool E s"
  shows "wf_state t \<and> (\<forall>k p. surplus k p t = surplus k p s) \<and> arcs t = arcs s \<and> G t = G s \<and> mem t = mem s \<and>
    next_addr t = next_addr s \<and>
    (if st = NULL then pools s pool = None \<and> (\<exists>x. pools t = (pools s)(pool \<mapsto> x) \<and> pool_allocator x = al \<and>
        pool_params x = params \<and> pool_ref_count x = 1)
     else pool = NULL \<and> pools t = pools s)"
proof -
  have nz: "0 < iree_status_from_code IREE_STATUS_FAILED_PRECONDITION"
    by (simp add: iree_status_from_code_mod IREE_STATUS_FAILED_PRECONDITION_def)
  show ?thesis
    using assms nz
    by (auto simp: hrx_iree_exact_pool_create_def shared_proactor_and_host_allocator_def ffi_pair Let_def
        status_is_ok_def surplus_pools_upd wf_pools pool_refs_def fresh_poolD split: if_splits)
qed

lemma pool_destroy_surplus:
  assumes "pool_destroy E base s = Some t" and "wf_state s"
  shows "wf_state t \<and> (\<forall>k p. surplus k p t = surplus k p s) \<and> arcs t = arcs s \<and> G t = G s"
  using assms
  by (auto simp: pool_destroy_def Let_def surplus_pools_del wf_pools pool_refs_def elim!: bind_SomeE)

text \<open>
  What the reservation calls do to the buffer references that are the reservation's and the
  caller's, not the port's.
\<close>

lemma pool_callbacks_surplus:
  assumes "wf_state s" and "k \<noteq> HalBuffer"
  shows "pool_acquire_reservation E base sz rv info rc s = Some (st, t) \<Longrightarrow> wf_state t \<and> surplus k p t = surplus k p s"
    and "pool_release_reservation E base rv s = Some t \<Longrightarrow> wf_state t \<and> surplus k p t = surplus k p s"
    and "pool_materialize_reservation E base params rv fl out s = Some (st, t) \<Longrightarrow>
      wf_state t \<and> surplus k p t = surplus k p s"
    and "pool_query_capabilities base out s = Some t \<Longrightarrow> wf_state t \<and> surplus k p t = surplus k p s"
  using assms
  by (auto simp: pool_acquire_reservation_def pool_release_reservation_def pool_materialize_reservation_def
      pool_query_capabilities_def ffi_pair Let_def status_is_ok_def one_ref_def
      split: if_splits elim!: bind_SomeE)

section \<open>Properties\<close>


text \<open>The runtime of one accelerator, with no pools yet.\<close>

lemma fresh_demo_gpu: "fresh_pool E demo_gpu"
  by (simp add: fresh_pool_def demo_gpu_def hrx_initial_def)


text \<open>
  C29. Who owns the buffer of a reservation. A successful acquisition gives the reservation one
  reference to a new buffer, recorded in the reservation itself. Whenever the reservation is later
  used unchanged, releasing it gives exactly that reference back; materialising it hands out that
  same buffer, with the reservation's reference when ownership is transferred and with a new one
  otherwise, and is refused, taking nothing, when the parameters are not the pool's.
\<close>

theorem pool_reservation_ownership:
  assumes "pool_acquire_reservation E base sz rv info rc s = Some (NULL, s1)" and "pools s base = Some pool"
    and "rc \<noteq> rv + 16"
    and "\<forall>h f. r_ptr (iree E h (Create f)) < 2 ^ 64 \<and> r_ptr (iree E h (Create f)) \<noteq> NULL"
  shows "\<exists>buf. balance HalBuffer buf (trace s1) = balance HalBuffer buf (trace s) + 1 \<and>
    (\<forall>u. pools u base = Some pool \<and> mem u (rv + 16) = mem s1 (rv + 16) \<longrightarrow>
      (\<exists>v. pool_release_reservation E base rv u = Some v \<and>
         balance HalBuffer buf (trace v) = balance HalBuffer buf (trace u) - 1) \<and>
      (\<forall>params fl out. out \<noteq> rv + 16 \<longrightarrow>
         (if params_match (pool_params pool) params
          then \<exists>v. pool_materialize_reservation E base params rv fl out u = Some (NULL, v) \<and> mem v out = CPtr buf \<and>
            balance HalBuffer buf (trace v) = balance HalBuffer buf (trace u) + (if fl AND 1 = 0 then 1 else 0)
          else \<exists>st v. pool_materialize_reservation E base params rv fl out u = Some (st, v) \<and>
            status_code st = IREE_STATUS_INVALID_ARGUMENT \<and> trace v = trace u)))"
proof -
  let ?c = "Create (iree_hal_allocator_allocate_buffer (pool_allocator pool) (pool_params pool) sz)"
  let ?buf = "r_ptr (iree E (trace s) ?c)"
  have nz: "sz \<noteq> 0"
    using assms(1) by (auto simp: pool_acquire_reservation_def iree_status_from_code_mod
        IREE_STATUS_INVALID_ARGUMENT_def)
  have m: "mem s1 (rv + 16) = CU64 (of_nat ?buf)" and
    b: "balance HalBuffer ?buf (trace s1) = balance HalBuffer ?buf (trace s) + 1"
    using assms(1-3) nz
    by (auto simp: pool_acquire_reservation_def ffi_pair Let_def status_is_ok_def one_ref_def split: if_splits)
  have buf: "unat (of_nat ?buf :: 64 word) = ?buf" "?buf \<noteq> NULL"
    using assms(4) by (simp_all add: unsigned_of_nat take_bit_nat_eq_self)
  have inv: "status_code (iree_status_from_code IREE_STATUS_INVALID_ARGUMENT) = IREE_STATUS_INVALID_ARGUMENT"
    by (simp add: IREE_STATUS_INVALID_ARGUMENT_def status_code_from_code)
  show ?thesis
    using b m buf inv
    by (intro exI [of _ ?buf])
      (auto simp: pool_release_reservation_def pool_materialize_reservation_def peek_u64_def Let_def one_ref_def
        IREE_HAL_POOL_MATERIALIZE_FLAG_TRANSFER_RESERVATION_OWNERSHIP_def)
qed

definition demo_pool :: hrx where
  "demo_pool = demo_gpu\<lparr>pools := [90 \<mapsto> \<lparr>pool_ref_count = 1, pool_host_allocator = (NULL, 9), pool_allocator = 54,
     pool_params = vm_params 7, pool_notification = 91\<rparr>]\<rparr>"

text \<open>Addresses below \<open>2 ^ 64\<close> from every creation.\<close>

definition small_env :: env where
  "small_env = demo_env\<lparr>iree := (\<lambda>h c. reply_ok\<lparr>r_ptr := 100 + length h mod 1000, r_val := 64\<rparr>)\<rparr>"

theorem pool_reservation_ownership_witness:
  "\<exists>s1 buf v. pool_acquire_reservation small_env 90 64 600 640 660 demo_pool = Some (NULL, s1) \<and>
     balance HalBuffer buf (trace s1) = balance HalBuffer buf (trace demo_pool) + 1 \<and>
     pool_release_reservation small_env 90 600 s1 = Some v \<and>
     balance HalBuffer buf (trace v) = balance HalBuffer buf (trace s1) - 1"
proof -
  have "\<exists>s1. pool_acquire_reservation small_env 90 64 600 640 660 demo_pool = Some (NULL, s1) \<and>
      pools s1 = pools demo_pool"
    by (simp add: pool_acquire_reservation_def small_env_def ffi_pair Let_def status_is_ok_def)
       (simp add: demo_pool_def)
  then obtain s1 where s1: "pool_acquire_reservation small_env 90 64 600 640 660 demo_pool = Some (NULL, s1)"
    "pools s1 = pools demo_pool" by blast
  let ?pool = "\<lparr>pool_ref_count = 1, pool_host_allocator = (NULL, 9), pool_allocator = 54,
     pool_params = vm_params 7, pool_notification = 91\<rparr>"
  have p: "pools demo_pool 90 = Some ?pool" by (simp add: demo_pool_def)
  have "100 + length h mod 1000 < (2::nat) ^ 64" for h :: history
    by (rule order_less_trans [of _ 1100]) simp_all
  then have e: "\<forall>h f. r_ptr (iree small_env h (Create f)) < 2 ^ 64 \<and> r_ptr (iree small_env h (Create f)) \<noteq> NULL"
    by (simp add: small_env_def)
  obtain buf where "balance HalBuffer buf (trace s1) = balance HalBuffer buf (trace demo_pool) + 1"
    "\<forall>u. pools u 90 = Some ?pool \<and> mem u (600 + 16) = mem s1 (600 + 16) \<longrightarrow>
      (\<exists>v. pool_release_reservation small_env 90 600 u = Some v \<and>
         balance HalBuffer buf (trace v) = balance HalBuffer buf (trace u) - 1)"
    using pool_reservation_ownership [OF s1(1) p _ e] by auto
  then show ?thesis using s1 p by metis
qed

end
