(* ===== verification/Buffer_Allocate.thy ===== *)
theory Buffer_Allocate
  imports Pool
begin

text \<open>
  Stream-ordered allocation (\<open>hrx_buffer_allocate\<close> of \<open>hrx-libhrx/src/buffer.rs\<close>): the one
  operation that combines a stream, the exact pool and a buffer. It flushes the stream, creates a
  pool for this one buffer, queues the allocation on the stream's timeline, waits for it and hands
  out a buffer that owns the pool.

  The theory shows that no path of it leaks, what it submits, and when the timeline advances.
\<close>

section \<open>The operation\<close>

text \<open>
  The part between the flush and the error handling: the pool, the queued allocation and the wait
  for it. The results are the first status that is not OK, the buffer and the pool. IREE signals
  with \<open>r_flag\<close> a failing call that has written its out-pointer all the same.
\<close>

definition alloca_submit ::
  "env \<Rightarrow> ptr \<Rightarrow> ptr \<Rightarrow> buffer_params \<Rightarrow> ptr \<Rightarrow> u64 \<Rightarrow> u64 \<Rightarrow> hrx \<Rightarrow> iree_status \<times> ptr \<times> ptr \<times> hrx" where
  "alloca_submit E hal_device allocator params sem tp sz s =
     (let signal_value = tp + 1;
          wait_list = (if tp > 0 then [(sem, tp)] else []);
          signal_list = [(sem, signal_value)];
          (status, raw_pool, s) = hrx_iree_exact_pool_create E allocator params s
      in if \<not> status_is_ok status then (status, NULL, raw_pool, s)
         else
           let (r, s) = ffi E (Create (iree_hal_device_queue_alloca hal_device wait_list signal_list raw_pool
                                          params sz)) s;
               raw_buffer = (if status_is_ok (r_status r) \<or> r_flag r then r_ptr r else NULL)
           in if \<not> status_is_ok (r_status r) then (r_status r, raw_buffer, raw_pool, s)
              else
                let (w, s) = ffi E (Dev (iree_hal_semaphore_wait sem signal_value timeout_infinite)) s
                in (r_status w, raw_buffer, raw_pool, s))"

text \<open>The body of \<open>hrx_buffer_allocate\<close> from the flush on, for parameters the allocator accepts.\<close>

definition allocate_on_stream ::
  "env \<Rightarrow> ptr \<Rightarrow> ptr \<Rightarrow> buffer_params \<Rightarrow> usize \<Rightarrow> u32 \<Rightarrow> ptr \<Rightarrow> hrx \<Rightarrow> (hrx_status \<times> hrx) option" where
  "allocate_on_stream E stream allocator params sz mem_type buffer s = do {
     (flush_status, s) \<leftarrow> hrx_stream_flush E stream s;
     if \<not> hrx_status_is_ok flush_status then Some (flush_status, s)
     else do {
       tp \<leftarrow> stream_timepoint stream s;
       sem_handle \<leftarrow> stream_semaphore stream s;
       sem \<leftarrow> semaphore_hal_ptr sem_handle s;
       device \<leftarrow> stream_device stream s;
       dev \<leftarrow> handle_ref as_device device s;
       let (status, raw_buffer, raw_pool, s) =
             alloca_submit E (dev_hal_device dev) allocator params sem tp sz s;
       if \<not> status_is_ok status then
         let s = ffi_do E (Release HalBuffer raw_buffer) s;
             s = ffi_do E (Release HalPool raw_pool) s
         in Some (hrx_status_from_iree E status s)
       else do {
         hal_buffer \<leftarrow> HalBuffer_from_owned raw_buffer;
         let hal_pool = HalPool_from_owned raw_pool;
         device \<leftarrow> stream_device stream s;
         (device, s) \<leftarrow> DeviceRef_retain device s;
         s \<leftarrow> stream_set_timepoint stream (tp + 1) s;
         let (h, s) = into_handle (new_buffer hal_buffer hal_pool device mem_type sz) s;
         Some (hrx_ok_status, poke buffer (CPtr h) s) } } }"

definition hrx_buffer_allocate ::
  "env \<Rightarrow> ptr \<Rightarrow> usize \<Rightarrow> u32 \<Rightarrow> u32 \<Rightarrow> ptr \<Rightarrow> hrx \<Rightarrow> (hrx_status \<times> hrx) option" where
  "hrx_buffer_allocate E stream sz mem_type usage buffer s =
     (if stream = NULL \<or> buffer = NULL then
        Some (hrx_make_status E (code_i32 InvalidArgument) (Some ''stream or buffer is NULL'') s)
      else if sz = 0 then
        Some (hrx_make_status E (code_i32 InvalidArgument) (Some ''allocation size must be > 0'') s)
      else do {
        device \<leftarrow> stream_device stream s;
        dev \<leftarrow> handle_ref as_device device s;
        let allocator = al_hal_allocator (dev_allocator dev);
        let params = \<lparr>bp_usage = usage, bp_access = IREE_HAL_MEMORY_ACCESS_ALL, bp_type = mem_type,
              bp_queue_affinity = 0, bp_min_alignment = 0\<rparr>;
        let (r, s) = ffi E (Mem (iree_hal_allocator_query_buffer_compatibility allocator params sz)) s;
        let params = r_params r;
        if (ucast (r_val r) :: u32) AND IREE_HAL_BUFFER_COMPATIBILITY_ALLOCATABLE = 0 then
          Some (hrx_make_status E (code_i32 InvalidArgument)
            (Some ''buffer params are not allocatable on this device'') s)
        else allocate_on_stream E stream allocator params sz mem_type buffer s })"

section \<open>Ledger\<close>

text \<open>IREE leaves the out-pointer of a failing creation alone.\<close>

definition clean_failures :: "env \<Rightarrow> bool" where
  "clean_failures E \<longleftrightarrow> (\<forall>h f. r_status (iree E h (Create f)) \<noteq> NULL \<longrightarrow> \<not> r_flag (iree E h (Create f)))"

lemma alloca_submit_eqD:
  assumes "alloca_submit E dv al params sem tp sz s = (st, b, pool, t)" and "wf_state s" and "fresh_pool E s"
    and "clean_failures E"
  shows "wf_state t \<and> arcs t = arcs s \<and> G t = G s \<and> mem t = mem s \<and> next_addr t = next_addr s \<and>
    (\<forall>k p. p \<noteq> NULL \<longrightarrow> surplus k p t = surplus k p s + one_ref k p HalBuffer b)"
proof -
  obtain st0 pool0 u where c: "hrx_iree_exact_pool_create E al params s = (st0, pool0, u)" by (metis prod_cases3)
  note C = pool_create_eqD [OF c assms(2,3)]
  show ?thesis
    using assms(1) C c assms(4)
    by (auto simp: alloca_submit_def ffi_pair Let_def status_is_ok_def clean_failures_def shared_refs_null
        split: if_splits)
qed

lemma flush_frame:
  assumes "hrx_stream_flush E h s = Some (res, t)"
  shows "pools t = pools s \<and> mem t = mem s"
  using assms
  by (auto simp: hrx_stream_flush_def flush_inner_def ffi_pair Let_def split: if_splits prod.splits
      elim!: bind_SomeE dest!: status_eqD)

lemma fresh_pool_cong: "pools s = pools t \<Longrightarrow> fresh_pool E s = fresh_pool E t"
  by (simp add: fresh_pool_def)

lemma set_timepoint_eqD:
  assumes "stream_set_timepoint h v s = Some t"
  shows "(\<exists>st. handle_ref as_stream h s = Some st \<and> handle_ref as_stream h t = Some (st\<lparr>st_timepoint := v\<rparr>)) \<and>
    next_addr t = next_addr s \<and> mem t = mem s \<and> trace t = trace s \<and>
    (wf_state s \<longrightarrow> wf_state t \<and> (\<forall>k p. p \<noteq> NULL \<longrightarrow> surplus k p t = surplus k p s))"
proof -
  obtain st where st: "handle_ref as_stream h s = Some st" and t: "t = handle_set h (OStream (st\<lparr>st_timepoint := v\<rparr>)) s"
    using assms by (auto simp: stream_set_timepoint_def elim!: bind_SomeE)
  have "arcs s h \<noteq> None" using st by (auto dest: handle_ref_as_streamD)
  then show ?thesis using surplus_stream_set [OF _ st, of "st\<lparr>st_timepoint := v\<rparr>"] st by (simp add: t)
qed

text \<open>The last part of the operation, after the allocation is visible.\<close>

lemma allocate_finish:
  assumes "HalBuffer_from_owned b = Some hb" and "DeviceRef_retain dv s = Some (d, u)"
    and "stream_set_timepoint h v u = Some w" and "into_handle (new_buffer hb (HalPool_from_owned pool) d mt sz) w = (x, y)"
    and "wf_state s"
  shows "wf_state (poke out (CPtr x) y) \<and> (\<forall>k p. k \<noteq> HalPool \<longrightarrow> p \<noteq> NULL \<longrightarrow>
    surplus k p (poke out (CPtr x) y) = surplus k p s - one_ref k p HalBuffer b)"
  using assms DeviceRef_retain_eqD [OF assms(2)] set_timepoint_eqD [OF assms(3)]
  by (auto simp: into_handle_eq new_buffer_def one_ref_def split: if_splits)

lemma allocate_on_stream_ledger:
  assumes op: "allocate_on_stream E h al params sz mt out s = Some (res, t)" and ws: "wf_state s"
    and fp: "fresh_pool E s" and cf: "clean_failures E"
  shows "wf_state t \<and> (\<forall>k p. k \<noteq> HalPool \<longrightarrow> p \<noteq> NULL \<longrightarrow> surplus k p t = surplus k p s)"
proof -
  note unf = allocate_on_stream_def hrx_status_is_ok_def status_is_ok_def
  obtain f u where f: "hrx_stream_flush E h s = Some (f, u)"
    using op by (auto simp: unf elim!: bind_SomeE)
  have u: "wf_state u" "\<forall>k p. p \<noteq> NULL \<longrightarrow> surplus k p u = surplus k p s" "fresh_pool E u"
    using flush_advances [OF f ws] flush_frame [OF f] fp fresh_pool_cong [of u s E] by (auto simp: advances_def)
  show ?thesis
  proof (cases "f = None")
    case False
    then show ?thesis using op f u by (auto simp: unf)
  next
    case True
    obtain tp sh sem d dev where g: "stream_timepoint h u = Some tp" "stream_semaphore h u = Some sh"
      "semaphore_hal_ptr sh u = Some sem" "stream_device h u = Some d" "handle_ref as_device d u = Some dev"
      using op f True by (auto simp: unf elim!: bind_SomeE)
    obtain st b pool v where a: "alloca_submit E (dev_hal_device dev) al params sem tp sz u = (st, b, pool, v)"
      by (metis prod_cases4)
    note A = alloca_submit_eqD [OF a u(1,3) cf]
    have dv: "stream_device h v = Some d" using g(4) A by (simp add: stream_device_def handle_ref_def)
    show ?thesis
    proof (cases "st = NULL")
      case False
      then show ?thesis
        using op f True g a A u by (auto simp: unf one_ref_def dest!: status_from_iree_eqD)
    next
      case st: True
      then obtain hb d' u' w x y where fin: "HalBuffer_from_owned b = Some hb" "DeviceRef_retain d v = Some (d', u')"
        "stream_set_timepoint h (tp + 1) u' = Some w"
        "into_handle (new_buffer hb (HalPool_from_owned pool) d' mt sz) w = (x, y)" "t = poke out (CPtr x) y"
        using op f True g a dv by (auto simp: unf Let_def elim!: bind_SomeE split: prod.splits if_splits)
      show ?thesis using allocate_finish [OF fin(1-4), of out] A u fin(5) by simp
    qed
  qed
qed

lemma buffer_allocate_ledger:
  assumes op: "hrx_buffer_allocate E h sz mt us out s = Some (res, t)" and ws: "wf_state s" and fp: "fresh_pool E s"
    and cf: "clean_failures E"
  shows "wf_state t \<and> (\<forall>k p. k \<noteq> HalPool \<longrightarrow> p \<noteq> NULL \<longrightarrow> surplus k p t = surplus k p s)"
proof -
  have fp': "fresh_pool E (ffi_do E c s)" for c using fp fresh_pool_cong [of "ffi_do E c s" s E] by simp
  show ?thesis
    using op ws fp' cf
    by (auto simp: hrx_buffer_allocate_def ffi_pair Let_def split: if_splits elim!: bind_SomeE
        dest!: make_status_eqD allocate_on_stream_ledger)
qed

section \<open>Properties\<close>

lemma handle_ref_retain:
  assumes "DeviceRef_retain d s = Some (d', t)"
  shows "handle_ref as h t = handle_ref as h s"
  using DeviceRef_retain_Some [OF assms] handle_retain_Some [of as_device d s t]
  by (auto simp: handle_ref_def)

lemma handle_ref_new:
  assumes "into_handle x s = (h, t)" and "wf_state s"
  shows "handle_ref as h t = as x"
    and "handle_ref as h' s = Some y \<Longrightarrow> handle_ref as h' t = Some y"
  using assms wf_heap_fresh [OF wf_heapI [OF assms(2)]]
  by (auto simp: into_handle_def handle_ref_def)

lemma alloca_submit_ok:
  assumes "alloca_submit E dv al params sem tp sz s = (NULL, b, pool, t)"
  shows "\<exists>pre r w. trace t = pre @ [(Create (iree_hal_device_queue_alloca dv (if tp = 0 then [] else [(sem, tp)])
      [(sem, tp + 1)] pool params sz), r), (Dev (iree_hal_semaphore_wait sem (tp + 1) timeout_infinite), w)] \<and>
    r_status r = NULL \<and> r_status w = NULL \<and> b = r_ptr r"
proof -
  have wl: "(if tp > 0 then [(sem, tp)] else []) = (if tp = 0 then [] else [(sem, tp)])"
    by (simp add: word_neq_0_conv)
  show ?thesis
    using assms unfolding alloca_submit_def wl
    by (auto simp: ffi_pair Let_def status_is_ok_def split: if_splits prod.splits)
qed

text \<open>
  The outcome on a stream with nothing pending: a failure leaves the stream as it was; a success
  has waited for the queued allocation and has advanced the timeline by one.
\<close>

definition allocated :: "ptr \<Rightarrow> hrx_stream_s \<Rightarrow> usize \<Rightarrow> ptr \<Rightarrow> hrx \<Rightarrow> bool" where
  "allocated h st sz out t \<longleftrightarrow>
     (\<exists>dv sem pool params pre r w b x. trace t = pre @
        [(Create (iree_hal_device_queue_alloca dv (if st_timepoint st = 0 then [] else [(sem, st_timepoint st)])
            [(sem, st_timepoint st + 1)] pool params sz), r),
         (Dev (iree_hal_semaphore_wait sem (st_timepoint st + 1) timeout_infinite), w)] \<and>
        r_status r = NULL \<and> r_status w = NULL \<and> mem t out = CPtr b \<and> handle_ref as_buffer b t = Some x \<and>
        buf_hal_buffer x = r_ptr r \<and> buf_size x = sz \<and> buf_device x = st_device st \<and> buf_map x = None \<and>
        buf_hal_pool x = (if pool = NULL then None else Some pool) \<and>
        handle_ref as_stream h t = Some (st\<lparr>st_timepoint := st_timepoint st + 1\<rparr>))"

lemma allocate_finish_outcome:
  assumes fin: "HalBuffer_from_owned b = Some hb" "DeviceRef_retain (st_device st) v = Some (d', u')"
      "stream_set_timepoint h (st_timepoint st + 1) u' = Some w"
      "into_handle (new_buffer hb (HalPool_from_owned pool) d' mt sz) w = (x, y)"
    and v: "wf_state v" "handle_ref as_stream h v = Some st"
    and a: "trace v = pre @
        [(Create (iree_hal_device_queue_alloca dv (if st_timepoint st = 0 then [] else [(sem, st_timepoint st)])
            [(sem, st_timepoint st + 1)] pool params sz), r),
         (Dev (iree_hal_semaphore_wait sem (st_timepoint st + 1) timeout_infinite), z)]"
      "r_status r = NULL" "r_status z = NULL" "b = r_ptr r"
  shows "allocated h st sz out (poke out (CPtr x) y)"
proof -
  note R = DeviceRef_retain_eqD [OF fin(2)] and S = set_timepoint_eqD [OF fin(3)]
  have w: "wf_state w" using R S v(1) by blast
  have "handle_ref as_stream h u' = Some st" by (simp add: handle_ref_retain [OF fin(2)] v(2))
  then have hw: "handle_ref as_stream h w = Some (st\<lparr>st_timepoint := st_timepoint st + 1\<rparr>)" using S by auto
  have hs: "handle_ref as_stream h (poke out (CPtr x) y) = Some (st\<lparr>st_timepoint := st_timepoint st + 1\<rparr>)"
    using handle_ref_new(2) [OF fin(4) w hw] by (simp add: handle_ref_def)
  have hb: "hb = b" using fin(1) by (simp split: if_splits)
  have hx: "handle_ref as_buffer x (poke out (CPtr x) y) = Some \<lparr>buf_map = None, buf_hal_buffer = b,
      buf_hal_pool = HalPool_from_owned pool, buf_device = d', buf_mem_type = mt, buf_size = sz\<rparr>"
    using handle_ref_new(1) [OF fin(4) w, of as_buffer] hb by (simp add: handle_ref_def new_buffer_def)
  have "trace y = trace v" using R S fin(4) by (auto simp: into_handle_eq)
  then have t: "trace (poke out (CPtr x) y) = trace v" by simp
  show ?thesis
    unfolding allocated_def t using a hx hs R
    by (intro exI [of _ dv] exI [of _ sem] exI [of _ pool] exI [of _ params] exI [of _ pre] exI [of _ r]
        exI [of _ z] exI [of _ x]) simp
qed

lemma allocate_on_stream_outcome:
  assumes op: "allocate_on_stream E h al params sz mt out s = Some (res, t)" and ws: "wf_state s"
    and fp: "fresh_pool E s" and cf: "clean_failures E" and rel: "reliable E"
    and st: "handle_ref as_stream h s = Some st" "\<not> st_has_pending_work st" "h \<noteq> NULL"
  shows "if res = None then allocated h st sz out t else handle_ref as_stream h t = Some st"
proof -
  note unf = allocate_on_stream_def hrx_status_is_ok_def status_is_ok_def hrx_ok_status_def
  obtain a where a: "arcs s h = Some a" "arc_obj a = OStream st" using handle_ref_as_streamD [OF st(1)] by blast
  have f: "hrx_stream_flush E h s = Some (None, s)"
    using st handle_set_same [OF a] by (simp add: hrx_stream_flush_def flush_inner_def hrx_ok_status_def)
  have acc: "stream_timepoint h s = Some (st_timepoint st)" "stream_device h s = Some (st_device st)"
    "stream_semaphore h s = Some (st_semaphore st)"
    using st by (simp_all add: stream_timepoint_def stream_device_def stream_semaphore_def)
  obtain sem dev where g: "semaphore_hal_ptr (st_semaphore st) s = Some sem"
    "handle_ref as_device (st_device st) s = Some dev"
    using op f acc by (auto simp: unf elim!: bind_SomeE)
  obtain ist b pool v where al: "alloca_submit E (dev_hal_device dev) al params sem (st_timepoint st) sz s =
      (ist, b, pool, v)" by (metis prod_cases4)
  note A = alloca_submit_eqD [OF al ws fp cf]
  show ?thesis
  proof (cases "ist = NULL")
    case False
    obtain t0 where "hrx_status_from_iree E ist t0 = (res, t)" "arcs t0 = arcs s"
      using op f acc g al False A by (auto simp: unf)
    then show ?thesis
      using status_from_iree_eqD reliable_from_iree_eqD [OF _ rel] False st(1) by (fastforce simp: handle_ref_def)
  next
    case ok: True
    have dv: "stream_device h v = Some (st_device st)" using acc(2) A by (simp add: stream_device_def handle_ref_def)
    obtain hb d' u' w x y where fin: "HalBuffer_from_owned b = Some hb" "DeviceRef_retain (st_device st) v = Some (d', u')"
      "stream_set_timepoint h (st_timepoint st + 1) u' = Some w"
      "into_handle (new_buffer hb (HalPool_from_owned pool) d' mt sz) w = (x, y)" "t = poke out (CPtr x) y" "res = None"
      using op f acc g al ok dv by (auto simp: unf Let_def elim!: bind_SomeE split: prod.splits if_splits)
    obtain pre r z where tr: "trace v = pre @ [(Create (iree_hal_device_queue_alloca (dev_hal_device dev)
          (if st_timepoint st = 0 then [] else [(sem, st_timepoint st)]) [(sem, st_timepoint st + 1)] pool params sz), r),
        (Dev (iree_hal_semaphore_wait sem (st_timepoint st + 1) timeout_infinite), z)]"
      "r_status r = NULL" "r_status z = NULL" "b = r_ptr r"
      using alloca_submit_ok [OF al [unfolded ok]] by blast
    have "wf_state v" "handle_ref as_stream h v = Some st" using A st(1) by (simp_all add: handle_ref_def)
    from allocate_finish_outcome [OF fin(1-4) this tr] show ?thesis using fin(5,6) by simp
  qed
qed


text \<open>A stream at position 3 with nothing pending, in a process whose runtime is initialised.\<close>

definition demo_alloc :: hrx where
  "demo_alloc = demo_stream\<lparr>G := G demo_gpu\<rparr>"

definition alloc_env :: env where
  "alloc_env = demo_env\<lparr>iree := (\<lambda>h c. reply_ok\<lparr>r_ptr := 100 + length h, r_val := 1\<rparr>)\<rparr>"

lemma alloc_env_simps [simp]: "iree alloc_env h c = reply_ok\<lparr>r_ptr := 100 + length h, r_val := 1\<rparr>"
  by (simp add: alloc_env_def)

lemma demo_alloc_facts:
  "wf_state demo_alloc" "fresh_pool alloc_env demo_alloc" "handle_ref as_stream 5 demo_alloc = Some demo_stream_s"
  "handle_ref as_device 1 demo_alloc = Some demo_device" "semaphore_hal_ptr 2 demo_alloc = Some 60"
  "proactor_pool (g_shared (G demo_alloc)) = 31"
  using wf_demo_stream(1) demo_stream_refs(1-3)
  by (simp_all add: demo_alloc_def handle_ref_def semaphore_hal_ptr_def wf_state_def wf_heap_def)
     (simp_all add: fresh_pool_def demo_stream_def demo_fill_def demo_sync_def demo_state_def hrx_initial_def
       demo_gpu_def)

lemma alloc_env_ok: "clean_failures alloc_env" "reliable alloc_env"
  by (simp_all add: clean_failures_def reliable_def alloc_env_def demo_env_def)

lemma demo_allocates:
  "\<exists>t. hrx_buffer_allocate alloc_env 5 64 7 3 900 demo_alloc = Some (None, t)"
proof -
  note d = demo_alloc_facts
  let ?c = "Mem (iree_hal_allocator_query_buffer_compatibility (al_hal_allocator (dev_allocator demo_device))
      \<lparr>bp_usage = 3, bp_access = IREE_HAL_MEMORY_ACCESS_ALL, bp_type = 7, bp_queue_affinity = 0,
       bp_min_alignment = 0\<rparr> 64)"
  let ?s = "ffi_do alloc_env ?c demo_alloc"
  have acc: "stream_device 5 ?s = Some 1" "stream_timepoint 5 ?s = Some 3" "stream_semaphore 5 ?s = Some 2"
    "semaphore_hal_ptr 2 ?s = Some 60" "handle_ref as_device 1 ?s = Some demo_device"
    "handle_ref as_stream 5 ?s = Some demo_stream_s"
    using d by (simp_all add: stream_device_def stream_timepoint_def stream_semaphore_def handle_ref_def
        semaphore_hal_ptr_def)
  obtain a where a: "arcs ?s 5 = Some a" "arc_obj a = OStream demo_stream_s"
    using handle_ref_as_streamD [OF acc(6)] by blast
  have f: "hrx_stream_flush alloc_env 5 ?s = Some (None, ?s)"
    using acc(6) handle_set_same [OF a] by (simp add: hrx_stream_flush_def flush_inner_def hrx_ok_status_def)
  obtain st b pool v where al: "alloca_submit alloc_env (dev_hal_device demo_device)
      (al_hal_allocator (dev_allocator demo_device)) (r_params reply_ok) 60 3 64 ?s = (st, b, pool, v)"
    by (metis prod_cases4)
  have stb: "st = NULL" "b \<noteq> NULL" "arcs v = arcs demo_alloc"
    using al d(6)
    by (auto simp: alloca_submit_def hrx_iree_exact_pool_create_def shared_proactor_and_host_allocator_def
        ffi_pair Let_def status_is_ok_def)
  have dv: "stream_device 5 v = Some 1" using acc(1) stb(3) by (simp add: stream_device_def handle_ref_def)
  obtain w where w: "DeviceRef_retain 1 v = Some (1, w)"
    using d(4) stb(3)
    by (auto simp: DeviceRef_retain_def hrx_device_retain_def handle_retain_def handle_ref_def
        split: option.splits elim!: bind_SomeE)
  have "handle_ref as_stream 5 w = Some demo_stream_s"
    using d(3) stb(3) by (simp add: handle_ref_retain [OF w]) (simp add: handle_ref_def)
  then obtain y where y: "stream_set_timepoint 5 (3 + 1) w = Some y" by (simp add: stream_set_timepoint_def)
  have "allocate_on_stream alloc_env 5 (al_hal_allocator (dev_allocator demo_device)) (r_params reply_ok) 64 7 900 ?s =
      Some (None, poke 900 (CPtr (next_addr y)) (snd (into_handle (new_buffer b (HalPool_from_owned pool) 1 7 64) y)))"
    using f acc al stb dv w y
    by (simp add: allocate_on_stream_def hrx_status_is_ok_def status_is_ok_def hrx_ok_status_def
        prod.case_eq_if into_handle_def Let_def)
  moreover have "stream_device 5 demo_alloc = Some 1" using d(3) by (simp add: stream_device_def)
  ultimately show ?thesis
    using d(4)
    by (simp add: hrx_buffer_allocate_def ffi_pair IREE_HAL_BUFFER_COMPATIBILITY_ALLOCATABLE_def)
qed


end
