(* ===== verification/Buffer_View.thy ===== *)
theory Buffer_View
  imports Buffer
begin

text \<open>
  Buffer views (\<open>hrx-libhrx/src/buffer_view.rs\<close>). The caller's shape is an array of \<open>i64\<close>,
  read element by element; ranks up to eight use a stack array, larger ones a vector. The theory
  shows that both paths hand IREE the same shape.
\<close>

section \<open>Operations\<close>

definition drop_buffer_view :: "env \<Rightarrow> hrx_buffer_view_s \<Rightarrow> hrx \<Rightarrow> hrx option" where
  "drop_buffer_view E x s = Some (HalBufferView_drop E (bv_hal x) s)"

definition buffer_view_hal_ptr :: "ptr \<Rightarrow> hrx \<Rightarrow> ptr option" where
  "buffer_view_hal_ptr bv s = do { x \<leftarrow> handle_ref as_buffer_view bv s; Some (bv_hal x) }"

text \<open>
  The two loops over the dimensions. \<open>Inl ()\<close> is the early return on a negative dimension;
  storing past the end of the stack array panics.
\<close>

fun heap_shape_loop :: "nat list \<Rightarrow> ptr \<Rightarrow> hrx \<Rightarrow> u64 list \<Rightarrow> (unit + u64 list) option" where
  "heap_shape_loop [] shape s v = Some (Inr v)"
| "heap_shape_loop (i # is) shape s v = do {
     dim \<leftarrow> peek_u64 (shape + 8 * i) s;
     if sint dim < 0 then Some (Inl ()) else heap_shape_loop is shape s (v @ [dim]) }"

fun stack_shape_loop :: "nat list \<Rightarrow> ptr \<Rightarrow> hrx \<Rightarrow> u64 list \<Rightarrow> (unit + u64 list) option" where
  "stack_shape_loop [] shape s v = Some (Inr v)"
| "stack_shape_loop (i # is) shape s v = do {
     dim \<leftarrow> peek_u64 (shape + 8 * i) s;
     if sint dim < 0 then Some (Inl ())
     else if i < length v then stack_shape_loop is shape s (v[i := dim]) else None }"

text \<open>IREE reads the first \<open>shape_rank\<close> elements of whichever storage was filled.\<close>

definition hrx_buffer_view_create ::
  "env \<Rightarrow> ptr \<Rightarrow> usize \<Rightarrow> ptr \<Rightarrow> u32 \<Rightarrow> u32 \<Rightarrow> ptr \<Rightarrow> hrx \<Rightarrow> (hrx_status \<times> hrx) option" where
  "hrx_buffer_view_create E buffer shape_rank shape element_type encoding_type buffer_view s =
     (if buffer = NULL \<or> buffer_view = NULL then
        Some (hrx_make_status E (code_i32 InvalidArgument) (Some ''buffer or buffer_view is NULL'') s)
      else
        let s = poke buffer_view (CPtr NULL) s
        in if shape_rank > 0 \<and> shape = NULL then
             Some (hrx_make_status E (code_i32 InvalidArgument) (Some ''shape is NULL for non-zero rank'') s)
           else do {
             iree_shape \<leftarrow>
               (if shape_rank > 8 then heap_shape_loop [0..<unat shape_rank] shape s []
                else stack_shape_loop [0..<unat shape_rank] shape s (replicate 8 0));
             case iree_shape of
               Inl _ \<Rightarrow> Some (hrx_make_status E (code_i32 InvalidArgument)
                          (Some ''shape dimensions must be non-negative'') s)
             | Inr v \<Rightarrow> do {
                 b \<leftarrow> buffer_hal buffer s;
                 (x, s) \<leftarrow> buffer_view_create E b (take (unat shape_rank) v) element_type encoding_type s;
                 case x of
                   Inr hal \<Rightarrow>
                     (let (h, s) = into_handle (OBufferView \<lparr>bv_hal = hal\<rparr>) s
                      in Some (hrx_ok_status, poke buffer_view (CPtr h) s))
                 | Inl st \<Rightarrow> Some (hrx_status_from_iree E st s) } })"

definition hrx_buffer_view_retain :: "ptr \<Rightarrow> hrx \<Rightarrow> hrx option" where
  "hrx_buffer_view_retain bv s = handle_retain as_buffer_view bv s"

definition hrx_buffer_view_release :: "env \<Rightarrow> ptr \<Rightarrow> hrx \<Rightarrow> hrx option" where
  "hrx_buffer_view_release E bv s = handle_release as_buffer_view (drop_buffer_view E) bv s"

definition hrx_buffer_view_rank :: "env \<Rightarrow> ptr \<Rightarrow> ptr \<Rightarrow> hrx \<Rightarrow> (hrx_status \<times> hrx) option" where
  "hrx_buffer_view_rank E buffer_view rank s =
     (if buffer_view = NULL \<or> rank = NULL then
        Some (hrx_make_status E (code_i32 InvalidArgument) (Some ''buffer_view or rank is NULL'') s)
      else do {
        view \<leftarrow> handle_ref as_buffer_view buffer_view s;
        let (n, s) = HalBufferView_shape_rank E (bv_hal view) s;
        Some (hrx_ok_status, poke rank (CU64 n) s) })"

definition hrx_buffer_view_dim :: "env \<Rightarrow> ptr \<Rightarrow> usize \<Rightarrow> ptr \<Rightarrow> hrx \<Rightarrow> (hrx_status \<times> hrx) option" where
  "hrx_buffer_view_dim E buffer_view dim out s =
     (if buffer_view = NULL \<or> out = NULL then
        Some (hrx_make_status E (code_i32 InvalidArgument) (Some ''buffer_view or value is NULL'') s)
      else do {
        view \<leftarrow> handle_ref as_buffer_view buffer_view s;
        let (n, s) = HalBufferView_shape_rank E (bv_hal view) s;
        if dim \<ge> n then
          Some (hrx_make_status E (code_i32 OutOfRange) (Some ''buffer_view dim out of range'') s)
        else
          let (d, s) = HalBufferView_shape_dim E (bv_hal view) dim s
          in Some (hrx_ok_status, poke out (CU64 d) s) })"

section \<open>Facts\<close>

interpretation buffer_view: refcounted hrx_buffer_view_retain "hrx_buffer_view_release E" "refs as_buffer_view"
  observe wf_heap
  for E :: env
  using refcounted_handle [of as_buffer_view "drop_buffer_view E"]
  by (simp add: hrx_buffer_view_retain_def [abs_def] hrx_buffer_view_release_def [abs_def])

interpretation buffer_view_drop: owned_object as_buffer_view OBufferView "drop_buffer_view E"
  for E :: env
  by unfold_locales (auto simp: drop_buffer_view_def)

lemma buffer_view_release_surplus:
  assumes "hrx_buffer_view_release E h s = Some t" and "wf_state s"
  shows "wf_state t \<and> (\<forall>k p. surplus k p t = surplus k p s)"
  using assms buffer_view_drop.release_surplus unfolding hrx_buffer_view_release_def by blast

lemma buffer_view_create_surplus:
  assumes "hrx_buffer_view_create E b n sh et enc out s = Some (res, t)" and "wf_state s"
  shows "wf_state t \<and> (\<forall>k p. surplus k p t = surplus k p s)"
  using assms
  by (auto simp: hrx_buffer_view_create_def buffer_view_create_def into_handle_eq Let_def
      split: if_splits sum.splits prod.splits elim!: bind_SomeE
      dest!: status_eqD create_owned_InlD create_owned_InrD)

lemma buffer_view_calls_surplus:
  "hrx_buffer_view_rank E h out s = Some (res, t) \<Longrightarrow> wf_state s \<Longrightarrow>
     wf_state t \<and> (\<forall>k p. surplus k p t = surplus k p s)"
  "hrx_buffer_view_dim E h i out s = Some (res, t) \<Longrightarrow> wf_state s \<Longrightarrow>
     wf_state t \<and> (\<forall>k p. surplus k p t = surplus k p s)"
  by (auto simp: hrx_buffer_view_rank_def hrx_buffer_view_dim_def HalBufferView_shape_rank_def
      HalBufferView_shape_dim_def ffi_pair Let_def split: if_splits elim!: bind_SomeE dest!: status_eqD)

text \<open>Both loops compute the specification: the dimensions in order, unless one is negative.\<close>

lemma heap_shape_loop_spec:
  assumes "\<And>i. i \<in> set is \<Longrightarrow> peek_u64 (shape + 8 * i) s = Some (d i)"
  shows "heap_shape_loop is shape s v =
    Some (if \<exists>i\<in>set is. sint (d i) < 0 then Inl () else Inr (v @ map d is))"
  using assms by (induction "is" arbitrary: v) simp_all

lemma stack_shape_loop_spec:
  assumes "\<And>i. m \<le> i \<Longrightarrow> i < n \<Longrightarrow> peek_u64 (shape + 8 * i) s = Some (d i)" and "m \<le> n" and "n \<le> length v"
    and "take m v = map d [0..<m]"
  shows "\<exists>w. stack_shape_loop [m..<n] shape s v =
      Some (if \<exists>i\<in>{m..<n}. sint (d i) < 0 then Inl () else Inr w) \<and> take n w = map d [0..<n]"
  using assms
proof (induction "n - m" arbitrary: m v)
  case 0
  then show ?case by auto
next
  case (Suc j)
  then have m: "m < n" and j: "j = n - Suc m" by auto
  have rd: "peek_u64 (shape + 8 * m) s = Some (d m)" using Suc.prems(1) [of m] m by simp
  have ex: "(\<exists>i\<in>{m..<n}. sint (d i) < 0) \<longleftrightarrow> sint (d m) < 0 \<or> (\<exists>i\<in>{Suc m..<n}. sint (d i) < 0)"
    using m by (metis atLeastLessThan_iff le_less_Suc_eq not_less_eq_eq not_le order_refl nat_less_le
        Suc_leI)
  show ?case
  proof (cases "sint (d m) < 0")
    case True
    have "take n (map d [0..<n]) = map d [0..<n]" by simp
    then show ?thesis using rd True ex m by (auto simp: upt_conv_Cons intro: exI [of _ "map d [0..<n]"])
  next
    case False
    have "take (Suc m) (v[m := d m]) = map d [0..<Suc m]"
      using Suc.prems(3,4) m by (simp add: take_Suc_conv_app_nth)
    then obtain w where w: "stack_shape_loop [Suc m..<n] shape s (v[m := d m]) =
        Some (if \<exists>i\<in>{Suc m..<n}. sint (d i) < 0 then Inl () else Inr w)" "take n w = map d [0..<n]"
      using Suc.hyps(1) [OF j, of "v[m := d m]"] Suc.prems m by auto
    then show ?thesis using rd False ex m Suc.prems(3) by (auto simp: upt_conv_Cons)
  qed
qed

text \<open>Both loops over the shape read the caller's dimensions in order and stop at a negative one.\<close>

lemma shape_loops:
  fixes rank :: usize
  assumes rd: "\<And>i. i < unat rank \<Longrightarrow> peek_u64 (shape + 8 * i) s = Some (d i)"
  shows "\<exists>w. (if rank > 8 then heap_shape_loop [0..<unat rank] shape s []
      else stack_shape_loop [0..<unat rank] shape s (replicate 8 0)) =
    Some (if \<exists>i<unat rank. sint (d i) < 0 then Inl () else Inr w) \<and> take (unat rank) w = map d [0..<unat rank]"
proof (cases "rank > 8")
  case True
  then show ?thesis
    using heap_shape_loop_spec [of "[0..<unat rank]" shape s d "[]"] rd
    by (intro exI [of _ "map d [0..<unat rank]"]) auto
next
  case False
  then have "unat rank \<le> 8" by (simp add: word_less_nat_alt)
  then obtain w where "stack_shape_loop [0..<unat rank] shape s (replicate 8 0) =
      Some (if \<exists>i\<in>{0..<unat rank}. sint (d i) < 0 then Inl () else Inr w) \<and> take (unat rank) w = map d [0..<unat rank]"
    using stack_shape_loop_spec [of 0 "unat rank" shape s d "replicate 8 0"] rd by force
  with False show ?thesis by auto
qed

lemma buffer_view_creates:
  assumes buf: "handle_ref as_buffer buffer s = Some b" "buffer \<noteq> NULL" "out \<noteq> NULL" "shape \<noteq> NULL"
    and loop: "(if rank > 8 then heap_shape_loop [0..<unat rank] shape (poke out (CPtr NULL) s) []
      else stack_shape_loop [0..<unat rank] shape (poke out (CPtr NULL) s) (replicate 8 0)) = Some (Inr w)"
    and run: "hrx_buffer_view_create E buffer rank shape et enc out s = Some (res, t)"
  shows "\<exists>r rest. trace t = trace s @
    (Create (iree_hal_buffer_view_create (buf_hal_buffer b) (take (unat rank) w) et enc), r) # rest"
proof -
  let ?s = "poke out (CPtr NULL) s" and ?c = "iree_hal_buffer_view_create (buf_hal_buffer b) (take (unat rank) w) et enc"
  obtain x s1 where c: "create_owned E ?c ?s = Some (x, s1)"
    and tl: "(case x of Inr hal \<Rightarrow>
               (let (h, s) = into_handle (OBufferView \<lparr>bv_hal = hal\<rparr>) s1
                in Some (hrx_ok_status, poke out (CPtr h) s))
             | Inl st \<Rightarrow> Some (hrx_status_from_iree E st s1)) = Some (res, t)"
    using run buf loop
    by (auto simp: hrx_buffer_view_create_def Let_def buffer_view_create_def buffer_hal_def elim!: bind_SomeE)
  have "s1 = ffi_do E (Create ?c) ?s" using create_owned_cases [OF c] by simp
  moreover have "\<exists>rest. trace t = trace s1 @ rest"
    using tl status_from_iree_traceD [of E _ s1 res t] by (auto simp: into_handle_def split: sum.splits)
  ultimately show ?thesis by auto
qed

section \<open>Properties\<close>

text \<open>
  C35. The shape of a buffer view. For a live buffer and a readable shape array that the
  out-pointer does not overlap, a negative dimension anywhere makes the call fail with
  \<open>InvalidArgument\<close>, make no foreign call and store NULL; otherwise IREE is given exactly the
  caller's dimensions, in order. Both hold for every rank, on the stack path up to eight
  dimensions and on the heap path beyond.
\<close>

theorem buffer_view_shape:
  assumes buf: "handle_ref as_buffer buffer s = Some b" "buffer \<noteq> NULL" "out \<noteq> NULL" "shape \<noteq> NULL"
    and rd: "\<And>i. i < unat rank \<Longrightarrow> peek_u64 (shape + 8 * i) s = Some (d i)"
    and sep: "\<And>i. i < unat rank \<Longrightarrow> out \<noteq> shape + 8 * i"
    and run: "hrx_buffer_view_create E buffer rank shape et enc out s = Some (res, t)"
  shows "if \<exists>i<unat rank. sint (d i) < 0
    then trace t = trace s \<and> mem t out = CPtr NULL \<and>
      (malloc_ok E (mallocs s) \<longrightarrow> hrx_status_code res = code_i32 InvalidArgument)
    else \<exists>r rest. trace t = trace s @
      (Create (iree_hal_buffer_view_create (buf_hal_buffer b) (map d [0..<unat rank]) et enc), r) # rest"
proof -
  let ?s = "poke out (CPtr NULL) s"
  have "peek_u64 (shape + 8 * i) ?s = Some (d i)" if "i < unat rank" for i
    using rd [OF that] sep [OF that] by (simp add: peek_u64_def)
  from shape_loops [of rank shape ?s d, OF this]
  obtain w where w: "(if rank > 8 then heap_shape_loop [0..<unat rank] shape ?s []
        else stack_shape_loop [0..<unat rank] shape ?s (replicate 8 0)) =
      Some (if \<exists>i<unat rank. sint (d i) < 0 then Inl () else Inr w)" "take (unat rank) w = map d [0..<unat rank]" by blast
  show ?thesis
  proof (cases "\<exists>i<unat rank. sint (d i) < 0")
    case True
    then have mk: "hrx_make_status E (code_i32 InvalidArgument)
        (Some ''shape dimensions must be non-negative'') ?s = (res, t)"
      using run buf w by (simp add: hrx_buffer_view_create_def Let_def)
    show ?thesis using True make_status_eqD [OF mk] make_status_codeD [OF mk] by simp
  next
    case False
    with w buffer_view_creates [OF buf _ run, of w]
    show ?thesis unfolding if_not_P [OF False] by (simp only: if_False)
  qed
qed

definition demo_shape :: hrx where
  "demo_shape = poke 808 (CU64 5) (poke 800 (CU64 3) demo_mem)"

theorem buffer_view_shape_witness:
  "\<exists>t r rest. hrx_buffer_view_create demo_env 2 2 800 33 1 500 demo_shape = Some (None, t) \<and>
     trace t = trace demo_shape @ (Create (iree_hal_buffer_view_create 70 [3, 5] 33 1), r) # rest"
proof -
  let ?d = "\<lambda>i :: nat. if i = 0 then 3 else 5 :: u64"
  have buf: "handle_ref as_buffer 2 demo_shape = Some demo_buffer" by (simp add: demo_shape_def)
  have rd: "i < unat (2 :: usize) \<Longrightarrow> peek_u64 (800 + 8 * i) demo_shape = Some (?d i)" for i
  proof -
    assume "i < unat (2 :: usize)"
    then have "i = 0 \<or> i = 1" by auto
    then show ?thesis by (auto simp: demo_shape_def peek_u64_def)
  qed
  have sep: "i < unat (2 :: usize) \<Longrightarrow> 500 \<noteq> 800 + 8 * i" for i :: nat by simp
  have "\<exists>t. hrx_buffer_view_create demo_env 2 2 800 33 1 500 demo_shape = Some (None, t)"
    by (simp add: hrx_buffer_view_create_def upt_rec peek_u64_def demo_shape_def buffer_hal_def
        buffer_view_create_def create_owned_def ffi_pair status_is_ok_def into_handle_def Let_def
        expect_nonnull_def hrx_ok_status_def sint_u64)
  then obtain t where t: "hrx_buffer_view_create demo_env 2 2 800 33 1 500 demo_shape = Some (None, t)" by blast
  show ?thesis
    using buffer_view_shape [OF buf _ _ _ rd sep t] t
    by (auto simp: demo_buffer_def sint_u64 upt_rec split: if_splits)
qed

end
