(* ===== verification/Value_List.thy ===== *)
theory Value_List
  imports Buffer_View
begin

text \<open>
  VM value lists (\<open>hrx-libhrx/src/value_list.rs\<close>): integers travel as eight bytes of a VM value,
  buffers, views and fences as references moved into the list. The theory shows the integer
  round trip and who owns a pushed reference.
\<close>

section \<open>Operations\<close>

definition drop_value_list :: "env \<Rightarrow> hrx_value_list_s \<Rightarrow> hrx \<Rightarrow> hrx option" where
  "drop_value_list E x s = Some (HalVmList_drop E (vl_vm_list x) s)"

definition value_list_vm :: "ptr \<Rightarrow> hrx \<Rightarrow> ptr option" where
  "value_list_vm list s = do { x \<leftarrow> handle_ref as_value_list list s; Some (vl_vm_list x) }"

definition hrx_value_list_create :: "env \<Rightarrow> usize \<Rightarrow> ptr \<Rightarrow> hrx \<Rightarrow> (hrx_status \<times> hrx) option" where
  "hrx_value_list_create E capacity list s =
     (if list = NULL then
        Some (hrx_make_status E (code_i32 InvalidArgument) (Some ''list is NULL'') s)
      else
        let s = poke list (CPtr NULL) s;
            (r, s) = ffi E (Create (iree_vm_list_create capacity)) s
        in if \<not> status_is_ok (r_status r) then Some (hrx_status_from_iree E (r_status r) s)
           else do {
             vm_list \<leftarrow> HalVmList_from_owned (r_ptr r);
             let (h, s) = into_handle (OValueList \<lparr>vl_vm_list = vm_list\<rparr>) s;
             Some (hrx_ok_status, poke list (CPtr h) s) })"

definition hrx_value_list_retain :: "ptr \<Rightarrow> hrx \<Rightarrow> hrx option" where
  "hrx_value_list_retain list s = handle_retain as_value_list list s"

definition hrx_value_list_release :: "env \<Rightarrow> ptr \<Rightarrow> hrx \<Rightarrow> hrx option" where
  "hrx_value_list_release E list s = handle_release as_value_list (drop_value_list E) list s"

definition hrx_value_list_size :: "env \<Rightarrow> ptr \<Rightarrow> ptr \<Rightarrow> hrx \<Rightarrow> (hrx_status \<times> hrx) option" where
  "hrx_value_list_size E list out s =
     (if list = NULL \<or> out = NULL then
        Some (hrx_make_status E (code_i32 InvalidArgument) (Some ''list or size is NULL'') s)
      else do {
        l \<leftarrow> value_list_vm list s;
        let (r, s) = ffi E (Vm (iree_vm_list_size l)) s;
        Some (hrx_ok_status, poke out (CU64 (r_val r)) s) })"

definition hrx_value_list_push_i64 :: "env \<Rightarrow> ptr \<Rightarrow> i64 \<Rightarrow> hrx \<Rightarrow> (hrx_status \<times> hrx) option" where
  "hrx_value_list_push_i64 E list v s =
     (if list = NULL then
        Some (hrx_make_status E (code_i32 InvalidArgument) (Some ''list is NULL'') s)
      else do {
        l \<leftarrow> value_list_vm list s;
        let (r, s) = ffi E (Vm (iree_vm_list_push_value l (vm_value_make_i64 v))) s;
        Some (hrx_status_from_iree E (r_status r) s) })"

definition hrx_value_list_push_null_ref :: "env \<Rightarrow> ptr \<Rightarrow> hrx \<Rightarrow> (hrx_status \<times> hrx) option" where
  "hrx_value_list_push_null_ref E list s =
     (if list = NULL then
        Some (hrx_make_status E (code_i32 InvalidArgument) (Some ''list is NULL'') s)
      else do {
        l \<leftarrow> value_list_vm list s;
        let (r, s) = ffi E (Vm (iree_vm_list_push_ref_move l None)) s;
        Some (hrx_status_from_iree E (r_status r) s) })"

text \<open>
  \<open>iree_hal_buffer_retain_ref\<close> and its siblings: a VM reference holding a new reference to the
  object.
\<close>

definition hrx_value_list_push_buffer :: "env \<Rightarrow> ptr \<Rightarrow> ptr \<Rightarrow> hrx \<Rightarrow> (hrx_status \<times> hrx) option" where
  "hrx_value_list_push_buffer E list buffer s =
     (if list = NULL \<or> buffer = NULL then
        Some (hrx_make_status E (code_i32 InvalidArgument) (Some ''list or buffer is NULL'') s)
      else do {
        b \<leftarrow> buffer_hal buffer s;
        let s = ffi_do E (Retain HalBuffer b) s;
        l \<leftarrow> value_list_vm list s;
        let (r, s) = ffi E (Vm (iree_vm_list_push_ref_move l (Some (HalBuffer, b)))) s;
        Some (hrx_status_from_iree E (r_status r) s) })"

definition hrx_value_list_push_buffer_view :: "env \<Rightarrow> ptr \<Rightarrow> ptr \<Rightarrow> hrx \<Rightarrow> (hrx_status \<times> hrx) option" where
  "hrx_value_list_push_buffer_view E list buffer_view s =
     (if list = NULL \<or> buffer_view = NULL then
        Some (hrx_make_status E (code_i32 InvalidArgument) (Some ''list or buffer_view is NULL'') s)
      else do {
        v \<leftarrow> buffer_view_hal_ptr buffer_view s;
        let s = ffi_do E (Retain HalBufferView v) s;
        l \<leftarrow> value_list_vm list s;
        let (r, s) = ffi E (Vm (iree_vm_list_push_ref_move l (Some (HalBufferView, v)))) s;
        Some (hrx_status_from_iree E (r_status r) s) })"

definition hrx_value_list_push_fence :: "env \<Rightarrow> ptr \<Rightarrow> ptr \<Rightarrow> hrx \<Rightarrow> (hrx_status \<times> hrx) option" where
  "hrx_value_list_push_fence E list fence s =
     (if list = NULL \<or> fence = NULL then
        Some (hrx_make_status E (code_i32 InvalidArgument) (Some ''list or fence is NULL'') s)
      else do {
        f \<leftarrow> fence_hal_ptr fence s;
        let s = ffi_do E (Retain HalFence f) s;
        l \<leftarrow> value_list_vm list s;
        let (r, s) = ffi E (Vm (iree_vm_list_push_ref_move l (Some (HalFence, f)))) s;
        Some (hrx_status_from_iree E (r_status r) s) })"

definition hrx_value_list_get_i64 :: "env \<Rightarrow> ptr \<Rightarrow> usize \<Rightarrow> ptr \<Rightarrow> hrx \<Rightarrow> (hrx_status \<times> hrx) option" where
  "hrx_value_list_get_i64 E list index out s =
     (if list = NULL \<or> out = NULL then
        Some (hrx_make_status E (code_i32 InvalidArgument) (Some ''list or value is NULL'') s)
      else do {
        l \<leftarrow> value_list_vm list s;
        let (r, s) = ffi E (Vm (iree_vm_list_get_value_as l index IREE_VM_VALUE_TYPE_I64)) s;
        if \<not> status_is_ok (r_status r) then Some (hrx_status_from_iree E (r_status r) s)
        else Some (hrx_ok_status, poke out (CU64 (vm_value_as_i64 (r_value r))) s) })"

section \<open>Facts\<close>

interpretation value_list: refcounted hrx_value_list_retain "hrx_value_list_release E" "refs as_value_list"
  observe wf_heap
  for E :: env
  using refcounted_handle [of as_value_list "drop_value_list E"]
  by (simp add: hrx_value_list_retain_def [abs_def] hrx_value_list_release_def [abs_def])

interpretation value_list_drop: owned_object as_value_list OValueList "drop_value_list E"
  for E :: env
  by unfold_locales (auto simp: drop_value_list_def)

lemma value_list_release_surplus:
  assumes "hrx_value_list_release E h s = Some t" and "wf_state s"
  shows "wf_state t \<and> (\<forall>k p. surplus k p t = surplus k p s)"
  using assms value_list_drop.release_surplus unfolding hrx_value_list_release_def by blast

lemma value_list_create_surplus:
  assumes "hrx_value_list_create E n out s = Some (res, t)" and "wf_state s"
  shows "wf_state t \<and> (\<forall>k p. surplus k p t = surplus k p s)"
  using assms
  by (auto simp: hrx_value_list_create_def ffi_pair into_handle_eq Let_def status_is_ok_def
      split: if_splits prod.splits elim!: bind_SomeE dest!: status_eqD)

lemma value_list_calls_surplus:
  "hrx_value_list_size E l out s = Some (res, t) \<Longrightarrow> wf_state s \<Longrightarrow>
     wf_state t \<and> (\<forall>k p. surplus k p t = surplus k p s)"
  "hrx_value_list_push_i64 E l v s = Some (res, t) \<Longrightarrow> wf_state s \<Longrightarrow>
     wf_state t \<and> (\<forall>k p. surplus k p t = surplus k p s)"
  "hrx_value_list_push_null_ref E l s = Some (res, t) \<Longrightarrow> wf_state s \<Longrightarrow>
     wf_state t \<and> (\<forall>k p. surplus k p t = surplus k p s)"
  "hrx_value_list_get_i64 E l i out s = Some (res, t) \<Longrightarrow> wf_state s \<Longrightarrow>
     wf_state t \<and> (\<forall>k p. surplus k p t = surplus k p s)"
  by (auto simp: hrx_value_list_size_def hrx_value_list_push_i64_def hrx_value_list_push_null_ref_def
      hrx_value_list_get_i64_def ffi_pair Let_def split: if_splits elim!: bind_SomeE dest!: status_eqD)

lemma value_list_vm_ffi [simp]: "value_list_vm l (ffi_do E c s) = value_list_vm l s"
  by (simp add: value_list_vm_def)

text \<open>The references a call leaves behind: one if the list refused the move.\<close>

definition refused :: "iree_kind \<Rightarrow> ptr \<Rightarrow> iree_kind \<Rightarrow> ptr \<Rightarrow> iree_status \<Rightarrow> int" where
  "refused k p k' q st = (if st = NULL then 0 else one_ref k p k' q)"

lemma push_ref_eqD:
  assumes "hrx_status_from_iree E
      (r_status (iree E (trace s @ [(Retain k' q, iree E (trace s) (Retain k' q))])
        (Vm (iree_vm_list_push_ref_move l (Some (k', q))))))
      (ffi_do E (Vm (iree_vm_list_push_ref_move l (Some (k', q)))) (ffi_do E (Retain k' q) s)) = (res, t)"
  shows "(wf_state t \<longleftrightarrow> wf_state s) \<and> (\<exists>q st. \<forall>k p. surplus k p t = surplus k p s + refused k p k' q st)"
proof -
  let ?st = "r_status (iree E (trace s @ [(Retain k' q, iree E (trace s) (Retain k' q))])
        (Vm (iree_vm_list_push_ref_move l (Some (k', q)))))"
  have "\<forall>k p. surplus k p t = surplus k p s + refused k p k' q ?st"
    using status_from_iree_eqD [OF assms] by (simp add: refused_def)
  then show ?thesis using status_from_iree_eqD [OF assms] by auto
qed

lemma refused_zero: "\<exists>q st. \<forall>k p. refused k p k' q st = 0"
  by (auto simp: refused_def)

lemma value_list_push_cases:
  "hrx_value_list_push_buffer E l h s = Some (res, t) \<Longrightarrow> wf_state s \<Longrightarrow>
     wf_state t \<and> (\<exists>q st. \<forall>k p. surplus k p t = surplus k p s + refused k p HalBuffer q st)"
  "hrx_value_list_push_buffer_view E l h s = Some (res, t) \<Longrightarrow> wf_state s \<Longrightarrow>
     wf_state t \<and> (\<exists>q st. \<forall>k p. surplus k p t = surplus k p s + refused k p HalBufferView q st)"
  "hrx_value_list_push_fence E l h s = Some (res, t) \<Longrightarrow> wf_state s \<Longrightarrow>
     wf_state t \<and> (\<exists>q st. \<forall>k p. surplus k p t = surplus k p s + refused k p HalFence q st)"
  by (auto simp: hrx_value_list_push_buffer_def hrx_value_list_push_buffer_view_def
      hrx_value_list_push_fence_def ffi_pair Let_def refused_zero split: if_splits
      elim!: bind_SomeE dest!: make_status_eqD push_ref_eqD)

section \<open>Properties\<close>

text \<open>
  C36. Integers survive a value list. Pushing an \<open>i64\<close> on a live list sends IREE one VM value,
  and reading that value back from any index of any live list, in any later state, stores the
  pushed integer.
\<close>

theorem value_list_i64_roundtrip:
  assumes "value_list_vm l s = Some vl" "l \<noteq> NULL"
    and "hrx_value_list_push_i64 E l v s = Some (res, t)"
    and "value_list_vm l' u = Some vl'" "l' \<noteq> NULL" "out \<noteq> NULL"
  shows "\<exists>x r rest. trace t = trace s @ (Vm (iree_vm_list_push_value vl x), r) # rest \<and>
    (\<forall>r'. iree E (trace u) (Vm (iree_vm_list_get_value_as vl' i IREE_VM_VALUE_TYPE_I64)) = r' \<and>
          r_status r' = NULL \<and> r_value r' = x \<longrightarrow>
       (\<exists>u'. hrx_value_list_get_i64 E l' i out u = Some (hrx_ok_status, u') \<and> mem u' out = CU64 v))"
proof -
  let ?c = "Vm (iree_vm_list_push_value vl (vm_value_make_i64 v))"
  have "hrx_status_from_iree E (r_status (iree E (trace s) ?c)) (ffi_do E ?c s) = (res, t)"
    using assms(1-3) by (simp add: hrx_value_list_push_i64_def ffi_pair)
  then have "\<exists>r rest. trace t = trace s @ (?c, r) # rest"
    using status_from_iree_traceD by fastforce
  moreover have "vm_value_as_i64 (vm_value_make_i64 v) = v"
    by (simp add: vm_value_as_i64_def vm_value_make_i64_def i64_bytes_roundtrip)
  ultimately show ?thesis
    using assms(4-6)
    by (intro exI [of _ "vm_value_make_i64 v"])
      (auto simp: hrx_value_list_get_i64_def ffi_pair status_is_ok_def)
qed

definition demo_list :: hrx where
  "demo_list = snd (into_handle (OValueList \<lparr>vl_vm_list = 80\<rparr>) demo_mem)"

lemma demo_list_refs [simp]:
  "value_list_vm 3 demo_list = Some 80"
  "buffer_hal 2 demo_list = Some 70"
  by (simp_all add: value_list_vm_def buffer_hal_def handle_ref_def demo_list_def demo_mem_def demo_state_def
      hrx_initial_def demo_buffer_def)

definition echo_env :: env where
  "echo_env = demo_env\<lparr>iree := (\<lambda>h c. reply_ok\<lparr>r_value := vm_value_make_i64 (- 7)\<rparr>)\<rparr>"

theorem value_list_i64_roundtrip_witness:
  "\<exists>u'. hrx_value_list_get_i64 echo_env 3 0 500 demo_list = Some (hrx_ok_status, u') \<and>
     mem u' 500 = CU64 (- 7)"
proof -
  have e: "iree echo_env h c = reply_ok\<lparr>r_value := vm_value_make_i64 (- 7)\<rparr>" for h c
    by (simp add: echo_env_def)
  obtain t where t: "hrx_value_list_push_i64 echo_env 3 (- 7) demo_list = Some (None, t)"
    using e by (simp add: hrx_value_list_push_i64_def ffi_pair)
  have "t = ffi_do echo_env (Vm (iree_vm_list_push_value 80 (vm_value_make_i64 (- 7)))) demo_list"
    using t e by (simp add: hrx_value_list_push_i64_def ffi_pair)
  then show ?thesis
    using value_list_i64_roundtrip [OF demo_list_refs(1) _ t demo_list_refs(1), of 500 0] e
    by (simp add: hrx_value_list_get_i64_def ffi_pair status_is_ok_def)
qed

text \<open>
  C37. Who owns a pushed reference. Pushing a buffer takes one new reference to the IREE buffer;
  when the list accepts the move, the list owns it and the caller's ledger is unchanged, but when
  the list refuses, the call returns without giving the reference back: exactly that one reference
  to that buffer leaks.
\<close>

theorem value_list_push_ownership:
  assumes "wf_state s" "buffer_hal h s = Some b" "value_list_vm l s = Some vl" "h \<noteq> NULL" "l \<noteq> NULL"
    and "hrx_value_list_push_buffer E l h s = Some (res, t)"
  shows "\<exists>r. (Vm (iree_vm_list_push_ref_move vl (Some (HalBuffer, b))), r) \<in> set (trace t) \<and>
    surplus k p t = surplus k p s + (if r_status r \<noteq> NULL \<and> k = HalBuffer \<and> p = b then 1 else 0)"
proof -
  let ?s = "ffi_do E (Retain HalBuffer b) s"
  let ?c = "Vm (iree_vm_list_push_ref_move vl (Some (HalBuffer, b)))"
  let ?r = "iree E (trace ?s) ?c"
  have vl: "value_list_vm l ?s = Some vl" using assms(3) by (simp add: value_list_vm_def)
  have res: "hrx_status_from_iree E (r_status ?r) (ffi_do E ?c ?s) = (res, t)"
    using assms(2,4-6) vl by (simp add: hrx_value_list_push_buffer_def ffi_pair)
  have "(?c, ?r) \<in> set (trace t)" using status_from_iree_traceD [OF res] by auto
  moreover have "surplus k p t = surplus k p s + (if r_status ?r \<noteq> NULL then one_ref k p HalBuffer b else 0)"
    using status_from_iree_eqD [OF res] by simp
  ultimately show ?thesis by (intro exI [of _ ?r]) (auto simp: one_ref_def)
qed

definition refusing_env :: env where
  "refusing_env = demo_env\<lparr>iree := (\<lambda>h c. case c of Vm _ \<Rightarrow> reply_ok\<lparr>r_status := 8\<rparr> | _ \<Rightarrow> reply_ok)\<rparr>"

theorem value_list_push_ownership_witness:
  "\<exists>res t r. hrx_value_list_push_buffer refusing_env 3 2 demo_list = Some (res, t) \<and>
     (Vm (iree_vm_list_push_ref_move 80 (Some (HalBuffer, 70))), r) \<in> set (trace t) \<and>
     surplus HalBuffer 70 t = surplus HalBuffer 70 demo_list + (if r_status r \<noteq> NULL then 1 else 0)"
proof -
  have "\<exists>x. hrx_value_list_push_buffer refusing_env 3 2 demo_list = Some x"
    by (simp add: hrx_value_list_push_buffer_def ffi_pair)
  then obtain res t where t: "hrx_value_list_push_buffer refusing_env 3 2 demo_list = Some (res, t)" by force
  have "wf_state demo_list" by (simp add: demo_list_def)
  from value_list_push_ownership [OF this demo_list_refs(2,1) _ _ t, of HalBuffer 70] t show ?thesis by auto
qed

end
