(* ===== verification/Vm_Module.thy ===== *)
theory Vm_Module
  imports Runtime Value_List
begin

text \<open>
  VM modules and functions (\<open>hrx-libhrx/src/module.rs\<close>): loading a bytecode module into a context
  of its own, resolving its functions and invoking them. A module owns its context, the HAL module,
  the bytecode module and a reference to its device; a function owns a reference to its module, so
  releasing the last function may tear a module down, and with it a device.

  The resolved VM function is a 16-byte value that IREE alone interprets; it is represented by one
  number.

  The theory shows that loading is balanced on every path, in which order a module is torn down,
  and that a function keeps its module alive and runs in that module's context only.
\<close>

section \<open>Operations\<close>

text \<open>Field drop: context, HAL module, bytecode module, device.\<close>

definition drop_module :: "env \<Rightarrow> hrx_module_s \<Rightarrow> hrx \<Rightarrow> hrx option" where
  "drop_module E m s =
     (let s = HalVmContext_drop E (mod_context m) s;
          s = HalVmModule_drop E (mod_hal_module m) s;
          s = HalVmModule_drop E (mod_bytecode m) s
      in DeviceRef_drop E (mod_device m) s)"

text \<open>
  An early return evaluates its status first; then the wrappers in scope are dropped, the latest
  one first.
\<close>

definition hrx_module_load_vmfb ::
  "env \<Rightarrow> ptr \<Rightarrow> ptr \<Rightarrow> usize \<Rightarrow> ptr \<Rightarrow> hrx \<Rightarrow> (hrx_status \<times> hrx) option" where
  "hrx_module_load_vmfb E device vmfb_data vmfb_size module s =
     (if device = NULL \<or> vmfb_data = NULL \<or> module = NULL then
        Some (hrx_make_status E (code_i32 InvalidArgument) (Some ''device, vmfb_data, or module is NULL'') s)
      else
        let s = poke module (CPtr NULL) s
        in if vmfb_size = 0 then
             Some (hrx_make_status E (code_i32 InvalidArgument) (Some ''vmfb_size must be > 0'') s)
           else
             let (inst, initialized) = shared_vm_instance s
             in if \<not> initialized \<or> inst = NULL then
                  Some (hrx_make_status E (code_i32 Unavailable) (Some ''runtime is not initialized'') s)
                else
                  let (r, s) = ffi E (Create (iree_vm_bytecode_module_create inst vmfb_data vmfb_size)) s
                  in if \<not> status_is_ok (r_status r) then Some (hrx_status_from_iree E (r_status r) s)
                     else do {
                       bytecode_module \<leftarrow> HalVmModule_from_owned (r_ptr r);
                       dev \<leftarrow> handle_ref as_device device s;
                       let device_group = dev_hal_device_group dev;
                       if device_group = NULL then
                         let (res, s) = hrx_make_status E (code_i32 FailedPrecondition)
                               (Some ''device is missing its HAL device group'') s
                         in Some (res, HalVmModule_drop E bytecode_module s)
                       else
                         let s = ffi_do E (Retain HalDeviceGroup device_group) s;
                             (r, s) = ffi E (Create (iree_hal_module_create inst device_group)) s;
                             s = ffi_do E (Release HalDeviceGroup device_group) s
                         in if \<not> status_is_ok (r_status r) then
                              let (res, s) = hrx_status_from_iree E (r_status r) s
                              in Some (res, HalVmModule_drop E bytecode_module s)
                            else do {
                              hal_module \<leftarrow> HalVmModule_from_owned (r_ptr r);
                              let (r, s) = ffi E (Create (iree_vm_context_create_with_modules inst
                                             [hal_module, bytecode_module])) s;
                              if \<not> status_is_ok (r_status r) then
                                let (res, s) = hrx_status_from_iree E (r_status r) s;
                                    s = HalVmModule_drop E hal_module s
                                in Some (res, HalVmModule_drop E bytecode_module s)
                              else do {
                                context \<leftarrow> HalVmContext_from_owned (r_ptr r);
                                (device, s) \<leftarrow> DeviceRef_retain device s;
                                let (h, s) = into_handle (OModule \<lparr>mod_context = context,
                                      mod_hal_module = hal_module, mod_bytecode = bytecode_module,
                                      mod_device = device\<rparr>) s;
                                Some (hrx_ok_status, poke module (CPtr h) s) } } })"

definition hrx_module_retain :: "ptr \<Rightarrow> hrx \<Rightarrow> hrx option" where
  "hrx_module_retain module s = handle_retain as_module module s"

definition hrx_module_release :: "env \<Rightarrow> ptr \<Rightarrow> hrx \<Rightarrow> hrx option" where
  "hrx_module_release E module s = handle_release as_module (drop_module E) module s"

definition ModuleRef_retain :: "ptr \<Rightarrow> hrx \<Rightarrow> (ptr \<times> hrx) option" where
  "ModuleRef_retain module s = do { s \<leftarrow> hrx_module_retain module s; Some (module, s) }"

definition ModuleRef_drop :: "env \<Rightarrow> ptr \<Rightarrow> hrx \<Rightarrow> hrx option" where
  "ModuleRef_drop E module s = hrx_module_release E module s"

definition drop_function :: "env \<Rightarrow> hrx_function_s \<Rightarrow> hrx \<Rightarrow> hrx option" where
  "drop_function E f s = ModuleRef_drop E (fn_module f) s"

definition hrx_module_lookup_function ::
  "env \<Rightarrow> ptr \<Rightarrow> string option \<Rightarrow> ptr \<Rightarrow> hrx \<Rightarrow> (hrx_status \<times> hrx) option" where
  "hrx_module_lookup_function E module name function s =
     (if module = NULL \<or> name = None \<or> function = NULL then
        Some (hrx_make_status E (code_i32 InvalidArgument) (Some ''module, name, or function is NULL'') s)
      else do {
        let s = poke function (CPtr NULL) s;
        m \<leftarrow> handle_ref as_module module s;
        let (r, s) = ffi E (Vm (iree_vm_context_resolve_function (mod_context m) (the name))) s;
        if \<not> status_is_ok (r_status r) then Some (hrx_status_from_iree E (r_status r) s)
        else do {
          (module_ref, s) \<leftarrow> ModuleRef_retain module s;
          let (h, s) = into_handle (OFunction \<lparr>fn_module = module_ref, fn_vm = r_ptr r\<rparr>) s;
          Some (hrx_ok_status, poke function (CPtr h) s) } })"

definition hrx_function_retain :: "ptr \<Rightarrow> hrx \<Rightarrow> hrx option" where
  "hrx_function_retain function s = handle_retain as_function function s"

definition hrx_function_release :: "env \<Rightarrow> ptr \<Rightarrow> hrx \<Rightarrow> hrx option" where
  "hrx_function_release E function s = handle_release as_function (drop_function E) function s"

definition hrx_function_invoke :: "env \<Rightarrow> ptr \<Rightarrow> ptr \<Rightarrow> ptr \<Rightarrow> ptr \<Rightarrow> hrx \<Rightarrow> (hrx_status \<times> hrx) option" where
  "hrx_function_invoke E module function args rets s =
     (if module = NULL \<or> function = NULL then
        Some (hrx_make_status E (code_i32 InvalidArgument) (Some ''module or function is NULL'') s)
      else do {
        func \<leftarrow> handle_ref as_function function s;
        if fn_module func \<noteq> module then
          Some (hrx_make_status E (code_i32 InvalidArgument) (Some ''function does not belong to module'') s)
        else do {
          inputs \<leftarrow> (if args = NULL then Some NULL else value_list_vm args s);
          outputs \<leftarrow> (if rets = NULL then Some NULL else value_list_vm rets s);
          m \<leftarrow> handle_ref as_module module s;
          let (r, s) = ffi E (Vm (iree_vm_invoke (mod_context m) (fn_vm func) inputs outputs)) s;
          Some (hrx_status_from_iree E (r_status r) s) } })"

section \<open>Contracts\<close>

interpretation module: refcounted hrx_module_retain "hrx_module_release E" "refs as_module" observe wf_heap
  for E :: env
  using refcounted_handle [of as_module "drop_module E"]
  by (simp add: hrx_module_retain_def [abs_def] hrx_module_release_def [abs_def] eta_contract_eq)

interpretation module_drop: owned_object as_module OModule "drop_module E"
  for E :: env
proof
  show "(as_module x = Some y) = (x = OModule y)" for x y by (cases x) auto
qed (auto simp: drop_module_def Let_def one_ref_def dest!: DeviceRef_drop_surplus)

lemma module_release_surplus:
  assumes "hrx_module_release E h s = Some t" and "wf_state s"
  shows "wf_state t \<and> (\<forall>k p. surplus k p t = surplus k p s)"
  using assms module_drop.release_surplus unfolding hrx_module_release_def by blast

text \<open>A function holds no IREE reference itself; what its drop gives back is its module's.\<close>

interpretation function_drop: owned_object as_function OFunction "drop_function E"
  for E :: env
proof
  show "(as_function x = Some y) = (x = OFunction y)" for x y by (cases x) auto
qed (auto simp: drop_function_def ModuleRef_drop_def dest!: module_release_surplus)

lemma function_release_surplus:
  assumes "hrx_function_release E h s = Some t" and "wf_state s"
  shows "wf_state t \<and> (\<forall>k p. surplus k p t = surplus k p s)"
  using assms function_drop.release_surplus unfolding hrx_function_release_def by blast

section \<open>Ledger\<close>

lemma load_vmfb_surplus:
  assumes "hrx_module_load_vmfb E d data n out s = Some (res, t)" and "wf_state s"
  shows "wf_state t \<and> (\<forall>k p. surplus k p t = surplus k p s)"
  using assms
  by (auto simp: hrx_module_load_vmfb_def shared_vm_instance_def ffi_pair Let_def status_is_ok_def into_handle_eq
      split: if_splits prod.splits elim!: bind_SomeE dest!: status_eqD DeviceRef_retain_eqD)

lemma lookup_function_surplus:
  assumes "hrx_module_lookup_function E m name out s = Some (res, t)" and "wf_state s"
  shows "wf_state t \<and> (\<forall>k p. surplus k p t = surplus k p s)"
  using assms
  by (auto simp: hrx_module_lookup_function_def ModuleRef_retain_def hrx_module_retain_def ffi_pair Let_def
      into_handle_eq split: if_splits prod.splits elim!: bind_SomeE dest!: status_eqD handle_retain_surplus)

lemma invoke_surplus:
  assumes "hrx_function_invoke E m f args rets s = Some (res, t)" and "wf_state s"
  shows "wf_state t \<and> (\<forall>k p. surplus k p t = surplus k p s) \<and> arcs t = arcs s"
  using assms
  by (auto simp: hrx_function_invoke_def ffi_pair Let_def split: if_splits elim!: bind_SomeE dest!: status_eqD)

section \<open>Properties\<close>

lemma load_vmfb_failed:
  assumes "hrx_module_load_vmfb E d data n out s = Some (Some e, t)"
  shows "arcs t = arcs s \<and> G t = G s \<and> pools t = pools s \<and> (d \<noteq> NULL \<and> data \<noteq> NULL \<and> out \<noteq> NULL \<longrightarrow> mem t out = CPtr NULL)"
  using assms
  by (auto simp: hrx_module_load_vmfb_def shared_vm_instance_def ffi_pair Let_def status_is_ok_def hrx_ok_status_def
      split: if_splits prod.splits elim!: bind_SomeE dest!: status_eqD)

lemma load_vmfb_loaded:
  assumes "hrx_module_load_vmfb E d data n out s = Some (None, t)" and "reliable E" and "wf_state s"
  shows "\<exists>h m. mem t out = CPtr h \<and> handle_ref as_module h t = Some m \<and> mod_device m = d \<and>
    arcs s h = None \<and> refs as_device t d = Suc (refs as_device s d)"
proof -
  have nf: "hrx_status_from_iree E st u \<noteq> (None, v)" if "st \<noteq> NULL" for st u v
    using reliable_status [OF _ assms(2), of st u v] that by blast
  have nm: "hrx_make_status E c m u \<noteq> (None, v)" if "c \<noteq> 0" for c m u v
    using reliable_make_eqD [OF _ assms(2) that] by blast
  obtain ctx hm bc d' u v x y where r: "DeviceRef_retain d u = Some (d', v)" "wf_state u" "arcs u = arcs s"
    "next_addr u = next_addr s"
    and h: "into_handle (OModule \<lparr>mod_context = ctx, mod_hal_module = hm, mod_bytecode = bc, mod_device = d'\<rparr>) v = (x, y)"
    and t: "t = poke out (CPtr x) y"
    using assms(1,3)
    by (auto simp: hrx_module_load_vmfb_def shared_vm_instance_def ffi_pair Let_def status_is_ok_def nf nm
        split: if_splits prod.splits elim!: bind_SomeE)
  note R = DeviceRef_retain_eqD [OF r(1)]
  obtain a where a: "arcs u d = Some a" "as_device (arc_obj a) \<noteq> None"
      "v = u\<lparr>arcs := (arcs u)(d \<mapsto> a\<lparr>strong := strong a + 1\<rparr>)\<rparr>"
    using DeviceRef_retain_Some [OF r(1)] by (auto simp: handle_retain_def split: option.splits)
  have x: "x = next_addr s" "arcs s x = None" "d \<noteq> x"
    using h R r a wf_heap_fresh [OF wf_heapI [OF assms(3)]] by (auto simp: into_handle_eq)
  show ?thesis
    using h t R x a r(3) by (auto simp: into_handle_def handle_ref_def refs_def)
qed


text \<open>A function is run in the context of its own module and refused with any other.\<close>

lemma invoke_own_module:
  assumes "handle_ref as_function f s = Some \<lparr>fn_module = m, fn_vm = fv\<rparr>" "handle_ref as_module m s = Some mo"
    and "m \<noteq> NULL" "f \<noteq> NULL"
  shows "\<exists>res v r. hrx_function_invoke E m f NULL NULL s = Some (res, v) \<and>
    (Vm (iree_vm_invoke (mod_context mo) fv NULL NULL), r) \<in> set (trace v)"
proof -
  let ?i = "Vm (iree_vm_invoke (mod_context mo) fv NULL NULL)"
  have "hrx_function_invoke E m f NULL NULL s =
      Some (hrx_status_from_iree E (r_status (iree E (trace s) ?i)) (ffi_do E ?i s))"
    using assms by (simp add: hrx_function_invoke_def ffi_pair Let_def)
  moreover have "(?i, iree E (trace s) ?i) \<in> set (trace (snd
      (hrx_status_from_iree E (r_status (iree E (trace s) ?i)) (ffi_do E ?i s))))"
    using status_from_iree_trace [of E "r_status (iree E (trace s) ?i)" "ffi_do E ?i s"] by auto
  ultimately show ?thesis by (metis prod.collapse)
qed

lemma invoke_other_module:
  assumes "handle_ref as_function f s = Some \<lparr>fn_module = m, fn_vm = fv\<rparr>" and "m' \<noteq> m" and "reliable E"
  shows "\<exists>res v. hrx_function_invoke E m' f NULL NULL s = Some (res, v) \<and>
    hrx_status_code res = code_i32 InvalidArgument \<and> trace v = trace s"
proof -
  have "\<exists>msg. hrx_function_invoke E m' f NULL NULL s = Some (hrx_make_status E (code_i32 InvalidArgument) (Some msg) s)"
    using assms(1,2) unfolding hrx_function_invoke_def by (cases "m' = NULL \<or> f = NULL") auto
  then show ?thesis
    using hrx_make_status_code [of E s "code_i32 InvalidArgument"] assms(3) by (auto simp: reliable_def prod_eq_iff)
qed


text \<open>A process whose runtime is initialised, with a device at 1 and a module of it at 2.\<close>

definition demo_vm :: hrx where
  "demo_vm = snd (into_handle (OModule \<lparr>mod_context = 80, mod_hal_module = 81, mod_bytecode = 82, mod_device = 1\<rparr>)
     (demo_state\<lparr>G := G demo_gpu\<rparr>))"

lemma demo_vm_refs [simp]:
  "handle_ref as_device 1 demo_vm = Some demo_device"
  "handle_ref as_module 2 demo_vm =
     Some \<lparr>mod_context = 80, mod_hal_module = 81, mod_bytecode = 82, mod_device = 1\<rparr>"
  by (simp_all add: handle_ref_def demo_vm_def demo_state_def hrx_initial_def)

lemma wf_demo_vm [simp]: "wf_state demo_vm"
  by (simp add: demo_vm_def wf_state_def wf_heap_def demo_state_def hrx_initial_def)



end
