(* ===== verification/Handle_Ledger.thy ===== *)
theory Handle_Ledger
  imports Buffer_Allocate Buffer_View Vm_Module Executable
begin

text \<open>
  Ownership of handles. The strong count of a handle is the number of its owners: the fields of
  other objects that keep it alive (a \<open>DeviceRef\<close>, the semaphore of a stream, the module of a
  function), the device lists of the accelerators, and the client. \<open>owed\<close> is the client's share,
  the strong count less the references the library itself holds; it is keyed by the type of
  the object, so that it also says what a handle points to.

  The theory shows how every operation changes \<open>owed\<close>: creating and retaining add one to the handle
  they give, releasing takes one away, and every other call leaves all of them alone. The locale
  \<open>counted_object\<close> extends \<open>dropped_object\<close> by what a drop does to the handles in its fields.
\<close>

section \<open>Owners of a handle\<close>

datatype hkind = HDevice | HBuffer | HBufferView | HSemaphore | HFence | HStream | HExecutable | HModule
  | HFunction | HValueList

primrec hkind_of :: "hobj \<Rightarrow> hkind" where
  "hkind_of (ODevice d) = HDevice"
| "hkind_of (OBuffer b) = HBuffer"
| "hkind_of (OBufferView v) = HBufferView"
| "hkind_of (OSemaphore x) = HSemaphore"
| "hkind_of (OFence f) = HFence"
| "hkind_of (OStream st) = HStream"
| "hkind_of (OExecutable e) = HExecutable"
| "hkind_of (OModule m) = HModule"
| "hkind_of (OFunction f) = HFunction"
| "hkind_of (OValueList l) = HValueList"

definition one_handle :: "hkind \<Rightarrow> ptr \<Rightarrow> hkind \<Rightarrow> ptr \<Rightarrow> int" where
  "one_handle k h k' h' = (if k = k' \<and> h = h' then 1 else 0)"

text \<open>The handles the fields of an object own. The back pointer of a device's allocator owns nothing.\<close>

primrec inner_handles :: "hkind \<Rightarrow> ptr \<Rightarrow> hobj \<Rightarrow> int" where
  "inner_handles k h (ODevice d) = 0"
| "inner_handles k h (OBuffer b) = one_handle k h HDevice (buf_device b)"
| "inner_handles k h (OBufferView v) = 0"
| "inner_handles k h (OSemaphore x) = one_handle k h HDevice (sem_device x)"
| "inner_handles k h (OFence f) = 0"
| "inner_handles k h (OStream st) = one_handle k h HSemaphore (st_semaphore st) + one_handle k h HDevice (st_device st)"
| "inner_handles k h (OExecutable e) = one_handle k h HDevice (exe_device e)"
| "inner_handles k h (OModule m) = one_handle k h HDevice (mod_device m)"
| "inner_handles k h (OFunction f) = one_handle k h HModule (fn_module f)"
| "inner_handles k h (OValueList l) = 0"

definition global_handles :: "hkind \<Rightarrow> ptr \<Rightarrow> globals \<Rightarrow> int" where
  "global_handles k h g =
     (if k = HDevice then int (count_list (acc_devices (g_cpu g)) h + count_list (acc_devices (g_gpu g)) h) else 0)"

definition handle_count :: "hkind \<Rightarrow> ptr \<Rightarrow> hrx \<Rightarrow> int" where
  "handle_count k h s = opt_weight (\<lambda>a. if hkind_of (arc_obj a) = k then int (strong a) else 0) (arcs s h)"

definition inner :: "hkind \<Rightarrow> ptr \<Rightarrow> hrx \<Rightarrow> int" where
  "inner k h s = entries_sum (\<lambda>a. inner_handles k h (arc_obj a)) (arcs s)"

definition owed :: "hkind \<Rightarrow> ptr \<Rightarrow> hrx \<Rightarrow> int" where
  "owed k h s = handle_count k h s - inner k h s - global_handles k h (G s)"

section \<open>How the primitive effects change it\<close>

lemma owed_cong: "arcs s = arcs t \<Longrightarrow> G s = G t \<Longrightarrow> owed k h s = owed k h t"
  by (simp add: owed_def handle_count_def inner_def)

lemma owed_initial [simp]: "owed k h hrx_initial = 0"
  by (simp add: owed_def handle_count_def inner_def global_handles_def hrx_initial_def G_initial_def)

lemma owed_effects [simp]:
  "owed k h (ffi_do E c s) = owed k h s"
  "owed k h (poke a x s) = owed k h s"
  "owed k h (libc_free s) = owed k h s"
  "owed k h (snd (libc_malloc E s)) = owed k h s"
  "owed k h (snd (hrx_make_status E e m s)) = owed k h s"
  "owed k h (hrx_status_drop st s) = owed k h s"
  "owed k h (snd (hrx_status_from_iree E ist s)) = owed k h s"
  "owed k h (s\<lparr>open_files := n\<rparr>) = owed k h s"
  "owed k h (s\<lparr>thunks := th\<rparr>) = owed k h s"
  "owed k h (s\<lparr>next_addr := a\<rparr>) = owed k h s"
  "owed k h (s\<lparr>pools := ps\<rparr>) = owed k h s"
  "owed k h (drop_mapped_range E mr s) = owed k h s"
  by (simp_all add: owed_def handle_count_def inner_def drop_mapped_range_def ffi_pair)

lemma inner_upd:
  assumes "wf_state s"
  shows "inner k h (s\<lparr>arcs := (arcs s)(h' \<mapsto> a)\<rparr>) =
    inner k h s - opt_weight (\<lambda>a. inner_handles k h (arc_obj a)) (arcs s h') + inner_handles k h (arc_obj a)"
  using entries_sum_upd [of "arcs s" "\<lambda>a. inner_handles k h (arc_obj a)" h' a] assms
  by (simp add: inner_def wf_state_def wf_heap_def)

lemma owed_arcs_del:
  assumes "wf_state s" and "arcs s h' = Some a"
  shows "owed k h (s\<lparr>arcs := (arcs s)(h' := None)\<rparr>) =
    owed k h s - int (strong a) * one_handle k h (hkind_of (arc_obj a)) h' + inner_handles k h (arc_obj a)"
  using entries_sum_remove [of "arcs s" "\<lambda>a. inner_handles k h (arc_obj a)" h'] assms
  by (auto simp: owed_def inner_def handle_count_def one_handle_def wf_state_def wf_heap_def)

text \<open>Moving the count of a live handle, or changing the object behind it to one of the same type.\<close>

lemma owed_arcs_upd:
  assumes "wf_state s" and "arcs s h' = Some a" and "hkind_of (arc_obj b) = hkind_of (arc_obj a)"
  shows "owed k h (s\<lparr>arcs := (arcs s)(h' \<mapsto> b)\<rparr>) =
    owed k h s + (int (strong b) - int (strong a)) * one_handle k h (hkind_of (arc_obj a)) h'
      + inner_handles k h (arc_obj a) - inner_handles k h (arc_obj b)"
  using inner_upd [OF assms(1), of k h h' b] assms(2,3)
  by (auto simp: owed_def handle_count_def one_handle_def)

lemma owed_into_handle [simp]:
  assumes "wf_state s"
  shows "owed k h (snd (into_handle x s)) =
    owed k h s + one_handle k h (hkind_of x) (next_addr s) - inner_handles k h x"
proof -
  have f: "arcs s (next_addr s) = None" using wf_heap_fresh [OF wf_heapI [OF assms]] .
  have "inner k h (snd (into_handle x s)) = inner k h s + inner_handles k h x"
    using inner_upd [OF assms, of k h "next_addr s"] f by (simp add: inner_def into_handle_def)
  then show ?thesis
    using f by (auto simp: owed_def handle_count_def one_handle_def into_handle_def)
qed

lemma owed_handle_set:
  assumes "wf_state s" and "arcs s h' = Some a" and "hkind_of x = hkind_of (arc_obj a)"
  shows "owed k h (handle_set h' x s) = owed k h s + inner_handles k h (arc_obj a) - inner_handles k h x"
  using owed_arcs_upd [OF assms(1,2), of "a\<lparr>arc_obj := x\<rparr>" k h] assms(2,3) by (simp add: handle_set_def)

lemma handle_retain_owed:
  assumes "handle_retain as h' s = Some t" and "wf_state s" and "\<And>x y. as x = Some y \<Longrightarrow> hkind_of x = k'"
  shows "owed k h t = owed k h s + one_handle k h k' h'"
proof -
  obtain a y where a: "arcs s h' = Some a" "as (arc_obj a) = Some y"
      "t = s\<lparr>arcs := (arcs s)(h' \<mapsto> a\<lparr>strong := strong a + 1\<rparr>)\<rparr>"
    using assms(1) by (auto simp: handle_retain_def split: option.splits)
  then show ?thesis
    using owed_arcs_upd [OF assms(2) a(1), of "a\<lparr>strong := strong a + 1\<rparr>" k h] assms(3) [OF a(2)] by simp
qed

section \<open>The contract of a drop\<close>

locale counted_object = dropped_object +
  fixes kind :: hkind
  assumes kind_wrap: "hkind_of (wrap y) = kind"
    and drop_owed: "drop_in_place y s = Some t \<Longrightarrow> wf_state s \<Longrightarrow> owed k h t = owed k h s - inner_handles k h (wrap y)"
begin

lemma release_owed:
  assumes "handle_release as drop_in_place h' s = Some t" and "wf_state s"
  shows "owed k h t = owed k h s - one_handle k h kind h'"
  using assms(1)
proof (cases rule: release_cases)
  case (last a y)
  let ?s = "s\<lparr>arcs := (arcs s)(h' := None)\<rparr>"
  have "wf_state ?s" using assms(2) wf_heap_del [of s ?s h'] by (simp add: wf_state_def)
  then show ?thesis
    using drop_owed [OF last(4)] last owed_arcs_del [OF assms(2) last(1), of k h] kind_wrap by simp
next
  case (shared a y)
  then have "0 < strong a" using wf_heap_strong [OF wf_heapI [OF assms(2)] shared(1)] by simp
  then show ?thesis
    using shared owed_arcs_upd [OF assms(2) shared(1), of "a\<lparr>strong := strong a - 1\<rparr>" k h] kind_wrap
    by (simp add: of_nat_diff)
qed

lemma into_inner_owed:
  assumes "into_inner_handle as h' s = Some (Some y, t)" and "wf_state s"
  shows "wf_state t \<and> G t = G s \<and> (\<forall>k h. owed k h t = owed k h s - one_handle k h kind h' + inner_handles k h (wrap y))"
proof -
  obtain a where a: "arcs s h' = Some a" "arc_obj a = wrap y" "strong a = 1" "t = s\<lparr>arcs := (arcs s)(h' := None)\<rparr>"
    using assms(1) as_wrap by (auto simp: into_inner_handle_def split: option.splits if_splits)
  then show ?thesis
    using owed_arcs_del [OF assms(2) a(1)] kind_wrap assms(2) wf_heap_del [of s t h'] by (simp add: wf_state_def)
qed

end

lemma hkind_as:
  "as_device x = Some d \<Longrightarrow> hkind_of x = HDevice" "as_buffer x = Some b \<Longrightarrow> hkind_of x = HBuffer"
  "as_buffer_view x = Some bv \<Longrightarrow> hkind_of x = HBufferView" "as_semaphore x = Some sm \<Longrightarrow> hkind_of x = HSemaphore"
  "as_fence x = Some f \<Longrightarrow> hkind_of x = HFence" "as_stream x = Some st \<Longrightarrow> hkind_of x = HStream"
  "as_executable x = Some ex \<Longrightarrow> hkind_of x = HExecutable" "as_module x = Some md \<Longrightarrow> hkind_of x = HModule"
  "as_function x = Some fn \<Longrightarrow> hkind_of x = HFunction" "as_value_list x = Some vl \<Longrightarrow> hkind_of x = HValueList"
  by simp_all

interpretation device_count: counted_object as_device ODevice "drop_device E" HDevice
  for E :: env
  by unfold_locales (auto simp: drop_device_def)

lemma DeviceRef_drop_owed:
  assumes "DeviceRef_drop E d s = Some t" and "wf_state s"
  shows "wf_state t \<and> (\<forall>k h. owed k h t = owed k h s - one_handle k h HDevice d)"
  using assms DeviceRef_drop_surplus [OF assms] device_count.release_owed
  by (auto simp: DeviceRef_drop_def hrx_device_release_def)

interpretation buffer_count: counted_object as_buffer OBuffer "drop_buffer E" HBuffer
  for E :: env
  by unfold_locales (auto simp: drop_buffer_def Let_def split: option.splits dest!: DeviceRef_drop_owed)

interpretation buffer_view_count: counted_object as_buffer_view OBufferView "drop_buffer_view E" HBufferView
  for E :: env
  by unfold_locales (auto simp: drop_buffer_view_def)

interpretation semaphore_count: counted_object as_semaphore OSemaphore "drop_semaphore E" HSemaphore
  for E :: env
  by unfold_locales (auto simp: drop_semaphore_def dest!: DeviceRef_drop_owed)

interpretation fence_count: counted_object as_fence OFence "drop_fence E" HFence
  for E :: env
  by unfold_locales (auto simp: drop_fence_def)

interpretation executable_count: counted_object as_executable OExecutable "drop_executable E" HExecutable
  for E :: env
  by unfold_locales (auto simp: drop_executable_def Let_def dest!: DeviceRef_drop_owed)

interpretation value_list_count: counted_object as_value_list OValueList "drop_value_list E" HValueList
  for E :: env
  by unfold_locales (auto simp: drop_value_list_def)

interpretation module_count: counted_object as_module OModule "drop_module E" HModule
  for E :: env
  by unfold_locales (auto simp: drop_module_def Let_def dest!: DeviceRef_drop_owed)

lemma module_release_owed:
  assumes "hrx_module_release E m s = Some t" and "wf_state s"
  shows "owed k h t = owed k h s - one_handle k h HModule m"
  using assms module_count.release_owed by (simp add: hrx_module_release_def)

interpretation function_count: counted_object as_function OFunction "drop_function E" HFunction
  for E :: env
  by unfold_locales (auto simp: drop_function_def ModuleRef_drop_def dest: module_release_owed)

lemma semaphore_release_owed:
  assumes "hrx_semaphore_release E x s = Some t" and "wf_state s"
  shows "owed k h t = owed k h s - one_handle k h HSemaphore x"
  using assms semaphore_count.release_owed by (simp add: hrx_semaphore_release_def)

lemma status_owedD:
  assumes "hrx_make_status E c m s = (res, t) \<or> hrx_status_from_iree E st s = (res, t)"
  shows "(wf_state t \<longleftrightarrow> wf_state s) \<and> arcs t = arcs s \<and> mem t = mem s \<and> G t = G s \<and> pools t = pools s \<and> next_addr t = next_addr s \<and>
    (\<forall>k h. owed k h t = owed k h s)"
  using assms owed_cong [of t s] by (auto dest!: status_eqD)

lemmas status_owed = status_owedD [OF disjI1] status_owedD [OF disjI2]

lemma create_owned_owed:
  "create_owned E f s = Some (x, t) \<Longrightarrow> (wf_state t \<longleftrightarrow> wf_state s) \<and> arcs t = arcs s \<and> mem t = mem s \<and> G t = G s \<and>
     next_addr t = next_addr s \<and> (\<forall>k h. owed k h t = owed k h s)"
  using create_owned_fields [of E f s x t] owed_cong [of t s] wf_cong [of t s] by simp

lemma DeviceRef_retain_owed:
  assumes "DeviceRef_retain d s = Some (d', t)"
  shows "d' = d \<and> next_addr t = next_addr s \<and> mem t = mem s \<and> (wf_state s \<longrightarrow> wf_state t \<and>
    (\<forall>k h. owed k h t = owed k h s + one_handle k h HDevice d))"
  using DeviceRef_retain_eqD [OF assms] DeviceRef_retain_Some [OF assms] handle_retain_owed [of as_device d s t HDevice] by auto

lemma flush_inner_owed:
  assumes "flush_inner E st s = Some (res, st', t)"
  shows "(wf_state t \<longleftrightarrow> wf_state s) \<and> arcs t = arcs s \<and> mem t = mem s \<and> st_semaphore st' = st_semaphore st \<and>
    st_device st' = st_device st \<and> (\<forall>k h. owed k h t = owed k h s)"
  using assms
  by (auto simp: flush_inner_def ffi_pair Let_def split: if_splits prod.splits elim!: bind_SomeE dest!: status_owed)

lemma semaphore_wait_owed:
  assumes "hrx_semaphore_wait E x v ns s = Some (res, t)"
  shows "(wf_state t \<longleftrightarrow> wf_state s) \<and> arcs t = arcs s \<and> mem t = mem s \<and> (\<forall>k h. owed k h t = owed k h s)"
  using assms
  by (auto simp: hrx_semaphore_wait_def HalSemaphore_wait_def ffi_pair split: if_splits
      elim!: bind_SomeE dest!: status_owed)

lemma SemaphoreGuard_drop_owed:
  assumes "SemaphoreGuard_drop E x s = Some t" and "wf_state s"
  shows "wf_state t \<and> (\<forall>k h. owed k h t = owed k h s - one_handle k h HSemaphore x)"
  using assms semaphore_release_surplus semaphore_release_owed by (auto simp: SemaphoreGuard_drop_def)

lemma drop_stream_owed:
  assumes "drop_stream E st s = Some t" and "wf_state s"
  shows "owed k h t = owed k h s - inner_handles k h (OStream st)"
  using assms
  by (auto simp: drop_stream_def Let_def split: if_splits elim!: bind_SomeE
      dest!: flush_inner_owed semaphore_wait_owed DeviceRef_drop_owed SemaphoreGuard_drop_owed)

interpretation stream_count: counted_object as_stream OStream "drop_stream E" HStream
  for E :: env
  by unfold_locales (auto dest: drop_stream_eqD drop_stream_owed)

section \<open>Operations\<close>

lemma retains_owed:
  assumes "wf_state s"
  shows "hrx_device_retain x s = Some t \<Longrightarrow> owed k h t = owed k h s + one_handle k h HDevice x"
    and "hrx_buffer_retain x s = Some t \<Longrightarrow> owed k h t = owed k h s + one_handle k h HBuffer x"
    and "hrx_buffer_view_retain x s = Some t \<Longrightarrow> owed k h t = owed k h s + one_handle k h HBufferView x"
    and "hrx_semaphore_retain x s = Some t \<Longrightarrow> owed k h t = owed k h s + one_handle k h HSemaphore x"
    and "hrx_fence_retain x s = Some t \<Longrightarrow> owed k h t = owed k h s + one_handle k h HFence x"
    and "hrx_stream_retain x s = Some t \<Longrightarrow> owed k h t = owed k h s + one_handle k h HStream x"
    and "hrx_executable_retain x s = Some t \<Longrightarrow>
      owed k h t = owed k h s + (if x = NULL then 0 else one_handle k h HExecutable x)"
    and "hrx_module_retain x s = Some t \<Longrightarrow> owed k h t = owed k h s + one_handle k h HModule x"
    and "hrx_function_retain x s = Some t \<Longrightarrow> owed k h t = owed k h s + one_handle k h HFunction x"
    and "hrx_value_list_retain x s = Some t \<Longrightarrow> owed k h t = owed k h s + one_handle k h HValueList x"
  using assms
  by (auto simp: hrx_device_retain_def hrx_buffer_retain_def hrx_buffer_view_retain_def hrx_semaphore_retain_def
      hrx_fence_retain_def hrx_stream_retain_def hrx_executable_retain_def hrx_module_retain_def hrx_function_retain_def
      hrx_value_list_retain_def split: if_splits elim: handle_retain_owed)

lemma releases_owed:
  assumes "wf_state s"
  shows "hrx_device_release E x s = Some t \<Longrightarrow> owed k h t = owed k h s - one_handle k h HDevice x"
    and "hrx_buffer_release E x s = Some t \<Longrightarrow> owed k h t = owed k h s - one_handle k h HBuffer x"
    and "hrx_buffer_view_release E x s = Some t \<Longrightarrow> owed k h t = owed k h s - one_handle k h HBufferView x"
    and "hrx_semaphore_release E x s = Some t \<Longrightarrow> owed k h t = owed k h s - one_handle k h HSemaphore x"
    and "hrx_fence_release E x s = Some t \<Longrightarrow> owed k h t = owed k h s - one_handle k h HFence x"
    and "hrx_stream_release E x s = Some t \<Longrightarrow> owed k h t = owed k h s - one_handle k h HStream x"
    and "hrx_executable_release E x s = Some t \<Longrightarrow>
      owed k h t = owed k h s - (if x = NULL then 0 else one_handle k h HExecutable x)"
    and "hrx_module_release E x s = Some t \<Longrightarrow> owed k h t = owed k h s - one_handle k h HModule x"
    and "hrx_function_release E x s = Some t \<Longrightarrow> owed k h t = owed k h s - one_handle k h HFunction x"
    and "hrx_value_list_release E x s = Some t \<Longrightarrow> owed k h t = owed k h s - one_handle k h HValueList x"
  using assms device_count.release_owed buffer_count.release_owed buffer_view_count.release_owed semaphore_count.release_owed
    fence_count.release_owed stream_count.release_owed executable_count.release_owed module_count.release_owed
    function_count.release_owed value_list_count.release_owed
  by (auto simp: hrx_device_release_def hrx_buffer_release_def hrx_buffer_view_release_def hrx_semaphore_release_def
      hrx_fence_release_def hrx_stream_release_def hrx_executable_release_def hrx_module_release_def hrx_function_release_def
      hrx_value_list_release_def split: if_splits)

end
