(* ===== verification/Api.thy ===== *)
theory Api
  imports Handle_Ledger Host_Allocator
begin

text \<open>
  The C interface as a whole: a step of the library is one call of one of its entry points that
  returns, in any order and on any handles. The theory shows that the reference ledger balances
  along every run: what the program has taken of IREE and not given back is exactly what its live
  objects, the runtime singletons and the pools hold.

  Not among the steps are \<open>hrx_allocator_retain\<close> and \<open>hrx_allocator_release\<close>, which move IREE references
  of the client itself; the \<open>hrx_value_list_push_*\<close> of references, which can leak one (see
  \<open>Value_List\<close>); \<open>hrx_buffer_allocate\<close> and the entries of the pool's function table, since a pool's own
  count is kept by IREE (see \<open>Buffer_Allocate\<close> and \<open>Pool\<close>); and the status functions, which only
  touch libc memory. Calls on a stream are taken while its timeline has room below \<open>2 ^ 64\<close>.
\<close>

section \<open>Steps\<close>

text \<open>
  The accelerators; the calls that create an object, with the type of its handle, the out-pointer
  and the status; those that retain and release a handle; and all others.
\<close>

inductive accelerator_step :: "env \<Rightarrow> hrx \<Rightarrow> hrx \<Rightarrow> bool" for E :: env where
  cpu_initialize: "hrx_cpu_initialize E fl s = Some (res, t) \<Longrightarrow> accelerator_step E s t"
| cpu_shutdown: "hrx_cpu_shutdown E s = Some (res, t) \<Longrightarrow> accelerator_step E s t"
| cpu_device_count: "hrx_cpu_device_count E p s = Some (res, t) \<Longrightarrow> accelerator_step E s t"
| cpu_device_get: "hrx_cpu_device_get E i p s = Some (res, t) \<Longrightarrow> accelerator_step E s t"
| gpu_initialize: "hrx_gpu_initialize E fl s = Some (res, t) \<Longrightarrow> accelerator_step E s t"
| gpu_shutdown: "hrx_gpu_shutdown E s = Some (res, t) \<Longrightarrow> accelerator_step E s t"
| gpu_device_count: "hrx_gpu_device_count E p s = Some (res, t) \<Longrightarrow> accelerator_step E s t"
| gpu_device_get: "hrx_gpu_device_get E i p s = Some (res, t) \<Longrightarrow> accelerator_step E s t"

inductive create_step :: "env \<Rightarrow> hkind \<Rightarrow> ptr \<Rightarrow> hrx_status \<Rightarrow> hrx \<Rightarrow> hrx \<Rightarrow> bool" for E :: env where
  semaphore_create: "hrx_semaphore_create E d v out s = Some (res, t) \<Longrightarrow> create_step E HSemaphore out res s t"
| fence_create: "hrx_fence_create E n out s = Some (res, t) \<Longrightarrow> create_step E HFence out res s t"
| fence_create_at: "hrx_fence_create_at E h v out s = Some (res, t) \<Longrightarrow> create_step E HFence out res s t"
| allocator_allocate: "hrx_allocator_allocate_buffer E al ps n out s = Some (res, t) \<Longrightarrow> create_step E HBuffer out res s t"
| buffer_import: "hrx_allocator_import_buffer E al ps host n out s = Some (res, t) \<Longrightarrow> create_step E HBuffer out res s t"
| virtual_reserve: "hrx_allocator_virtual_memory_reserve E al aff n out s = Some (res, t) \<Longrightarrow> create_step E HBuffer out res s t"
| view_create: "hrx_buffer_view_create E h n sh et enc out s = Some (res, t) \<Longrightarrow> create_step E HBufferView out res s t"
| executable_load: "hrx_executable_load_data E d data n fmt out s = Some (res, t) \<Longrightarrow> create_step E HExecutable out res s t"
| list_create: "hrx_value_list_create E n out s = Some (res, t) \<Longrightarrow> create_step E HValueList out res s t"
| module_load: "hrx_module_load_vmfb E d data n out s = Some (res, t) \<Longrightarrow> create_step E HModule out res s t"
| module_lookup: "hrx_module_lookup_function E h nm out s = Some (res, t) \<Longrightarrow> create_step E HFunction out res s t"
| executable_load_file: "hrx_executable_load_file E F d path fmt out s = Some (res, t) \<Longrightarrow> create_step E HExecutable out res s t"
| stream_create: "hrx_stream_create E d fl out s = Some (res, t) \<Longrightarrow> create_step E HStream out res s t"

inductive retain_step :: "hkind \<Rightarrow> ptr \<Rightarrow> hrx \<Rightarrow> hrx \<Rightarrow> bool" where
  semaphore_retain: "hrx_semaphore_retain h s = Some t \<Longrightarrow> retain_step HSemaphore h s t"
| fence_retain: "hrx_fence_retain h s = Some t \<Longrightarrow> retain_step HFence h s t"
| buffer_retain: "hrx_buffer_retain h s = Some t \<Longrightarrow> retain_step HBuffer h s t"
| view_retain: "hrx_buffer_view_retain h s = Some t \<Longrightarrow> retain_step HBufferView h s t"
| executable_retain: "hrx_executable_retain h s = Some t \<Longrightarrow> h \<noteq> NULL \<Longrightarrow> retain_step HExecutable h s t"
| list_retain: "hrx_value_list_retain h s = Some t \<Longrightarrow> retain_step HValueList h s t"
| module_retain: "hrx_module_retain h s = Some t \<Longrightarrow> retain_step HModule h s t"
| function_retain: "hrx_function_retain h s = Some t \<Longrightarrow> retain_step HFunction h s t"
| device_retain: "hrx_device_retain h s = Some t \<Longrightarrow> retain_step HDevice h s t"
| stream_retain: "hrx_stream_retain h s = Some t \<Longrightarrow> retain_step HStream h s t"

inductive release_step :: "env \<Rightarrow> hkind \<Rightarrow> ptr \<Rightarrow> hrx \<Rightarrow> hrx \<Rightarrow> bool" for E :: env where
  semaphore_release: "hrx_semaphore_release E h s = Some t \<Longrightarrow> release_step E HSemaphore h s t"
| fence_release: "hrx_fence_release E h s = Some t \<Longrightarrow> release_step E HFence h s t"
| buffer_release: "hrx_buffer_release E h s = Some t \<Longrightarrow> release_step E HBuffer h s t"
| view_release: "hrx_buffer_view_release E h s = Some t \<Longrightarrow> release_step E HBufferView h s t"
| executable_release: "hrx_executable_release E h s = Some t \<Longrightarrow> h \<noteq> NULL \<Longrightarrow> release_step E HExecutable h s t"
| list_release: "hrx_value_list_release E h s = Some t \<Longrightarrow> release_step E HValueList h s t"
| module_release: "hrx_module_release E h s = Some t \<Longrightarrow> release_step E HModule h s t"
| function_release: "hrx_function_release E h s = Some t \<Longrightarrow> release_step E HFunction h s t"
| device_release: "hrx_device_release E h s = Some t \<Longrightarrow> release_step E HDevice h s t"
| stream_release: "hrx_stream_release E h s = Some t \<Longrightarrow> release_step E HStream h s t"
| virtual_release: "hrx_allocator_virtual_memory_release E al vb s = Some (res, t) \<Longrightarrow> al \<noteq> NULL \<Longrightarrow> vb \<noteq> NULL \<Longrightarrow> release_step E HBuffer vb s t"

inductive call_step :: "env \<Rightarrow> hrx \<Rightarrow> hrx \<Rightarrow> bool" for E :: env where
  device_synchronize: "hrx_device_synchronize E d s = Some (res, t) \<Longrightarrow> call_step E s t"
| device_property: "hrx_device_get_property E d i out n s = Some (res, t) \<Longrightarrow> call_step E s t"
| device_type: "hrx_device_get_type E d out s = Some (res, t) \<Longrightarrow> call_step E s t"
| semaphore_query: "hrx_semaphore_query E h out s = Some (res, t) \<Longrightarrow> call_step E s t"
| semaphore_wait: "hrx_semaphore_wait E h v ns s = Some (res, t) \<Longrightarrow> call_step E s t"
| semaphore_signal: "hrx_semaphore_signal E h v s = Some (res, t) \<Longrightarrow> call_step E s t"
| fence_insert: "hrx_fence_insert E h h' v s = Some (res, t) \<Longrightarrow> call_step E s t"
| fence_extend: "hrx_fence_extend E h h' s = Some (res, t) \<Longrightarrow> call_step E s t"
| fence_signal: "hrx_fence_signal E h s = Some (res, t) \<Longrightarrow> call_step E s t"
| fence_wait: "hrx_fence_wait E h ns s = Some (res, t) \<Longrightarrow> call_step E s t"
| buffer_map: "hrx_buffer_map E h fl off n out s = Some (res, t) \<Longrightarrow> call_step E s t"
| buffer_unmap: "hrx_buffer_unmap E h s = Some (res, t) \<Longrightarrow> call_step E s t"
| buffer_device_ptr: "hrx_buffer_get_device_ptr E h out s = Some (res, t) \<Longrightarrow> call_step E s t"
| buffer_size: "hrx_buffer_get_size E h out s = Some (res, t) \<Longrightarrow> call_step E s t"
| h2d: "hrx_synchronous_h2d E d src dst off n s = Some (res, t) \<Longrightarrow> call_step E s t"
| d2h: "hrx_synchronous_d2h E d src off dst n s = Some (res, t) \<Longrightarrow> call_step E s t"
| view_rank: "hrx_buffer_view_rank E h out s = Some (res, t) \<Longrightarrow> call_step E s t"
| view_dim: "hrx_buffer_view_dim E h i out s = Some (res, t) \<Longrightarrow> call_step E s t"
| export_count: "hrx_executable_export_count E h out s = Some (res, t) \<Longrightarrow> call_step E s t"
| export_info: "hrx_executable_export_info E h i out s = Some (res, t) \<Longrightarrow> call_step E s t"
| export_lookup: "hrx_executable_lookup_export_by_name E h nm out s = Some (res, t) \<Longrightarrow> call_step E s t"
| list_size: "hrx_value_list_size E h out s = Some (res, t) \<Longrightarrow> call_step E s t"
| list_push: "hrx_value_list_push_i64 E h v s = Some (res, t) \<Longrightarrow> call_step E s t"
| list_push_null: "hrx_value_list_push_null_ref E h s = Some (res, t) \<Longrightarrow> call_step E s t"
| list_get: "hrx_value_list_get_i64 E h i out s = Some (res, t) \<Longrightarrow> call_step E s t"
| function_invoke: "hrx_function_invoke E h f xs ys s = Some (res, t) \<Longrightarrow> call_step E s t"
| virtual_query: "hrx_allocator_query_virtual_memory E al mt supp mps rps s = Some (res, t) \<Longrightarrow> call_step E s t"
| physical_allocate: "hrx_allocator_physical_memory_allocate E al mt n out s = Some (res, t) \<Longrightarrow> call_step E s t"
| physical_free: "hrx_allocator_physical_memory_free E al ph s = Some (res, t) \<Longrightarrow> call_step E s t"
| virtual_map: "hrx_allocator_virtual_memory_map E al vb off ph poff n s = Some (res, t) \<Longrightarrow> call_step E s t"
| virtual_unmap: "hrx_allocator_virtual_memory_unmap E al vb off n s = Some (res, t) \<Longrightarrow> call_step E s t"
| virtual_protect: "hrx_allocator_virtual_memory_protect E al vb off n pr s = Some (res, t) \<Longrightarrow> call_step E s t"
| host_malloc: "hrx_host_allocator_malloc E ha n out s = (res, t) \<Longrightarrow> call_step E s t"
| host_malloc_uninitialized: "hrx_host_allocator_malloc_uninitialized E ha n out s = (res, t) \<Longrightarrow> call_step E s t"
| host_realloc: "hrx_host_allocator_realloc E ha n out s = Some (res, t) \<Longrightarrow> call_step E s t"
| host_clone: "hrx_host_allocator_clone E ha src n out s = (res, t) \<Longrightarrow> call_step E s t"
| host_malloc_aligned: "hrx_host_allocator_malloc_aligned E ha n alg off out s = (res, t) \<Longrightarrow> call_step E s t"
| host_realloc_aligned: "hrx_host_allocator_realloc_aligned E ha n alg off out s = Some (res, t) \<Longrightarrow> call_step E s t"
| host_free: "hrx_host_allocator_free E ha q s = t \<Longrightarrow> call_step E s t"
| host_free_aligned: "hrx_host_allocator_free_aligned E ha q s = t \<Longrightarrow> call_step E s t"
| queue_fill: "hrx_queue_fill E d aff wl sl b off n pat psz s = Some (res, t) \<Longrightarrow> call_step E s t"
| queue_copy: "hrx_queue_copy E d aff wl sl b off b' off' n s = Some (res, t) \<Longrightarrow> call_step E s t"
| queue_barrier: "hrx_queue_barrier E d aff wl sl s = Some (res, t) \<Longrightarrow> call_step E s t"
| queue_dispatch: "hrx_queue_dispatch E d aff wl sl exe ord cfg cs csz bs bn fl s = Some (res, t) \<Longrightarrow> call_step E s t"
| queue_host_call: "hrx_queue_host_call E d aff wl sl cb ud s = Some (res, t) \<Longrightarrow> call_step E s t"
| executable_retain_null: "hrx_executable_retain NULL s = Some t \<Longrightarrow> call_step E s t"
| executable_release_null: "hrx_executable_release E NULL s = Some t \<Longrightarrow> call_step E s t"
| virtual_release_null: "hrx_allocator_virtual_memory_release E al vb s = Some (res, t) \<Longrightarrow> al = NULL \<or> vb = NULL \<Longrightarrow> call_step E s t"

inductive_cases accelerator_stepE: "accelerator_step E s t"
inductive_cases create_stepE: "create_step E K out res s t"
inductive_cases retain_stepE: "retain_step K h s t"
inductive_cases release_stepE: "release_step E K h s t"
inductive_cases call_stepE: "call_step E s t"

inductive api_step :: "env \<Rightarrow> hrx \<Rightarrow> hrx \<Rightarrow> bool" for E :: env where
  accelerator: "accelerator_step E s t \<Longrightarrow> api_step E s t"
| create: "create_step E K out res s t \<Longrightarrow> api_step E s t"
| retain: "retain_step K h s t \<Longrightarrow> api_step E s t"
| release: "release_step E K h s t \<Longrightarrow> api_step E s t"
| call: "call_step E s t \<Longrightarrow> api_step E s t"
| stream: "stream_step E h s t \<Longrightarrow> api_step E s t"

inductive_cases api_stepE: "api_step E s t"

section \<open>The globals\<close>

text \<open>Only the runtime touches the singletons, and only the pool's own functions touch the pools.\<close>

abbreviation outer_same :: "hrx \<Rightarrow> hrx \<Rightarrow> bool" where
  "outer_same s t \<equiv> G t = G s \<and> pools t = pools s"

lemma handle_release_G:
  assumes "handle_release as dr h s = Some t" and "\<And>y u v. dr y u = Some v \<Longrightarrow> outer_same u v"
  shows "outer_same s t"
  using assms(1) assms(2) by (fastforce simp: handle_release_def split: option.splits if_splits)

lemmas handle_release_outer = handle_release_G [THEN conjunct1] handle_release_G [THEN conjunct2]

lemma handle_retain_G: "handle_retain as h s = Some t \<Longrightarrow> outer_same s t"
  using handle_retain_frame by blast

lemma DeviceRef_drop_G: "DeviceRef_drop E d s = Some t \<Longrightarrow> outer_same s t"
  using device_release_frame by (simp add: DeviceRef_drop_def)


lemma DeviceRef_retain_G: "DeviceRef_retain d s = Some (d', t) \<Longrightarrow> outer_same s t"
  by (auto simp: DeviceRef_retain_def hrx_device_retain_def elim!: bind_SomeE dest: handle_retain_G)

lemma create_owned_G: "create_owned E f s = Some (x, t) \<Longrightarrow> outer_same s t"
  using create_owned_fields by blast

lemma status_G:
  "hrx_make_status E c m s = (res, t) \<Longrightarrow> outer_same s t" "hrx_status_from_iree E st s = (res, t) \<Longrightarrow> outer_same s t"
  by (auto dest!: status_eqD)

lemma frames_G [simp]:
  "G (drop_mapped_range E m s) = G s" "G (handle_set h x s) = G s" "G (snd (into_handle x s)) = G s"
  "pools (drop_mapped_range E m s) = pools s" "pools (handle_set h x s) = pools s" "pools (snd (into_handle x s)) = pools s"
  by (auto simp: drop_mapped_range_def handle_set_def into_handle_def ffi_pair Let_def split: option.splits)

lemma libc_malloc_G: "libc_malloc E s = (b, t) \<Longrightarrow> outer_same s t"
  by (auto simp: libc_malloc_def split: if_splits)

lemma drops_G:
  "drop_semaphore E x1 s = Some t \<Longrightarrow> outer_same s t"
  "drop_fence E x2 s = Some t \<Longrightarrow> outer_same s t"
  "drop_buffer E x3 s = Some t \<Longrightarrow> outer_same s t"
  "drop_buffer_view E x4 s = Some t \<Longrightarrow> outer_same s t"
  "drop_executable E x5 s = Some t \<Longrightarrow> outer_same s t"
  "drop_value_list E x6 s = Some t \<Longrightarrow> outer_same s t"
  "drop_module E x7 s = Some t \<Longrightarrow> outer_same s t"
  by (auto simp: drop_semaphore_def drop_fence_def drop_buffer_def drop_mapped_range_def drop_buffer_view_def
      drop_executable_def drop_value_list_def drop_module_def ffi_pair Let_def split: option.splits dest!: DeviceRef_drop_G)

lemmas G_rules = libc_malloc_G status_G create_owned_G DeviceRef_retain_G DeviceRef_drop_G

lemma releases_G:
  "hrx_semaphore_release E h s = Some t \<Longrightarrow> outer_same s t"
  "hrx_fence_release E h s = Some t \<Longrightarrow> outer_same s t"
  "hrx_buffer_release E h s = Some t \<Longrightarrow> outer_same s t"
  "hrx_buffer_view_release E h s = Some t \<Longrightarrow> outer_same s t"
  "hrx_executable_release E h s = Some t \<Longrightarrow> outer_same s t"
  "hrx_value_list_release E h s = Some t \<Longrightarrow> outer_same s t"
  "hrx_module_release E h s = Some t \<Longrightarrow> outer_same s t"
  by (auto simp: hrx_semaphore_release_def hrx_fence_release_def hrx_buffer_release_def hrx_buffer_view_release_def
      hrx_executable_release_def hrx_value_list_release_def hrx_module_release_def
      split: if_splits elim: handle_release_outer dest: drops_G)

lemma function_release_G: "hrx_function_release E h s = Some t \<Longrightarrow> outer_same s t"
  by (auto simp: hrx_function_release_def drop_function_def ModuleRef_drop_def split: if_splits
      elim!: handle_release_G dest!: releases_G)

lemma retains_G:
  "hrx_semaphore_retain h s = Some t \<Longrightarrow> outer_same s t" "hrx_fence_retain h s = Some t \<Longrightarrow> outer_same s t"
  "hrx_buffer_retain h s = Some t \<Longrightarrow> outer_same s t" "hrx_buffer_view_retain h s = Some t \<Longrightarrow> outer_same s t"
  "hrx_executable_retain h s = Some t \<Longrightarrow> outer_same s t" "hrx_value_list_retain h s = Some t \<Longrightarrow> outer_same s t"
  "hrx_module_retain h s = Some t \<Longrightarrow> outer_same s t" "hrx_function_retain h s = Some t \<Longrightarrow> outer_same s t"
  by (auto simp: hrx_semaphore_retain_def hrx_fence_retain_def hrx_buffer_retain_def hrx_buffer_view_retain_def
      hrx_executable_retain_def hrx_value_list_retain_def hrx_module_retain_def hrx_function_retain_def
      split: if_splits dest: handle_retain_G)

lemma sync_calls_G:
  "hrx_device_synchronize E d s = Some (res, t) \<Longrightarrow> outer_same s t"
  "hrx_device_get_type E d out s = Some (res, t) \<Longrightarrow> outer_same s t"
  "hrx_semaphore_query E h out s = Some (res, t) \<Longrightarrow> outer_same s t"
  "hrx_semaphore_wait E h v ns s = Some (res, t) \<Longrightarrow> outer_same s t"
  "hrx_semaphore_signal E h v s = Some (res, t) \<Longrightarrow> outer_same s t"
  "hrx_fence_insert E h h' v s = Some (res, t) \<Longrightarrow> outer_same s t"
  "hrx_fence_extend E h h' s = Some (res, t) \<Longrightarrow> outer_same s t"
  "hrx_fence_signal E h s = Some (res, t) \<Longrightarrow> outer_same s t"
  "hrx_fence_wait E h ns s = Some (res, t) \<Longrightarrow> outer_same s t"
  by (auto simp: hrx_device_synchronize_def hrx_device_get_type_def hrx_semaphore_query_def hrx_semaphore_wait_def
      hrx_semaphore_signal_def hrx_fence_insert_def hrx_fence_extend_def hrx_fence_signal_def hrx_fence_wait_def
      HalSemaphore_query_into_def HalSemaphore_wait_def HalSemaphore_signal_def HalFence_insert_def HalFence_extend_def
      HalFence_signal_def HalFence_wait_def ffi_pair Let_def
      split: if_splits prod.splits option.splits elim!: bind_SomeE dest!: G_rules)

lemma semaphore_create_G:
  "semaphore_create_handle E d v s = Some (res, h, t) \<Longrightarrow> outer_same s t"
  by (auto simp: semaphore_create_handle_def semaphore_create_def ffi_pair Let_def into_handle_eq
      split: if_splits sum.splits prod.splits option.splits elim!: bind_SomeE dest!: G_rules)

lemma creates_G:
  "hrx_semaphore_create E d v out s = Some (res, t) \<Longrightarrow> outer_same s t"
  "hrx_fence_create E n out s = Some (res, t) \<Longrightarrow> outer_same s t"
  "hrx_fence_create_at E h v out s = Some (res, t) \<Longrightarrow> outer_same s t"
  "hrx_value_list_create E n out s = Some (res, t) \<Longrightarrow> outer_same s t"
  by (auto simp: hrx_semaphore_create_def hrx_fence_create_def hrx_fence_create_at_def hrx_value_list_create_def
      fence_create_def fence_create_at_def ffi_pair Let_def into_handle_eq split: if_splits sum.splits prod.splits option.splits
      elim!: bind_SomeE dest!: G_rules semaphore_create_G)

lemma view_create_G: "hrx_buffer_view_create E h n sh et enc out s = Some (res, t) \<Longrightarrow> outer_same s t"
  by (auto simp: hrx_buffer_view_create_def buffer_view_create_def ffi_pair Let_def into_handle_eq
      split: if_splits sum.splits prod.splits option.splits elim!: bind_SomeE dest!: G_rules)

lemma load_data_G: "hrx_executable_load_data E d data n fmt out s = Some (res, t) \<Longrightarrow> outer_same s t"
  by (auto simp: hrx_executable_load_data_def wrap_executable_def ffi_pair Let_def into_handle_eq
      split: if_splits sum.splits prod.splits option.splits elim!: bind_SomeE dest!: G_rules)

lemma load_vmfb_G: "hrx_module_load_vmfb E d data n out s = Some (res, t) \<Longrightarrow> outer_same s t"
  by (auto simp: hrx_module_load_vmfb_def shared_vm_instance_def HalVmModule_drop_def ffi_pair Let_def into_handle_eq
      split: if_splits sum.splits prod.splits option.splits elim!: bind_SomeE dest!: G_rules)

lemma finish_buffer_G: "finish_buffer E f d mt sz out s = Some (res, t) \<Longrightarrow> outer_same s t"
  by (auto simp: finish_buffer_def ffi_pair Let_def into_handle_eq
      split: if_splits sum.splits prod.splits option.splits elim!: bind_SomeE dest!: G_rules)

lemma buffer_creates_G:
  "hrx_allocator_allocate_buffer E al ps n out s = Some (res, t) \<Longrightarrow> outer_same s t"
  "hrx_allocator_import_buffer E al ps host n out s = Some (res, t) \<Longrightarrow> outer_same s t"
  "hrx_allocator_virtual_memory_reserve E al aff n out s = Some (res, t) \<Longrightarrow> outer_same s t"
  by (auto simp: hrx_allocator_allocate_buffer_def hrx_allocator_import_buffer_def hrx_allocator_virtual_memory_reserve_def
      Let_def split: if_splits elim!: bind_SomeE dest!: G_rules finish_buffer_G)

lemma buffer_calls_G:
  "hrx_buffer_map E h fl off n out s = Some (res, t) \<Longrightarrow> outer_same s t"
  "hrx_buffer_unmap E h s = Some (res, t) \<Longrightarrow> outer_same s t"
  "hrx_buffer_get_device_ptr E h out s = Some (res, t) \<Longrightarrow> outer_same s t"
  "hrx_buffer_get_size E h out s = Some (res, t) \<Longrightarrow> outer_same s t"
  "hrx_synchronous_h2d E d src dst off n s = Some (res, t) \<Longrightarrow> outer_same s t"
  "hrx_synchronous_d2h E d src off dst n s = Some (res, t) \<Longrightarrow> outer_same s t"
  by (auto simp: hrx_buffer_map_def hrx_buffer_unmap_def hrx_buffer_get_device_ptr_def hrx_buffer_get_size_def
      hrx_synchronous_h2d_def hrx_synchronous_d2h_def ffi_pair Let_def
      split: if_splits option.splits prod.splits elim!: bind_SomeE dest!: G_rules)

lemma virtual_release_G: "hrx_allocator_virtual_memory_release E al vb s = Some (res, t) \<Longrightarrow> outer_same s t"
  by (auto simp: hrx_allocator_virtual_memory_release_def into_inner_handle_def ffi_pair Let_def
      split: if_splits option.splits prod.splits elim!: bind_SomeE dest!: G_rules drops_G)

lemma queries_G:
  "hrx_buffer_view_rank E h out s = Some (res, t) \<Longrightarrow> outer_same s t"
  "hrx_buffer_view_dim E h i out s = Some (res, t) \<Longrightarrow> outer_same s t"
  "hrx_executable_export_count E h out s = Some (res, t) \<Longrightarrow> outer_same s t"
  "hrx_executable_export_info E h j out s = Some (res, t) \<Longrightarrow> outer_same s t"
  "hrx_executable_lookup_export_by_name E h nm out s = Some (res, t) \<Longrightarrow> outer_same s t"
  "hrx_value_list_size E h out s = Some (res, t) \<Longrightarrow> outer_same s t"
  "hrx_value_list_push_i64 E h v s = Some (res, t) \<Longrightarrow> outer_same s t"
  "hrx_value_list_push_null_ref E h s = Some (res, t) \<Longrightarrow> outer_same s t"
  "hrx_value_list_get_i64 E h i out s = Some (res, t) \<Longrightarrow> outer_same s t"
  by (auto simp: hrx_buffer_view_rank_def hrx_buffer_view_dim_def hrx_executable_export_count_def hrx_executable_export_info_def
      hrx_executable_lookup_export_by_name_def hrx_value_list_size_def hrx_value_list_push_i64_def
      hrx_value_list_push_null_ref_def hrx_value_list_get_i64_def HalBufferView_shape_rank_def HalBufferView_shape_dim_def
      ffi_pair Let_def split: if_splits option.splits prod.splits elim!: bind_SomeE dest!: G_rules)

lemma function_calls_G:
  "hrx_module_lookup_function E h nm out s = Some (res, t) \<Longrightarrow> outer_same s t"
  "hrx_function_invoke E h f xs ys s = Some (res, t) \<Longrightarrow> outer_same s t"
  by (auto simp: hrx_module_lookup_function_def hrx_function_invoke_def ModuleRef_retain_def into_handle_eq ffi_pair Let_def
      split: if_splits option.splits prod.splits elim!: bind_SomeE dest!: G_rules handle_retain_G retains_G)

lemma queue_calls_G:
  "hrx_queue_barrier E d aff wl sl s = Some (res, t) \<Longrightarrow> outer_same s t"
  "hrx_queue_host_call E d aff wl sl cb ud s = Some (res, t) \<Longrightarrow> outer_same s t"
  "hrx_queue_dispatch E d aff wl sl exe ord cfg cs csz bs bn fl s = Some (res, t) \<Longrightarrow> outer_same s t"
  by (auto simp: hrx_queue_barrier_def hrx_queue_host_call_def hrx_queue_dispatch_def new_thunk_def free_thunk_def ffi_pair Let_def
      split: if_splits option.splits prod.splits sum.splits elim!: bind_SomeE dest!: G_rules)

lemma load_file_G: "hrx_executable_load_file E F d path fmt out s = Some (res, t) \<Longrightarrow> outer_same s t"
  by (auto simp: hrx_executable_load_file_def hrx_host_allocator_free_def fclose_def ffi_pair Let_def split: if_splits prod.splits
      elim!: bind_SomeE dest!: G_rules load_data_G)

lemma one_shot_G: "queue_one_shot E d aff wl sl rc s = Some (res, t) \<Longrightarrow> outer_same s t"
  by (auto simp: queue_one_shot_def ffi_pair Let_def split: if_splits elim!: bind_SomeE dest!: G_rules)

lemma transfers_G:
  "hrx_queue_fill E d aff wl sl b off n pat psz s = Some (res, t) \<Longrightarrow> outer_same s t"
  "hrx_queue_copy E d aff wl sl b off b' off' n s = Some (res, t) \<Longrightarrow> outer_same s t"
  by (auto simp: hrx_queue_fill_def hrx_queue_copy_def split: if_splits dest!: G_rules one_shot_G)

lemma host_G:
  "hrx_host_allocator_malloc E ha n out s = (res, t) \<Longrightarrow> outer_same s t"
  "hrx_host_allocator_malloc_uninitialized E ha n out s = (res, t) \<Longrightarrow> outer_same s t"
  "hrx_host_allocator_realloc E ha n out s = Some (res, t) \<Longrightarrow> outer_same s t"
  "hrx_host_allocator_clone E ha src n out s = (res, t) \<Longrightarrow> outer_same s t"
  "hrx_host_allocator_malloc_aligned E ha n alg off out s = (res, t) \<Longrightarrow> outer_same s t"
  "hrx_host_allocator_realloc_aligned E ha n alg off out s = Some (res, t) \<Longrightarrow> outer_same s t"
  by (auto simp: hrx_host_allocator_malloc_def hrx_host_allocator_malloc_uninitialized_def hrx_host_allocator_realloc_def
      hrx_host_allocator_clone_def hrx_host_allocator_malloc_aligned_def hrx_host_allocator_realloc_aligned_def
      elim!: bind_SomeE dest!: host_alloc_call_frame)

lemma begin_cb_G: "begin_cb E st s = Some (res, st', t) \<Longrightarrow> outer_same s t"
  by (auto simp: begin_cb_def ffi_pair Let_def split: if_splits prod.splits option.splits sum.splits elim!: bind_SomeE dest!: G_rules)

lemma flush_inner_G: "flush_inner E st s = Some (res, st', t) \<Longrightarrow> outer_same s t"
  by (auto simp: flush_inner_def ffi_pair Let_def split: if_splits prod.splits option.splits elim!: bind_SomeE dest!: G_rules)

lemma stream_flush_G: "hrx_stream_flush E h s = Some (res, t) \<Longrightarrow> outer_same s t"
  by (auto simp: hrx_stream_flush_def handle_set_def Let_def split: if_splits prod.splits option.splits
      elim!: bind_SomeE dest!: G_rules flush_inner_G)

lemma stream_wait_G: "hrx_stream_wait E h s = Some (res, t) \<Longrightarrow> outer_same s t"
  by (auto simp: hrx_stream_wait_def Let_def split: if_splits prod.splits option.splits
      elim!: bind_SomeE dest!: G_rules sync_calls_G stream_flush_G)

lemma record_op_G: "record_op E h rc s = Some (res, t) \<Longrightarrow> outer_same s t"
  by (auto simp: record_op_def record_ordering_barrier_def ffi_pair Let_def
      split: if_splits prod.splits option.splits sum.splits elim!: bind_SomeE dest!: G_rules begin_cb_G)

lemma drop_stream_G: "drop_stream E st s = Some t \<Longrightarrow> outer_same s t"
  by (auto simp: drop_stream_def SemaphoreGuard_drop_def ffi_pair Let_def split: if_splits prod.splits option.splits
      elim!: bind_SomeE dest!: G_rules flush_inner_G releases_G sync_calls_G)

lemma stream_life_G:
  "hrx_stream_create E d fl out s = Some (res, t) \<Longrightarrow> outer_same s t"
  "hrx_stream_retain h s = Some t \<Longrightarrow> outer_same s t"
  "hrx_stream_release E h s = Some t \<Longrightarrow> outer_same s t"
  by (auto simp: hrx_stream_create_def hrx_stream_retain_def hrx_stream_release_def into_handle_eq Let_def
      split: if_splits prod.splits option.splits elim!: bind_SomeE
      dest!: G_rules semaphore_create_G handle_retain_G elim: handle_release_outer dest: drop_stream_G)

lemma stream_records_G:
  "hrx_stream_fill_buffer E h b off n pat psz s = Some (res, t) \<Longrightarrow> outer_same s t"
  "hrx_stream_copy_buffer E h b off b' off' n s = Some (res, t) \<Longrightarrow> outer_same s t"
  "hrx_stream_update_buffer E h data n b off s = Some (res, t) \<Longrightarrow> outer_same s t"
  "hrx_stream_dispatch E h exe ord cfg cs csz bs bn fl s = Some (res, t) \<Longrightarrow> outer_same s t"
  by (auto simp: hrx_stream_fill_buffer_def hrx_stream_copy_buffer_def hrx_stream_update_buffer_def hrx_stream_dispatch_def
      split: if_splits dest!: G_rules record_op_G)

lemma stream_barrier_G: "hrx_stream_execution_barrier E h s = Some (res, t) \<Longrightarrow> outer_same s t"
  by (auto simp: hrx_stream_execution_barrier_def ffi_pair Let_def split: if_splits prod.splits
      elim!: bind_SomeE dest!: G_rules begin_cb_G)

lemma stream_queries_G:
  "hrx_stream_synchronize E h s = Some (res, t) \<Longrightarrow> outer_same s t"
  "hrx_stream_query E h out s = Some (res, t) \<Longrightarrow> outer_same s t"
  "hrx_stream_get_semaphore E h out s = Some (res, t) \<Longrightarrow> outer_same s t"
  "hrx_stream_get_device E h out s = Some (res, t) \<Longrightarrow> outer_same s t"
  "hrx_stream_get_timeline_position E h out s = Some (res, t) \<Longrightarrow> outer_same s t"
  "hrx_stream_advance_timeline E h out s = Some (res, t) \<Longrightarrow> outer_same s t"
  "hrx_stream_wait_on E h pos s = Some (res, t) \<Longrightarrow> outer_same s t"
  by (auto simp: hrx_stream_synchronize_def hrx_stream_query_def semaphore_query_local_def hrx_stream_get_semaphore_def
      hrx_stream_get_device_def hrx_stream_get_timeline_position_def hrx_stream_advance_timeline_def hrx_stream_wait_on_def
      ffi_pair Let_def split: if_splits prod.splits elim!: bind_SomeE dest!: G_rules stream_flush_G stream_wait_G)

lemma stream_step_G: "stream_step E h s t \<Longrightarrow> outer_same s t"
  by (erule stream_step.cases)
    (blast dest: stream_records_G stream_barrier_G stream_flush_G stream_wait_G stream_queries_G)+

section \<open>The ledger\<close>

text \<open>The calls that hold no references, in one go.\<close>

lemma poke_bytes_ledger [simp]:
  "G (poke_bytes a bs s) = G s" "pools (poke_bytes a bs s) = pools s" "wf_state (poke_bytes a bs s) = wf_state s" "surplus k p (poke_bytes a bs s) = surplus k p s"
  by (induction bs arbitrary: a s) simp_all

lemma copy_cstr_ledger:
  assumes "copy_cstr xs a s = Some t"
  shows "outer_same s t \<and> wf_state t = wf_state s \<and> (\<forall>k p. surplus k p t = surplus k p s)"
  using assms by (auto simp: copy_cstr_def split: if_splits elim!: bind_SomeE)

lemma poke_opt_ledger [simp]:
  "G (poke_opt a c s) = G s" "pools (poke_opt a c s) = pools s" "wf_state (poke_opt a c s) = wf_state s" "surplus k p (poke_opt a c s) = surplus k p s"
  by (simp_all add: poke_opt_def)

lemma get_property_ledger:
  "hrx_device_get_property E d i out n s = Some (res, t) \<Longrightarrow>
     outer_same s t \<and> wf_state t = wf_state s \<and> (\<forall>k p. surplus k p t = surplus k p s)"
  by (auto simp: hrx_device_get_property_def ffi_pair Let_def split: if_splits prod.splits elim!: bind_SomeE
      dest!: status_eqD copy_cstr_ledger)

lemma plain_calls_ledger:
  "hrx_device_synchronize E d s = Some (res, t) \<Longrightarrow> wf_state t = wf_state s \<and> (\<forall>k p. surplus k p t = surplus k p s)"
  "hrx_device_get_type E d out s = Some (res, t) \<Longrightarrow> wf_state t = wf_state s \<and> (\<forall>k p. surplus k p t = surplus k p s)"
  "hrx_buffer_get_size E h out s = Some (res, t) \<Longrightarrow> wf_state t = wf_state s \<and> (\<forall>k p. surplus k p t = surplus k p s)"
  "hrx_synchronous_h2d E d src dst off n s = Some (res, t) \<Longrightarrow> wf_state t = wf_state s \<and> (\<forall>k p. surplus k p t = surplus k p s)"
  "hrx_synchronous_d2h E d src off dst n s = Some (res, t) \<Longrightarrow> wf_state t = wf_state s \<and> (\<forall>k p. surplus k p t = surplus k p s)"
  by (auto simp: hrx_device_synchronize_def hrx_device_get_type_def hrx_buffer_get_size_def hrx_synchronous_h2d_def
      hrx_synchronous_d2h_def ffi_pair Let_def split: if_splits elim!: bind_SomeE dest!: status_eqD)

lemma memory_calls_ledger:
  "hrx_allocator_query_virtual_memory E al mt supp mps rps s = Some (res, t) \<Longrightarrow>
     outer_same s t \<and> wf_state t = wf_state s \<and> (\<forall>k p. surplus k p t = surplus k p s)"
  "hrx_allocator_physical_memory_allocate E al mt n out s = Some (res, t) \<Longrightarrow>
     outer_same s t \<and> wf_state t = wf_state s \<and> (\<forall>k p. surplus k p t = surplus k p s)"
  "hrx_allocator_physical_memory_free E al ph s = Some (res, t) \<Longrightarrow>
     outer_same s t \<and> wf_state t = wf_state s \<and> (\<forall>k p. surplus k p t = surplus k p s)"
  "hrx_allocator_virtual_memory_map E al vb off ph poff n s = Some (res, t) \<Longrightarrow>
     outer_same s t \<and> wf_state t = wf_state s \<and> (\<forall>k p. surplus k p t = surplus k p s)"
  "hrx_allocator_virtual_memory_unmap E al vb off n s = Some (res, t) \<Longrightarrow>
     outer_same s t \<and> wf_state t = wf_state s \<and> (\<forall>k p. surplus k p t = surplus k p s)"
  "hrx_allocator_virtual_memory_protect E al vb off n pr s = Some (res, t) \<Longrightarrow>
     outer_same s t \<and> wf_state t = wf_state s \<and> (\<forall>k p. surplus k p t = surplus k p s)"
  by (auto simp: hrx_allocator_query_virtual_memory_def hrx_allocator_physical_memory_allocate_def
      hrx_allocator_physical_memory_free_def hrx_allocator_virtual_memory_map_def hrx_allocator_virtual_memory_unmap_def
      hrx_allocator_virtual_memory_protect_def ffi_pair Let_def split: if_splits elim!: bind_SomeE dest!: status_eqD)

lemma load_file_ledger:
  assumes "hrx_executable_load_file E F d path fmt out s = Some (res, t)" and "wf_state s"
  shows "wf_state t \<and> (\<forall>k p. surplus k p t = surplus k p s)"
  using assms
  by (auto simp: hrx_executable_load_file_def ffi_pair Let_def hrx_host_allocator_free_def
      split: if_splits prod.splits elim!: bind_SomeE dest!: status_eqD load_data_surplus)

lemma transfers_ledger:
  "hrx_queue_fill E d aff wl sl b off n pat psz s = Some (res, t) \<Longrightarrow> wf_state s \<Longrightarrow>
     wf_state t \<and> (\<forall>k p. surplus k p t = surplus k p s)"
  "hrx_queue_copy E d aff wl sl b off b' off' n s = Some (res, t) \<Longrightarrow> wf_state s \<Longrightarrow>
     wf_state t \<and> (\<forall>k p. surplus k p t = surplus k p s)"
  by (auto simp: hrx_queue_fill_def hrx_queue_copy_def split: if_splits dest!: status_eqD queue_one_shot_surplus)

lemma retains_ledger:
  "hrx_semaphore_retain h s = Some t \<Longrightarrow> wf_state s \<Longrightarrow> wf_state t \<and> (\<forall>k p. surplus k p t = surplus k p s)"
  "hrx_fence_retain h s = Some t \<Longrightarrow> wf_state s \<Longrightarrow> wf_state t \<and> (\<forall>k p. surplus k p t = surplus k p s)"
  "hrx_buffer_retain h s = Some t \<Longrightarrow> wf_state s \<Longrightarrow> wf_state t \<and> (\<forall>k p. surplus k p t = surplus k p s)"
  "hrx_buffer_view_retain h s = Some t \<Longrightarrow> wf_state s \<Longrightarrow> wf_state t \<and> (\<forall>k p. surplus k p t = surplus k p s)"
  "hrx_executable_retain h s = Some t \<Longrightarrow> wf_state s \<Longrightarrow> wf_state t \<and> (\<forall>k p. surplus k p t = surplus k p s)"
  "hrx_value_list_retain h s = Some t \<Longrightarrow> wf_state s \<Longrightarrow> wf_state t \<and> (\<forall>k p. surplus k p t = surplus k p s)"
  "hrx_module_retain h s = Some t \<Longrightarrow> wf_state s \<Longrightarrow> wf_state t \<and> (\<forall>k p. surplus k p t = surplus k p s)"
  "hrx_function_retain h s = Some t \<Longrightarrow> wf_state s \<Longrightarrow> wf_state t \<and> (\<forall>k p. surplus k p t = surplus k p s)"
  "hrx_stream_retain h s = Some t \<Longrightarrow> wf_state s \<Longrightarrow> wf_state t \<and> (\<forall>k p. surplus k p t = surplus k p s)"
  "hrx_device_retain h s = Some t \<Longrightarrow> wf_state s \<Longrightarrow> wf_state t \<and> (\<forall>k p. surplus k p t = surplus k p s)"
  by (simp_all add: hrx_semaphore_retain_def hrx_fence_retain_def hrx_buffer_retain_def hrx_buffer_view_retain_def
      hrx_executable_retain_def hrx_value_list_retain_def hrx_module_retain_def hrx_function_retain_def hrx_stream_retain_def
      hrx_device_retain_def handle_retain_surplus split: if_splits)

lemma device_G: "hrx_device_retain h s = Some t \<Longrightarrow> outer_same s t" "hrx_device_release E h s = Some t \<Longrightarrow> outer_same s t"
  using device_release_frame by (auto simp: hrx_device_retain_def dest: handle_retain_G)

lemmas object_G = get_property_ledger memory_calls_ledger sync_calls_G creates_G retains_G releases_G function_release_G view_create_G
  load_data_G load_vmfb_G load_file_G buffer_creates_G buffer_calls_G virtual_release_G queries_G function_calls_G queue_calls_G
  transfers_G host_G

lemmas object_ledger = get_property_ledger memory_calls_ledger plain_calls_ledger retains_ledger load_file_ledger transfers_ledger
  load_data_surplus executable_release_surplus executable_calls_surplus semaphore_create_surplus semaphore_release_surplus
  semaphore_calls_surplus fence_create_surplus fence_release_surplus fence_calls_surplus allocate_surplus buffer_release_surplus
  buffer_map_surplus virtual_memory_release_surplus buffer_view_create_surplus buffer_view_release_surplus
  buffer_view_calls_surplus value_list_create_surplus value_list_release_surplus value_list_calls_surplus load_vmfb_surplus
  module_release_surplus lookup_function_surplus function_release_surplus invoke_surplus queue_host_call_surplus
  queue_calls_surplus host_allocator_surplus device_release_surplus stream_create_surplus stream_release_surplus

lemma step_G:
  "create_step E K out res s t \<Longrightarrow> outer_same s t" "retain_step K h s t \<Longrightarrow> outer_same s t" "release_step E K h s t \<Longrightarrow> outer_same s t"
  "call_step E s t \<Longrightarrow> outer_same s t"
  by (auto simp: hrx_host_allocator_free_def hrx_host_allocator_free_aligned_def
      elim!: create_stepE retain_stepE release_stepE call_stepE dest: object_G device_G stream_life_G)

lemma step_ledger:
  assumes "wf_state s"
  shows "create_step E K out res s t \<Longrightarrow> wf_state t \<and> (\<forall>k p. p \<noteq> NULL \<longrightarrow> surplus k p t = surplus k p s)"
    and "retain_step K h s t \<Longrightarrow> wf_state t \<and> (\<forall>k p. p \<noteq> NULL \<longrightarrow> surplus k p t = surplus k p s)"
    and "release_step E K h s t \<Longrightarrow> wf_state t \<and> (\<forall>k p. p \<noteq> NULL \<longrightarrow> surplus k p t = surplus k p s)"
    and "call_step E s t \<Longrightarrow> wf_state t \<and> (\<forall>k p. p \<noteq> NULL \<longrightarrow> surplus k p t = surplus k p s)"
  using assms
  by (auto simp: hrx_host_allocator_free_def hrx_host_allocator_free_aligned_def
      elim!: create_stepE retain_stepE release_stepE call_stepE dest: object_ledger)

lemma accelerator_runtime: "accelerator_step E s t \<Longrightarrow> runtime_step E s t"
  by (erule accelerator_stepE) (blast intro: runtime_step.intros)+

lemma api_step_keeps:
  assumes "api_step E s t" and "reliable E" and "globals_ok (G s)" and "wf_state s"
  shows "keeps s t"
  using assms(1)
proof cases
  case accelerator
  then show ?thesis using accelerator_runtime runtime_step_keeps assms(2-4) by blast
next
  case (stream h)
  then show ?thesis
    using stream_step_G [of E h s t] stream_ledger.inv_step [of E h s t "\<lambda>k p. surplus k p s"] assms(3,4) by (simp add: keeps_def)
qed (use step_G step_ledger [OF assms(4)] assms(3) in \<open>simp_all add: keeps_def\<close>)

section \<open>Properties\<close>

definition api_run :: "env \<Rightarrow> hrx \<Rightarrow> hrx \<Rightarrow> bool" where
  "api_run E s t \<longleftrightarrow> reliable E \<and> api_step E s t"

interpretation api: preserved "api_run E"
  "\<lambda>s. globals_ok (G s) \<and> wf_state s \<and> (\<forall>k p. p \<noteq> NULL \<longrightarrow> surplus k p s = n k p)"
  for E :: env and n :: "iree_kind \<Rightarrow> ptr \<Rightarrow> int"
  by unfold_locales (use api_step_keeps in \<open>auto simp: api_run_def keeps_def\<close>)

lemma refs_nonneg: "0 \<le> raw_ref k p k' q" "0 \<le> obj_refs k p x" "0 \<le> pool_refs k p y"
  by (cases x; auto simp: raw_ref_def one_ref_def pool_refs_def split: option.splits)+

lemma held_nonneg: "0 \<le> held k p s"
  by (auto simp: held_def global_refs_def entries_sum_def refs_nonneg intro!: add_nonneg_nonneg sum_nonneg split: option.splits)

lemma held_nothing:
  assumes "globals_ok g" and "\<not> acc_initialized (g_cpu g)" and "\<not> acc_initialized (g_gpu g)" and "p \<noteq> NULL"
  shows "global_refs k p g = 0"
  using assms by (auto simp: globals_ok_def shared_ok_def accel_ok_def users_def global_refs_def raw_ref_def one_ref_def)



end
