(* ===== verification/Handle_Steps.thy ===== *)
theory Handle_Steps
  imports Api
begin

text \<open>
  What each call of the interface does to the client's handles. A creating call that succeeds
  stores a new handle through its out-pointer and makes the client an owner of it; one that fails
  leaves every handle as it was.
\<close>

section \<open>Creating calls\<close>

definition gives :: "hkind \<Rightarrow> ptr \<Rightarrow> hrx_status \<Rightarrow> hrx \<Rightarrow> hrx \<Rightarrow> bool" where
  "gives K out res s t \<longleftrightarrow>
     (if res = None then \<exists>x. x \<noteq> NULL \<and> mem t out = CPtr x \<and> (\<forall>k h. owed k h t = owed k h s + one_handle k h K x)
      else \<forall>k h. owed k h t = owed k h s)"

lemma make_status_gives:
  assumes "hrx_make_status E c m s = (res, t)"
  shows "(wf_state t \<longleftrightarrow> wf_state s) \<and> arcs t = arcs s \<and> mem t = mem s \<and> next_addr t = next_addr s \<and>
    (\<forall>k h. owed k h t = owed k h s) \<and> (reliable E \<longrightarrow> c \<noteq> 0 \<longrightarrow> res \<noteq> None)"
  using status_owed(1) [OF assms] reliable_make_eqD [OF assms] by blast

lemma from_iree_gives:
  assumes "hrx_status_from_iree E st s = (res, t)"
  shows "(wf_state t \<longleftrightarrow> wf_state s) \<and> arcs t = arcs s \<and> mem t = mem s \<and> next_addr t = next_addr s \<and>
    (\<forall>k h. owed k h t = owed k h s) \<and> (reliable E \<longrightarrow> (res = None \<longleftrightarrow> st = NULL))"
  using status_owed(2) [OF assms] reliable_from_iree_eqD [OF assms] by blast

lemma create_owned_gives:
  assumes "create_owned E f s = Some (x, t)"
  shows "(wf_state t \<longleftrightarrow> wf_state s) \<and> arcs t = arcs s \<and> mem t = mem s \<and> next_addr t = next_addr s \<and>
    (\<forall>k h. owed k h t = owed k h s) \<and> x \<noteq> Inl NULL"
  using create_owned_owed [OF assms] assms
  by (auto simp: create_owned_def ffi_pair status_is_ok_def split: if_splits option.splits elim!: bind_SomeE)

lemma next_addr_pos: "wf_state s \<Longrightarrow> 0 < next_addr s"
  by (simp add: wf_state_def wf_heap_def)

lemmas creating = make_status_gives from_iree_gives create_owned_gives DeviceRef_retain_owed

lemma semaphore_create_handle_gives:
  assumes "semaphore_create_handle E d v s = Some (res, x, t)" and "wf_state s" and "reliable E"
  shows "wf_state t \<and> mem t = mem s \<and> (case x of None \<Rightarrow> res \<noteq> None \<and> (\<forall>k h. owed k h t = owed k h s)
    | Some h' \<Rightarrow> res = None \<and> h' \<noteq> NULL \<and> (\<forall>k h. owed k h t = owed k h s + one_handle k h HSemaphore h'))"
  using assms
  by (auto simp: semaphore_create_handle_def semaphore_create_def ffi_pair Let_def into_handle_eq next_addr_pos hrx_ok_status_def
      split: if_splits sum.splits prod.splits option.splits elim!: bind_SomeE dest!: creating)

lemma synchronisation_creates:
  assumes "wf_state s" and "reliable E"
  shows "hrx_semaphore_create E d v out s = Some (res, t) \<Longrightarrow> gives HSemaphore out res s t"
    and "hrx_fence_create E n out s = Some (res, t) \<Longrightarrow> gives HFence out res s t"
    and "hrx_fence_create_at E x v out s = Some (res, t) \<Longrightarrow> gives HFence out res s t"
    and "hrx_value_list_create E n out s = Some (res, t) \<Longrightarrow> gives HValueList out res s t"
  using assms
  by (auto simp: hrx_semaphore_create_def hrx_fence_create_def hrx_fence_create_at_def hrx_value_list_create_def
      fence_create_def fence_create_at_def gives_def ffi_pair Let_def into_handle_eq next_addr_pos hrx_ok_status_def
      status_is_ok_def split: if_splits sum.splits prod.splits option.splits
      elim!: bind_SomeE dest!: semaphore_create_handle_gives creating)

lemma finish_buffer_gives:
  assumes "finish_buffer E f d mt sz out s = Some (res, t)" and "wf_state s" and "reliable E"
  shows "gives HBuffer out res s t"
  using assms
  by (auto simp: finish_buffer_def new_buffer_def gives_def ffi_pair Let_def into_handle_eq next_addr_pos hrx_ok_status_def
      status_is_ok_def split: if_splits prod.splits option.splits elim!: bind_SomeE dest!: creating)

lemma buffer_creates:
  assumes "wf_state s" and "reliable E"
  shows "hrx_allocator_allocate_buffer E al ps n out s = Some (res, t) \<Longrightarrow> gives HBuffer out res s t"
    and "hrx_allocator_import_buffer E al ps host n out s = Some (res, t) \<Longrightarrow> gives HBuffer out res s t"
    and "hrx_allocator_virtual_memory_reserve E al aff n out s = Some (res, t) \<Longrightarrow> gives HBuffer out res s t"
    and "hrx_buffer_view_create E x n' sh et enc out s = Some (res, t) \<Longrightarrow> gives HBufferView out res s t"
  using assms
  by (auto simp: hrx_allocator_allocate_buffer_def hrx_allocator_import_buffer_def hrx_allocator_virtual_memory_reserve_def
      hrx_buffer_view_create_def buffer_view_create_def ffi_pair gives_def Let_def into_handle_eq next_addr_pos hrx_ok_status_def
      split: if_splits sum.splits prod.splits elim!: bind_SomeE dest!: finish_buffer_gives creating)

lemma load_data_gives:
  assumes "hrx_executable_load_data E d data n fmt out s = Some (res, t)" and "wf_state s" and "reliable E"
  shows "gives HExecutable out res s t"
  using assms
  by (auto simp: hrx_executable_load_data_def wrap_executable_def gives_def ffi_pair Let_def into_handle_eq next_addr_pos
      hrx_ok_status_def status_is_ok_def split: if_splits prod.splits elim!: bind_SomeE dest!: creating)

lemma module_creates:
  assumes "wf_state s" and "reliable E"
  shows "hrx_module_load_vmfb E d data n out s = Some (res, t) \<Longrightarrow> gives HModule out res s t"
  using assms
  by (auto simp: hrx_module_load_vmfb_def shared_vm_instance_def HalVmModule_drop_def gives_def ffi_pair Let_def into_handle_eq
      next_addr_pos hrx_ok_status_def status_is_ok_def split: if_splits prod.splits elim!: bind_SomeE dest!: creating)

lemma stream_create_gives:
  assumes "hrx_stream_create E d fl out s = Some (res, t)" and "wf_state s" and "reliable E"
  shows "gives HStream out res s t"
  using assms
  by (auto simp: hrx_stream_create_def gives_def Let_def into_handle_eq next_addr_pos hrx_ok_status_def hrx_status_is_ok_def
      split: if_splits prod.splits option.splits elim!: bind_SomeE
      dest!: semaphore_create_handle_gives DeviceRef_drop_owed creating)

lemma ModuleRef_retain_owed:
  assumes "ModuleRef_retain m s = Some (m', t)" and "wf_state s"
  shows "m' = m \<and> wf_state t \<and> mem t = mem s \<and> next_addr t = next_addr s \<and>
    (\<forall>k h. owed k h t = owed k h s + one_handle k h HModule m)"
  using assms retains_owed(8) retains_ledger(7) handle_retain_frame
  by (fastforce simp: ModuleRef_retain_def hrx_module_retain_def elim!: bind_SomeE)

lemma lookup_function_gives:
  assumes "hrx_module_lookup_function E x nm out s = Some (res, t)" and "wf_state s" and "reliable E"
  shows "gives HFunction out res s t"
  using assms
  by (auto simp: hrx_module_lookup_function_def gives_def ffi_pair Let_def into_handle_eq next_addr_pos
      hrx_ok_status_def status_is_ok_def split: if_splits prod.splits option.splits elim!: bind_SomeE
      dest!: ModuleRef_retain_owed creating)

lemma gives_trans:
  "gives K out res u v \<Longrightarrow> (\<And>k h. owed k h u = owed k h s) \<Longrightarrow> (\<And>k h. owed k h t = owed k h v) \<Longrightarrow> mem t = mem v \<Longrightarrow>
     gives K out res s t"
  by (auto simp: gives_def)

lemma gives_failed: "res \<noteq> None \<Longrightarrow> gives K out res s t \<longleftrightarrow> (\<forall>k h. owed k h t = owed k h s)"
  by (auto simp: gives_def)

lemma load_file_gives:
  assumes "hrx_executable_load_file E F d path fmt out s = Some (res, t)" and "wf_state s" and "reliable E"
  shows "gives HExecutable out res s t"
  using assms
  by (auto simp: hrx_executable_load_file_def fclose_def ffi_pair Let_def hrx_host_allocator_free_def gives_failed
      hrx_status_is_ok_def split: if_splits prod.splits elim!: bind_SomeE dest!: load_data_gives creating
      elim!: gives_trans)

lemma virtual_release_owed:
  assumes "hrx_allocator_virtual_memory_release E al vb s = Some (res, t)" and "wf_state s"
  shows "owed k h t = owed k h s - (if al = NULL \<or> vb = NULL then 0 else one_handle k h HBuffer vb)"
  using assms
  by (auto simp: hrx_allocator_virtual_memory_release_def ffi_pair Let_def split: if_splits option.splits prod.splits
      elim!: bind_SomeE dest!: creating buffer_count.into_inner_owed DeviceRef_drop_owed)

section \<open>Other calls\<close>

text \<open>
  The skeleton of the heap: the counts, and for each object its type and the handles it owns. A
  call that keeps it and the globals changes nobody's share.
\<close>

definition skeleton :: "hrx \<Rightarrow> ptr \<Rightarrow> (nat \<times> hkind \<times> (hkind \<Rightarrow> ptr \<Rightarrow> int)) option" where
  "skeleton s h = map_option (\<lambda>a. (strong a, hkind_of (arc_obj a), \<lambda>k h'. inner_handles k h' (arc_obj a))) (arcs s h)"

lemma skeleton_cong: "arcs t = arcs s \<Longrightarrow> skeleton t = skeleton s"
  by (simp add: fun_eq_iff skeleton_def)

lemma skeleton_dom: "dom (arcs s) = dom (skeleton s)"
  by (auto simp: skeleton_def dom_def)

lemma skeleton_owed:
  assumes "skeleton t = skeleton s" and "G t = G s"
  shows "owed k h t = owed k h s"
proof -
  have o: "handle_count k x u = opt_weight (\<lambda>(n, k', i). if k' = k then int n else 0) (skeleton u x)" for u x
    by (cases "arcs u x") (simp_all add: handle_count_def skeleton_def)
  have i: "inner k h u = (\<Sum>x\<in>dom (arcs u). opt_weight (\<lambda>(n, k', i). i k h) (skeleton u x))" for u
    unfolding inner_def entries_sum_def by (intro sum.cong) (auto simp: skeleton_def)
  show ?thesis using o i assms skeleton_dom by (simp add: owed_def)
qed

lemma skeleton_effects [simp]:
  "skeleton (ffi_do E c s) = skeleton s" "skeleton (poke a x s) = skeleton s" "skeleton (poke_opt a x s) = skeleton s"
  "skeleton (poke_bytes a bs s) = skeleton s" "skeleton (s\<lparr>thunks := th\<rparr>) = skeleton s"
  by (induction bs arbitrary: a s; simp add: poke_opt_def skeleton_def fun_eq_iff)+

text \<open>Writing undo a stream or a buffer that has kept its owned handles.\<close>

lemma skeleton_set:
  assumes "arcs s h = Some a" and "hkind_of x = hkind_of (arc_obj a)"
    and "\<And>k h'. inner_handles k h' x = inner_handles k h' (arc_obj a)"
  shows "skeleton (handle_set h x s) = skeleton s"
  using assms by (auto simp: skeleton_def handle_set_def fun_eq_iff)

lemma skeleton_stream_set:
  assumes "handle_ref as_stream h s = Some st" and "arcs u = arcs s"
    and "st_semaphore st' = st_semaphore st" and "st_device st' = st_device st"
  shows "skeleton (handle_set h (OStream st') u) = skeleton s"
  using assms skeleton_set [of u h _ "OStream st'"] skeleton_cong [of u s] by (auto dest: handle_ref_as_streamD)

lemma status_skeleton:
  "hrx_make_status E c m s = (res, t) \<Longrightarrow> skeleton t = skeleton s" "hrx_status_from_iree E st s = (res, t) \<Longrightarrow> skeleton t = skeleton s"
  by (auto dest!: status_eqD intro: skeleton_cong)

lemma plain_calls_skeleton:
  "hrx_device_synchronize E d s = Some (res, t) \<Longrightarrow> skeleton t = skeleton s"
  "hrx_device_get_type E d out s = Some (res, t) \<Longrightarrow> skeleton t = skeleton s"
  "hrx_buffer_get_size E h out s = Some (res, t) \<Longrightarrow> skeleton t = skeleton s"
  "hrx_synchronous_h2d E d src dst off n s = Some (res, t) \<Longrightarrow> skeleton t = skeleton s"
  "hrx_synchronous_d2h E d src off dst n s = Some (res, t) \<Longrightarrow> skeleton t = skeleton s"
  by (auto simp: hrx_device_synchronize_def hrx_device_get_type_def hrx_buffer_get_size_def hrx_synchronous_h2d_def
      hrx_synchronous_d2h_def ffi_pair Let_def split: if_splits elim!: bind_SomeE dest!: status_skeleton)

lemma get_property_skeleton:
  "hrx_device_get_property E d i out n s = Some (res, t) \<Longrightarrow> skeleton t = skeleton s"
  by (auto simp: hrx_device_get_property_def copy_cstr_def ffi_pair Let_def split: if_splits prod.splits elim!: bind_SomeE
      dest!: status_skeleton)

lemma sync_calls_skeleton:
  "hrx_semaphore_query E h out s = Some (res, t) \<Longrightarrow> skeleton t = skeleton s"
  "hrx_semaphore_wait E h v ns s = Some (res, t) \<Longrightarrow> skeleton t = skeleton s"
  "hrx_semaphore_signal E h v s = Some (res, t) \<Longrightarrow> skeleton t = skeleton s"
  "hrx_fence_insert E h h' v s = Some (res, t) \<Longrightarrow> skeleton t = skeleton s"
  "hrx_fence_extend E h h' s = Some (res, t) \<Longrightarrow> skeleton t = skeleton s"
  "hrx_fence_signal E h s = Some (res, t) \<Longrightarrow> skeleton t = skeleton s"
  "hrx_fence_wait E h ns s = Some (res, t) \<Longrightarrow> skeleton t = skeleton s"
  by (auto simp: hrx_semaphore_query_def hrx_semaphore_wait_def
      hrx_semaphore_signal_def hrx_fence_insert_def hrx_fence_extend_def hrx_fence_signal_def hrx_fence_wait_def
      HalSemaphore_query_into_def HalSemaphore_wait_def HalSemaphore_signal_def HalFence_insert_def HalFence_extend_def
      HalFence_signal_def HalFence_wait_def ffi_pair Let_def
      split: if_splits prod.splits option.splits elim!: bind_SomeE dest!: status_skeleton)

lemma queries_skeleton:
  "hrx_buffer_view_rank E h out s = Some (res, t) \<Longrightarrow> skeleton t = skeleton s"
  "hrx_buffer_view_dim E h i out s = Some (res, t) \<Longrightarrow> skeleton t = skeleton s"
  "hrx_executable_export_count E h out s = Some (res, t) \<Longrightarrow> skeleton t = skeleton s"
  "hrx_executable_export_info E h j out s = Some (res, t) \<Longrightarrow> skeleton t = skeleton s"
  "hrx_executable_lookup_export_by_name E h nm out s = Some (res, t) \<Longrightarrow> skeleton t = skeleton s"
  "hrx_value_list_size E h out s = Some (res, t) \<Longrightarrow> skeleton t = skeleton s"
  "hrx_value_list_push_i64 E h v s = Some (res, t) \<Longrightarrow> skeleton t = skeleton s"
  "hrx_value_list_push_null_ref E h s = Some (res, t) \<Longrightarrow> skeleton t = skeleton s"
  "hrx_value_list_get_i64 E h i out s = Some (res, t) \<Longrightarrow> skeleton t = skeleton s"
  "hrx_function_invoke E h f xs ys s = Some (res, t) \<Longrightarrow> skeleton t = skeleton s"
  by (auto simp: hrx_buffer_view_rank_def hrx_buffer_view_dim_def hrx_executable_export_count_def hrx_executable_export_info_def
      hrx_executable_lookup_export_by_name_def hrx_value_list_size_def hrx_value_list_push_i64_def
      hrx_value_list_push_null_ref_def hrx_value_list_get_i64_def hrx_function_invoke_def HalBufferView_shape_rank_def
      HalBufferView_shape_dim_def ffi_pair Let_def
      split: if_splits option.splits prod.splits elim!: bind_SomeE dest!: status_skeleton)

lemma memory_calls_skeleton:
  "hrx_allocator_query_virtual_memory E al mt supp mps rps s = Some (res, t) \<Longrightarrow> skeleton t = skeleton s"
  "hrx_allocator_physical_memory_allocate E al mt n out s = Some (res, t) \<Longrightarrow> skeleton t = skeleton s"
  "hrx_allocator_physical_memory_free E al ph s = Some (res, t) \<Longrightarrow> skeleton t = skeleton s"
  "hrx_allocator_virtual_memory_map E al vb off ph poff n s = Some (res, t) \<Longrightarrow> skeleton t = skeleton s"
  "hrx_allocator_virtual_memory_unmap E al vb off n s = Some (res, t) \<Longrightarrow> skeleton t = skeleton s"
  "hrx_allocator_virtual_memory_protect E al vb off n pr s = Some (res, t) \<Longrightarrow> skeleton t = skeleton s"
  by (auto simp: hrx_allocator_query_virtual_memory_def hrx_allocator_physical_memory_allocate_def
      hrx_allocator_physical_memory_free_def hrx_allocator_virtual_memory_map_def hrx_allocator_virtual_memory_unmap_def
      hrx_allocator_virtual_memory_protect_def ffi_pair Let_def split: if_splits elim!: bind_SomeE dest!: status_skeleton)

lemma one_shot_skeleton: "queue_one_shot E d aff wl sl rc s = Some (res, t) \<Longrightarrow> skeleton t = skeleton s"
  by (auto simp: queue_one_shot_def ffi_pair Let_def split: if_splits elim!: bind_SomeE dest!: status_skeleton)

lemma queue_calls_skeleton:
  "hrx_queue_fill E d aff wl sl b off n pat psz s = Some (res, t) \<Longrightarrow> skeleton t = skeleton s"
  "hrx_queue_copy E d aff wl sl b off b' off' n s = Some (res, t) \<Longrightarrow> skeleton t = skeleton s"
  "hrx_queue_barrier E d aff wl sl s = Some (res, t) \<Longrightarrow> skeleton t = skeleton s"
  "hrx_queue_dispatch E d aff wl sl exe ord cfg cs csz bs bn fl s = Some (res, t) \<Longrightarrow> skeleton t = skeleton s"
  by (auto simp: hrx_queue_barrier_def hrx_queue_fill_def hrx_queue_copy_def hrx_queue_dispatch_def ffi_pair Let_def
      split: if_splits option.splits prod.splits sum.splits elim!: bind_SomeE dest!: status_skeleton one_shot_skeleton)

lemma thunk_skeleton [simp]: "skeleton (snd (new_thunk th s)) = skeleton s" "skeleton (free_thunk h s) = skeleton s"
  by (auto simp: new_thunk_def free_thunk_def skeleton_def fun_eq_iff)

lemma malloc_skeleton: "libc_malloc E s = (b, t) \<Longrightarrow> skeleton t = skeleton s"
  by (auto dest!: libc_malloc_eqD intro: skeleton_cong)

lemma host_call_skeleton:
  "hrx_queue_host_call E d aff wl sl cb ud s = Some (res, t) \<Longrightarrow> skeleton t = skeleton s"
  by (auto simp: hrx_queue_host_call_def new_thunk_eq ffi_pair Let_def
      split: if_splits option.splits prod.splits sum.splits elim!: bind_SomeE dest!: status_skeleton malloc_skeleton)

lemma skeleton_buffer_set:
  assumes "handle_ref as_buffer h s = Some b" and "arcs u = arcs s" and "buf_device b' = buf_device b"
  shows "skeleton (handle_set h (OBuffer b') u) = skeleton s"
  using assms skeleton_set [of u h _ "OBuffer b'"] skeleton_cong [of u s] by (auto dest: handle_ref_as_bufferD)

lemma buffer_map_skeleton:
  "hrx_buffer_map E h fl off n out s = Some (res, t) \<Longrightarrow> skeleton t = skeleton s"
  "hrx_buffer_unmap E h s = Some (res, t) \<Longrightarrow> skeleton t = skeleton s"
  "hrx_buffer_get_device_ptr E h out s = Some (res, t) \<Longrightarrow> skeleton t = skeleton s"
  by (auto simp: hrx_buffer_map_def hrx_buffer_unmap_def hrx_buffer_get_device_ptr_def ffi_pair Let_def skeleton_buffer_set
      split: if_splits option.splits prod.splits elim!: bind_SomeE dest!: status_skeleton)

lemma host_skeleton:
  "hrx_host_allocator_malloc E ha n out s = (res, t) \<Longrightarrow> skeleton t = skeleton s"
  "hrx_host_allocator_malloc_uninitialized E ha n out s = (res, t) \<Longrightarrow> skeleton t = skeleton s"
  "hrx_host_allocator_realloc E ha n out s = Some (res, t) \<Longrightarrow> skeleton t = skeleton s"
  "hrx_host_allocator_clone E ha src n out s = (res, t) \<Longrightarrow> skeleton t = skeleton s"
  "hrx_host_allocator_malloc_aligned E ha n alg off out s = (res, t) \<Longrightarrow> skeleton t = skeleton s"
  "hrx_host_allocator_realloc_aligned E ha n alg off out s = Some (res, t) \<Longrightarrow> skeleton t = skeleton s"
  by (auto simp: hrx_host_allocator_malloc_def hrx_host_allocator_malloc_uninitialized_def hrx_host_allocator_realloc_def
      hrx_host_allocator_clone_def hrx_host_allocator_malloc_aligned_def hrx_host_allocator_realloc_aligned_def
      elim!: bind_SomeE dest!: host_alloc_call_frame intro: skeleton_cong)

section \<open>Calls on a stream\<close>

lemma flush_skeleton: "hrx_stream_flush E h s = Some (res, t) \<Longrightarrow> skeleton t = skeleton s"
  by (auto simp: hrx_stream_flush_def skeleton_stream_set split: if_splits
      elim!: bind_SomeE dest!: status_skeleton flush_inner_owed)

lemma wait_skeleton: "hrx_stream_wait E h s = Some (res, t) \<Longrightarrow> skeleton t = skeleton s"
  by (auto simp: hrx_stream_wait_def split: if_splits elim!: bind_SomeE dest!: status_skeleton sync_calls_skeleton)

lemma record_op_skeleton:
  assumes "record_op E h mk s = Some (res, t)"
  shows "skeleton t = skeleton s"
proof -
  obtain st r0 st1 u where st: "handle_ref as_stream h s = Some st" "begin_cb E st s = Some (r0, st1, u)"
    using assms by (auto simp: record_op_def elim!: bind_SomeE)
  note B = begin_cb_eqD [OF st(2)]
  note set1 = skeleton_stream_set [OF st(1), of u st1]
  have h: "handle_ref as_stream h (handle_set h (OStream st1) u) = Some st1"
    using st(1) B by (auto dest!: handle_ref_as_streamD)
  show ?thesis
    using assms st B set1 skeleton_stream_set [OF h]
    by (auto simp: record_op_def record_ordering_barrier_def ffi_pair Let_def split: if_splits sum.splits
        elim!: bind_SomeE dest!: status_skeleton)
qed

lemma stream_records_skeleton:
  "hrx_stream_fill_buffer E h b off n pat psz s = Some (res, t) \<Longrightarrow> skeleton t = skeleton s"
  "hrx_stream_copy_buffer E h b off b' off' n s = Some (res, t) \<Longrightarrow> skeleton t = skeleton s"
  "hrx_stream_update_buffer E h data n b off s = Some (res, t) \<Longrightarrow> skeleton t = skeleton s"
  "hrx_stream_dispatch E h exe ord cfg cs csz bs bn fl s = Some (res, t) \<Longrightarrow> skeleton t = skeleton s"
  by (auto simp: hrx_stream_fill_buffer_def hrx_stream_copy_buffer_def hrx_stream_update_buffer_def hrx_stream_dispatch_def
      split: if_splits dest!: status_skeleton record_op_skeleton)

lemma barrier_skeleton:
  assumes "hrx_stream_execution_barrier E h s = Some (res, t)"
  shows "skeleton t = skeleton s"
proof (cases "h = NULL")
  case True
  then show ?thesis using assms by (auto simp: hrx_stream_execution_barrier_def dest!: status_skeleton)
next
  case False
  then obtain st r0 st1 u where st: "handle_ref as_stream h s = Some st" "begin_cb E st s = Some (r0, st1, u)"
    using assms by (auto simp: hrx_stream_execution_barrier_def elim!: bind_SomeE)
  note B = begin_cb_eqD [OF st(2)]
  have h: "handle_ref as_stream h (handle_set h (OStream st1) u) = Some st1"
    using st(1) B by (auto dest!: handle_ref_as_streamD)
  show ?thesis
    using assms False st B skeleton_stream_set [OF st(1), of u st1] skeleton_stream_set [OF h]
    by (auto simp: hrx_stream_execution_barrier_def ffi_pair Let_def split: if_splits elim!: bind_SomeE dest!: status_skeleton)
qed

lemma stream_queries_skeleton:
  "hrx_stream_synchronize E h s = Some (res, t) \<Longrightarrow> skeleton t = skeleton s"
  "hrx_stream_query E h out s = Some (res, t) \<Longrightarrow> skeleton t = skeleton s"
  "hrx_stream_get_semaphore E h out s = Some (res, t) \<Longrightarrow> skeleton t = skeleton s"
  "hrx_stream_get_device E h out s = Some (res, t) \<Longrightarrow> skeleton t = skeleton s"
  "hrx_stream_get_timeline_position E h out s = Some (res, t) \<Longrightarrow> skeleton t = skeleton s"
  "hrx_stream_advance_timeline E h out s = Some (res, t) \<Longrightarrow> skeleton t = skeleton s"
  "hrx_stream_wait_on E h pos s = Some (res, t) \<Longrightarrow> skeleton t = skeleton s"
  by (auto simp: hrx_stream_synchronize_def hrx_stream_query_def semaphore_query_local_def hrx_stream_get_semaphore_def
      hrx_stream_get_device_def hrx_stream_get_timeline_position_def hrx_stream_advance_timeline_def hrx_stream_wait_on_def
      ffi_pair Let_def skeleton_stream_set split: if_splits prod.splits elim!: bind_SomeE
      dest!: status_skeleton flush_skeleton wait_skeleton)

lemma stream_step_skeleton: "stream_step E h s t \<Longrightarrow> skeleton t = skeleton s"
  by (erule stream_step.cases)
    (blast dest: stream_records_skeleton barrier_skeleton flush_skeleton wait_skeleton stream_queries_skeleton)+

section \<open>The runtime\<close>

text \<open>
  Starting and stopping an accelerator moves its devices into and out of the device list: the list
  owns what the client does not.
\<close>

definition listed :: "hkind \<Rightarrow> ptr \<Rightarrow> ptr list \<Rightarrow> int" where
  "listed k h ds = (if k = HDevice then int (count_list ds h) else 0)"

lemma listed_simps [simp]:
  "listed k h [] = 0" "listed k h (d # ds) = one_handle k h HDevice d + listed k h ds"
  "listed k h (ds @ es) = listed k h ds + listed k h es"
  by (auto simp: listed_def one_handle_def)

lemma owed_upd:
  "owed k h (upd_cpu f s) = owed k h s + listed k h (acc_devices (g_cpu (G s))) - listed k h (acc_devices (f (g_cpu (G s))))"
  "owed k h (upd_gpu f s) = owed k h s + listed k h (acc_devices (g_gpu (G s))) - listed k h (acc_devices (f (g_gpu (G s))))"
  "owed k h (upd_shared g s) = owed k h s" "owed k h (s\<lparr>pool_for_device := q\<rparr>) = owed k h s"
  by (simp_all add: owed_def handle_count_def inner_def global_handles_def listed_def)

text \<open>What the parts of an initialisation have in common.\<close>

definition same_devices :: "hrx \<Rightarrow> hrx \<Rightarrow> bool" where
  "same_devices s t \<longleftrightarrow> pools t = pools s \<and> g_cpu (G t) = g_cpu (G s) \<and> g_gpu (G t) = g_gpu (G s) \<and> (wf_state t \<longleftrightarrow> wf_state s) \<and>
     (\<forall>k h. owed k h t = owed k h s)"

lemma same_devicesI:
  assumes "arcs t = arcs s" and "pools t = pools s" and "g_cpu (G t) = g_cpu (G s)" and "g_gpu (G t) = g_gpu (G s)" and "wf_state t \<longleftrightarrow> wf_state s"
  shows "same_devices s t"
  using assms by (simp add: same_devices_def owed_def handle_count_def inner_def global_handles_def)

lemma same_devices_trans: "same_devices s t \<Longrightarrow> same_devices t u \<Longrightarrow> same_devices s u"
  by (simp add: same_devices_def)

lemma setup_same_devices:
  "ensure_shared_state E s = (res, t) \<Longrightarrow> same_devices s t"
  "same_devices s (release_shared_state E s)"
  "create_local_task_device E n s = Some (x, t) \<Longrightarrow> same_devices s t"
  "create_single_device_group E d s = (st, gr, t) \<Longrightarrow> same_devices s t"
  "gpu_architecture E d s = (arch, t) \<Longrightarrow> same_devices s t"
  "gpu_open_driver E s = (y, t) \<Longrightarrow> same_devices s t"
  by (cases x; auto intro!: same_devicesI dest!: ensure_shared_frame local_task_InlD local_task_InrD create_group_eqD
      gpu_architecture_eqD gpu_open_driver_eqD simp: release_shared_frame)+

lemma new_device_owed:
  assumes "new_device ty ord d gr a name arch s = Some (x, t)" and "wf_state s"
  shows "G t = G s \<and> pools t = pools s \<and> wf_state t \<and> (\<forall>k h. owed k h t = owed k h s + one_handle k h HDevice x)"
  using assms new_device_eqD [OF assms(1)]
  by (auto simp: new_device_def into_handle_cyclic_def into_handle_eq elim!: bind_SomeE)

lemma release_devices_owed:
  assumes "release_devices E ds s = Some t" and "wf_state s"
  shows "owed k h t = owed k h s - listed k h ds"
  using assms
proof (induction ds arbitrary: s)
  case (Cons d ds)
  then obtain u where u: "hrx_device_release E d s = Some u" "release_devices E ds u = Some t"
    by (auto elim: bind_SomeE)
  show ?case using Cons.IH [OF u(2)] releases_owed(1) [OF Cons.prems(2) u(1)] device_release_surplus [OF u(1)] Cons.prems(2)
    by simp
qed simp

lemma gpu_device_step_owed:
  assumes "gpu_device_step E driver pool idx info n s = Some (x, t)" and "wf_state s"
  shows "G t = G s \<and> wf_state t \<and>
    (\<forall>k h. owed k h t = owed k h s + (case x of Inl _ \<Rightarrow> 0 | Inr d \<Rightarrow> one_handle k h HDevice d))"
proof (cases x)
  case (Inl st)
  then show ?thesis using assms gpu_device_step_InlD [of E driver pool idx info n s st t] owed_cong [of t s] by simp
next
  case (Inr d)
  then show ?thesis
    using assms
    by (auto simp: gpu_device_step_def ffi_pair Let_def split: if_splits prod.splits elim!: bind_SomeE
        dest!: create_group_eqD gpu_architecture_eqD new_device_owed intro: owed_cong)
qed

lemma gpu_device_loop_owed:
  assumes "gpu_device_loop E driver pool cnt idx infos devices s = Some (err, ds, t)" and "wf_state s"
  shows "owed k h t = owed k h s + listed k h ds - listed k h devices"
  using assms
proof (induction infos arbitrary: idx devices s)
  case (Cons info infos)
  show ?case
  proof (cases "length devices < cnt \<and> is_physical info")
    case False
    then show ?thesis using Cons by (auto split: if_splits)
  next
    case True
    then obtain x u where x: "gpu_device_step E driver pool idx info (length devices) s = Some (x, u)"
      using Cons.prems by (auto elim!: bind_SomeE)
    show ?thesis
      using Cons.prems(1) Cons.IH [of "Suc idx" _ u] True x gpu_device_step_owed [OF x Cons.prems(2)]
      by (auto split: sum.splits)
  qed
qed auto

lemma gpu_open_devices_owed:
  assumes "gpu_open_devices E alloc pool driver s = Some (y, t)" and "wf_state s"
  shows "owed k h t = owed k h s + (case y of Inl _ \<Rightarrow> 0 | Inr ds \<Rightarrow> listed k h ds)"
proof -
  have w: "wf_state u" if "gpu_device_loop E driver pool c i infos ds v = Some (err, ds', u)" "wf_state v" for c i infos ds v err ds' u
    using gpu_device_loop_ledger [OF that] by simp
  show ?thesis
    using assms
    by (auto simp: gpu_open_devices_def ffi_pair Let_def gpu_device_loop_owed release_devices_owed w
        split: if_splits option.splits elim!: bind_SomeE)
qed

lemma same_devices_statusD:
  assumes "hrx_make_status E c m u = (res, t) \<or> hrx_status_from_iree E st u = (res, t)" and "same_devices s u"
  shows "same_devices s t"
  using assms same_devicesI [of t u] same_devices_trans [of s u t] by (auto dest!: status_eqD)

lemma cpu_initialize_owed:
  assumes op: "hrx_cpu_initialize E fl s = Some (res, t)" and ok: "accel_ok (g_cpu (G s))" and ws: "wf_state s"
  shows "pools t = pools s \<and> owed k h t = owed k h s"
proof (cases "acc_initialized (g_cpu (G s))")
  case True
  then show ?thesis using op by (auto simp: hrx_cpu_initialize_def dest!: status_owed)
next
  case ni: False
  then have [simp]: "acc_devices (g_cpu (G s)) = []" using ok by (simp add: accel_ok_def)
  have undo: "owed k h (release_shared_state E u) = owed k h u" "pools (release_shared_state E u) = pools u" for u
    using setup_same_devices(2) [of u E] by (simp_all add: same_devices_def)
  have grp: "pools u = pools v" "wf_state u \<longleftrightarrow> wf_state v" "owed k h u = owed k h v" "g_cpu (G u) = g_cpu (G v)"
    if "create_single_device_group E d v = (st, gr, u)" for d v st gr u
    using setup_same_devices(4) [OF that] by (auto simp: same_devices_def)
  have task: "pools u = pools v" "wf_state u \<longleftrightarrow> wf_state v" "owed k h u = owed k h v" "g_cpu (G u) = g_cpu (G v)"
    if "create_local_task_device E n v = Some (x, u)" for n v x u
    using setup_same_devices(3) [OF that] by (auto simp: same_devices_def)
  have sh: "pools u = pools s" "wf_state u \<longleftrightarrow> wf_state s" "owed k h u = owed k h s" "g_cpu (G u) = g_cpu (G s)"
    if "ensure_shared_state E s = (st, u)" for st u
    using setup_same_devices(1) [OF that] by (auto simp: same_devices_def)
  show ?thesis
    using op ws ni
    by (auto simp: hrx_cpu_initialize_def ffi_pair Let_def undo owed_upd grp task sh
        split: if_splits sum.splits prod.splits elim!: bind_SomeE dest!: status_owed new_device_owed)
qed

lemma gpu_initialize_owed:
  assumes op: "hrx_gpu_initialize E fl s = Some (res, t)" and ok: "accel_ok (g_gpu (G s))" and ws: "wf_state s"
  shows "pools t = pools s \<and> owed k h t = owed k h s"
proof (cases "acc_initialized (g_gpu (G s))")
  case True
  then show ?thesis using op by (auto simp: hrx_gpu_initialize_def dest!: status_owed)
next
  case ni: False
  then have [simp]: "acc_devices (g_gpu (G s)) = []" using ok by (simp add: accel_ok_def)
  have undo: "owed k h (release_shared_state E u) = owed k h u" "pools (release_shared_state E u) = pools u" for u
    using setup_same_devices(2) [of u E] by (simp_all add: same_devices_def)
  have drv: "pools u = pools v" "wf_state u \<longleftrightarrow> wf_state v" "owed k h u = owed k h v" "g_gpu (G u) = g_gpu (G v)"
    if "gpu_open_driver E v = (y, u)" for y u v
    using setup_same_devices(6) [OF that] by (auto simp: same_devices_def)
  have sh: "pools u = pools s" "wf_state u \<longleftrightarrow> wf_state s" "owed k h u = owed k h s" "g_gpu (G u) = g_gpu (G s)"
    if "ensure_shared_state E s = (st, u)" for st u
    using setup_same_devices(1) [OF that] by (auto simp: same_devices_def)
  have devs: "owed k h u = owed k h v + (case y of Inl _ \<Rightarrow> 0 | Inr ds \<Rightarrow> listed k h ds)" "G u = G v" "pools u = pools v"
    if "gpu_open_devices E al q dr v = Some (y, u)" "wf_state v" for al q dr v y u
    using gpu_open_devices_owed [OF that] gpu_open_devices_eqD [OF that] by auto
  show ?thesis
    using op ws ni
    by (auto simp: hrx_gpu_initialize_def ffi_pair Let_def undo owed_upd drv sh devs
        split: if_splits sum.splits prod.splits gpu_error.splits elim!: bind_SomeE dest!: status_owed)
qed

lemma shutdown_owed:
  assumes "wf_state s"
  shows "hrx_cpu_shutdown E s = Some (res, t) \<Longrightarrow> pools t = pools s \<and> owed k h t = owed k h s"
    and "hrx_gpu_shutdown E s = Some (res, t) \<Longrightarrow> pools t = pools s \<and> owed k h t = owed k h s"
proof -
  have undo: "owed k h (release_shared_state E u) = owed k h u" "pools (release_shared_state E u) = pools u" for u
    using setup_same_devices(2) [of u E] by (simp_all add: same_devices_def)
  have rel: "owed k h u = owed k h v - listed k h ds" "G u = G v" "pools u = pools v" if "release_devices E ds v = Some u" "wf_state v" for ds v u
    using release_devices_owed [OF that] release_devices_eqD [OF that(1)] by auto
  show "hrx_cpu_shutdown E s = Some (res, t) \<Longrightarrow> pools t = pools s \<and> owed k h t = owed k h s"
    and "hrx_gpu_shutdown E s = Some (res, t) \<Longrightarrow> pools t = pools s \<and> owed k h t = owed k h s"
    using assms
    by (auto simp: hrx_cpu_shutdown_def hrx_gpu_shutdown_def Let_def undo owed_upd rel split: if_splits
        elim!: bind_SomeE dest!: status_owed)
qed

lemma device_query_owed:
  "hrx_cpu_device_count E p s = Some (res, t) \<Longrightarrow> pools t = pools s \<and> owed k h t = owed k h s"
  "hrx_cpu_device_get E i p s = Some (res, t) \<Longrightarrow> pools t = pools s \<and> owed k h t = owed k h s"
  "hrx_gpu_device_count E p s = Some (res, t) \<Longrightarrow> pools t = pools s \<and> owed k h t = owed k h s"
  "hrx_gpu_device_get E i p s = Some (res, t) \<Longrightarrow> pools t = pools s \<and> owed k h t = owed k h s"
  by (auto simp: hrx_cpu_device_count_def hrx_cpu_device_get_def hrx_gpu_device_count_def
      hrx_gpu_device_get_def split: if_splits elim!: bind_SomeE dest!: status_owed)

end
