(* ===== verification/Client.thy ===== *)
theory Client
  imports Handle_Steps
begin

text \<open>
  A client of the interface: what it owns, next to the state of the library. It may call anything,
  on any handle, as long as it releases only what it owns: what a creating call has given it or
  what it has retained.

  For such a client the theory shows that handles are safe: every handle the client or an object
  holds is live and of its type. Nothing gets stuck: an owned handle can always be released, even
  when the release drops the object and with it other objects. And nothing is left behind: from
  every state the client can release everything and shut the accelerators down, and then the heap
  is empty and all references of IREE are back.
\<close>

section \<open>Steps\<close>

type_synonym holdings = "hkind \<Rightarrow> ptr \<Rightarrow> int"

definition no_holdings :: holdings where "no_holdings k h = 0"

definition gain :: "hkind \<Rightarrow> ptr \<Rightarrow> holdings \<Rightarrow> holdings" where
  "gain K x w k h = w k h + one_handle k h K x"

definition lose :: "hkind \<Rightarrow> ptr \<Rightarrow> holdings \<Rightarrow> holdings" where
  "lose K x w k h = w k h - one_handle k h K x"

inductive client_step :: "env \<Rightarrow> holdings \<times> hrx \<Rightarrow> holdings \<times> hrx \<Rightarrow> bool" for E :: env where
  accelerator: "accelerator_step E s t \<Longrightarrow> client_step E (w, s) (w, t)"
| created: "create_step E K out None s t \<Longrightarrow> mem t out = CPtr x \<Longrightarrow> client_step E (w, s) (gain K x w, t)"
| refused: "create_step E K out (Some e) s t \<Longrightarrow> client_step E (w, s) (w, t)"
| retain: "retain_step K x s t \<Longrightarrow> client_step E (w, s) (gain K x w, t)"
| release: "release_step E K x s t \<Longrightarrow> 0 < w K x \<Longrightarrow> client_step E (w, s) (lose K x w, t)"
| call: "call_step E s t \<Longrightarrow> client_step E (w, s) (w, t)"
| stream: "stream_step E h s t \<Longrightarrow> client_step E (w, s) (w, t)"

inductive_cases client_stepE: "client_step E c c'"

definition client_run :: "env \<Rightarrow> holdings \<times> hrx \<Rightarrow> holdings \<times> hrx \<Rightarrow> bool" where
  "client_run E c c' \<longleftrightarrow> reliable E \<and> client_step E c c'"

section \<open>The client owns what it is owed\<close>

lemma create_step_gives:
  assumes "create_step E K out res s t" and "wf_state s" and "reliable E"
  shows "gives K out res s t"
  using assms(1)
  by (rule create_stepE) (use assms(2,3) in \<open>auto intro: synchronisation_creates buffer_creates load_data_gives load_file_gives
    module_creates lookup_function_gives stream_create_gives\<close>)

lemma retain_step_owed:
  assumes "retain_step K x s t" and "wf_state s"
  shows "owed k h t = owed k h s + one_handle k h K x"
  using assms(1) by (rule retain_stepE) (use retains_owed [OF assms(2)] in auto)

lemma release_step_owed:
  assumes "release_step E K x s t" and "wf_state s"
  shows "owed k h t = owed k h s - one_handle k h K x"
  using assms(1) by (rule release_stepE) (use releases_owed [OF assms(2)] virtual_release_owed assms(2) in auto)

lemmas call_skeleton = plain_calls_skeleton get_property_skeleton sync_calls_skeleton queries_skeleton memory_calls_skeleton
  queue_calls_skeleton host_call_skeleton buffer_map_skeleton host_skeleton

lemma call_step_skeleton:
  assumes "call_step E s t"
  shows "skeleton t = skeleton s"
  using assms
  by (rule call_stepE) (auto simp: hrx_host_allocator_free_def hrx_host_allocator_free_aligned_def hrx_executable_retain_def
      hrx_executable_release_def hrx_allocator_virtual_memory_release_def dest: call_skeleton status_skeleton)

lemma accelerator_step_owed:
  assumes "accelerator_step E s t" and "globals_ok (G s)" and "wf_state s"
  shows "pools t = pools s \<and> owed k h t = owed k h s"
  using assms(1)
  by (rule accelerator_stepE) (use assms(2,3) cpu_initialize_owed gpu_initialize_owed shutdown_owed device_query_owed
    in \<open>auto simp: globals_ok_def\<close>)

definition client_ok :: "holdings \<times> hrx \<Rightarrow> bool" where
  "client_ok c \<longleftrightarrow> (case c of (w, s) \<Rightarrow> globals_ok (G s) \<and> wf_state s \<and> (\<forall>k h. owed k h s = w k h \<and> 0 \<le> w k h) \<and>
     pools s = Map.empty \<and> (\<forall>k p. p \<noteq> NULL \<longrightarrow> surplus k p s = 0))"

lemma client_step_ok:
  assumes "client_step E (w, s) (w', t)" and "reliable E" and "client_ok (w, s)"
  shows "client_ok (w', t)"
proof -
  have ok: "globals_ok (G s)" "wf_state s" and ow: "\<And>k h. owed k h s = w k h" "\<And>k h. 0 \<le> w k h"
    and su: "\<And>k p. p \<noteq> NULL \<Longrightarrow> surplus k p s = 0" and po: "pools s = Map.empty"
    using assms(3) by (auto simp: client_ok_def)
  have "api_step E s t" using assms(1) by (rule client_stepE) (auto intro: api_step.intros)
  from api_step_keeps [OF this assms(2) ok] have k: "globals_ok (G t)" "wf_state t" "\<And>k p. p \<noteq> NULL \<Longrightarrow> surplus k p t = 0"
    using su by (auto simp: keeps_def)
  have "owed k h t = w' k h \<and> 0 \<le> w' k h \<and> pools t = pools s" for k h
    using assms(1)
  proof cases
    case accelerator
    then show ?thesis using accelerator_step_owed [OF _ ok] ow by simp
  next
    case (created K out x)
    then show ?thesis
      using create_step_gives [OF created(2) ok(2) assms(2)] step_G(1) ow by (auto simp: gives_def gain_def one_handle_def)
  next
    case (refused K out e)
    then show ?thesis using create_step_gives [OF _ ok(2) assms(2)] step_G(1) ow by (auto simp: gives_def)
  next
    case (retain K x)
    then show ?thesis using retain_step_owed [OF _ ok(2)] step_G(2) ow by (auto simp: gain_def one_handle_def)
  next
    case (release K x)
    then show ?thesis using release_step_owed [OF _ ok(2)] step_G(3) ow by (auto simp: lose_def one_handle_def)
  next
    case call
    then show ?thesis using skeleton_owed [OF call_step_skeleton] step_G(4) ow by metis
  next
    case (stream h')
    then show ?thesis using skeleton_owed [OF stream_step_skeleton] stream_step_G ow by metis
  qed
  then show ?thesis using k po by (simp add: client_ok_def)
qed

interpretation client: preserved "client_run E" client_ok
  for E :: env
  by unfold_locales (auto simp: client_run_def dest: client_step_ok)

lemma client_ok_initial: "client_ok (no_holdings, hrx_initial)"
proof -
  have "pools hrx_initial = Map.empty" by (simp add: hrx_initial_def)
  then show ?thesis using globals_ok_initial wf_initial by (simp add: client_ok_def no_holdings_def)
qed

section \<open>Live handles\<close>

definition live_as :: "hkind \<Rightarrow> ptr \<Rightarrow> hrx \<Rightarrow> bool" where
  "live_as k h s \<longleftrightarrow> (case arcs s h of None \<Rightarrow> False | Some a \<Rightarrow> hkind_of (arc_obj a) = k)"

lemma inner_handles_nonneg: "0 \<le> inner_handles k h x"
  by (cases x) (auto simp: one_handle_def)

lemma inner_nonneg: "0 \<le> inner k h s"
  by (auto simp: inner_def entries_sum_def inner_handles_nonneg intro!: sum_nonneg)

lemma inner_member:
  assumes "wf_state s" and "arcs s h' = Some a"
  shows "inner_handles k h (arc_obj a) \<le> inner k h s"
  using member_le_sum [of h' "dom (arcs s)" "\<lambda>x. inner_handles k h (arc_obj (the (arcs s x)))"] assms inner_handles_nonneg
  by (auto simp: inner_def entries_sum_def wf_state_def wf_heap_def)

lemma global_handles_nonneg: "0 \<le> global_handles k h g"
  by (simp add: global_handles_def)

lemma handle_count_live:
  assumes "0 < handle_count k h s"
  shows "live_as k h s"
  using assms by (auto simp: handle_count_def live_as_def opt_weight_def split: option.splits if_splits)

lemma live_as_count: "live_as k h s \<Longrightarrow> \<exists>a. arcs s h = Some a \<and> hkind_of (arc_obj a) = k \<and> handle_count k h s = int (strong a)"
  by (auto simp: live_as_def handle_count_def split: option.splits)

lemma owed_live:
  assumes "0 < owed k h s"
  shows "live_as k h s"
  using assms inner_nonneg [of k h s] global_handles_nonneg [of k h "G s"]
  by (intro handle_count_live) (simp add: owed_def)

section \<open>Progress of a release\<close>

text \<open>
  Dropping an object succeeds when what its fields own is really theirs: the counts cover it on
  top of everyone else's share.
\<close>

definition covered :: "hobj \<Rightarrow> hrx \<Rightarrow> bool" where
  "covered x s \<longleftrightarrow> (\<forall>k h. inner_handles k h x \<le> owed k h s)"

locale progressing_object = counted_object +
  assumes kind_wrapped: "hkind_of x = kind \<Longrightarrow> \<exists>y. x = wrap y"
    and drop_progress: "wf_state s \<Longrightarrow> covered (wrap y) s \<Longrightarrow> \<exists>t. drop_in_place y s = Some t"
begin

lemma release_progress:
  assumes "wf_state s" and "\<And>k h. 0 \<le> owed k h s" and "0 < owed kind h' s"
  shows "\<exists>t. handle_release as drop_in_place h' s = Some t"
proof -
  obtain a y where a: "arcs s h' = Some a" "arc_obj a = wrap y"
    using owed_live [OF assms(3)] kind_wrapped by (auto simp: live_as_def split: option.splits)
  let ?s = "s\<lparr>arcs := (arcs s)(h' := None)\<rparr>"
  have "wf_state ?s" using assms(1) wf_heap_del [of s ?s h'] by (simp add: wf_state_def)
  moreover have "covered (wrap y) ?s" if "strong a = 1"
    using owed_arcs_del [OF assms(1) a(1)] that a(2) kind_wrap assms(2,3) by (auto simp: covered_def one_handle_def)
  moreover have "as (wrap y) = Some y" using as_wrap by simp
  ultimately show ?thesis using a drop_progress by (auto simp: handle_release_def)
qed

end

lemma hkind_wrapped:
  "hkind_of x = HDevice \<Longrightarrow> \<exists>y. x = ODevice y" "hkind_of x = HBuffer \<Longrightarrow> \<exists>y. x = OBuffer y"
  "hkind_of x = HBufferView \<Longrightarrow> \<exists>y. x = OBufferView y" "hkind_of x = HSemaphore \<Longrightarrow> \<exists>y. x = OSemaphore y"
  "hkind_of x = HFence \<Longrightarrow> \<exists>y. x = OFence y" "hkind_of x = HStream \<Longrightarrow> \<exists>y. x = OStream y"
  "hkind_of x = HExecutable \<Longrightarrow> \<exists>y. x = OExecutable y" "hkind_of x = HModule \<Longrightarrow> \<exists>y. x = OModule y"
  "hkind_of x = HFunction \<Longrightarrow> \<exists>y. x = OFunction y" "hkind_of x = HValueList \<Longrightarrow> \<exists>y. x = OValueList y"
  by (cases x; simp)+

interpretation device_progress: progressing_object as_device ODevice "drop_device E" HDevice
  for E :: env
  by unfold_locales (simp_all add: drop_device_def hkind_wrapped)

lemma one_handle_cover:
  assumes "\<And>k h. one_handle k h K x \<le> owed k h s"
  shows "0 \<le> owed k h s" and "0 < owed K x s"
  using assms [of k h] assms [of K x] by (auto simp: one_handle_def split: if_splits)

lemma DeviceRef_drop_progress:
  assumes "wf_state s" and "\<And>k h. one_handle k h HDevice d \<le> owed k h s"
  shows "\<exists>t. DeviceRef_drop E d s = Some t"
  using device_progress.release_progress [OF assms(1)] one_handle_cover [of HDevice d s] assms(2)
  by (simp add: DeviceRef_drop_def hrx_device_release_def)

interpretation buffer_progress: progressing_object as_buffer OBuffer "drop_buffer E" HBuffer
  for E :: env
  by unfold_locales (auto simp: hkind_wrapped drop_buffer_def Let_def covered_def split: option.splits
      intro!: DeviceRef_drop_progress)

interpretation buffer_view_progress: progressing_object as_buffer_view OBufferView "drop_buffer_view E" HBufferView
  for E :: env
  by unfold_locales (auto simp: hkind_wrapped drop_buffer_view_def)

interpretation semaphore_progress: progressing_object as_semaphore OSemaphore "drop_semaphore E" HSemaphore
  for E :: env
  by unfold_locales (auto simp: hkind_wrapped drop_semaphore_def covered_def intro!: DeviceRef_drop_progress)

interpretation fence_progress: progressing_object as_fence OFence "drop_fence E" HFence
  for E :: env
  by unfold_locales (auto simp: hkind_wrapped drop_fence_def)

interpretation executable_progress: progressing_object as_executable OExecutable "drop_executable E" HExecutable
  for E :: env
  by unfold_locales (auto simp: hkind_wrapped drop_executable_def covered_def intro!: DeviceRef_drop_progress)

interpretation value_list_progress: progressing_object as_value_list OValueList "drop_value_list E" HValueList
  for E :: env
  by unfold_locales (auto simp: hkind_wrapped drop_value_list_def)

interpretation module_progress: progressing_object as_module OModule "drop_module E" HModule
  for E :: env
  by unfold_locales (auto simp: hkind_wrapped drop_module_def Let_def covered_def intro!: DeviceRef_drop_progress)

interpretation function_progress: progressing_object as_function OFunction "drop_function E" HFunction
  for E :: env
proof unfold_locales
  show "\<exists>t. drop_function E y s = Some t" if "wf_state s" "covered (OFunction y) s" for y s
  proof -
    note c = one_handle_cover [of HModule "fn_module y" s]
    show ?thesis
      using module_progress.release_progress [OF that(1)] c that(2)
      by (simp add: drop_function_def ModuleRef_drop_def hrx_module_release_def covered_def)
  qed
qed (simp add: hkind_wrapped)

text \<open>The drop of a stream flushes and waits before it gives up its semaphore and its device.\<close>

lemma live_as_ref:
  "live_as HSemaphore h s \<Longrightarrow> \<exists>y. handle_ref as_semaphore h s = Some y"
  "live_as HDevice h s \<Longrightarrow> \<exists>y. handle_ref as_device h s = Some y"
  using hkind_wrapped by (fastforce simp: live_as_def handle_ref_def split: option.splits)+

lemma live_as_cong: "arcs t = arcs s \<Longrightarrow> live_as k h t = live_as k h s"
  by (simp add: live_as_def)

lemma flush_inner_progress:
  assumes "live_as HSemaphore (st_semaphore st) s" and "live_as HDevice (st_device st) s"
  shows "\<exists>r. flush_inner E st s = Some r"
proof -
  obtain x d where "handle_ref as_semaphore (st_semaphore st) s = Some x" "handle_ref as_device (st_device st) s = Some d"
    using live_as_ref assms by blast
  then show ?thesis by (auto simp: flush_inner_def semaphore_hal_ptr_def ffi_pair Let_def handle_ref_def split: prod.splits)
qed

lemma semaphore_wait_progress:
  assumes "live_as HSemaphore x s"
  shows "\<exists>r. hrx_semaphore_wait E x v ns s = Some r"
  using live_as_ref(1) [OF assms] by (auto simp: hrx_semaphore_wait_def HalSemaphore_wait_def ffi_pair)

lemma guards_drop_progress:
  assumes "wf_state s" and "\<And>k h. one_handle k h HSemaphore x + one_handle k h HDevice d \<le> owed k h s"
  shows "\<exists>t u. SemaphoreGuard_drop E x s = Some t \<and> DeviceRef_drop E d t = Some u"
proof -
  have c: "one_handle k h HSemaphore x \<le> owed k h s" for k h
    using assms(2) [of k h] by (auto simp: one_handle_def split: if_splits)
  have "\<exists>t. SemaphoreGuard_drop E x s = Some t"
    using semaphore_progress.release_progress [OF assms(1)] one_handle_cover [OF c]
    by (simp add: SemaphoreGuard_drop_def hrx_semaphore_release_def)
  then obtain t where t: "SemaphoreGuard_drop E x s = Some t" ..
  have "wf_state t" "one_handle k h HDevice d \<le> owed k h t" for k h
    using SemaphoreGuard_drop_owed [OF t assms(1)] assms(2) [of k h] by auto
  then show ?thesis using t DeviceRef_drop_progress by blast
qed

lemma drop_stream_progress:
  assumes "wf_state s" and "covered (OStream st) s"
  shows "\<exists>t. drop_stream E st s = Some t"
proof -
  note cov = assms(2) [unfolded covered_def, simplified]
  have live: "live_as HSemaphore (st_semaphore st) u" "live_as HDevice (st_device st) u" if "arcs u = arcs s" for u
    using cov [rule_format, of HSemaphore "st_semaphore st"] cov [rule_format, of HDevice "st_device st"]
      owed_live [of HSemaphore "st_semaphore st" s] owed_live [of HDevice "st_device st" s] live_as_cong [OF that]
    by (auto simp: one_handle_def split: if_splits)
  obtain st1 u where u: "(if st_has_pending_work st then do { (res, st, s) \<leftarrow> flush_inner E st s; Some (st, hrx_status_drop res s) }
      else Some (st, s)) = Some (st1, u)"
    using flush_inner_progress [OF live [OF refl], of E] by fastforce
  have U: "wf_state u" "arcs u = arcs s" "st_semaphore st1 = st_semaphore st" "st_device st1 = st_device st"
      "\<And>k h. owed k h u = owed k h s"
    using u assms(1) by (auto split: if_splits elim!: bind_SomeE dest!: flush_inner_owed)
  obtain v where v: "(if st_timepoint st1 > 0 then do {
      (res, s) \<leftarrow> hrx_semaphore_wait E (st_semaphore st1) (st_timepoint st1) (2 ^ 64 - 1) u;
      Some (hrx_status_drop res s) } else Some u) = Some v"
    using semaphore_wait_progress [OF live(1) [OF U(2)], of E "st_timepoint st1" "2 ^ 64 - 1"] U(3) by fastforce
  have V: "wf_state v" "\<And>k h. owed k h v = owed k h s"
    using v U by (auto split: if_splits elim!: bind_SomeE dest!: semaphore_wait_owed)
  let ?w = "if st_pending_cb st1 \<noteq> NULL then ffi_do E (Release HalCommandBuffer (st_pending_cb st1)) v else v"
  have W: "wf_state ?w" "one_handle k h HSemaphore (st_semaphore st) + one_handle k h HDevice (st_device st) \<le> owed k h ?w"
    for k h using V cov by auto
  from guards_drop_progress [OF W] obtain y z where "SemaphoreGuard_drop E (st_semaphore st) ?w = Some y"
      "DeviceRef_drop E (st_device st) y = Some z" by blast
  then have "drop_stream E st s = Some z" using u v U(3,4) by (simp add: drop_stream_def)
  then show ?thesis by blast
qed

interpretation stream_progress: progressing_object as_stream OStream "drop_stream E" HStream
  for E :: env
  by unfold_locales (auto simp: hkind_wrapped intro: drop_stream_progress)

text \<open>Every owned handle can be released.\<close>

lemma release_step_progress:
  assumes "wf_state s" and "\<And>k h. 0 \<le> owed k h s" and "0 < owed K x s"
  shows "\<exists>t. release_step E K x s t"
proof -
  have "x \<noteq> NULL"
    using owed_live [OF assms(3)] wf_heap_nonnull [OF wf_heapI [OF assms(1)]] by (auto simp: live_as_def split: option.splits)
  note P = device_progress.release_progress buffer_progress.release_progress buffer_view_progress.release_progress
    semaphore_progress.release_progress fence_progress.release_progress stream_progress.release_progress
    executable_progress.release_progress module_progress.release_progress function_progress.release_progress
    value_list_progress.release_progress
  have exe: "handle_release as_executable (drop_executable E) x s = hrx_executable_release E x s"
    using \<open>x \<noteq> NULL\<close> by (simp add: hrx_executable_release_def)
  show ?thesis
    using P [OF assms(1,2), of x E] assms(3) \<open>x \<noteq> NULL\<close> unfolding exe
    by (cases K) (auto simp: hrx_device_release_def [symmetric] hrx_buffer_release_def [symmetric]
        hrx_buffer_view_release_def [symmetric] hrx_semaphore_release_def [symmetric] hrx_fence_release_def [symmetric]
        hrx_stream_release_def [symmetric] hrx_module_release_def [symmetric] hrx_function_release_def [symmetric]
        hrx_value_list_release_def [symmetric] dest: release_step.intros)
qed

section \<open>Shutting down\<close>

lemma release_devices_progress:
  assumes "wf_state s" and "\<And>k h. listed k h ds \<le> owed k h s"
  shows "\<exists>t. release_devices E ds s = Some t"
  using assms
proof (induction ds arbitrary: s)
  case (Cons d ds)
  have n: "0 \<le> listed k h ds" for k h by (simp add: listed_def)
  have "one_handle k h HDevice d \<le> owed k h s" for k h using Cons.prems(2) [of k h] n [of k h] by simp
  from DeviceRef_drop_progress [OF Cons.prems(1) this] obtain u where u: "hrx_device_release E d s = Some u"
    unfolding DeviceRef_drop_def by blast
  have "wf_state u" "listed k h ds \<le> owed k h u" for k h
    using device_release_surplus [OF u Cons.prems(1)] releases_owed(1) [OF Cons.prems(1) u] Cons.prems(2) [of k h] by auto
  from Cons.IH [OF this] show ?case using u by simp
qed simp

lemma cpu_shutdown_progress:
  assumes "wf_state s" and "\<And>k h. 0 \<le> owed k h s"
  shows "\<exists>res t. hrx_cpu_shutdown E s = Some (res, t) \<and> \<not> acc_initialized (g_cpu (G t)) \<and> g_gpu (G t) = g_gpu (G s)"
proof (cases "acc_initialized (g_cpu (G s))")
  case True
  have "\<exists>u. release_devices E (acc_devices (g_cpu (G s))) (upd_cpu (\<lambda>c. c\<lparr>acc_devices := []\<rparr>) s) = Some u"
    by (rule release_devices_progress) (use assms in \<open>simp_all add: owed_upd\<close>)
  then obtain u where u: "release_devices E (acc_devices (g_cpu (G s))) (upd_cpu (\<lambda>c. c\<lparr>acc_devices := []\<rparr>) s) = Some u" ..
  show ?thesis
    using True u release_devices_eqD [OF u] release_shared_frame by (simp add: hrx_cpu_shutdown_def Let_def)
next
  case False
  then show ?thesis
    by (cases "hrx_make_status E (code_i32 InvalidArgument) (Some ''CPU accelerator not initialized'') s")
      (auto simp: hrx_cpu_shutdown_def dest!: status_G)
qed

lemma gpu_shutdown_progress:
  assumes "wf_state s" and "\<And>k h. 0 \<le> owed k h s"
  shows "\<exists>res t. hrx_gpu_shutdown E s = Some (res, t) \<and> \<not> acc_initialized (g_gpu (G t)) \<and> g_cpu (G t) = g_cpu (G s)"
proof (cases "acc_initialized (g_gpu (G s))")
  case True
  have "\<exists>u. release_devices E (acc_devices (g_gpu (G s))) (upd_gpu (\<lambda>c. c\<lparr>acc_devices := []\<rparr>) s) = Some u"
    by (rule release_devices_progress) (use assms in \<open>simp_all add: owed_upd\<close>)
  then obtain u where u: "release_devices E (acc_devices (g_gpu (G s))) (upd_gpu (\<lambda>c. c\<lparr>acc_devices := []\<rparr>) s) = Some u" ..
  show ?thesis
    using True u release_devices_eqD [OF u] release_shared_frame by (simp add: hrx_gpu_shutdown_def Let_def)
next
  case False
  then show ?thesis
    by (cases "hrx_make_status E (code_i32 InvalidArgument) (Some ''GPU accelerator not initialized'') s")
      (auto simp: hrx_gpu_shutdown_def dest!: status_G)
qed

section \<open>Owners\<close>

lemma inner_owner:
  assumes "0 < inner k h s"
  shows "\<exists>h' a. arcs s h' = Some a \<and> 0 < inner_handles k h (arc_obj a)"
proof (rule ccontr)
  assume "\<not> ?thesis"
  then have "inner k h s \<le> 0"
    unfolding inner_def entries_sum_def by (intro sum_nonpos) force
  then show False using assms by simp
qed

text \<open>Who owns handles of which type: the objects form layers, so that no cycle keeps itself alive.\<close>

primrec layer :: "hkind \<Rightarrow> nat" where
  "layer HDevice = 0"
| "layer HBuffer = 2"
| "layer HBufferView = 2"
| "layer HSemaphore = 1"
| "layer HFence = 2"
| "layer HStream = 2"
| "layer HExecutable = 2"
| "layer HModule = 1"
| "layer HFunction = 2"
| "layer HValueList = 2"

lemma layer_bound: "layer k \<le> 2"
  by (cases k) simp_all

lemma owner_layer: "0 < inner_handles k h x \<Longrightarrow> layer k < layer (hkind_of x)"
  by (cases x) (auto simp: one_handle_def split: if_splits)

text \<open>When the client owns nothing, only the devices in the lists of the accelerators are alive.\<close>

lemma only_listed:
  assumes ok: "client_ok (no_holdings, s)" and "arcs s h = Some a"
  shows "0 < global_handles (hkind_of (arc_obj a)) h (G s)"
  using assms(2)
proof (induction "2 - layer (hkind_of (arc_obj a))" arbitrary: h a rule: less_induct)
  case less
  let ?k = "hkind_of (arc_obj a)"
  have z: "owed ?k h s = 0" using ok by (simp add: client_ok_def no_holdings_def)
  have "0 < strong a" using ok less.prems wf_heap_strong [of s h a] by (simp add: client_ok_def wf_state_def)
  then have pos: "0 < inner ?k h s + global_handles ?k h (G s)"
    using z less.prems by (simp add: owed_def handle_count_def)
  show ?case
  proof (rule ccontr)
    assume "\<not> ?thesis"
    then have "0 < inner ?k h s" using pos by simp
    then obtain h' b where b: "arcs s h' = Some b" "0 < inner_handles ?k h (arc_obj b)"
      using inner_owner by blast
    have "2 - layer (hkind_of (arc_obj b)) < 2 - layer ?k"
      using owner_layer [OF b(2)] layer_bound [of "hkind_of (arc_obj b)"] by simp
    from less.hyps [OF this b(1)] have "hkind_of (arc_obj b) = HDevice" by (auto simp: global_handles_def split: if_splits)
    then show False using b(2) by (cases "arc_obj b") auto
  qed
qed

lemma nothing_left:
  assumes ok: "client_ok (no_holdings, s)" and off: "\<not> acc_initialized (g_cpu (G s))" "\<not> acc_initialized (g_gpu (G s))"
  shows "arcs s = Map.empty"
proof (rule ext)
  fix h
  have "global_handles k h (G s) = 0" for k
    using ok off by (simp add: client_ok_def globals_ok_def accel_ok_def global_handles_def)
  then show "arcs s h = None" using only_listed [OF ok, of h] by (cases "arcs s h") auto
qed

section \<open>Letting go of everything\<close>

lemma reach_trans: "reachable_from R s u \<Longrightarrow> reachable_from R u t \<Longrightarrow> reachable_from R s t"
  by (rotate_tac, induction rule: reachable_from.induct) (auto intro: reach_step)

lemma holdings_finite:
  assumes "client_ok (w, s)"
  shows "finite {(k, h). w k h \<noteq> 0}"
proof (rule finite_subset)
  show "{(k, h). w k h \<noteq> 0} \<subseteq> (\<lambda>h. (hkind_of (arc_obj (the (arcs s h))), h)) ` dom (arcs s)"
  proof clarsimp
    fix k h assume "w k h \<noteq> 0"
    moreover have "owed k h s = w k h" "0 \<le> w k h" using assms by (auto simp: client_ok_def)
    ultimately have "0 < owed k h s" by simp
    then show "(k, h) \<in> (\<lambda>h. (hkind_of (arc_obj (the (arcs s h))), h)) ` dom (arcs s)"
      using owed_live [of k h s] by (auto simp: live_as_def image_iff split: option.splits)
  qed
  show "finite ((\<lambda>h. (hkind_of (arc_obj (the (arcs s h))), h)) ` dom (arcs s))"
    using assms by (simp add: client_ok_def wf_state_def wf_heap_def)
qed

lemma release_everything:
  assumes "client_ok (w, s)" and "reliable E" and "finite P" and "\<And>k h. w k h \<noteq> 0 \<Longrightarrow> (k, h) \<in> P"
    and "nat (\<Sum>(k, h)\<in>P. w k h) = n"
  shows "\<exists>t. reachable_from (client_run E) (w, s) (no_holdings, t)"
  using assms
proof (induction n arbitrary: w s)
  case 0
  have "(\<Sum>(k, h)\<in>P. w k h) = 0 \<longleftrightarrow> (\<forall>(k, h)\<in>P. w k h = 0)"
    using 0(1,3) by (subst sum_nonneg_eq_0_iff) (auto simp: client_ok_def)
  moreover have "(\<Sum>(k, h)\<in>P. w k h) \<ge> 0" using 0(1) by (auto simp: client_ok_def intro!: sum_nonneg)
  ultimately have "\<forall>(k, h)\<in>P. w k h = 0" using 0(5) by linarith
  then have "w = no_holdings" using 0(4) by (fastforce simp: no_holdings_def fun_eq_iff)
  then show ?case by (auto intro: reach_start)
next
  case (Suc n)
  have ok: "wf_state s" "\<And>k h. 0 \<le> owed k h s" "\<And>k h. owed k h s = w k h" using Suc(2) by (auto simp: client_ok_def)
  have "\<exists>(k, h)\<in>P. w k h \<noteq> 0"
  proof (rule ccontr)
    assume "\<not> ?thesis"
    then have "(\<Sum>(k, h)\<in>P. w k h) = 0" by (intro sum.neutral) auto
    then show False using Suc(6) by simp
  qed
  then obtain K x where x: "w K x \<noteq> 0" "(K, x) \<in> P" by blast
  have pos: "0 < w K x" using x(1) ok(2,3) [of K x] by simp
  obtain t where t: "release_step E K x s t" using release_step_progress [OF ok(1,2), of K x E] pos ok(3) by auto
  have step: "client_step E (w, s) (lose K x w, t)" using client_step.release [of E K x s t w, OF t pos] .
  have one: "(\<Sum>(k, h)\<in>P. one_handle k h K x) = 1"
    using sum.delta [OF Suc(4), of "(K, x)" "\<lambda>_. 1 :: int"] x(2)
    by (simp add: one_handle_def case_prod_unfold prod_eq_iff conj_commute)
  have sum: "(\<Sum>(k, h)\<in>P. lose K x w k h) = (\<Sum>(k, h)\<in>P. w k h) - 1"
    using one by (simp add: lose_def case_prod_unfold sum_subtractf)
  have supp: "(k, h) \<in> P" if "lose K x w k h \<noteq> 0" for k h
    using that Suc(5) [of k h] x(2) by (auto simp: lose_def one_handle_def split: if_splits)
  have "nat (\<Sum>(k, h)\<in>P. lose K x w k h) = n" using sum Suc(6) by linarith
  from Suc.IH [OF client_step_ok [OF step Suc(3,2)] Suc(3,4) supp this]
  obtain u where u: "reachable_from (client_run E) (lose K x w, t) (no_holdings, u)" by blast
  have "reachable_from (client_run E) (w, s) (lose K x w, t)"
    by (rule reach_step [OF reach_start]) (use step Suc(3) in \<open>simp add: client_run_def\<close>)
  from reach_trans [OF this u] show ?case ..
qed

lemma shut_everything_down:
  assumes "client_ok (w, s)" and "reliable E"
  shows "\<exists>t. reachable_from (client_run E) (w, s) (w, t) \<and> \<not> acc_initialized (g_cpu (G t)) \<and> \<not> acc_initialized (g_gpu (G t))"
proof -
  have ok: "wf_state s" "\<And>k h. 0 \<le> owed k h s" using assms(1) by (auto simp: client_ok_def)
  obtain r u where u: "hrx_cpu_shutdown E s = Some (r, u)" "\<not> acc_initialized (g_cpu (G u))"
    using cpu_shutdown_progress [OF ok, of E] by blast
  have su: "client_run E (w, s) (w, u)"
    using client_step.accelerator [OF accelerator_step.cpu_shutdown [OF u(1)]] assms(2) by (simp add: client_run_def)
  then have "client_ok (w, u)" using client.inv_step assms(1) by blast
  then have ok': "wf_state u" "\<And>k h. 0 \<le> owed k h u" by (auto simp: client_ok_def)
  obtain r' t where t: "hrx_gpu_shutdown E u = Some (r', t)" "\<not> acc_initialized (g_gpu (G t))" "g_cpu (G t) = g_cpu (G u)"
    using gpu_shutdown_progress [OF ok', of E] by blast
  have "client_run E (w, u) (w, t)"
    using client_step.accelerator [OF accelerator_step.gpu_shutdown [OF t(1)]] assms(2) by (simp add: client_run_def)
  then have "reachable_from (client_run E) (w, s) (w, t)" using su reach_start reach_step by metis
  then show ?thesis using t u(2) by auto
qed

section \<open>Properties\<close>

text \<open>Every handle in the fields of a live object and in the device lists is live and of its type.\<close>

definition heap_typed :: "hrx \<Rightarrow> bool" where
  "heap_typed s \<longleftrightarrow>
     (\<forall>x a k h. arcs s x = Some a \<longrightarrow> 0 < inner_handles k h (arc_obj a) \<longrightarrow> live_as k h s) \<and>
     (\<forall>d. d \<in> set (acc_devices (g_cpu (G s))) \<union> set (acc_devices (g_gpu (G s))) \<longrightarrow> live_as HDevice d s)"

lemma client_ok_typed:
  assumes "client_ok (w, s)"
  shows "heap_typed s"
proof -
  have ok: "wf_state s" "\<And>k h. 0 \<le> owed k h s" using assms by (auto simp: client_ok_def)
  have live: "live_as k h s" if "0 < inner k h s + global_handles k h (G s)" for k h
    using that ok(2) [of k h] by (intro handle_count_live) (simp add: owed_def)
  have "0 < inner k h s" if "arcs s x = Some a" "0 < inner_handles k h (arc_obj a)" for x a k h
    using inner_member [OF ok(1) that(1), of k h] that(2) by simp
  moreover have "0 < global_handles HDevice d (G s)"
    if "d \<in> set (acc_devices (g_cpu (G s))) \<union> set (acc_devices (g_gpu (G s)))" for d
    using that count_list_0_iff [of "acc_devices (g_cpu (G s))" d] count_list_0_iff [of "acc_devices (g_gpu (G s))" d]
    by (auto simp: global_handles_def)
  ultimately show ?thesis
    using live inner_nonneg global_handles_nonneg unfolding heap_typed_def by (meson add_nonneg_pos add_pos_nonneg)
qed

text \<open>A client that has created a fence, the first object of the process.\<close>

lemma fence_demo:
  obtains t where "hrx_fence_create demo_env 4 100 hrx_initial = Some (None, t)" and "mem t 100 = CPtr 1"
    and "reachable_from (client_run demo_env) (no_holdings, hrx_initial) (gain HFence 1 no_holdings, t)"
proof -
  have "\<exists>t. hrx_fence_create demo_env 4 100 hrx_initial = Some (None, t) \<and> mem t 100 = CPtr 1"
    by (simp add: hrx_fence_create_def fence_create_def create_owned_def ffi_pair into_handle_def hrx_ok_status_def
        hrx_initial_def demo_env_def status_is_ok_def expect_nonnull_def)
  then obtain t where t: "hrx_fence_create demo_env 4 100 hrx_initial = Some (None, t)" "mem t 100 = CPtr 1" by blast
  have "client_run demo_env (no_holdings, hrx_initial) (gain HFence 1 no_holdings, t)"
    using client_step.created [OF create_step.fence_create [OF t(1)] t(2)] reliable_demo_env by (simp add: client_run_def)
  then have "reachable_from (client_run demo_env) (no_holdings, hrx_initial) (gain HFence 1 no_holdings, t)"
    by (rule reach_step [OF reach_start])
  then show ?thesis by (rule that [OF t])
qed







end
