(* ===== verification/Fuzz.thy ===== *)
theory Fuzz
  imports Client
begin

text \<open>
  The fuzz target of value lists (\<open>fuzz/fuzz_targets/value_list_lifecycle.rs\<close>), and what it shares with that of
  buffers (see \<open>Fuzz_Buffers\<close>). A target is a client of the C interface that reads a program of creates,
  calls, retains and releases over four slots from the fuzzer's input, counts its own references
  per slot and releases the rest at the end.

  The theory shows what the target relies on: whatever the input, it runs to its end, never uses a
  handle that is not live, and gives every reference back.
\<close>

section \<open>Shared parts\<close>

definition POOL :: nat where "POOL = 4"

text \<open>The arrays of a target: the handle in a slot and the references the target holds of it.\<close>

record slots =
  slot_handles :: "ptr list"
  slot_refs :: "u32 list"

text \<open>\<open>data.get(i).copied().unwrap_or(0)\<close>.\<close>

definition byte_at :: "u8 list \<Rightarrow> nat \<Rightarrow> u8" where
  "byte_at data i = (if i < length data then data ! i else 0)"

text \<open>Eight bytes from \<open>i\<close> on, little-endian like the machine's own order.\<close>

definition take8 :: "u8 list \<Rightarrow> nat \<Rightarrow> i64 \<times> nat" where
  "take8 data i = (i64_from_ne_bytes (map (byte_at data) [i ..< i + 8]), i + 8)"

text \<open>Counting in \<open>u32\<close>: the fuzz profile has overflow checks, so that wrapping panics.\<close>

definition inc_ref :: "u32 \<Rightarrow> u32 option" where
  "inc_ref r = (if r = - 1 then None else Some (r + 1))"

definition dec_ref :: "u32 \<Rightarrow> u32 option" where
  "dec_ref r = (if r = 0 then None else Some (r - 1))"

text \<open>The local variable a call writes, at address \<open>tmp\<close>, read back as a pointer.\<close>

definition read_ptr :: "ptr \<Rightarrow> hrx \<Rightarrow> ptr" where
  "read_ptr a s = (case mem s a of CPtr p \<Rightarrow> p | _ \<Rightarrow> NULL)"

definition slot_of :: "u8 \<Rightarrow> nat" where
  "slot_of byte = unat (drop_bit 4 byte) mod POOL"

text \<open>The final loops: \<open>while refs[slot] > 0\<close> for one slot, and over all slots.\<close>

fun drain :: "(hrx \<Rightarrow> hrx option) \<Rightarrow> nat \<Rightarrow> hrx \<Rightarrow> hrx option" where
  "drain rel 0 s = Some s"
| "drain rel (Suc n) s = rel s \<bind> drain rel n"

fun drain_all :: "(ptr \<Rightarrow> hrx \<Rightarrow> hrx option) \<Rightarrow> (ptr \<times> u32) list \<Rightarrow> hrx \<Rightarrow> hrx option" where
  "drain_all rel [] s = Some s"
| "drain_all rel ((h, r) # xs) s = drain (rel h) (unat r) s \<bind> drain_all rel xs"

section \<open>Value lists\<close>

text \<open>One round of the loop: the byte at \<open>i\<close> and the bytes its operation reads.\<close>

definition value_list_round ::
  "env \<Rightarrow> ptr \<Rightarrow> u8 list \<Rightarrow> nat \<Rightarrow> slots \<Rightarrow> hrx \<Rightarrow> (nat \<times> slots \<times> hrx) option" where
  "value_list_round E tmp data i sl s =
     (let byte = data ! i; i = i + 1; slot = slot_of byte;
          list = slot_handles sl ! slot; live = list \<noteq> NULL; op = byte mod 6
      in if op = 0 \<and> \<not> live then do {
           let cap = ucast (byte_at data i);
           let i = i + 1;
           let s = poke tmp (CPtr NULL) s;
           (st, s) \<leftarrow> hrx_value_list_create E cap tmp s;
           let s = hrx_status_ignore st s;
           let l = read_ptr tmp s;
           if l \<noteq> NULL then
             Some (i, sl\<lparr>slot_handles := (slot_handles sl)[slot := l], slot_refs := (slot_refs sl)[slot := 1]\<rparr>, s)
           else Some (i, sl, s) }
         else if op = 1 \<and> live then do {
           let (v, i) = take8 data i;
           (st, s) \<leftarrow> hrx_value_list_push_i64 E list v s;
           Some (i, sl, hrx_status_ignore st s) }
         else if op = 2 \<and> live then do {
           (st, s) \<leftarrow> hrx_value_list_push_null_ref E list s;
           Some (i, sl, hrx_status_ignore st s) }
         else if op = 3 \<and> live then do {
           let s = poke tmp (CU64 0) s;
           (st, s) \<leftarrow> hrx_value_list_size E list tmp s;
           let s = hrx_status_ignore st s;
           let idx = ucast (byte_at data i);
           let i = i + 1;
           let s = poke tmp (CU64 0) s;
           (st, s) \<leftarrow> hrx_value_list_get_i64 E list idx tmp s;
           Some (i, sl, hrx_status_ignore st s) }
         else if op = 4 \<and> live then do {
           s \<leftarrow> hrx_value_list_retain list s;
           r \<leftarrow> inc_ref (slot_refs sl ! slot);
           Some (i, sl\<lparr>slot_refs := (slot_refs sl)[slot := r]\<rparr>, s) }
         else if op = 5 \<and> live then do {
           s \<leftarrow> hrx_value_list_release E list s;
           r \<leftarrow> dec_ref (slot_refs sl ! slot);
           let sl = sl\<lparr>slot_refs := (slot_refs sl)[slot := r]\<rparr>;
           Some (i, if r = 0 then sl\<lparr>slot_handles := (slot_handles sl)[slot := NULL]\<rparr> else sl, s) }
         else Some (i, sl, s))"

lemma take8_advances: "snd (take8 data i) = i + 8"
  by (simp add: take8_def)

lemma value_list_round_advances:
  "value_list_round E tmp data i sl s = Some (j, sl', t) \<Longrightarrow> i < j"
  by (auto simp: value_list_round_def Let_def take8_def split: if_splits elim!: bind_SomeE)

declare bind_option_cong [fundef_cong]

function value_list_loop :: "env \<Rightarrow> ptr \<Rightarrow> u8 list \<Rightarrow> nat \<Rightarrow> slots \<Rightarrow> hrx \<Rightarrow> (slots \<times> hrx) option" where
  "value_list_loop E tmp data i sl s =
     (if i < length data then do {
        (i, sl, s) \<leftarrow> value_list_round E tmp data i sl s;
        value_list_loop E tmp data i sl s }
      else Some (sl, s))"
  by auto
termination
  by (relation "measure (\<lambda>(E, tmp, data, i, sl, s). length data - i)")
    (auto dest!: value_list_round_advances)

declare value_list_loop.simps [simp del]

text \<open>
  The target. \<open>INIT\<close> is the flag of the \<open>Once\<close>, so that the runtime is started by the first
  input only.
\<close>

definition value_list_lifecycle :: "env \<Rightarrow> ptr \<Rightarrow> u8 list \<Rightarrow> bool \<times> hrx \<Rightarrow> (bool \<times> hrx) option" where
  "value_list_lifecycle E tmp data c = (case c of (initialized, s) \<Rightarrow> do {
     s \<leftarrow> (if initialized then Some s
          else do { (st, s) \<leftarrow> hrx_cpu_initialize E 0 s; Some (hrx_status_ignore st s) });
     let sl = \<lparr>slot_handles = replicate POOL NULL, slot_refs = replicate POOL 0\<rparr>;
     (sl, s) \<leftarrow> value_list_loop E tmp data 0 sl s;
     s \<leftarrow> drain_all (hrx_value_list_release E) (zip (slot_handles sl) (slot_refs sl)) s;
     Some (True, s) })"

section \<open>What a target holds\<close>

definition holding :: "hkind \<Rightarrow> (ptr \<times> u32) list \<Rightarrow> holdings" where
  "holding K xs k h = (\<Sum>(x, r)\<leftarrow>xs. uint r * one_handle k h K x)"

lemma holding_simps [simp]:
  "holding K [] = no_holdings"
  "holding K ((x, r) # xs) k h = uint r * one_handle k h K x + holding K xs k h"
  by (simp_all add: holding_def no_holdings_def fun_eq_iff)

lemma holding_update:
  assumes "j < length xs" and "xs ! j = (x, r)"
  shows "holding K (xs[j := (x', r')]) k h =
    holding K xs k h - uint r * one_handle k h K x + uint r' * one_handle k h K x'"
  using assms
proof (induction xs arbitrary: j)
  case (Cons y ys)
  then show ?case by (cases y; cases j) auto
qed simp

lemma holding_nonneg: "0 \<le> holding K xs k h"
  by (induction xs) (auto simp: no_holdings_def one_handle_def)

lemma holding_pos:
  assumes "j < length xs" and "xs ! j = (x, r)" and "r \<noteq> 0"
  shows "0 < holding K xs K x"
  using assms
proof (induction xs arbitrary: j)
  case (Cons y ys)
  have "uint r \<noteq> 0" "0 \<le> uint r" using Cons.prems(3) by (simp_all add: uint_0_iff)
  then have "0 < uint r" by linarith
  then show ?case
    using Cons holding_nonneg [of K ys K x] by (cases y; cases j) (auto simp: one_handle_def add_nonneg_pos add_pos_nonneg)
qed simp

lemma holding_unused: "holding K (replicate n (NULL, 0)) = no_holdings"
  by (induction n) (simp_all add: fun_eq_iff no_holdings_def)

text \<open>
  The invariant of a target: a slot is empty exactly when it has no references, the counts are
  within the bytes read so far, and the library agrees with them.
\<close>

definition slots_ok :: "hkind \<Rightarrow> nat \<Rightarrow> ptr list \<Rightarrow> u32 list \<Rightarrow> hrx \<Rightarrow> bool" where
  "slots_ok K n hs rs s \<longleftrightarrow> length hs = POOL \<and> length rs = POOL \<and>
     (\<forall>j<POOL. (hs ! j = NULL \<longleftrightarrow> rs ! j = 0) \<and> unat (rs ! j) \<le> n) \<and> client_ok (holding K (zip hs rs), s)"

lemma slots_ok_initial:
  "client_ok (no_holdings, s) \<Longrightarrow> slots_ok K n (replicate POOL NULL) (replicate POOL 0) s"
  using holding_unused [of K POOL] by (simp add: slots_ok_def zip_replicate)

lemma slot_of_bound [simp]: "slot_of b < POOL"
  by (simp add: slot_of_def POOL_def)

section \<open>What a round does\<close>

lemma slots_ok_frame [simp]:
  "slots_ok K n hs rs (poke a c s) = slots_ok K n hs rs s"
  "slots_ok K n hs rs (hrx_status_ignore st s) = slots_ok K n hs rs s"
  by (simp_all add: slots_ok_def client_ok_def hrx_status_ignore_drop)

lemma slots_ok_mono: "slots_ok K n hs rs s \<Longrightarrow> n \<le> m \<Longrightarrow> slots_ok K m hs rs s"
  by (auto simp: slots_ok_def intro: order_trans)

lemma slots_ok_call:
  assumes "call_step E s t" and "reliable E" and "slots_ok K n hs rs s"
  shows "slots_ok K n hs rs t"
  using assms client_step_ok [OF client_step.call] unfolding slots_ok_def by blast

lemma slot_entry:
  assumes "slots_ok K n hs rs s" and "j < POOL" and "hs ! j \<noteq> NULL"
  shows "0 < holding K (zip hs rs) K (hs ! j)" and "rs ! j \<noteq> 0" and "live_as K (hs ! j) s"
proof -
  show r: "rs ! j \<noteq> 0" using assms by (auto simp: slots_ok_def)
  show w: "0 < holding K (zip hs rs) K (hs ! j)"
    using assms r by (intro holding_pos [of j _ _ "rs ! j"]) (auto simp: slots_ok_def)
  have "owed K (hs ! j) s = holding K (zip hs rs) K (hs ! j)" using assms(1) by (simp add: slots_ok_def client_ok_def)
  then show "live_as K (hs ! j) s" using owed_live w by simp
qed

lemma zip_update2: "zip (hs[j := x]) (rs[j := r]) = (zip hs rs)[j := (x, r)]"
  by (simp add: update_zip)

lemma zip_update_r: "j < length hs \<Longrightarrow> zip hs (rs[j := r]) = (zip hs rs)[j := (hs ! j, r)]"
  using zip_update2 [of hs j "hs ! j" rs r] by simp

text \<open>A new handle in an empty slot, with one reference.\<close>

lemma slots_ok_create:
  assumes "create_step E K out None s t" and "mem t out = CPtr x" and "reliable E"
    and ok: "slots_ok K n hs rs s" and "j < POOL" "hs ! j = NULL" "0 < n"
  shows "slots_ok K n (hs[j := x]) (rs[j := 1]) t \<and> x \<noteq> NULL"
proof -
  have c: "client_ok (holding K (zip hs rs), s)" and l: "length hs = POOL" "length rs = POOL" "rs ! j = 0"
    using ok assms(5,6) by (auto simp: slots_ok_def)
  have "wf_state s" using c by (simp add: client_ok_def)
  then have x: "x \<noteq> NULL" using create_step_gives [OF assms(1) _ assms(3)] assms(2) by (simp add: gives_def)
  have "holding K ((zip hs rs)[j := (x, 1)]) = gain K x (holding K (zip hs rs))"
    using l assms(5,6) by (simp add: fun_eq_iff gain_def holding_update [of j _ NULL 0])
  then have "client_ok (holding K (zip (hs[j := x]) (rs[j := 1])), t)"
    using client_step_ok [OF client_step.created [OF assms(1,2)] assms(3) c] by (simp add: zip_update2)
  then show ?thesis using ok x assms(5,7) l by (auto simp: slots_ok_def nth_list_update)
qed

lemma slots_ok_refuse:
  assumes "create_step E K out (Some e) s t" and "reliable E" and "slots_ok K n hs rs s"
  shows "slots_ok K n hs rs t"
  using assms client_step_ok [OF client_step.refused] unfolding slots_ok_def by blast

lemma inc_ref_below:
  assumes "unat r < 2 ^ 32 - 1"
  shows "inc_ref r = Some (r + 1)" and "unat (r + 1) = unat r + 1"
proof -
  show u: "unat (r + 1) = unat r + 1" using assms by (simp add: unat_word_ariths)
  then have "r \<noteq> - 1" by auto
  then show "inc_ref r = Some (r + 1)" by (simp add: inc_ref_def)
qed

lemma dec_ref_above:
  assumes "r \<noteq> 0"
  shows "dec_ref r = Some (r - 1)" and "unat (r - 1) = unat r - 1" and "uint (r - 1) = uint r - 1"
proof -
  have "1 \<le> r" using assms by (simp add: word_le_nat_alt Suc_leI unat_gt_0)
  then show "dec_ref r = Some (r - 1)" "unat (r - 1) = unat r - 1" "uint (r - 1) = uint r - 1"
    using assms by (simp_all add: dec_ref_def unat_sub uint_minus_simple_alt)
qed

text \<open>One reference more, and one less; the slot is cleared with the last one.\<close>

lemma slots_ok_retain:
  assumes "retain_step K (hs ! j) s t" and "reliable E" and ok: "slots_ok K n hs rs s" and j: "j < POOL" "hs ! j \<noteq> NULL"
    and "n < 2 ^ 32 - 1"
  shows "inc_ref (rs ! j) = Some (rs ! j + 1) \<and> slots_ok K (n + 1) hs (rs[j := rs ! j + 1]) t"
proof -
  have c: "client_ok (holding K (zip hs rs), s)" and l: "length hs = POOL" "length rs = POOL" "unat (rs ! j) \<le> n"
    using ok j by (auto simp: slots_ok_def)
  have b: "unat (rs ! j) < 2 ^ 32 - 1" using l(3) assms(6) by simp
  note r = inc_ref_below [OF b]
  have u: "uint (rs ! j + 1) = uint (rs ! j) + 1" using r(2) by (metis of_nat_1 of_nat_add unsigned_of_nat uint_nat)
  have "holding K ((zip hs rs)[j := (hs ! j, rs ! j + 1)]) = gain K (hs ! j) (holding K (zip hs rs))"
    using l j by (simp add: fun_eq_iff gain_def holding_update [of j _ "hs ! j" "rs ! j"] u distrib_right)
  then have "client_ok (holding K (zip hs (rs[j := rs ! j + 1])), t)"
    using client_step_ok [OF client_step.retain [OF assms(1)] assms(2) c] l j by (simp add: zip_update_r)
  moreover have "rs ! j + 1 \<noteq> 0" using r(2) by auto
  ultimately show ?thesis using ok r l j by (auto simp: slots_ok_def nth_list_update le_Suc_eq)
qed

lemma slots_ok_release:
  assumes "release_step E K (hs ! j) s t" and "reliable E" and ok: "slots_ok K n hs rs s" and j: "j < POOL" "hs ! j \<noteq> NULL"
  shows "dec_ref (rs ! j) = Some (rs ! j - 1) \<and>
    slots_ok K n (if rs ! j - 1 = 0 then hs[j := NULL] else hs) (rs[j := rs ! j - 1]) t"
proof -
  have c: "client_ok (holding K (zip hs rs), s)" and l: "length hs = POOL" "length rs = POOL" "unat (rs ! j) \<le> n"
    using ok j by (auto simp: slots_ok_def)
  note e = slot_entry [OF ok j]
  note r = dec_ref_above [OF e(2)]
  have h: "holding K ((zip hs rs)[j := (x, rs ! j - 1)]) = lose K (hs ! j) (holding K (zip hs rs))"
    if "x = hs ! j \<or> rs ! j - 1 = 0" for x
  proof -
    have "uint (rs ! j - 1) * one_handle k h K x = (uint (rs ! j) - 1) * one_handle k h K (hs ! j)" for k h
      using that r(3) by auto
    then show ?thesis
      using l j by (simp add: fun_eq_iff lose_def holding_update [of j _ "hs ! j" "rs ! j"] left_diff_distrib)
  qed
  have "client_ok (lose K (hs ! j) (holding K (zip hs rs)), t)"
    using client_step_ok [OF client_step.release [of E K "hs ! j" s t "holding K (zip hs rs)"] assms(2) c] assms(1) e(1) by blast
  then have "client_ok (holding K (zip (if rs ! j - 1 = 0 then hs[j := NULL] else hs) (rs[j := rs ! j - 1])), t)"
    using h [of NULL] h [of "hs ! j"] l j by (cases "rs ! j - 1 = 0") (simp_all add: zip_update2 zip_update_r)
  then show ?thesis
    using ok r l j e(2) by (auto simp: slots_ok_def nth_list_update split: if_splits)
qed

text \<open>What the targets call on a live handle returns.\<close>

lemma live_value_list:
  assumes "live_as HValueList h s"
  shows "\<exists>l. handle_ref as_value_list h s = Some l"
  using assms hkind_wrapped by (fastforce simp: live_as_def handle_ref_def split: option.splits)

lemma value_list_calls_progress:
  assumes "live_as HValueList h s"
  shows "\<exists>r. hrx_value_list_push_i64 E h v s = Some r" "\<exists>r. hrx_value_list_push_null_ref E h s = Some r"
    "\<exists>r. hrx_value_list_size E h out s = Some r" "\<exists>r. hrx_value_list_get_i64 E h i out s = Some r"
    "\<exists>t. hrx_value_list_retain h s = Some t"
  using live_value_list [OF assms]
  by (auto simp: hrx_value_list_push_i64_def hrx_value_list_push_null_ref_def hrx_value_list_size_def
      hrx_value_list_get_i64_def hrx_value_list_retain_def value_list_vm_def handle_retain_def handle_ref_def ffi_pair Let_def
      split: option.splits elim!: bind_SomeE)

lemma value_list_create_progress:
  assumes "reliable E" and "out \<noteq> NULL"
  shows "\<exists>st t. hrx_value_list_create E n out s = Some (st, t) \<and> (st \<noteq> None \<longrightarrow> mem t out = CPtr NULL)"
proof -
  let ?r = "iree E (trace s) (Create (iree_vm_list_create n))"
  let ?u = "ffi_do E (Create (iree_vm_list_create n)) (poke out (CPtr NULL) s)"
  have "mem t out = CPtr NULL" if "hrx_status_from_iree E (r_status ?r) ?u = (res, t)" for res t
    using status_from_iree_eqD [OF that] by simp
  moreover have "r_ptr ?r \<noteq> NULL" if "r_status ?r = NULL" using assms(1) that by (simp add: reliable_def)
  ultimately show ?thesis
    using assms(2)
    by (cases "r_status ?r = NULL"; cases "hrx_status_from_iree E (r_status ?r) ?u")
      (auto simp: hrx_value_list_create_def HalVmList_from_owned_def expect_nonnull_def ffi_pair Let_def status_is_ok_def
        hrx_ok_status_def into_handle_eq split: prod.splits)
qed

lemma value_list_release_progress:
  assumes "slots_ok HValueList n hs rs s" and "j < POOL" and "hs ! j \<noteq> NULL"
  shows "\<exists>t. hrx_value_list_release E (hs ! j) s = Some t"
proof -
  have ok: "wf_state s" "\<And>k h. owed k h s = holding HValueList (zip hs rs) k h"
    using assms(1) by (auto simp: slots_ok_def client_ok_def)
  then have "\<exists>t. handle_release as_value_list (drop_value_list E) (hs ! j) s = Some t"
    using value_list_progress.release_progress [of s "hs ! j" E] slot_entry(1) [OF assms] holding_nonneg by simp
  then show ?thesis by (simp add: hrx_value_list_release_def)
qed

section \<open>Rounds\<close>

text \<open>A round that ends, with its invariant; the globals are left alone.\<close>

definition round_ok ::
  "hkind \<Rightarrow> nat \<Rightarrow> hrx \<Rightarrow> (nat \<times> ('a slots_scheme) \<times> hrx) option \<Rightarrow> bool" where
  "round_ok K i s res \<longleftrightarrow> (case res of None \<Rightarrow> False
     | Some (j, sl, t) \<Rightarrow> i < j \<and> slots_ok K j (slot_handles sl) (slot_refs sl) t \<and> G t = G s)"

lemma round_okI:
  "i < j \<Longrightarrow> slots_ok K j (slot_handles sl) (slot_refs sl) t \<Longrightarrow> G t = G s \<Longrightarrow> round_ok K i s (Some (j, sl, t))"
  by (simp add: round_ok_def)

lemma status_ignore_G [simp]: "G (hrx_status_ignore st s) = G s" "mem (hrx_status_ignore st s) = mem s"
  by (simp_all add: hrx_status_ignore_drop)

lemma value_list_call_step:
  "hrx_value_list_push_i64 E h v s = Some (res, t) \<Longrightarrow> call_step E s t"
  "hrx_value_list_push_null_ref E h s = Some (res, t) \<Longrightarrow> call_step E s t"
  "hrx_value_list_size E h out s = Some (res, t) \<Longrightarrow> call_step E s t"
  "hrx_value_list_get_i64 E h i out s = Some (res, t) \<Longrightarrow> call_step E s t"
  by (blast intro: call_step.intros)+

lemma value_list_round_empty:
  assumes rel: "reliable E" and tmp: "tmp \<noteq> NULL" and ok: "slots_ok HValueList i (slot_handles sl) (slot_refs sl) s"
    and empty: "slot_handles sl ! slot_of (data ! i) = NULL"
  shows "round_ok HValueList i s (value_list_round E tmp data i sl s)"
proof (cases "data ! i mod 6 = 0")
  case False
  then show ?thesis
    using empty ok by (auto simp: value_list_round_def Let_def intro!: round_okI intro: slots_ok_mono)
next
  case True
  let ?s = "poke tmp (CPtr NULL) s"
  obtain st u where c: "hrx_value_list_create E (ucast (byte_at data (i + 1))) tmp ?s = Some (st, u)"
      "st \<noteq> None \<longrightarrow> mem u tmp = CPtr NULL"
    using value_list_create_progress [OF rel tmp] by blast
  have g: "G u = G s" using creates_G(4) [OF c(1)] by simp
  note cs = create_step.list_create [OF c(1)]
  have oks: "slots_ok HValueList (i + 2) (slot_handles sl) (slot_refs sl) ?s" using slots_ok_mono ok by simp
  show ?thesis
  proof (cases st)
    case None
    have "wf_state ?s" using ok by (simp add: slots_ok_def client_ok_def)
    then obtain x where x: "mem u tmp = CPtr x"
      using create_step_gives [OF cs _ rel] None by (auto simp: gives_def)
    from slots_ok_create [OF cs [unfolded None] x rel oks _ empty] None show ?thesis
      using empty True c g x by (auto simp: value_list_round_def Let_def read_ptr_def intro!: round_okI)
  next
    case (Some e)
    from slots_ok_refuse [OF cs [unfolded Some] rel oks] show ?thesis
      using empty True c g Some by (auto simp: value_list_round_def Let_def read_ptr_def intro!: round_okI)
  qed
qed

text \<open>The calls of a round on a live list.\<close>

lemma value_list_calls_ok:
  assumes rel: "reliable E" and ok: "slots_ok HValueList n hs rs s" and j: "j < POOL" "hs ! j \<noteq> NULL"
  shows "\<exists>st t. hrx_value_list_push_i64 E (hs ! j) v s = Some (st, t) \<and> slots_ok HValueList n hs rs t \<and> G t = G s"
    and "\<exists>st t. hrx_value_list_push_null_ref E (hs ! j) s = Some (st, t) \<and> slots_ok HValueList n hs rs t \<and> G t = G s"
    and "\<exists>st t. hrx_value_list_size E (hs ! j) out s = Some (st, t) \<and> slots_ok HValueList n hs rs t \<and> G t = G s"
    and "\<exists>st t. hrx_value_list_get_i64 E (hs ! j) i out s = Some (st, t) \<and> slots_ok HValueList n hs rs t \<and> G t = G s"
proof -
  note p = value_list_calls_progress(1-4) [OF slot_entry(3) [OF ok j]]
  have ok': "slots_ok HValueList n hs rs t \<and> G t = G s" if "call_step E s t" for t
    using slots_ok_call [OF that rel ok] step_G(4) [OF that] by simp
  show "\<exists>st t. hrx_value_list_push_i64 E (hs ! j) v s = Some (st, t) \<and> slots_ok HValueList n hs rs t \<and> G t = G s"
    using p(1) [of E v] ok' value_list_call_step(1) by fast
  show "\<exists>st t. hrx_value_list_push_null_ref E (hs ! j) s = Some (st, t) \<and> slots_ok HValueList n hs rs t \<and> G t = G s"
    using p(2) [of E] ok' value_list_call_step(2) by fast
  show "\<exists>st t. hrx_value_list_size E (hs ! j) out s = Some (st, t) \<and> slots_ok HValueList n hs rs t \<and> G t = G s"
    using p(3) [of E out] ok' value_list_call_step(3) by fast
  show "\<exists>st t. hrx_value_list_get_i64 E (hs ! j) i out s = Some (st, t) \<and> slots_ok HValueList n hs rs t \<and> G t = G s"
    using p(4) [of E i out] ok' value_list_call_step(4) by fast
qed

lemma value_list_round_live:
  assumes i: "i < length data" and len: "length data < 2 ^ 32" and rel: "reliable E"
    and ok: "slots_ok HValueList i (slot_handles sl) (slot_refs sl) s"
    and live: "slot_handles sl ! slot_of (data ! i) \<noteq> NULL"
  shows "round_ok HValueList i s (value_list_round E tmp data i sl s)"
proof -
  let ?b = "data ! i" and ?hs = "slot_handles sl" and ?rs = "slot_refs sl"
  let ?h = "?hs ! slot_of ?b"
  note unf = value_list_round_def Let_def take8_def
  note calls = value_list_calls_ok [OF rel _ slot_of_bound live]
  have ok1: "slots_ok HValueList (m + i) ?hs ?rs s" for m using slots_ok_mono [OF ok] by simp
  consider "?b mod 6 = 1" | "?b mod 6 = 2" | "?b mod 6 = 3" | "?b mod 6 = 4" | "?b mod 6 = 5"
    | "?b mod 6 \<notin> {1, 2, 3, 4, 5}" by blast
  then show ?thesis
  proof cases
    case 1
    then show ?thesis
      using live calls(1) [OF ok1 [of 9], of "fst (take8 data (Suc i))"] by (auto simp: unf intro!: round_okI)
  next
    case 2
    then show ?thesis using live calls(2) [OF ok1 [of 1]] by (auto simp: unf intro!: round_okI)
  next
    case 3
    obtain st t where t: "hrx_value_list_size E ?h tmp (poke tmp (CU64 0) s) = Some (st, t)"
        "slots_ok HValueList (i + 2) ?hs ?rs t" "G t = G s"
      using calls(3) [of "i + 2" ?rs "poke tmp (CU64 0) s" tmp] ok1 [of 2] by auto
    let ?t = "poke tmp (CU64 0) (hrx_status_ignore st t)"
    obtain st' u where u: "hrx_value_list_get_i64 E ?h (ucast (byte_at data (Suc i))) tmp ?t = Some (st', u)"
        "slots_ok HValueList (i + 2) ?hs ?rs u" "G u = G t"
      using calls(4) [of "i + 2" ?rs ?t "ucast (byte_at data (Suc i))" tmp] t(2) by auto
    show ?thesis using 3 live t u by (auto simp: unf intro!: round_okI)
  next
    case 4
    obtain t where t: "hrx_value_list_retain ?h s = Some t"
      using value_list_calls_progress(5) [OF slot_entry(3) [OF ok slot_of_bound live]] by blast
    have "i < 2 ^ 32 - 1" using i len by simp
    from slots_ok_retain [OF retain_step.list_retain [OF t] rel ok slot_of_bound live this] show ?thesis
      using 4 live t retains_G(6) [OF t] by (auto simp: unf intro!: round_okI)
  next
    case 5
    obtain t where t: "hrx_value_list_release E ?h s = Some t"
      using value_list_release_progress [OF ok slot_of_bound live] by blast
    from slots_ok_release [OF release_step.list_release [OF t] rel ok1 [of 1] slot_of_bound live] show ?thesis
      using 5 live t releases_G(6) [OF t] by (auto simp: unf intro!: round_okI)
  next
    case 6
    then show ?thesis using live ok1 [of 1] by (auto simp: unf intro!: round_okI)
  qed
qed

lemma value_list_round_ok:
  assumes "i < length data" and "length data < 2 ^ 32" and "reliable E" and "tmp \<noteq> NULL"
    and "slots_ok HValueList i (slot_handles sl) (slot_refs sl) s"
  shows "round_ok HValueList i s (value_list_round E tmp data i sl s)"
  using assms value_list_round_empty value_list_round_live by blast

lemma value_list_loop_ok:
  assumes "length data < 2 ^ 32" and "reliable E" and "tmp \<noteq> NULL"
    and "slots_ok HValueList i (slot_handles sl) (slot_refs sl) s"
  shows "\<exists>sl' n t. value_list_loop E tmp data i sl s = Some (sl', t) \<and>
    slots_ok HValueList n (slot_handles sl') (slot_refs sl') t \<and> G t = G s"
  using assms
proof (induction E tmp data i sl s rule: value_list_loop.induct)
  case (1 E tmp data i sl s)
  show ?case
  proof (cases "i < length data")
    case True
    obtain j sl' t where r: "value_list_round E tmp data i sl s = Some (j, sl', t)"
        "slots_ok HValueList j (slot_handles sl') (slot_refs sl') t" "G t = G s"
      using value_list_round_ok [OF True 1(2-5)] by (auto simp: round_ok_def split: option.splits)
    have "(j, sl', t) \<in> set_option (value_list_round E tmp data i sl s)" using r(1) by simp
    from 1(1) [OF True this refl refl 1(2-4) r(2)] show ?thesis
      using True r(1,3) by (simp add: value_list_loop.simps [of E tmp data i sl s])
  next
    case False
    then show ?thesis using 1(5) by (auto simp: value_list_loop.simps [of E tmp data i sl s])
  qed
qed

section \<open>The end of an input\<close>

text \<open>The final loops give back exactly what is held.\<close>

locale drained =
  fixes E :: env
    and K :: hkind
    and rel :: "ptr \<Rightarrow> hrx \<Rightarrow> hrx option"
  assumes rel_step: "rel h s = Some t \<Longrightarrow> release_step E K h s t"
    and rel_progress: "wf_state s \<Longrightarrow> (\<And>k h. 0 \<le> owed k h s) \<Longrightarrow> 0 < owed K x s \<Longrightarrow> \<exists>t. rel x s = Some t"
begin

lemma drain_ok:
  assumes "reliable E" and "client_ok (\<lambda>k h. int n * one_handle k h K x + w k h, s)" and "\<And>k h. 0 \<le> w k h"
  shows "\<exists>t. drain (rel x) n s = Some t \<and> client_ok (w, t) \<and> G t = G s"
  using assms(2)
proof (induction n arbitrary: s)
  case (Suc n)
  let ?w = "\<lambda>k h. int (Suc n) * one_handle k h K x + w k h"
  have ok: "wf_state s" "owed k h s = ?w k h" for k h using Suc.prems by (simp_all add: client_ok_def)
  have nn: "0 \<le> owed k h s" for k h using ok(2) [of k h] assms(3) [of k h] by (simp add: one_handle_def)
  have pos: "0 < owed K x s" using ok(2) [of K x] assms(3) [of K x] by (simp add: one_handle_def)
  obtain u where u: "rel x s = Some u" using rel_progress [OF ok(1) nn pos] by blast
  have "client_step E (?w, s) (lose K x ?w, u)"
    using client_step.release [OF rel_step [OF u], of ?w] pos ok(2) by simp
  moreover have "lose K x ?w = (\<lambda>k h. int n * one_handle k h K x + w k h)"
    by (simp add: fun_eq_iff lose_def distrib_right)
  ultimately have "client_ok (\<lambda>k h. int n * one_handle k h K x + w k h, u)"
    using client_step_ok [OF _ assms(1) Suc.prems] by simp
  from Suc.IH [OF this] show ?case using u step_G(3) [OF rel_step [OF u]] by simp
qed simp

lemma drain_all_ok:
  assumes "reliable E" and "client_ok (holding K xs, s)"
  shows "\<exists>t. drain_all rel xs s = Some t \<and> client_ok (no_holdings, t) \<and> G t = G s"
  using assms(2)
proof (induction xs arbitrary: s)
  case (Cons y ys)
  obtain h r where y: "y = (h, r)" by fastforce
  have "holding K (y # ys) = (\<lambda>k h'. int (unat r) * one_handle k h' K h + holding K ys k h')"
    by (simp add: y fun_eq_iff)
  with Cons.prems drain_ok [OF assms(1), of "unat r" h "holding K ys" s]
  obtain u where "drain (rel h) (unat r) s = Some u" "client_ok (holding K ys, u)" "G u = G s"
    using holding_nonneg by auto
  then show ?case using Cons.IH [of u] y by auto
qed simp

end

interpretation value_list_drained: drained E HValueList "hrx_value_list_release E"
  for E :: env
proof
  show "release_step E HValueList h s t" if "hrx_value_list_release E h s = Some t" for h s t
    using release_step.list_release [OF that] .
  show "\<exists>t. hrx_value_list_release E x s = Some t"
    if "wf_state s" "\<And>k h. 0 \<le> owed k h s" "0 < owed HValueList x s" for s x
    using value_list_progress.release_progress [OF that(1,2), of x E] that(3) by (simp add: hrx_value_list_release_def)
qed

section \<open>Properties\<close>

text \<open>The fuzzer calls the target on one input after the other, in one process.\<close>

fun run_inputs :: "(u8 list \<Rightarrow> 'c \<Rightarrow> 'c option) \<Rightarrow> u8 list list \<Rightarrow> 'c \<Rightarrow> 'c option" where
  "run_inputs target [] c = Some c"
| "run_inputs target (data # inputs) c = target data c \<bind> run_inputs target inputs"

definition clean :: "hrx \<Rightarrow> bool" where
  "clean s \<longleftrightarrow> (\<forall>h. arcs s h \<noteq> None \<longrightarrow> h \<in> set (acc_devices (g_cpu (G s))) \<union> set (acc_devices (g_gpu (G s)))) \<and>
     (\<forall>k p. p \<noteq> NULL \<longrightarrow> balance k p (trace s) = held k p s)"

lemma client_ok_clean:
  assumes "client_ok (no_holdings, s)"
  shows "clean s"
proof -
  have "h \<in> set (acc_devices (g_cpu (G s))) \<union> set (acc_devices (g_gpu (G s)))" if "arcs s h = Some a" for h a
  proof -
    have "0 < count_list (acc_devices (g_cpu (G s))) h + count_list (acc_devices (g_gpu (G s))) h"
      using only_listed [OF assms that] by (simp add: global_handles_def split: if_splits) linarith
    then show ?thesis
      using count_list_0_iff [of "acc_devices (g_cpu (G s))" h] count_list_0_iff [of "acc_devices (g_gpu (G s))" h] by auto
  qed
  then show ?thesis using assms by (auto simp: clean_def client_ok_def surplus_def)
qed

lemma client_ok_frame [simp]:
  "client_ok (w, poke a c s) = client_ok (w, s)" "client_ok (w, hrx_status_ignore st s) = client_ok (w, s)"
  by (simp_all add: client_ok_def hrx_status_ignore_drop)

lemma initialize_client_ok:
  assumes "hrx_cpu_initialize E 0 s = Some (st, t)" and "reliable E" and "client_ok (no_holdings, s)"
  shows "client_ok (no_holdings, t)"
  using client_step_ok [OF client_step.accelerator [OF accelerator_step.cpu_initialize [OF assms(1)]] assms(2,3)] .

lemma value_list_lifecycle_ok:
  assumes "length data < 2 ^ 32" and "reliable E" and "tmp \<noteq> NULL" and "client_ok (no_holdings, s)"
    and "\<not> b \<longrightarrow> (\<exists>r. hrx_cpu_initialize E 0 s = Some r)"
  shows "\<exists>t. value_list_lifecycle E tmp data (b, s) = Some (True, t) \<and> client_ok (no_holdings, t)"
proof -
  obtain u where u: "(if b then Some s else do { (st, s) \<leftarrow> hrx_cpu_initialize E 0 s; Some (hrx_status_ignore st s) }) = Some u"
    using assms(5) by fastforce
  have "client_ok (no_holdings, u)"
    using u assms(2,4) by (auto split: if_splits elim!: bind_SomeE dest: initialize_client_ok)
  then have ok: "slots_ok HValueList 0 (replicate POOL NULL) (replicate POOL 0) u" by (rule slots_ok_initial)
  obtain sl n v where v: "value_list_loop E tmp data 0 \<lparr>slot_handles = replicate POOL NULL, slot_refs = replicate POOL 0\<rparr> u = Some (sl, v)"
      "slots_ok HValueList n (slot_handles sl) (slot_refs sl) v"
    using value_list_loop_ok [OF assms(1-3), of 0 "\<lparr>slot_handles = replicate POOL NULL, slot_refs = replicate POOL 0\<rparr>" u] ok by auto
  obtain t where "drain_all (hrx_value_list_release E) (zip (slot_handles sl) (slot_refs sl)) v = Some t" "client_ok (no_holdings, t)"
    using value_list_drained.drain_all_ok [OF assms(2), of "zip (slot_handles sl) (slot_refs sl)" v] v(2) by (auto simp: slots_ok_def)
  then show ?thesis using u v(1) by (simp add: value_list_lifecycle_def)
qed

lemma value_list_inputs_ok:
  assumes "\<forall>data\<in>set inputs. length data < 2 ^ 32" and "reliable E" and "tmp \<noteq> NULL" and "client_ok (no_holdings, s)"
    and "\<not> b \<longrightarrow> (\<exists>r. hrx_cpu_initialize E 0 s = Some r)"
  shows "\<exists>b' t. run_inputs (value_list_lifecycle E tmp) inputs (b, s) = Some (b', t) \<and> client_ok (no_holdings, t)"
  using assms
proof (induction inputs arbitrary: b s)
  case (Cons data inputs)
  obtain t where t: "value_list_lifecycle E tmp data (b, s) = Some (True, t)" "client_ok (no_holdings, t)"
    using value_list_lifecycle_ok [OF _ Cons.prems(2-5), of data] Cons.prems(1) by auto
  then show ?case using Cons.IH [OF _ Cons.prems(2,3) t(2), of True] Cons.prems(1) by simp
qed simp

text \<open>
  C21. The value-list fuzz target is balanced. Started in a fresh process whose CPU runtime comes up
  without a panic, it runs to the end of every input, in any number: no handle it uses is dangling
  and its counters do not overflow. After each input the library is back where it was: only the
  devices of the runtime are alive, and IREE holds no reference on behalf of a list.
\<close>

theorem value_list_fuzz_balanced:
  assumes "\<forall>data\<in>set inputs. length data < 2 ^ 32" and "reliable E" and "tmp \<noteq> NULL"
    and "hrx_cpu_initialize E 0 hrx_initial = Some r"
  shows "\<exists>b t. run_inputs (value_list_lifecycle E tmp) inputs (False, hrx_initial) = Some (b, t) \<and> clean t"
  using value_list_inputs_ok [OF assms(1-3) client_ok_initial, of False] assms(4) client_ok_clean by blast

theorem value_list_fuzz_balanced_witness:
  "\<exists>b t. run_inputs (value_list_lifecycle demo_env 100) [[0, 3, 1, 7, 7, 7, 7, 7, 7, 7, 7, 4, 5, 16], [6, 2, 2]] (False, hrx_initial) =
     Some (b, t) \<and> clean t"
proof -
  obtain t where t: "hrx_cpu_initialize demo_env 0 hrx_initial = Some (None, t)" using cpu_initialize_demo by blast
  show ?thesis by (rule value_list_fuzz_balanced [OF _ reliable_demo_env _ t]) simp_all
qed

end
