(* ===== verification/Fuzz_Buffers.thy ===== *)
theory Fuzz_Buffers
  imports Fuzz
begin

text \<open>
  The fuzz target of buffers (\<open>fuzz/fuzz_targets/buffer_lifecycle.rs\<close>), on the allocator of the CPU device. It also
  maps buffers, writes through the mapping and releases buffers that are still mapped.
\<close>

section \<open>The target\<close>

record buffer_slots = slots +
  slot_sizes :: "usize list"

definition HOST_PARAMS :: hrx_buffer_params where
  "HOST_PARAMS = \<lparr>hp_type = 0x46, hp_access = 7, hp_usage = 0x01000C03, hp_queue_affinity = 0\<rparr>"

definition buffer_round ::
  "env \<Rightarrow> ptr \<Rightarrow> ptr \<Rightarrow> u8 list \<Rightarrow> nat \<Rightarrow> buffer_slots \<Rightarrow> hrx \<Rightarrow> (nat \<times> buffer_slots \<times> hrx) option" where
  "buffer_round E tmp alloc data i sl s =
     (let byte = data ! i; i = i + 1; slot = slot_of byte;
          buf = slot_handles sl ! slot; live = buf \<noteq> NULL; op = byte mod 6
      in if op = 0 \<and> \<not> live then do {
           let sz = ucast (byte_at data i) * 16 + 1;
           let i = i + 1;
           let s = poke tmp (CPtr NULL) s;
           (st, s) \<leftarrow> hrx_allocator_allocate_buffer E alloc HOST_PARAMS sz tmp s;
           let s = hrx_status_ignore st s;
           let b = read_ptr tmp s;
           if b \<noteq> NULL then
             Some (i, sl\<lparr>slot_handles := (slot_handles sl)[slot := b], slot_refs := (slot_refs sl)[slot := 1],
                         slot_sizes := (slot_sizes sl)[slot := sz]\<rparr>, s)
           else Some (i, sl, s) }
         else if op = 1 \<and> live then do {
           s \<leftarrow> hrx_buffer_retain buf s;
           r \<leftarrow> inc_ref (slot_refs sl ! slot);
           Some (i, sl\<lparr>slot_refs := (slot_refs sl)[slot := r]\<rparr>, s) }
         else if op = 2 \<and> live then do {
           s \<leftarrow> hrx_buffer_release E buf s;
           r \<leftarrow> dec_ref (slot_refs sl ! slot);
           let sl = sl\<lparr>slot_refs := (slot_refs sl)[slot := r]\<rparr>;
           Some (i, if r = 0 then sl\<lparr>slot_handles := (slot_handles sl)[slot := NULL]\<rparr> else sl, s) }
         else if op = 3 \<and> live then do {
           let s = poke tmp (CPtr NULL) s;
           (st, s) \<leftarrow> hrx_buffer_map E buf (HRX_MAP_READ OR HRX_MAP_WRITE) 0 (slot_sizes sl ! slot) tmp s;
           let s = hrx_status_ignore st s;
           let p = read_ptr tmp s;
           let s = (if hrx_status_is_ok st \<and> p \<noteq> NULL then poke p (CByte (char_of (unat byte))) s else s);
           Some (i, sl, s) }
         else if op = 4 \<and> live then do {
           (st, s) \<leftarrow> hrx_buffer_unmap E buf s;
           Some (i, sl, hrx_status_ignore st s) }
         else if op = 5 \<and> live then do {
           let s = poke tmp (CU64 0) s;
           (st, s) \<leftarrow> hrx_buffer_get_size E buf tmp s;
           Some (i, sl, hrx_status_ignore st s) }
         else Some (i, sl, s))"

lemma buffer_round_advances:
  "buffer_round E tmp alloc data i sl s = Some (j, sl', t) \<Longrightarrow> i < j"
  by (auto simp: buffer_round_def Let_def split: if_splits elim!: bind_SomeE)

function buffer_loop ::
  "env \<Rightarrow> ptr \<Rightarrow> ptr \<Rightarrow> u8 list \<Rightarrow> nat \<Rightarrow> buffer_slots \<Rightarrow> hrx \<Rightarrow> (buffer_slots \<times> hrx) option" where
  "buffer_loop E tmp alloc data i sl s =
     (if i < length data then do {
        (i, sl, s) \<leftarrow> buffer_round E tmp alloc data i sl s;
        buffer_loop E tmp alloc data i sl s }
      else Some (sl, s))"
  by auto
termination
  by (relation "measure (\<lambda>(E, tmp, alloc, data, i, sl, s). length data - i)")
    (auto dest!: buffer_round_advances)

declare buffer_loop.simps [simp del]

text \<open>
  \<open>setup_allocator\<close>, once per process. Taking the allocator of a device reads through the device
  handle, so it needs one: when the runtime did not start, the handle is still null.
\<close>

definition setup_allocator :: "env \<Rightarrow> ptr \<Rightarrow> hrx \<Rightarrow> (ptr \<times> hrx) option" where
  "setup_allocator E tmp s = do {
     (st, s) \<leftarrow> hrx_cpu_initialize E 0 s;
     let s = hrx_status_ignore st s;
     let s = poke tmp (CPtr NULL) s;
     (st, s) \<leftarrow> hrx_cpu_device_get E 0 tmp s;
     let s = hrx_status_ignore st s;
     let dev = read_ptr tmp s;
     d \<leftarrow> handle_ref as_device dev s;
     Some (hrx_device_allocator dev, s) }"

text \<open>The target; \<open>ALLOC\<close> is the cached allocator, \<open>None\<close> before the first input.\<close>

definition buffer_lifecycle :: "env \<Rightarrow> ptr \<Rightarrow> u8 list \<Rightarrow> ptr option \<times> hrx \<Rightarrow> (ptr option \<times> hrx) option" where
  "buffer_lifecycle E tmp data c = (case c of (cached, s) \<Rightarrow> do {
     (alloc, s) \<leftarrow> (case cached of Some a \<Rightarrow> Some (a, s) | None \<Rightarrow> setup_allocator E tmp s);
     if alloc = NULL then Some (Some alloc, s)
     else do {
       let sl = \<lparr>slot_handles = replicate POOL NULL, slot_refs = replicate POOL 0, slot_sizes = replicate POOL 0\<rparr>;
       (sl, s) \<leftarrow> buffer_loop E tmp alloc data 0 sl s;
       s \<leftarrow> drain_all (hrx_buffer_release E) (zip (slot_handles sl) (slot_refs sl)) s;
       Some (Some alloc, s) } })"

interpretation buffer_drained: drained E HBuffer "hrx_buffer_release E"
  for E :: env
proof
  show "release_step E HBuffer h s t" if "hrx_buffer_release E h s = Some t" for h s t
    using release_step.buffer_release [OF that] .
  show "\<exists>t. hrx_buffer_release E x s = Some t"
    if "wf_state s" "\<And>k h. 0 \<le> owed k h s" "0 < owed HBuffer x s" for s x
    using buffer_progress.release_progress [OF that(1,2), of x E] that(3) by (simp add: hrx_buffer_release_def)
qed

section \<open>Rounds\<close>

lemma live_buffer:
  assumes "live_as HBuffer h s"
  shows "\<exists>b. handle_ref as_buffer h s = Some b"
  using assms hkind_wrapped by (fastforce simp: live_as_def handle_ref_def split: option.splits)

lemma buffer_calls_progress:
  assumes "live_as HBuffer h s"
  shows "\<exists>r. hrx_buffer_map E h fl off n out s = Some r" "\<exists>r. hrx_buffer_unmap E h s = Some r"
    "\<exists>r. hrx_buffer_get_size E h out s = Some r" "\<exists>t. hrx_buffer_retain h s = Some t"
  using live_buffer [OF assms]
  by (auto simp: hrx_buffer_map_def hrx_buffer_unmap_def hrx_buffer_get_size_def hrx_buffer_retain_def handle_retain_def
      handle_ref_def ffi_pair Let_def split: option.splits elim!: bind_SomeE)

lemma buffer_calls_ok:
  assumes rel: "reliable E" and ok: "slots_ok HBuffer n hs rs s" and j: "j < POOL" "hs ! j \<noteq> NULL"
  shows "\<exists>st t. hrx_buffer_map E (hs ! j) fl off sz out s = Some (st, t) \<and> slots_ok HBuffer n hs rs t \<and> G t = G s"
    and "\<exists>st t. hrx_buffer_unmap E (hs ! j) s = Some (st, t) \<and> slots_ok HBuffer n hs rs t \<and> G t = G s"
    and "\<exists>st t. hrx_buffer_get_size E (hs ! j) out s = Some (st, t) \<and> slots_ok HBuffer n hs rs t \<and> G t = G s"
proof -
  note p = buffer_calls_progress(1-3) [OF slot_entry(3) [OF ok j]]
  have ok': "slots_ok HBuffer n hs rs t \<and> G t = G s" if "call_step E s t" for t
    using slots_ok_call [OF that rel ok] step_G(4) [OF that] by simp
  show "\<exists>st t. hrx_buffer_map E (hs ! j) fl off sz out s = Some (st, t) \<and> slots_ok HBuffer n hs rs t \<and> G t = G s"
    using p(1) [of E fl off sz out] ok' call_step.buffer_map [of E "hs ! j" fl off sz out s] by fast
  show "\<exists>st t. hrx_buffer_unmap E (hs ! j) s = Some (st, t) \<and> slots_ok HBuffer n hs rs t \<and> G t = G s"
    using p(2) [of E] ok' call_step.buffer_unmap [of E "hs ! j" s] by fast
  show "\<exists>st t. hrx_buffer_get_size E (hs ! j) out s = Some (st, t) \<and> slots_ok HBuffer n hs rs t \<and> G t = G s"
    using p(3) [of E out] ok' call_step.buffer_size [of E "hs ! j" out s] by fast
qed

text \<open>
  The cached allocator: its device is in the list of the CPU accelerator, and points back to
  itself. The calls of the target neither make nor change devices.
\<close>

definition alloc_ok :: "ptr \<Rightarrow> hrx \<Rightarrow> bool" where
  "alloc_ok al s \<longleftrightarrow> al \<in> set (acc_devices (g_cpu (G s))) \<and>
     (\<exists>d. handle_ref as_device al s = Some d \<and> al_device (dev_allocator d) = al)"

definition device_map :: "hrx \<Rightarrow> ptr \<Rightarrow> hrx_device_s option" where
  "device_map s h = handle_ref as_device h s"

abbreviation devices_kept :: "hrx \<Rightarrow> hrx \<Rightarrow> bool" where
  "devices_kept s t \<equiv> device_map t \<subseteq>\<^sub>m device_map s"

lemma devices_kept_trans: "devices_kept s t \<Longrightarrow> devices_kept t u \<Longrightarrow> devices_kept s u"
  using map_le_trans .

lemma device_map_effects [simp]:
  "device_map (poke a c s) = device_map s" "device_map (ffi_do E f s) = device_map s"
  "device_map (drop_mapped_range E m s) = device_map s" "device_map (hrx_status_ignore st s) = device_map s"
  by (simp_all add: fun_eq_iff device_map_def handle_ref_def drop_mapped_range_def hrx_status_ignore_drop ffi_pair)

lemma status_kept:
  "hrx_make_status E c m s = (res, t) \<Longrightarrow> device_map t = device_map s"
  "hrx_status_from_iree E st s = (res, t) \<Longrightarrow> device_map t = device_map s"
  by (auto simp: device_map_def handle_ref_def fun_eq_iff dest!: status_owed)

lemma device_map_retain: "handle_retain as h s = Some t \<Longrightarrow> device_map t = device_map s"
  by (auto simp: device_map_def handle_retain_def handle_ref_def fun_eq_iff split: option.splits if_splits)

lemma devices_kept_buffer_set: "devices_kept s u \<Longrightarrow> devices_kept s (handle_set h (OBuffer b) u)"
  by (rule devices_kept_trans) (auto simp: map_le_def dom_def device_map_def handle_ref_def arcs_handle_set
      split: option.splits if_splits elim!: bind_SomeE)

lemma devices_kept_new_buffer: "devices_kept s u \<Longrightarrow> devices_kept s (snd (into_handle (new_buffer b q d mt sz) u))"
  by (rule devices_kept_trans) (auto simp: map_le_def dom_def device_map_def handle_ref_def into_handle_def new_buffer_def
      split: if_splits elim!: bind_SomeE)

lemma DeviceRef_retain_kept: "DeviceRef_retain d s = Some (d', t) \<Longrightarrow> device_map t = device_map s"
  by (auto simp: DeviceRef_retain_def hrx_device_retain_def elim!: bind_SomeE dest: device_map_retain)

lemma devices_kept_release:
  assumes "handle_release as dr h s = Some t" and "\<And>y u v. dr y u = Some v \<Longrightarrow> devices_kept u v"
  shows "devices_kept s t"
proof -
  have "devices_kept s (s\<lparr>arcs := (arcs s)(h := None)\<rparr>)"
    by (auto simp: map_le_def dom_def device_map_def handle_ref_def split: if_splits)
  moreover have "device_map (s\<lparr>arcs := (arcs s)(h \<mapsto> a\<lparr>strong := n\<rparr>)\<rparr>) = device_map s" if "arcs s h = Some a" for a n
    using that by (auto simp: device_map_def handle_ref_def fun_eq_iff)
  ultimately show ?thesis
    using assms devices_kept_trans by (fastforce simp: handle_release_def split: option.splits if_splits)
qed

lemma DeviceRef_drop_kept: "DeviceRef_drop E d s = Some t \<Longrightarrow> devices_kept s t"
  unfolding DeviceRef_drop_def hrx_device_release_def
  by (erule devices_kept_release) (auto simp: drop_device_def Let_def)

lemma buffer_calls_kept:
  "hrx_buffer_map E h fl off n out s = Some (res, t) \<Longrightarrow> devices_kept s t"
  "hrx_buffer_unmap E h s = Some (res, t) \<Longrightarrow> devices_kept s t"
  "hrx_buffer_get_size E h out s = Some (res, t) \<Longrightarrow> devices_kept s t"
  "hrx_buffer_retain h s = Some t \<Longrightarrow> devices_kept s t"
  by (auto simp: hrx_buffer_map_def hrx_buffer_unmap_def hrx_buffer_get_size_def hrx_buffer_retain_def ffi_pair Let_def
      split: if_splits option.splits elim!: bind_SomeE dest!: status_kept device_map_retain
      intro!: devices_kept_buffer_set)

lemma buffer_release_kept:
  assumes "hrx_buffer_release E h s = Some t"
  shows "devices_kept s t"
  using assms unfolding hrx_buffer_release_def
  by (rule devices_kept_release) (auto simp: drop_buffer_def Let_def split: option.splits dest!: DeviceRef_drop_kept)

lemma allocate_kept:
  "hrx_allocator_allocate_buffer E al ps n out s = Some (res, t) \<Longrightarrow> devices_kept s t"
  by (auto simp: hrx_allocator_allocate_buffer_def finish_buffer_def ffi_pair Let_def into_handle_eq
      split: if_splits prod.splits elim!: bind_SomeE dest!: status_kept DeviceRef_retain_kept intro!: devices_kept_new_buffer)

lemma alloc_ok_kept:
  assumes "alloc_ok al s" and "devices_kept s t" and "G t = G s" and "slots_ok K n hs rs t"
  shows "alloc_ok al t"
proof -
  have "heap_typed t" using assms(4) client_ok_typed by (auto simp: slots_ok_def)
  then have "live_as HDevice al t" using assms(1,3) by (auto simp: heap_typed_def alloc_ok_def)
  then show ?thesis
    using live_as_ref(2) [of al t] assms(1-3) by (fastforce simp: alloc_ok_def map_le_def dom_def device_map_def)
qed

lemma allocate_progress:
  assumes "reliable E" and "out \<noteq> NULL" and "al \<noteq> NULL" and "alloc_ok al s" and "mem s out = CPtr NULL"
  shows "\<exists>st t. hrx_allocator_allocate_buffer E al ps n out s = Some (st, t) \<and> (st \<noteq> None \<longrightarrow> mem t out = CPtr NULL)"
proof -
  obtain d where d: "handle_ref as_device al s = Some d" "al_device (dev_allocator d) = al"
    using assms(4) by (auto simp: alloc_ok_def)
  let ?f = "iree_hal_allocator_allocate_buffer (al_hal_allocator (dev_allocator d)) (hal_params ps) n"
  let ?r = "iree E (trace s) (Create ?f)"
  note unf = hrx_allocator_allocate_buffer_def finish_buffer_def allocator_ref_def HalBuffer_from_owned_def expect_nonnull_def
    ffi_pair Let_def status_is_ok_def hrx_ok_status_def
  show ?thesis
  proof (cases "r_status ?r = NULL")
    case False
    obtain res t where t: "hrx_status_from_iree E (r_status ?r) (ffi_do E (Create ?f) s) = (res, t)" by fastforce
    then show ?thesis using False d assms(2,3,5) status_from_iree_eqD [OF t] by (simp add: unf)
  next
    case True
    then have "r_ptr ?r \<noteq> NULL" using assms(1) by (simp add: reliable_def)
    moreover obtain u where "DeviceRef_retain al (ffi_do E (Create ?f) s) = Some (al, u)"
      using d(1) by (auto simp: DeviceRef_retain_def hrx_device_retain_def handle_retain_def handle_ref_def elim!: bind_SomeE)
    ultimately show ?thesis using True d assms(2,3) by (simp add: unf split: prod.splits)
  qed
qed

lemma buffer_release_progress:
  assumes "slots_ok HBuffer n hs rs s" and "j < POOL" and "hs ! j \<noteq> NULL"
  shows "\<exists>t. hrx_buffer_release E (hs ! j) s = Some t"
proof -
  have ok: "wf_state s" "\<And>k h. owed k h s = holding HBuffer (zip hs rs) k h"
    using assms(1) by (auto simp: slots_ok_def client_ok_def)
  then have "\<exists>t. handle_release as_buffer (drop_buffer E) (hs ! j) s = Some t"
    using buffer_progress.release_progress [of s "hs ! j" E] slot_entry(1) [OF assms] holding_nonneg by simp
  then show ?thesis by (simp add: hrx_buffer_release_def)
qed

definition buffer_round_ok :: "ptr \<Rightarrow> nat \<Rightarrow> hrx \<Rightarrow> (nat \<times> buffer_slots \<times> hrx) option \<Rightarrow> bool" where
  "buffer_round_ok al i s res \<longleftrightarrow> round_ok HBuffer i s res \<and> (case res of None \<Rightarrow> False | Some (j, sl, t) \<Rightarrow> devices_kept s t)"

lemma buffer_round_okI:
  "i < j \<Longrightarrow> slots_ok HBuffer j (slot_handles sl) (slot_refs sl) t \<Longrightarrow> G t = G s \<Longrightarrow> devices_kept s t \<Longrightarrow>
     buffer_round_ok al i s (Some (j, sl, t))"
  by (simp add: buffer_round_ok_def round_ok_def)

lemma buffer_round_empty:
  assumes rel: "reliable E" and tmp: "tmp \<noteq> NULL" and ok: "slots_ok HBuffer i (slot_handles sl) (slot_refs sl) s"
    and al: "al \<noteq> NULL" "alloc_ok al s" and empty: "slot_handles sl ! slot_of (data ! i) = NULL"
  shows "buffer_round_ok al i s (buffer_round E tmp al data i sl s)"
proof (cases "data ! i mod 6 = 0")
  case False
  then show ?thesis
    using empty ok by (auto simp: buffer_round_def Let_def intro!: buffer_round_okI intro: slots_ok_mono)
next
  case True
  let ?s = "poke tmp (CPtr NULL) s"
  have "alloc_ok al ?s" using al(2) by (simp add: alloc_ok_def handle_ref_def)
  from allocate_progress [OF rel tmp al(1) this, of HOST_PARAMS "ucast (byte_at data (i + 1)) * 16 + 1"]
  obtain st u where c: "hrx_allocator_allocate_buffer E al HOST_PARAMS (ucast (byte_at data (i + 1)) * 16 + 1) tmp ?s = Some (st, u)"
      "st \<noteq> None \<longrightarrow> mem u tmp = CPtr NULL" by auto
  have g: "G u = G s" "devices_kept s u" using buffer_creates_G(1) [OF c(1)] allocate_kept [OF c(1)] by simp_all
  note cs = create_step.allocator_allocate [OF c(1)]
  have oks: "slots_ok HBuffer (i + 2) (slot_handles sl) (slot_refs sl) ?s" using slots_ok_mono ok by simp
  show ?thesis
  proof (cases st)
    case None
    have "wf_state ?s" using ok by (simp add: slots_ok_def client_ok_def)
    then obtain x where x: "mem u tmp = CPtr x"
      using create_step_gives [OF cs _ rel] None by (auto simp: gives_def)
    from slots_ok_create [OF cs [unfolded None] x rel oks _ empty] None show ?thesis
      using empty True c g x by (auto simp: buffer_round_def Let_def read_ptr_def intro!: buffer_round_okI)
  next
    case (Some e)
    from slots_ok_refuse [OF cs [unfolded Some] rel oks] show ?thesis
      using empty True c g Some by (auto simp: buffer_round_def Let_def read_ptr_def intro!: buffer_round_okI)
  qed
qed

lemma buffer_round_live:
  assumes i: "i < length data" and len: "length data < 2 ^ 32" and rel: "reliable E"
    and ok: "slots_ok HBuffer i (slot_handles sl) (slot_refs sl) s"
    and live: "slot_handles sl ! slot_of (data ! i) \<noteq> NULL"
  shows "buffer_round_ok al i s (buffer_round E tmp al data i sl s)"
proof -
  let ?b = "data ! i" and ?hs = "slot_handles sl" and ?rs = "slot_refs sl"
  let ?h = "?hs ! slot_of ?b" and ?n = "slot_sizes sl ! slot_of (data ! i)"
  note unf = buffer_round_def Let_def
  note calls = buffer_calls_ok [OF rel _ slot_of_bound live]
  have ok1: "slots_ok HBuffer (i + 1) ?hs ?rs s" using slots_ok_mono [OF ok] by simp
  consider "?b mod 6 = 1" | "?b mod 6 = 2" | "?b mod 6 = 3" | "?b mod 6 = 4" | "?b mod 6 = 5"
    | "?b mod 6 \<notin> {1, 2, 3, 4, 5}" by blast
  then show ?thesis
  proof cases
    case 1
    obtain t where t: "hrx_buffer_retain ?h s = Some t"
      using buffer_calls_progress(4) [OF slot_entry(3) [OF ok slot_of_bound live]] by blast
    have "i < 2 ^ 32 - 1" using i len by simp
    from slots_ok_retain [OF retain_step.buffer_retain [OF t] rel ok slot_of_bound live this] show ?thesis
      using 1 live t retains_G(3) [OF t] buffer_calls_kept(4) [OF t] by (auto simp: unf intro!: buffer_round_okI)
  next
    case 2
    obtain t where t: "hrx_buffer_release E ?h s = Some t"
      using buffer_release_progress [OF ok slot_of_bound live] by blast
    from slots_ok_release [OF release_step.buffer_release [OF t] rel ok1 slot_of_bound live] show ?thesis
      using 2 live t releases_G(3) [OF t] buffer_release_kept [OF t] by (auto simp: unf intro!: buffer_round_okI)
  next
    case 3
    obtain st t where t: "hrx_buffer_map E ?h (HRX_MAP_READ OR HRX_MAP_WRITE) 0 ?n tmp (poke tmp (CPtr NULL) s) = Some (st, t)"
        "slots_ok HBuffer (i + 1) ?hs ?rs t" "G t = G s"
      using calls(1) [of "i + 1" ?rs "poke tmp (CPtr NULL) s" "HRX_MAP_READ OR HRX_MAP_WRITE" 0 ?n tmp] ok1 by auto
    then show ?thesis using 3 live buffer_calls_kept(1) [OF t(1)] by (auto simp: unf intro!: buffer_round_okI)
  next
    case 4
    obtain st t where t: "hrx_buffer_unmap E ?h s = Some (st, t)" "slots_ok HBuffer (i + 1) ?hs ?rs t" "G t = G s"
      using calls(2) [OF ok1] by auto
    then show ?thesis using 4 live buffer_calls_kept(2) [OF t(1)] by (auto simp: unf intro!: buffer_round_okI)
  next
    case 5
    obtain st t where t: "hrx_buffer_get_size E ?h tmp (poke tmp (CU64 0) s) = Some (st, t)"
        "slots_ok HBuffer (i + 1) ?hs ?rs t" "G t = G s"
      using calls(3) [of "i + 1" ?rs "poke tmp (CU64 0) s" tmp] ok1 by auto
    then show ?thesis using 5 live buffer_calls_kept(3) [OF t(1)] by (auto simp: unf intro!: buffer_round_okI)
  next
    case 6
    then show ?thesis using live ok1 by (auto simp: unf intro!: buffer_round_okI)
  qed
qed

lemma buffer_loop_ok:
  assumes "length data < 2 ^ 32" and "reliable E" and "tmp \<noteq> NULL" and "al \<noteq> NULL" and "alloc_ok al s"
    and "slots_ok HBuffer i (slot_handles sl) (slot_refs sl) s"
  shows "\<exists>sl' n t. buffer_loop E tmp al data i sl s = Some (sl', t) \<and>
    slots_ok HBuffer n (slot_handles sl') (slot_refs sl') t \<and> G t = G s \<and> alloc_ok al t"
  using assms
proof (induction E tmp al data i sl s rule: buffer_loop.induct)
  case (1 E tmp al data i sl s)
  show ?case
  proof (cases "i < length data")
    case True
    have "buffer_round_ok al i s (buffer_round E tmp al data i sl s)"
      using buffer_round_empty [OF 1(3,4,7,5,6)] buffer_round_live [OF True 1(2,3,7)] by blast
    then obtain j sl' t where r: "buffer_round E tmp al data i sl s = Some (j, sl', t)"
        "slots_ok HBuffer j (slot_handles sl') (slot_refs sl') t" "G t = G s" "devices_kept s t"
      by (auto simp: buffer_round_ok_def round_ok_def split: option.splits)
    have a: "alloc_ok al t" using alloc_ok_kept [OF 1(6) r(4,3,2)] .
    have "(j, sl', t) \<in> set_option (buffer_round E tmp al data i sl s)" using r(1) by simp
    from 1(1) [OF True this refl refl 1(2-5) a r(2)] show ?thesis
      using True r(1,3) by (simp add: buffer_loop.simps [of E tmp al data i sl s])
  next
    case False
    then show ?thesis using 1(6,7) by (auto simp: buffer_loop.simps [of E tmp al data i sl s])
  qed
qed

lemma drain_kept: "drain (hrx_buffer_release E h) n s = Some t \<Longrightarrow> devices_kept s t"
  by (induction n arbitrary: s) (auto elim!: bind_SomeE intro: devices_kept_trans dest: buffer_release_kept)

lemma drain_all_kept: "drain_all (hrx_buffer_release E) xs s = Some t \<Longrightarrow> devices_kept s t"
proof (induction xs arbitrary: s)
  case (Cons y xs)
  obtain h r where y: "y = (h, r)" by fastforce
  obtain u where "drain (hrx_buffer_release E h) (unat r) s = Some u" "drain_all (hrx_buffer_release E) xs u = Some t"
    using Cons.prems by (auto simp: y elim!: bind_SomeE)
  then show ?case using devices_kept_trans [OF drain_kept Cons.IH] by blast
qed simp

section \<open>Setting up\<close>

text \<open>The one device of a started CPU accelerator, whose allocator points back to it.\<close>

lemma cpu_initialize_device:
  assumes "hrx_cpu_initialize E fl s = Some (res, t)" and "\<not> acc_initialized (g_cpu (G s))" and "acc_initialized (g_cpu (G t))"
  shows "\<exists>d y. acc_devices (g_cpu (G t)) = [d] \<and> handle_ref as_device d t = Some y \<and> al_device (dev_allocator y) = d"
proof -
  have sh: "acc_initialized (g_cpu (G u)) = acc_initialized (g_cpu (G v))" if "ensure_shared_state E v = (r, u)" for r u v
    using ensure_shared_frame [OF that] by simp
  have task: "G u = G v" if "create_local_task_device E n v = Some (x, u)" for n v x u
    using that local_task_InlD local_task_InrD by (cases x) (fastforce simp: split_paired_all)+
  have grp: "G u = G v" if "create_single_device_group E d v = (st, gr, u)" for d v st gr u
    using create_group_eqD [OF that] by simp
  show ?thesis
    using assms
    by (auto simp: hrx_cpu_initialize_def ffi_pair Let_def sh task grp release_shared_frame handle_ref_def
        split: if_splits sum.splits prod.splits elim!: bind_SomeE dest!: status_owed new_device_eqD)
qed

lemma setup_allocator_ok:
  assumes "setup_allocator E tmp s = Some (al, t)" and "reliable E" and "tmp \<noteq> NULL" and "client_ok (no_holdings, s)"
    and "\<not> acc_initialized (g_cpu (G s))"
  shows "al \<noteq> NULL \<and> alloc_ok al t \<and> client_ok (no_holdings, t)"
proof -
  obtain st u st' v d where u: "hrx_cpu_initialize E 0 s = Some (st, u)"
    and v: "hrx_cpu_device_get E 0 tmp (poke tmp (CPtr NULL) (hrx_status_ignore st u)) = Some (st', v)"
    and t: "t = hrx_status_ignore st' v" and al: "al = read_ptr tmp t" and d: "handle_ref as_device al t = Some d"
    using assms(1) by (auto simp: setup_allocator_def hrx_device_allocator_def Let_def elim!: bind_SomeE)
  have okt: "client_ok (no_holdings, t)"
    using client_step_ok [OF client_step.accelerator [OF accelerator_step.cpu_device_get [OF v]] assms(2), of no_holdings]
      initialize_client_ok [OF u assms(2,4)] t by simp
  have nn: "al \<noteq> NULL"
    using d okt wf_heap_nonnull [of t] by (auto simp: handle_ref_def client_ok_def wf_state_def elim!: bind_SomeE)
  have i: "acc_initialized (g_cpu (G u))"
    using v nn al t assms(3) by (auto simp: hrx_cpu_device_get_def read_ptr_def split: if_splits dest!: status_owed)
  obtain x y where x: "acc_devices (g_cpu (G u)) = [x]" "handle_ref as_device x u = Some y" "al_device (dev_allocator y) = x"
    using cpu_initialize_device [OF u assms(5) i] by blast
  have "G t = G u \<and> arcs t = arcs u \<and> al = x"
    using v nn al t x(1) assms(3)
    by (auto simp: hrx_cpu_device_get_def vec_index_def read_ptr_def hrx_status_ignore_drop split: if_splits elim!: bind_SomeE dest!: status_owed)
  then show ?thesis using nn okt x by (auto simp: alloc_ok_def handle_ref_def)
qed

lemma setup_allocator_progress:
  assumes u: "hrx_cpu_initialize E 0 s = Some (st, u)" and "reliable E" and "tmp \<noteq> NULL" and "client_ok (no_holdings, s)"
    and off: "\<not> acc_initialized (g_cpu (G s))" and on: "acc_initialized (g_cpu (G u))"
  shows "\<exists>al t. setup_allocator E tmp s = Some (al, t)"
proof -
  obtain x y where x: "acc_devices (g_cpu (G u)) = [x]" "handle_ref as_device x u = Some y"
    using cpu_initialize_device [OF u off on] by blast
  have "acc_device_count (g_cpu (G u)) = 1"
    using initialize_client_ok [OF u assms(2,4)] x(1) by (simp add: client_ok_def globals_ok_def accel_ok_def)
  then show ?thesis
    using u on x(1) assms(3) bind_SomeE [OF x(2) [unfolded handle_ref_def]]
    by (fastforce simp: setup_allocator_def hrx_cpu_device_get_def vec_index_def read_ptr_def Let_def handle_ref_def hrx_status_ignore_drop
        hrx_ok_status_def)
qed

text \<open>
  When the runtime does not start there is no device, and the target reads through a null handle
  before it gets to its own check of the allocator.
\<close>

lemma setup_allocator_unavailable:
  assumes u: "hrx_cpu_initialize E 0 s = Some (st, u)" and "wf_state u" and "tmp \<noteq> NULL" and off: "\<not> acc_initialized (g_cpu (G u))"
  shows "setup_allocator E tmp s = None"
proof -
  have n: "handle_ref as_device NULL v = None" if "arcs v = arcs u" for v
    using assms(2) that wf_heap_nonnull [of u NULL] by (cases "arcs u NULL") (auto simp: handle_ref_def wf_state_def)
  obtain st' v where v: "hrx_make_status E (code_i32 Unavailable) (Some ''CPU accelerator not initialized'')
      (poke tmp (CPtr NULL) (hrx_status_ignore st u)) = (st', v)" by fastforce
  show ?thesis
    using u off assms(3) v n [of "hrx_status_ignore st' v"] status_owed(1) [OF v]
    by (simp add: setup_allocator_def hrx_cpu_device_get_def read_ptr_def Let_def hrx_status_ignore_drop)
qed

section \<open>Properties\<close>

text \<open>What holds between two inputs.\<close>

definition target_ok :: "ptr option \<times> hrx \<Rightarrow> bool" where
  "target_ok c \<longleftrightarrow> client_ok (no_holdings, snd c) \<and> (case fst c of None \<Rightarrow> False | Some al \<Rightarrow> al \<noteq> NULL \<and> alloc_ok al (snd c))"

lemma buffer_lifecycle_ok:
  assumes "length data < 2 ^ 32" and "reliable E" and "tmp \<noteq> NULL" and "client_ok (no_holdings, s)" and "al \<noteq> NULL" and "alloc_ok al s"
  shows "\<exists>t. buffer_lifecycle E tmp data (Some al, s) = Some (Some al, t) \<and> target_ok (Some al, t)"
proof -
  let ?sl = "\<lparr>slot_handles = replicate POOL NULL, slot_refs = replicate POOL 0, slot_sizes = replicate POOL 0\<rparr>"
  have ok: "slots_ok HBuffer 0 (replicate POOL NULL) (replicate POOL 0) s" using slots_ok_initial [OF assms(4)] .
  obtain sl n v where v: "buffer_loop E tmp al data 0 ?sl s = Some (sl, v)" "slots_ok HBuffer n (slot_handles sl) (slot_refs sl) v"
      "alloc_ok al v"
    using buffer_loop_ok [OF assms(1-3,5,6), of 0 ?sl] ok by auto
  obtain t where t: "drain_all (hrx_buffer_release E) (zip (slot_handles sl) (slot_refs sl)) v = Some t" "client_ok (no_holdings, t)"
      "G t = G v"
    using buffer_drained.drain_all_ok [OF assms(2), of "zip (slot_handles sl) (slot_refs sl)" v] v(2) by (auto simp: slots_ok_def)
  have "devices_kept v t" using drain_all_kept [OF t(1)] .
  then have "alloc_ok al t" using alloc_ok_kept [OF v(3) _ t(3) slots_ok_initial [OF t(2)]] by blast
  then show ?thesis using assms(5) v(1) t by (simp add: buffer_lifecycle_def target_ok_def)
qed

lemma buffer_inputs_ok:
  assumes "\<forall>data\<in>set inputs. length data < 2 ^ 32" and "reliable E" and "tmp \<noteq> NULL" and "target_ok (Some al, s)"
  shows "\<exists>c. run_inputs (buffer_lifecycle E tmp) inputs (Some al, s) = Some c \<and> target_ok c"
  using assms
proof (induction inputs arbitrary: s)
  case (Cons data inputs)
  obtain t where t: "buffer_lifecycle E tmp data (Some al, s) = Some (Some al, t)" "target_ok (Some al, t)"
    using buffer_lifecycle_ok [OF _ Cons.prems(2,3), of data s al] Cons.prems(1,4) by (auto simp: target_ok_def)
  then show ?case using Cons.IH [OF _ Cons.prems(2,3) t(2)] Cons.prems(1) by simp
qed simp

lemma buffer_lifecycle_first:
  assumes "setup_allocator E tmp s = Some (al, t)"
  shows "buffer_lifecycle E tmp data (None, s) = buffer_lifecycle E tmp data (Some al, t)"
  using assms by (simp add: buffer_lifecycle_def)

text \<open>
  C20. The buffer fuzz target is balanced. Started in a fresh process whose CPU runtime comes up, it
  runs to the end of every input, in any number: no handle it uses is dangling, its cached
  allocator stays valid and its counters do not overflow. After each input, also one that leaves
  buffers mapped, only the devices of the runtime are alive, and IREE holds no reference on behalf of
  a buffer.
\<close>

theorem buffer_fuzz_balanced:
  assumes "\<forall>data\<in>set inputs. length data < 2 ^ 32" and "reliable E" and "tmp \<noteq> NULL"
    and "hrx_cpu_initialize E 0 hrx_initial = Some (st, u)" and "acc_initialized (g_cpu (G u))"
  shows "\<exists>al t. run_inputs (buffer_lifecycle E tmp) inputs (None, hrx_initial) = Some (al, t) \<and> clean t"
proof (cases inputs)
  case Nil
  then show ?thesis using client_ok_clean [OF client_ok_initial] by simp
next
  case (Cons data rest)
  have off: "\<not> acc_initialized (g_cpu (G hrx_initial))" by (simp add: hrx_initial_def G_initial_def)
  obtain al t where t: "setup_allocator E tmp hrx_initial = Some (al, t)"
    using setup_allocator_progress [OF assms(4,2,3) client_ok_initial off assms(5)] by blast
  have "target_ok (Some al, t)"
    using setup_allocator_ok [OF t assms(2,3) client_ok_initial off] by (simp add: target_ok_def)
  from buffer_inputs_ok [OF assms(1-3) this] obtain c where "run_inputs (buffer_lifecycle E tmp) inputs (Some al, t) = Some c"
      "target_ok c" by blast
  then show ?thesis
    using Cons buffer_lifecycle_first [OF t] client_ok_clean by (cases c) (auto simp: target_ok_def)
qed

theorem buffer_fuzz_balanced_witness:
  "\<exists>al t. run_inputs (buffer_lifecycle demo_env 100) [[0, 3, 3, 1, 2], [16, 255, 19, 20, 21, 18]] (None, hrx_initial) =
     Some (al, t) \<and> clean t"
proof -
  obtain t where t: "hrx_cpu_initialize demo_env 0 hrx_initial = Some (None, t)" "acc_initialized (g_cpu (G t))"
    using cpu_initialize_demo by blast
  show ?thesis by (rule buffer_fuzz_balanced [OF _ reliable_demo_env _ t]) simp_all
qed

end
