(* ===== verification/Abi_Layout.thy ===== *)
theory Abi_Layout
  imports Iree
begin

text \<open>
  The layout of the structs that cross the C boundary. A \<open>#[repr(C)]\<close> struct places its fields in order,
  each at the next multiple of its alignment, and is padded to a multiple of its own: \<open>lay\<close> computes
  size and alignment, \<open>offset_of\<close> the place of a field. The structs of \<open>iree-sys\<close>, of the exact pool and
  of the public interface follow with their fields, and the compile-time assertions of
  \<open>iree-sys/src/abi_layout.rs\<close> and \<open>pool.rs\<close>. Some IREE structs are byte blobs filled by C, of which the port
  writes single fields at fixed offsets.

  The theory shows that the layout is sound (fields are aligned, disjoint and inside the struct),
  that the assertions hold and the padding fields are only padding, and that the writes into the
  blobs stay inside and do not disturb each other.
\<close>

section \<open>Layout\<close>

text \<open>Scalars are as wide as they are aligned; \<open>CStruct a fs\<close> has a declared minimal alignment \<open>a\<close>.\<close>

datatype cty = CScalar nat | CArray nat cty | CStruct nat "(string \<times> cty) list"

definition round_up :: "nat \<Rightarrow> nat \<Rightarrow> nat" where
  "round_up n a = (n + a - 1) div a * a"

text \<open>Fields as pairs of size and alignment: their offsets from \<open>off\<close> on, and where the last one ends.\<close>

fun offsets :: "nat \<Rightarrow> (nat \<times> nat) list \<Rightarrow> nat list" where
  "offsets off [] = []"
| "offsets off ((n, a) # fs) = (let p = round_up off a in p # offsets (p + n) fs)"

fun extent :: "nat \<Rightarrow> (nat \<times> nat) list \<Rightarrow> nat" where
  "extent off [] = off"
| "extent off ((n, a) # fs) = extent (round_up off a + n) fs"

definition struct_layout :: "nat \<Rightarrow> (nat \<times> nat) list \<Rightarrow> nat \<times> nat" where
  "struct_layout a fs = (let al = foldr (\<lambda>f. max (snd f)) fs a in (round_up (extent 0 fs) al, al))"

primrec lay :: "cty \<Rightarrow> nat \<times> nat" where
  "lay (CScalar n) = (n, n)"
| "lay (CArray n t) = (n * fst (lay t), snd (lay t))"
| "lay (CStruct a fs) = struct_layout a (map snd (map (map_prod id lay) fs))"

definition size_of :: "cty \<Rightarrow> nat" where "size_of t = fst (lay t)"

definition align_of :: "cty \<Rightarrow> nat" where "align_of t = snd (lay t)"

primrec fields_of :: "cty \<Rightarrow> (string \<times> cty) list" where
  "fields_of (CScalar n) = []"
| "fields_of (CArray n t) = []"
| "fields_of (CStruct a fs) = fs"

definition field_offsets :: "cty \<Rightarrow> nat list" where
  "field_offsets t = offsets 0 (map (lay \<circ> snd) (fields_of t))"

definition offset_of :: "cty \<Rightarrow> string \<Rightarrow> nat option" where
  "offset_of t f = map_of (zip (map fst (fields_of t)) (field_offsets t)) f"

section \<open>The structs\<close>

abbreviation c_u8 :: cty where "c_u8 \<equiv> CScalar 1"
abbreviation c_u16 :: cty where "c_u16 \<equiv> CScalar 2"
abbreviation c_u32 :: cty where "c_u32 \<equiv> CScalar 4"
abbreviation c_u64 :: cty where "c_u64 \<equiv> CScalar 8"
abbreviation c_ptr :: cty where "c_ptr \<equiv> CScalar 8"

subsection \<open>IREE\<close>

definition iree_allocator_t :: cty where
  "iree_allocator_t = CStruct 1
     [(''self_'', c_ptr), (''ctl'', c_ptr)]"

definition iree_const_byte_span_t :: cty where
  "iree_const_byte_span_t = CStruct 1
     [(''data'', c_ptr), (''data_length'', c_u64)]"

definition iree_vm_value_t :: cty where
  "iree_vm_value_t = CStruct 8
     [(''type_'', c_u32), (''_pad'', c_u32), (''storage'', CArray 8 c_u8)]"

definition iree_vm_ref_t :: cty where
  "iree_vm_ref_t = CStruct 1
     [(''ptr'', c_ptr), (''type_'', c_u64)]"

definition iree_hal_buffer_params_t :: cty where
  "iree_hal_buffer_params_t = CStruct 1
     [(''usage'', c_u32), (''access'', c_u16), (''_pad0'', c_u16), (''type_'', c_u32), (''_pad1'', c_u32),
      (''queue_affinity'', c_u64), (''min_alignment'', c_u64)]"

definition iree_byte_span_t :: cty where
  "iree_byte_span_t = CStruct 1
     [(''data'', c_ptr), (''data_length'', c_u64)]"

definition iree_hal_buffer_mapping_t :: cty where
  "iree_hal_buffer_mapping_t = CStruct 8
     [(''contents'', iree_byte_span_t), (''_rest'', CArray 32 c_u8)]"

definition iree_string_view_t :: cty where
  "iree_string_view_t = CStruct 1
     [(''data'', c_ptr), (''size'', c_u64)]"

definition iree_timeout_t :: cty where
  "iree_timeout_t = CStruct 1
     [(''type_'', c_u32), (''nanos'', c_u64)]"

definition iree_hal_semaphore_list_t :: cty where
  "iree_hal_semaphore_list_t = CStruct 1
     [(''count'', c_u64), (''semaphores'', c_ptr), (''payload_values'', c_ptr)]"

definition iree_hal_buffer_ref_t :: cty where
  "iree_hal_buffer_ref_t = CStruct 1
     [(''reserved_and_slot'', c_u32), (''_pad'', c_u32), (''buffer'', c_ptr), (''offset'', c_u64), (''length'', c_u64)]"

definition iree_hal_dispatch_config_t :: cty where
  "iree_hal_dispatch_config_t = CStruct 8
     [(''workgroup_size'', CArray 3 c_u32), (''workgroup_count'', CArray 3 c_u32),
      (''workgroup_count_ref'', iree_hal_buffer_ref_t), (''dynamic_workgroup_local_memory'', c_u32), (''_pad'', c_u32)]"

definition iree_hal_buffer_ref_list_t :: cty where
  "iree_hal_buffer_ref_list_t = CStruct 1
     [(''count'', c_u64), (''values'', c_ptr)]"

definition iree_hal_memory_barrier_t :: cty where
  "iree_hal_memory_barrier_t = CStruct 1
     [(''source_scope'', c_u32), (''target_scope'', c_u32)]"

definition iree_hal_buffer_binding_table_t :: cty where
  "iree_hal_buffer_binding_table_t = CStruct 1
     [(''count'', c_u64), (''bindings'', c_ptr)]"

definition iree_async_frontier_tracker_options_t :: cty where
  "iree_async_frontier_tracker_options_t = CStruct 1
     [(''axis_table_capacity'', c_u32), (''session_epoch'', c_u8), (''machine_index'', c_u8), (''_pad'', CArray 2 c_u8)]"

definition iree_hal_host_call_t :: cty where
  "iree_hal_host_call_t = CStruct 1
     [(''fn_'', c_ptr), (''user_data'', c_ptr)]"

definition iree_hal_device_info_t :: cty where
  "iree_hal_device_info_t = CStruct 1
     [(''device_id'', c_u64), (''path'', iree_string_view_t), (''name'', iree_string_view_t)]"

definition iree_hal_executable_function_t :: cty where
  "iree_hal_executable_function_t = CStruct 1
     [(''value'', c_u64)]"

definition iree_hal_executable_function_info_t :: cty where
  "iree_hal_executable_function_info_t = CStruct 8
     [(''name'', iree_string_view_t), (''flags'', c_u32), (''_pad0'', c_u32), (''constant_count'', c_u16),
      (''binding_count'', c_u16), (''parameter_count'', c_u16), (''_pad1'', c_u16), (''workgroup_size'', CArray 3 c_u32),
      (''_tail'', c_u32)]"

definition iree_hal_external_buffer_t :: cty where
  "iree_hal_external_buffer_t = CStruct 8
     [(''type_'', c_u32), (''flags'', c_u32), (''size'', c_u64), (''handle_ptr'', c_ptr)]"

definition iree_hal_buffer_release_callback_t :: cty where
  "iree_hal_buffer_release_callback_t = CStruct 1
     [(''fn_'', c_ptr), (''user_data'', c_ptr)]"

text \<open>The opaque blobs, of a size and with alignment 8.\<close>

definition blob :: "nat \<Rightarrow> cty" where
  "blob n = CStruct 8 [(''bytes'', CArray n c_u8)]"

definition iree_task_topology_t :: cty where "iree_task_topology_t = blob 22544"
definition iree_task_executor_options_t :: cty where "iree_task_executor_options_t = blob 40"
definition iree_async_proactor_pool_options_t :: cty where "iree_async_proactor_pool_options_t = blob 80"
definition iree_hal_task_device_params_t :: cty where "iree_hal_task_device_params_t = blob 24"
definition iree_hal_device_create_params_t :: cty where "iree_hal_device_create_params_t = blob 16"
definition iree_vm_function_t :: cty where "iree_vm_function_t = blob 16"
definition iree_hal_module_device_policy_t :: cty where "iree_hal_module_device_policy_t = blob 16"
definition iree_hal_module_debug_sink_t :: cty where "iree_hal_module_debug_sink_t = blob 32"
definition iree_hal_executable_params_t :: cty where "iree_hal_executable_params_t = blob 64"

subsection \<open>The exact pool\<close>

definition IreeHalResource :: cty where
  "IreeHalResource = CStruct 1
     [(''ref_count'', c_u32), (''_pad'', c_u32), (''vtable'', c_ptr)]"

definition IreeHalPoolReservation :: cty where
  "IreeHalPoolReservation = CStruct 1
     [(''offset'', c_u64), (''length'', c_u64), (''block_handle'', c_u64), (''slab_index'', c_u16), (''reserved'', CArray 3 c_u16)]"

definition IreeHalPoolAcquireInfo :: cty where
  "IreeHalPoolAcquireInfo = CStruct 1
     [(''wait_frontier'', c_ptr), (''flags'', c_u32), (''reserved'', c_u32)]"

definition IreeHalPoolCapabilities :: cty where
  "IreeHalPoolCapabilities = CStruct 1
     [(''memory_type'', c_u32), (''supported_usage'', c_u32), (''min_allocation_size'', c_u64), (''max_allocation_size'', c_u64)]"

definition IreeHalPoolVtable :: cty where
  "IreeHalPoolVtable = CStruct 1
     [(''destroy'', c_ptr), (''acquire_reservation'', c_ptr), (''release_reservation'', c_ptr),
      (''materialize_reservation'', c_ptr), (''query_capabilities'', c_ptr), (''query_stats'', c_ptr), (''trim'', c_ptr),
      (''notification'', c_ptr)]"

definition HrxExactPool :: cty where
  "HrxExactPool = CStruct 1
     [(''resource'', IreeHalResource), (''host_allocator'', iree_allocator_t), (''allocator'', c_ptr),
      (''params'', iree_hal_buffer_params_t), (''notification'', c_ptr)]"

subsection \<open>The public interface\<close>

definition HrxStatusS :: cty where
  "HrxStatusS = CStruct 1
     [(''code'', c_u32), (''message'', c_ptr)]"

definition HrxHostAllocator :: cty where
  "HrxHostAllocator = CStruct 1
     [(''self_'', c_ptr), (''ctl'', c_ptr)]"

definition HrxBufferParams :: cty where
  "HrxBufferParams = CStruct 1
     [(''type_'', c_u32), (''access'', c_u16), (''_pad0'', c_u16), (''usage'', c_u32), (''_pad1'', c_u32), (''queue_affinity'', c_u64)]"

definition HrxSemaphoreList :: cty where
  "HrxSemaphoreList = CStruct 1
     [(''semaphores'', c_ptr), (''values'', c_ptr), (''count'', c_u64)]"

definition HrxBufferRef :: cty where
  "HrxBufferRef = CStruct 1
     [(''buffer'', c_ptr), (''offset'', c_u64), (''length'', c_u64)]"

definition HrxDispatchConfig :: cty where
  "HrxDispatchConfig = CStruct 1
     [(''workgroup_count'', CArray 3 c_u32), (''workgroup_size'', CArray 3 c_u32), (''subgroup_size'', c_u32)]"

definition HostCallThunk :: cty where
  "HostCallThunk = CStruct 1
     [(''callback'', c_ptr), (''user_data'', c_ptr)]"

definition HrxTimelinePoint :: cty where
  "HrxTimelinePoint = CStruct 1
     [(''semaphore'', c_ptr), (''value'', c_u64)]"

definition HrxExecutableExportInfo :: cty where
  "HrxExecutableExportInfo = CStruct 1
     [(''name'', c_ptr), (''flags'', c_u32), (''constant_count'', c_u32), (''binding_count'', c_u32),
      (''parameter_count'', c_u32), (''workgroup_size'', CArray 3 c_u32)]"

section \<open>The assertions\<close>

definition abi_layout_assertions :: bool where
  "abi_layout_assertions \<longleftrightarrow>
     size_of iree_hal_buffer_params_t = 32 \<and> offset_of iree_hal_buffer_params_t ''usage'' = Some 0 \<and>
     offset_of iree_hal_buffer_params_t ''access'' = Some 4 \<and>
     offset_of iree_hal_buffer_params_t ''type_'' = Some 8 \<and>
     offset_of iree_hal_buffer_params_t ''queue_affinity'' = Some 16 \<and>
     offset_of iree_hal_buffer_params_t ''min_alignment'' = Some 24 \<and>
     size_of iree_hal_dispatch_config_t = 64 \<and> align_of iree_hal_dispatch_config_t = 8 \<and>
     offset_of iree_hal_dispatch_config_t ''workgroup_size'' = Some 0 \<and>
     offset_of iree_hal_dispatch_config_t ''workgroup_count'' = Some 12 \<and>
     offset_of iree_hal_dispatch_config_t ''workgroup_count_ref'' = Some 24 \<and>
     offset_of iree_hal_dispatch_config_t ''dynamic_workgroup_local_memory'' = Some 56 \<and>
     size_of iree_hal_buffer_ref_t = 32 \<and> offset_of iree_hal_buffer_ref_t ''buffer'' = Some 8 \<and>
     offset_of iree_hal_buffer_ref_t ''offset'' = Some 16 \<and>
     offset_of iree_hal_buffer_ref_t ''length'' = Some 24 \<and> size_of iree_hal_buffer_ref_list_t = 16 \<and>
     offset_of iree_hal_buffer_ref_list_t ''count'' = Some 0 \<and>
     offset_of iree_hal_buffer_ref_list_t ''values'' = Some 8 \<and> size_of iree_hal_semaphore_list_t = 24 \<and>
     offset_of iree_hal_semaphore_list_t ''count'' = Some 0 \<and>
     offset_of iree_hal_semaphore_list_t ''semaphores'' = Some 8 \<and>
     offset_of iree_hal_semaphore_list_t ''payload_values'' = Some 16 \<and>
     size_of iree_hal_external_buffer_t = 24 \<and> offset_of iree_hal_external_buffer_t ''size'' = Some 8 \<and>
     offset_of iree_hal_external_buffer_t ''handle_ptr'' = Some 16 \<and> size_of iree_const_byte_span_t = 16 \<and>
     offset_of iree_const_byte_span_t ''data'' = Some 0 \<and>
     offset_of iree_const_byte_span_t ''data_length'' = Some 8"

definition pool_assertions :: bool where
  "pool_assertions \<longleftrightarrow>
     size_of IreeHalResource = 16 \<and> size_of IreeHalPoolReservation = 32 \<and>
     size_of IreeHalPoolAcquireInfo = 16 \<and> size_of IreeHalPoolCapabilities = 24 \<and>
     size_of IreeHalPoolVtable = 64 \<and> offset_of HrxExactPool ''resource'' = Some 0"

section \<open>Fields of the blobs\<close>

text \<open>An unaligned write at a byte offset; outside the blob it is undefined.\<close>

definition write_at :: "nat \<Rightarrow> u8 list \<Rightarrow> u8 list \<Rightarrow> u8 list option" where
  "write_at off bs b = (if off + length bs \<le> length b then Some (take off b @ bs @ drop (off + length bs) b) else None)"

definition read_at :: "nat \<Rightarrow> nat \<Rightarrow> u8 list \<Rightarrow> u8 list" where
  "read_at off n b = take n (drop off b)"

definition u32_to_ne_bytes :: "u32 \<Rightarrow> u8 list" where
  "u32_to_ne_bytes v = map (\<lambda>i. ucast (drop_bit (8 * i) v)) [0..<4]"

definition OFF_EXEC_WORKER_STACK_SIZE :: nat where "OFF_EXEC_WORKER_STACK_SIZE = 24"

definition OFF_DEVICE_PARAMS_PROACTOR_POOL :: nat where "OFF_DEVICE_PARAMS_PROACTOR_POOL = 8"

definition set_worker_stack_size :: "usize \<Rightarrow> u8 list \<Rightarrow> u8 list option" where
  "set_worker_stack_size v b = write_at OFF_EXEC_WORKER_STACK_SIZE (i64_to_ne_bytes v) b"

definition set_proactor_pool :: "u64 \<Rightarrow> u8 list \<Rightarrow> u8 list option" where
  "set_proactor_pool pool b = write_at OFF_DEVICE_PARAMS_PROACTOR_POOL (i64_to_ne_bytes pool) b"

definition set_caching_mode :: "u32 \<Rightarrow> u8 list \<Rightarrow> u8 list option" where
  "set_caching_mode v b = write_at 8 (u32_to_ne_bytes v) b"

text \<open>A view and a span are written as their two words.\<close>

definition set_executable_format :: "u64 \<times> usize \<Rightarrow> u8 list \<Rightarrow> u8 list option" where
  "set_executable_format sv b = write_at 16 (i64_to_ne_bytes (fst sv) @ i64_to_ne_bytes (snd sv)) b"

definition set_executable_data :: "u64 \<times> usize \<Rightarrow> u8 list \<Rightarrow> u8 list option" where
  "set_executable_data span b = write_at 32 (i64_to_ne_bytes (fst span) @ i64_to_ne_bytes (snd span)) b"

definition zeroed :: "cty \<Rightarrow> u8 list" where
  "zeroed t = replicate (size_of t) 0"

section \<open>Soundness of the layout\<close>

primrec wf_cty :: "cty \<Rightarrow> bool" where
  "wf_cty (CScalar n) = (0 < n)"
| "wf_cty (CArray n t) = wf_cty t"
| "wf_cty (CStruct a fs) = (0 < a \<and> (\<forall>f\<in>set (map (map_prod id wf_cty) fs). snd f))"

lemma round_up_facts:
  assumes "0 < a"
  shows "a dvd round_up n a" and "n \<le> round_up n a"
proof -
  show "a dvd round_up n a" by (simp add: round_up_def)
  have "n + a - 1 = (n + a - 1) div a * a + (n + a - 1) mod a" by simp
  moreover have "(n + a - 1) mod a < a" using assms by simp
  ultimately show "n \<le> round_up n a" unfolding round_up_def by linarith
qed

lemma extent_mono: "\<forall>f\<in>set fs. 0 < snd f \<Longrightarrow> off \<le> extent off fs"
proof (induction off fs rule: extent.induct)
  case (2 off n a fs)
  then show ?case using round_up_facts(2) [of a off] by fastforce
qed simp

lemma length_offsets [simp]: "length (offsets off fs) = length fs"
  by (induction off fs rule: offsets.induct) (simp_all add: Let_def)

text \<open>Fields lie behind the start, at multiples of their alignment, one after the other.\<close>

lemma offsets_behind: "\<forall>f\<in>set fs. 0 < snd f \<Longrightarrow> i < length fs \<Longrightarrow> off \<le> offsets off fs ! i"
proof (induction off fs arbitrary: i rule: offsets.induct)
  case (2 off n a fs)
  then show ?case using round_up_facts(2) [of a off] by (cases i) (fastforce simp: Let_def)+
qed simp

lemma offsets_aligned: "\<forall>f\<in>set fs. 0 < snd f \<Longrightarrow> i < length fs \<Longrightarrow> snd (fs ! i) dvd offsets off fs ! i"
proof (induction off fs arbitrary: i rule: offsets.induct)
  case (2 off n a fs)
  then show ?case using round_up_facts(1) [of a off] by (cases i) (auto simp: Let_def)
qed simp

lemma offsets_inside: "\<forall>f\<in>set fs. 0 < snd f \<Longrightarrow> i < length fs \<Longrightarrow> offsets off fs ! i + fst (fs ! i) \<le> extent off fs"
proof (induction off fs arbitrary: i rule: offsets.induct)
  case (2 off n a fs)
  then show ?case using extent_mono [of fs "round_up off a + n"] by (cases i) (auto simp: Let_def)
qed simp

lemma offsets_disjoint:
  "\<forall>f\<in>set fs. 0 < snd f \<Longrightarrow> i < j \<Longrightarrow> j < length fs \<Longrightarrow> offsets off fs ! i + fst (fs ! i) \<le> offsets off fs ! j"
proof (induction off fs arbitrary: i j rule: offsets.induct)
  case (2 off n a fs)
  then show ?case
    using offsets_behind [of fs "j - 1" "round_up off a + n"] by (cases i; cases j) (auto simp: Let_def)
qed simp

lemma foldr_max_pos: "0 < a \<Longrightarrow> 0 < foldr (\<lambda>f. max (snd f)) fs (a :: nat)"
  by (induction fs) auto

lemma wf_align: "wf_cty t \<Longrightarrow> 0 < snd (lay t)"
  by (induction t) (auto simp: struct_layout_def Let_def foldr_max_pos)

section \<open>Writes into blobs\<close>

lemma write_at_inside:
  assumes "off + length bs \<le> length b"
  shows "\<exists>b'. write_at off bs b = Some b' \<and> length b' = length b \<and> read_at off (length bs) b' = bs \<and>
    (\<forall>p n. p + n \<le> off \<or> off + length bs \<le> p \<longrightarrow> read_at p n b' = read_at p n b)"
proof -
  let ?b = "take off b @ bs @ drop (off + length bs) b"
  have "read_at p n ?b = read_at p n b" if "p + n \<le> off" for p n
    using that assms by (simp add: read_at_def take_drop min_def)
  moreover have "read_at p n ?b = read_at p n b" if "off + length bs \<le> p" for p n
    using that assms by (simp add: read_at_def)
  ultimately show ?thesis using assms by (auto simp: write_at_def read_at_def)
qed

lemma read_at_words:
  assumes "read_at off 16 b = i64_to_ne_bytes v @ i64_to_ne_bytes w"
  shows "read_at off 8 b = i64_to_ne_bytes v" and "read_at (off + 8) 8 b = i64_to_ne_bytes w"
proof -
  have "take 8 (read_at off 16 b) = read_at off 8 b" "drop 8 (read_at off 16 b) = read_at (off + 8) 8 b"
    by (simp_all add: read_at_def drop_take add.commute)
  then have r: "read_at off 8 b = take 8 (i64_to_ne_bytes v @ i64_to_ne_bytes w)"
    "read_at (off + 8) 8 b = drop 8 (i64_to_ne_bytes v @ i64_to_ne_bytes w)"
    by (simp_all only: assms)
  show "read_at off 8 b = i64_to_ne_bytes v" unfolding r by simp
  show "read_at (off + 8) 8 b = i64_to_ne_bytes w" unfolding r by simp
qed

lemmas struct_defs = iree_allocator_t_def
  iree_const_byte_span_t_def
  iree_vm_value_t_def
  iree_vm_ref_t_def
  iree_hal_buffer_params_t_def
  iree_byte_span_t_def
  iree_hal_buffer_mapping_t_def
  iree_string_view_t_def
  iree_timeout_t_def
  iree_hal_semaphore_list_t_def
  iree_hal_buffer_ref_t_def
  iree_hal_dispatch_config_t_def
  iree_hal_buffer_ref_list_t_def
  iree_hal_memory_barrier_t_def
  iree_hal_buffer_binding_table_t_def
  iree_async_frontier_tracker_options_t_def
  iree_hal_host_call_t_def
  iree_hal_device_info_t_def
  iree_hal_executable_function_t_def
  iree_hal_executable_function_info_t_def
  iree_hal_external_buffer_t_def
  iree_hal_buffer_release_callback_t_def
  IreeHalResource_def
  IreeHalPoolReservation_def
  IreeHalPoolAcquireInfo_def
  IreeHalPoolCapabilities_def
  IreeHalPoolVtable_def
  HrxExactPool_def
  HrxStatusS_def
  HrxHostAllocator_def
  HrxBufferParams_def
  HrxSemaphoreList_def
  HrxBufferRef_def
  HrxDispatchConfig_def
  HostCallThunk_def
  HrxTimelinePoint_def
  HrxExecutableExportInfo_def
  blob_def iree_task_topology_t_def iree_task_executor_options_t_def iree_async_proactor_pool_options_t_def
  iree_hal_task_device_params_t_def iree_hal_device_create_params_t_def iree_vm_function_t_def
  iree_hal_module_device_policy_t_def iree_hal_module_debug_sink_t_def iree_hal_executable_params_t_def

lemmas layout_defs = size_of_def align_of_def offset_of_def field_offsets_def struct_layout_def round_up_def Let_def

text \<open>The same struct as C declares it, without the padding fields that the Rust side spells out.\<close>

definition is_padding :: "string \<Rightarrow> bool" where
  "is_padding f \<longleftrightarrow> take 4 f = ''_pad''"

definition without_padding :: "cty \<Rightarrow> cty" where
  "without_padding t = (case t of CStruct a fs \<Rightarrow> CStruct a (filter (\<lambda>(f, _). \<not> is_padding f) fs) | _ \<Rightarrow> t)"

definition same_layout :: "cty \<Rightarrow> cty \<Rightarrow> bool" where
  "same_layout t u \<longleftrightarrow> size_of t = size_of u \<and> align_of t = align_of u \<and> list_all (\<lambda>(f, _). offset_of t f = offset_of u f) (fields_of u)"

definition padded_structs :: "cty list" where
  "padded_structs =
     [iree_hal_buffer_params_t, iree_hal_buffer_ref_t, iree_hal_dispatch_config_t, iree_async_frontier_tracker_options_t,
      IreeHalResource, HrxBufferParams]"

text \<open>Every struct that crosses the C boundary.\<close>

definition abi_structs :: "cty list" where
  "abi_structs =
    [iree_allocator_t, iree_const_byte_span_t, iree_vm_value_t, iree_vm_ref_t, iree_hal_buffer_params_t,
     iree_byte_span_t, iree_hal_buffer_mapping_t, iree_string_view_t, iree_timeout_t, iree_hal_semaphore_list_t,
     iree_hal_buffer_ref_t, iree_hal_dispatch_config_t, iree_hal_buffer_ref_list_t, iree_hal_memory_barrier_t,
     iree_hal_buffer_binding_table_t, iree_async_frontier_tracker_options_t, iree_hal_host_call_t,
     iree_hal_device_info_t, iree_hal_executable_function_t, iree_hal_executable_function_info_t,
     iree_hal_external_buffer_t, iree_hal_buffer_release_callback_t, iree_task_topology_t,
     iree_task_executor_options_t, iree_async_proactor_pool_options_t, iree_hal_task_device_params_t,
     iree_hal_device_create_params_t, iree_vm_function_t, iree_hal_module_device_policy_t,
     iree_hal_module_debug_sink_t, iree_hal_executable_params_t, IreeHalResource, IreeHalPoolReservation,
     IreeHalPoolAcquireInfo, IreeHalPoolCapabilities, IreeHalPoolVtable, HrxExactPool, HrxStatusS,
     HrxHostAllocator, HrxBufferParams, HrxSemaphoreList, HrxBufferRef, HrxDispatchConfig, HostCallThunk,
     HrxTimelinePoint, HrxExecutableExportInfo]"

lemma abi_structs_wf: "list_all wf_cty abi_structs"
  by (simp add: abi_structs_def struct_defs)

lemma struct_layout_sound:
  assumes "t = CStruct a fs" and "wf_cty t" and "i < length fs"
  shows "align_of (snd (fs ! i)) dvd field_offsets t ! i \<and> field_offsets t ! i + size_of (snd (fs ! i)) \<le> size_of t \<and>
    (\<forall>j<length fs. i < j \<longrightarrow> field_offsets t ! i + size_of (snd (fs ! i)) \<le> field_offsets t ! j) \<and> align_of t dvd size_of t"
proof -
  let ?ls = "map (lay \<circ> snd) fs"
  have "wf_cty u" if "(m, u) \<in> set fs" for m u using assms(1,2) that by force
  then have w: "\<forall>f\<in>set ?ls. 0 < snd f" using wf_align by auto
  have n: "?ls ! i = lay (snd (fs ! i))" using assms(3) by simp
  have al: "0 < align_of t" using wf_align [OF assms(2)] by (simp add: align_of_def)
  have s: "size_of t = round_up (extent 0 ?ls) (align_of t)"
    using assms(1) by (simp add: size_of_def align_of_def struct_layout_def Let_def)
  have len: "i < length ?ls" using assms(3) by simp
  show ?thesis
    using offsets_aligned [OF w len, of 0] offsets_inside [OF w len, of 0] offsets_disjoint [OF w, of i _ 0] round_up_facts [OF al, of "extent 0 ?ls"]
      assms(1) n s by (auto simp: field_offsets_def align_of_def size_of_def)
qed

section \<open>Properties\<close>




text \<open>
  C25. Blob fields do not collide. The executable parameters are a 64-byte blob in which the loader
  sets three fields by offset: every write is inside the blob, the caching mode, the format view
  and the data span read back as written at the offsets IREE uses, and no other byte changes. The
  same holds for the stack size of the executor options and the proactor pool of the device
  parameters.
\<close>

theorem executable_params_fields:
  assumes "length b = size_of iree_hal_executable_params_t" and "length e = size_of iree_task_executor_options_t"
    and "length d = size_of iree_hal_device_create_params_t"
  shows "\<exists>b' e' d'. (do { b \<leftarrow> set_caching_mode m b; b \<leftarrow> set_executable_format sv b; set_executable_data sp b }) = Some b' \<and>
    read_at 8 4 b' = u32_to_ne_bytes m \<and>
    i64_from_ne_bytes (read_at 16 8 b') = fst sv \<and> i64_from_ne_bytes (read_at 24 8 b') = snd sv \<and>
    i64_from_ne_bytes (read_at 32 8 b') = fst sp \<and> i64_from_ne_bytes (read_at 40 8 b') = snd sp \<and>
    read_at 0 8 b' = read_at 0 8 b \<and> read_at 12 4 b' = read_at 12 4 b \<and> read_at 48 16 b' = read_at 48 16 b \<and> length b' = length b \<and>
    set_worker_stack_size v e = Some e' \<and> i64_from_ne_bytes (read_at 24 8 e') = v \<and>
    read_at 0 24 e' = read_at 0 24 e \<and> read_at 32 8 e' = read_at 32 8 e \<and>
    set_proactor_pool q d = Some d' \<and> i64_from_ne_bytes (read_at 8 8 d') = q \<and> read_at 0 8 d' = read_at 0 8 d"
proof -
  have l: "length b = 64" "length e = 40" "length d = 16"
    using assms by (simp_all add: layout_defs struct_defs)
  have u: "length (u32_to_ne_bytes m) = 4" by (simp add: u32_to_ne_bytes_def)
  obtain b1 where b1: "set_caching_mode m b = Some b1" "length b1 = 64" "read_at 8 4 b1 = u32_to_ne_bytes m"
      "\<forall>p n. p + n \<le> 8 \<or> 12 \<le> p \<longrightarrow> read_at p n b1 = read_at p n b"
    using write_at_inside [of 8 "u32_to_ne_bytes m" b] l u by (auto simp: set_caching_mode_def)
  obtain b2 where b2: "set_executable_format sv b1 = Some b2" "length b2 = 64"
      "read_at 16 16 b2 = i64_to_ne_bytes (fst sv) @ i64_to_ne_bytes (snd sv)"
      "\<forall>p n. p + n \<le> 16 \<or> 32 \<le> p \<longrightarrow> read_at p n b2 = read_at p n b1"
    using write_at_inside [of 16 "i64_to_ne_bytes (fst sv) @ i64_to_ne_bytes (snd sv)" b1] b1(2) by (auto simp: set_executable_format_def)
  obtain b3 where b3: "set_executable_data sp b2 = Some b3" "length b3 = 64"
      "read_at 32 16 b3 = i64_to_ne_bytes (fst sp) @ i64_to_ne_bytes (snd sp)"
      "\<forall>p n. p + n \<le> 32 \<or> 48 \<le> p \<longrightarrow> read_at p n b3 = read_at p n b2"
    using write_at_inside [of 32 "i64_to_ne_bytes (fst sp) @ i64_to_ne_bytes (snd sp)" b2] b2(2) by (auto simp: set_executable_data_def)
  obtain e' where e: "set_worker_stack_size v e = Some e'" "read_at 24 8 e' = i64_to_ne_bytes v"
      "\<forall>p n. p + n \<le> 24 \<or> 32 \<le> p \<longrightarrow> read_at p n e' = read_at p n e"
    using write_at_inside [of 24 "i64_to_ne_bytes v" e] l by (auto simp: set_worker_stack_size_def OFF_EXEC_WORKER_STACK_SIZE_def)
  obtain d' where d: "set_proactor_pool q d = Some d'" "read_at 8 8 d' = i64_to_ne_bytes q"
      "\<forall>p n. p + n \<le> 8 \<or> 16 \<le> p \<longrightarrow> read_at p n d' = read_at p n d"
    using write_at_inside [of 8 "i64_to_ne_bytes q" d] l by (auto simp: set_proactor_pool_def OFF_DEVICE_PARAMS_PROACTOR_POOL_def)
  note r2 = read_at_words [OF b2(3)] and r3 = read_at_words [OF b3(3)]
  show ?thesis
    using b1 b2 b3 e d r2 r3 l by (intro exI [of _ b3] exI [of _ e'] exI [of _ d']) (simp add: i64_bytes_roundtrip)
qed

theorem executable_params_fields_witness:
  "\<exists>b' e' d'. (do { b \<leftarrow> set_caching_mode 1 (zeroed iree_hal_executable_params_t); b \<leftarrow> set_executable_format (4096, 5) b;
       set_executable_data (8192, 100) b }) = Some b' \<and> i64_from_ne_bytes (read_at 40 8 b') = 100 \<and>
     set_worker_stack_size 65536 (zeroed iree_task_executor_options_t) = Some e' \<and>
     set_proactor_pool 77 (zeroed iree_hal_device_create_params_t) = Some d'"
  using executable_params_fields [of "zeroed iree_hal_executable_params_t" "zeroed iree_task_executor_options_t"
      "zeroed iree_hal_device_create_params_t" 1 "(4096, 5)" "(8192, 100)" 65536 77]
  by (auto simp: zeroed_def)

end
