(* ===== verification/Mock.thy ===== *)
theory Mock
  imports Iree_Hal
begin

text \<open>
  The in-memory backend of the Miri lane: \<open>iree-sys/src/mock.rs\<close>, the \<open>cfg(miri)\<close> shims of
  \<open>init.rs\<close> and \<open>fem.rs\<close> that put it in place of IREE's pool, buffer and fence reference counts,
  and the tests of \<open>iree-hal\<close> that run the wrappers against it.

  A handle of the mock is the address of a heap node holding a 32-bit count. The heap maps the
  addresses of the allocated nodes to their contents; touching an address that is not allocated
  is what Miri reports, the value \<open>None\<close>, and a node still there at the end is what its leak check
  reports. The address of a new node is chosen by the allocator and is an argument.

  The ledger lemmas show that this makes Miri a faithful judge of the ledger \<open>balance\<close> on which
  the ownership properties of the development rest.
\<close>

section \<open>The mock objects\<close>

record MockHandle =
  mh_count :: u32

type_synonym mock = "ptr \<rightharpoonup> MockHandle"

definition new_handle :: "ptr \<Rightarrow> mock \<Rightarrow> ptr \<times> mock" where
  "new_handle p m = (p, m(p \<mapsto> \<lparr>mh_count = 1\<rparr>))"

definition mock_retain :: "ptr \<Rightarrow> mock \<Rightarrow> mock option" where
  "mock_retain h m =
     (if h = NULL then Some m
      else case m h of
        None \<Rightarrow> None
      | Some n \<Rightarrow> Some (m(h \<mapsto> n\<lparr>mh_count := mh_count n + 1\<rparr>)))"

definition mock_release :: "ptr \<Rightarrow> mock \<Rightarrow> mock option" where
  "mock_release h m =
     (if h = NULL then Some m
      else case m h of
        None \<Rightarrow> None
      | Some n \<Rightarrow>
          (let m = m(h \<mapsto> n\<lparr>mh_count := mh_count n - 1\<rparr>) in
           if mh_count n = 1 then Some (m(h := None)) else Some m))"

section \<open>The shims\<close>

definition iree_hal_pool_retain :: "ptr \<Rightarrow> mock \<Rightarrow> mock option" where
  "iree_hal_pool_retain pool m = mock_retain pool m"

definition iree_hal_pool_release :: "ptr \<Rightarrow> mock \<Rightarrow> mock option" where
  "iree_hal_pool_release pool m = mock_release pool m"

definition iree_hal_buffer_retain :: "ptr \<Rightarrow> mock \<Rightarrow> mock option" where
  "iree_hal_buffer_retain buffer m = mock_retain buffer m"

definition iree_hal_buffer_release :: "ptr \<Rightarrow> mock \<Rightarrow> mock option" where
  "iree_hal_buffer_release buffer m = mock_release buffer m"

definition iree_hal_fence_retain :: "ptr \<Rightarrow> mock \<Rightarrow> mock option" where
  "iree_hal_fence_retain fence m = mock_retain fence m"

definition iree_hal_fence_release :: "ptr \<Rightarrow> mock \<Rightarrow> mock option" where
  "iree_hal_fence_release fence m = mock_release fence m"

lemmas shim_defs = iree_hal_pool_retain_def iree_hal_pool_release_def iree_hal_buffer_retain_def
  iree_hal_buffer_release_def iree_hal_fence_retain_def iree_hal_fence_release_def

text \<open>
  What a foreign call becomes under Miri: the shimmed functions run on the mock, every other one
  is an extern Miri cannot call. A run replays the calls of a history in order.
\<close>

fun miri_call :: "iree_call \<Rightarrow> mock \<Rightarrow> mock option" where
  "miri_call (Retain HalPool p) m = iree_hal_pool_retain p m"
| "miri_call (Release HalPool p) m = iree_hal_pool_release p m"
| "miri_call (Retain HalBuffer p) m = iree_hal_buffer_retain p m"
| "miri_call (Release HalBuffer p) m = iree_hal_buffer_release p m"
| "miri_call (Retain HalFence p) m = iree_hal_fence_retain p m"
| "miri_call (Release HalFence p) m = iree_hal_fence_release p m"
| "miri_call _ m = None"

fun miri_run :: "history \<Rightarrow> mock \<Rightarrow> mock option" where
  "miri_run [] m = Some m"
| "miri_run (e # h) m = miri_call (fst e) m \<bind> miri_run h"

section \<open>The tests of the wrappers\<close>

text \<open>\<open>under_miri s t m\<close>: the calls made between the states \<open>s\<close> and \<open>t\<close>, run on the mock.\<close>

definition under_miri :: "hrx \<Rightarrow> hrx \<Rightarrow> mock \<Rightarrow> mock option" where
  "under_miri s t m = miri_run (drop (length (trace s)) (trace t)) m"

definition fence_clone_retains_and_drops_balance :: "env \<Rightarrow> ptr \<Rightarrow> hrx \<Rightarrow> mock \<Rightarrow> mock option" where
  "fence_clone_retains_and_drops_balance E p s m =
     (let (h, m) = new_handle p m in
      case HalFence_from_owned h of
        None \<Rightarrow> None
      | Some f \<Rightarrow>
          (let (g, t) = HalFence_clone E f s;
               t = HalFence_drop E f t;
               t = HalFence_drop E g t
           in under_miri s t m))"

definition buffer_move_only_drop_releases_once :: "env \<Rightarrow> ptr \<Rightarrow> hrx \<Rightarrow> mock \<Rightarrow> mock option" where
  "buffer_move_only_drop_releases_once E p s m =
     (let (h, m) = new_handle p m in
      case HalBuffer_from_owned h of
        None \<Rightarrow> None
      | Some b \<Rightarrow> under_miri s (HalBuffer_drop E b s) m)"

definition buffer_into_raw_transfers_without_releasing :: "env \<Rightarrow> ptr \<Rightarrow> hrx \<Rightarrow> mock \<Rightarrow> mock option" where
  "buffer_into_raw_transfers_without_releasing E p s m =
     (let (h, m) = new_handle p m in
      case HalBuffer_from_owned h of
        None \<Rightarrow> None
      | Some b \<Rightarrow> under_miri s s m \<bind> mock_release (HalBuffer_into_raw b))"

definition pool_move_only_drop_releases_once :: "env \<Rightarrow> ptr \<Rightarrow> hrx \<Rightarrow> mock \<Rightarrow> mock option" where
  "pool_move_only_drop_releases_once E p s m =
     (let (h, m) = new_handle p m in
      case HalPool_from_owned h of
        None \<Rightarrow> None
      | Some q \<Rightarrow> under_miri s (HalPool_drop E q s) m)"

definition miri_tests :: "(env \<Rightarrow> ptr \<Rightarrow> hrx \<Rightarrow> mock \<Rightarrow> mock option) list" where
  "miri_tests = [fence_clone_retains_and_drops_balance, buffer_move_only_drop_releases_once,
     buffer_into_raw_transfers_without_releasing, pool_move_only_drop_releases_once]"

section \<open>The ledger the mock keeps\<close>

text \<open>
  The mock does not tell the three kinds apart, so what it counts for an address is the sum of
  their ledgers. \<open>miri_calls h\<close> says that every call of \<open>h\<close> is a retain or release of one of them
  on an object, and \<open>overdrawn\<close> that a call of \<open>h\<close> uses an object nobody holds.
\<close>

definition mock_count :: "mock \<Rightarrow> ptr \<Rightarrow> nat" where
  "mock_count m p = (case m p of None \<Rightarrow> 0 | Some n \<Rightarrow> unat (mh_count n))"

definition mock_ok :: "mock \<Rightarrow> bool" where
  "mock_ok m \<longleftrightarrow> (\<forall>p n. m p = Some n \<longrightarrow> mh_count n \<noteq> 0)"

definition miri_ledger :: "ptr \<Rightarrow> history \<Rightarrow> int" where
  "miri_ledger p h = balance HalPool p h + balance HalBuffer p h + balance HalFence p h"

fun call_target :: "iree_call \<Rightarrow> ptr" where
  "call_target (Retain k p) = p"
| "call_target (Release k p) = p"
| "call_target _ = NULL"

definition shimmed :: "iree_kind \<Rightarrow> bool" where
  "shimmed k \<longleftrightarrow> k = HalPool \<or> k = HalBuffer \<or> k = HalFence"

fun miri_able :: "iree_call \<Rightarrow> bool" where
  "miri_able (Retain k p) = (shimmed k \<and> p \<noteq> NULL)"
| "miri_able (Release k p) = (shimmed k \<and> p \<noteq> NULL)"
| "miri_able _ = False"

definition miri_calls :: "history \<Rightarrow> bool" where
  "miri_calls h \<longleftrightarrow> list_all (miri_able \<circ> fst) h"

definition overdrawn :: "mock \<Rightarrow> history \<Rightarrow> bool" where
  "overdrawn m h \<longleftrightarrow>
     (\<exists>n < length h. int (mock_count m (call_target (fst (h ! n)))) +
        miri_ledger (call_target (fst (h ! n))) (take n h) \<le> 0)"

lemma miri_ledger_Nil [simp]: "miri_ledger p [] = 0"
  by (simp add: miri_ledger_def)

lemma miri_ledger_Cons: "miri_ledger p (e # h) = miri_ledger p [e] + miri_ledger p h"
  by (simp add: miri_ledger_def)

lemma miri_calls_Cons [simp]: "miri_calls (e # h) \<longleftrightarrow> miri_able (fst e) \<and> miri_calls h"
  by (simp add: miri_calls_def)

lemma overdrawn_Nil [simp]: "\<not> overdrawn m []"
  by (simp add: overdrawn_def)

text \<open>One call: a dead target is reported, and a live one is counted as the ledger counts it.\<close>

lemma mock_count_dead: "mock_ok m \<Longrightarrow> mock_count m p = 0 \<longleftrightarrow> m p = None"
  by (auto simp: mock_ok_def mock_count_def unat_eq_0 split: option.splits)

lemma mock_count_upd [simp]:
  "mock_count (m(p \<mapsto> n)) = (mock_count m)(p := unat (mh_count n))"
  "mock_count (m(p := None)) = (mock_count m)(p := 0)"
  by (auto simp: mock_count_def)

lemma mock_ok_upd: "mock_ok m \<Longrightarrow> mh_count n \<noteq> 0 \<Longrightarrow> mock_ok (m(p \<mapsto> n))" "mock_ok m \<Longrightarrow> mock_ok (m(p := None))"
  by (auto simp: mock_ok_def)

lemma mock_live:
  assumes "mock_ok m" and "0 < mock_count m p"
  obtains n where "m p = Some n" "mock_count m p = unat (mh_count n)" "mh_count n \<noteq> 0"
  using assms by (auto simp: mock_count_def mock_ok_def split: option.splits)

lemma mock_retain_counts:
  assumes "mock_ok m" and "p \<noteq> NULL" and "0 < mock_count m p" and "mock_count m p + 1 < 2 ^ 32"
  shows "\<exists>m'. mock_retain p m = Some m' \<and> mock_ok m' \<and> mock_count m' = (mock_count m)(p := mock_count m p + 1)"
proof -
  obtain n where n: "m p = Some n" "mock_count m p = unat (mh_count n)"
    using mock_live [OF assms(1,3)] by metis
  have u: "unat (mh_count n + 1) = unat (mh_count n) + 1"
    using assms(4) n(2) by (simp add: unat_word_ariths)
  then have "mh_count n + 1 \<noteq> 0" by (metis Suc_eq_plus1 nat.distinct(1) unat_0)
  with assms(1) have "mock_ok (m(p \<mapsto> n\<lparr>mh_count := mh_count n + 1\<rparr>))" by (simp add: mock_ok_upd)
  then show ?thesis using assms(2) n u by (simp add: mock_retain_def)
qed

lemma mock_release_counts:
  assumes "mock_ok m" and "p \<noteq> NULL" and "0 < mock_count m p"
  shows "\<exists>m'. mock_release p m = Some m' \<and> mock_ok m' \<and> mock_count m' = (mock_count m)(p := mock_count m p - 1)"
proof -
  obtain n where n: "m p = Some n" "mock_count m p = unat (mh_count n)" "mh_count n \<noteq> 0"
    using mock_live [OF assms(1,3)] by metis
  show ?thesis
  proof (cases "mh_count n = 1")
    case True
    then show ?thesis using assms(1,2) n by (simp add: mock_release_def mock_ok_upd)
  next
    case False
    with assms(1) have "mock_ok (m(p \<mapsto> n\<lparr>mh_count := mh_count n - 1\<rparr>))" by (simp add: mock_ok_upd)
    then show ?thesis using False assms(2) n by (simp add: mock_release_def unat_minus_one)
  qed
qed

lemma miri_able_cases:
  assumes "miri_able c"
  obtains (keep) k p where "c = Retain k p" "p \<noteq> NULL" "shimmed k" "miri_call c = mock_retain p"
  | (give) k p where "c = Release k p" "p \<noteq> NULL" "shimmed k" "miri_call c = mock_release p"
  using assms by (cases c rule: miri_able.cases) (auto simp: shimmed_def shim_defs fun_eq_iff)

lemma miri_call_dead:
  assumes "miri_able c" and "mock_ok m" and "mock_count m (call_target c) = 0"
  shows "miri_call c m = None"
  using assms(1)
  by (cases rule: miri_able_cases)
    (use assms(2,3) mock_count_dead in \<open>auto simp: mock_retain_def mock_release_def\<close>)

lemma miri_call_live:
  assumes "miri_able (fst e)" and "mock_ok m" and "0 < mock_count m (call_target (fst e))"
    and "\<And>p. mock_count m p + 1 < 2 ^ 32"
  shows "\<exists>m'. miri_call (fst e) m = Some m' \<and> mock_ok m' \<and>
    (\<forall>p. int (mock_count m' p) = int (mock_count m p) + miri_ledger p [e] \<and> mock_count m' p \<le> mock_count m p + 1)"
  using assms(1)
proof (cases rule: miri_able_cases)
  case (keep k p)
  then have e: "miri_ledger q [e] = of_bool (q = p)" for q
    by (cases e) (auto simp: miri_ledger_def shimmed_def)
  show ?thesis
    using mock_retain_counts [OF assms(2) keep(2)] assms(3) assms(4) [of p] keep by (auto simp: e)
next
  case (give k p)
  then have e: "miri_ledger q [e] = - of_bool (q = p)" for q
    by (cases e) (auto simp: miri_ledger_def shimmed_def)
  show ?thesis
    using mock_release_counts [OF assms(2) give(2)] assms(3) give by (auto simp: e)
qed

lemma overdrawn_first:
  "mock_count m (call_target (fst e)) = 0 \<Longrightarrow> overdrawn m (e # h)"
  by (auto simp: overdrawn_def intro!: exI [of _ 0])

lemma overdrawn_later:
  assumes "0 < mock_count m (call_target (fst e))"
    and "\<And>p. int (mock_count m' p) = int (mock_count m p) + miri_ledger p [e]"
  shows "overdrawn m (e # h) \<longleftrightarrow> overdrawn m' h"
  unfolding overdrawn_def length_Cons Ex_less_Suc2 using assms
  by (auto simp: add.assoc miri_ledger_Cons [of _ e "take n h" for n])

lemma miri_run_ledger:
  assumes "miri_calls h" and "mock_ok m" and "\<And>p. mock_count m p + length h < 2 ^ 32"
  shows "case miri_run h m of
      None \<Rightarrow> overdrawn m h
    | Some m' \<Rightarrow> \<not> overdrawn m h \<and> mock_ok m' \<and>
        (\<forall>p. int (mock_count m' p) = int (mock_count m p) + miri_ledger p h)"
  using assms
proof (induction h arbitrary: m)
  case Nil
  then show ?case by simp
next
  case (Cons e h)
  show ?case
  proof (cases "mock_count m (call_target (fst e)) = 0")
    case True
    then show ?thesis using Cons.prems miri_call_dead [of "fst e" m] overdrawn_first by simp
  next
    case False
    have "mock_count m p + 1 < 2 ^ 32" for p using Cons.prems(3) [of p] by simp
    with False Cons.prems obtain m1 where m1: "miri_call (fst e) m = Some m1" "mock_ok m1"
        "\<And>p. int (mock_count m1 p) = int (mock_count m p) + miri_ledger p [e]"
        "\<And>p. mock_count m1 p \<le> mock_count m p + 1"
      using miri_call_live [of e m] by auto
    have "mock_count m1 p + length h < 2 ^ 32" for p
      using m1(4) [of p] Cons.prems(3) [of p] by simp
    from Cons.IH [OF _ m1(2) this] Cons.prems(1)
    have "case miri_run h m1 of None \<Rightarrow> overdrawn m1 h
      | Some m' \<Rightarrow> \<not> overdrawn m1 h \<and> mock_ok m' \<and>
          (\<forall>p. int (mock_count m' p) = int (mock_count m1 p) + miri_ledger p h)" by simp
    moreover have "overdrawn m (e # h) \<longleftrightarrow> overdrawn m1 h"
      using False m1(3) by (intro overdrawn_later) auto
    ultimately show ?thesis using m1(1,3)
      by (simp add: add.assoc miri_ledger_Cons [of _ e h] split: option.splits)
  qed
qed

section \<open>Properties\<close>

text \<open>
  C22. Miri judges the ownership ledger. Run on the mock, any sequence of retains and releases of
  pools, buffers and fences, of objects that may be shared and interleaved in any order, is
  reported exactly when some call uses an object to which, by the ledger, nobody holds a reference
  at that moment (a use after free or a double free); when it is not reported, the nodes left on
  the heap are exactly those whose ledger has not come back to zero, each with that count, so that
  the leak check finds every missing release and nothing else. This needs fewer than \<open>2 ^ 32\<close> calls:
  the count is a 32-bit atomic that wraps.
\<close>

theorem mock_refines_ledger:
  assumes "miri_calls h" and "mock_ok m" and "\<And>p. mock_count m p + length h < 2 ^ 32"
  shows "case miri_run h m of
      None \<Rightarrow> overdrawn m h
    | Some m' \<Rightarrow> \<not> overdrawn m h \<and> dom m' = {p. int (mock_count m p) + miri_ledger p h \<noteq> 0} \<and>
        (\<forall>p. int (mock_count m' p) = int (mock_count m p) + miri_ledger p h)"
proof (cases "miri_run h m")
  case None
  then show ?thesis using miri_run_ledger [OF assms] by simp
next
  case (Some m')
  with miri_run_ledger [OF assms] have m': "\<not> overdrawn m h" "mock_ok m'"
      "\<forall>p. int (mock_count m' p) = int (mock_count m p) + miri_ledger p h" by simp_all
  have "p \<in> dom m' \<longleftrightarrow> int (mock_count m' p) \<noteq> 0" for p
    using mock_count_dead [OF m'(2), of p] by auto
  with Some m'(1,3) show ?thesis by auto
qed

definition two_fences :: mock where
  "two_fences = [8 \<mapsto> \<lparr>mh_count = 1\<rparr>, 16 \<mapsto> \<lparr>mh_count = 1\<rparr>]"

theorem mock_refines_ledger_witness:
  "let h = map (\<lambda>c. (c, reply_ok)) [Retain HalFence 8, Release HalFence 8, Release HalFence 16, Release HalFence 8] in
   \<not> overdrawn two_fences h \<and> overdrawn two_fences (h @ [(Release HalFence 16, reply_ok)])"
proof -
  let ?h = "map (\<lambda>c. (c, reply_ok)) [Retain HalFence 8, Release HalFence 8, Release HalFence 16, Release HalFence 8]"
  let ?g = "?h @ [(Release HalFence 16, reply_ok)]"
  have m: "mock_ok two_fences" "\<And>p. mock_count two_fences p \<le> 1"
    by (auto simp: mock_ok_def mock_count_def two_fences_def)
  have b: "mock_count two_fences p + length ?h < 2 ^ 32" "mock_count two_fences p + length ?g < 2 ^ 32" for p
    using m(2) [of p] by simp_all
  have c: "miri_calls ?h" "miri_calls ?g" by (simp_all add: miri_calls_def shimmed_def)
  have "miri_run ?h two_fences \<noteq> None" "miri_run ?g two_fences = None"
    by (simp_all add: two_fences_def shim_defs mock_retain_def mock_release_def)
  moreover note mock_refines_ledger [OF c(1) m(1) b(1)] mock_refines_ledger [OF c(2) m(1) b(2)]
  ultimately show ?thesis unfolding Let_def by (simp only: option.case_eq_if if_False if_True simp_thms)
qed

text \<open>
  Every Miri test of the wrappers passes: started on any heap with a fresh address for its
  handle, it runs without a report and leaves the heap as it found it, so nothing is leaked, freed
  twice or freed on behalf of somebody else.
\<close>

theorem miri_tests_pass:
  assumes "p \<noteq> NULL" and "m p = None"
  shows "\<forall>f\<in>set miri_tests. f E p s m = Some m"
proof -
  have [simp]: "m(p := None) = m" using assms(2) by (simp add: fun_upd_idem)
  show ?thesis using assms
    by (simp add: miri_tests_def fence_clone_retains_and_drops_balance_def buffer_move_only_drop_releases_once_def
        buffer_into_raw_transfers_without_releasing_def pool_move_only_drop_releases_once_def new_handle_def
        under_miri_def shim_defs mock_retain_def mock_release_def)
qed

theorem miri_tests_pass_witness:
  "length miri_tests = 4 \<and>
   (\<forall>f\<in>set miri_tests. f \<lparr>iree = \<lambda>h c. reply_ok, libc_ctl = 8, malloc_ok = \<lambda>n. True\<rparr> 24 hrx_initial two_fences = Some two_fences)"
  by (intro conjI miri_tests_pass) (simp_all add: miri_tests_def two_fences_def)

end
