(* ===== verification/Hip_Table.thy ===== *)
theory Hip_Table
  imports Text
begin

text \<open>
  The vocabulary of the HIP interception libraries: the function table that the passthrough and
  its interceptors share (\<open>hip-function-table/src/lib.rs\<close>), the backend library behind it, and the
  state of a process that has them loaded.

  A call of a backend function is recorded with its arguments and its reply; the reply carries the
  return value and the bytes the backend stored into the caller's memory. The backend is the
  parameter \<open>backend\<close> of the environment, as are the dynamic loader, the environment variables, the
  C streams and the clock. \<open>None\<close> is a panic (which aborts, the wrappers being \<open>extern "C"\<close>) or
  undefined behaviour.
\<close>

section \<open>The function table\<close>

text \<open>The slots of \<open>HipFunctionTable\<close>, in their order; the leading underscores of the four registration
  functions are dropped.\<close>

datatype hip_fn =
    hipInit | hipDriverGetVersion | hipRuntimeGetVersion | hipGetDevice | hipGetDeviceCount |
    hipSetDevice | hipDeviceReset | hipDeviceSynchronize | hipGetDeviceProperties |
    hipDeviceGetAttribute | hipDeviceGetName | hipMalloc | hipFree | hipHostMalloc |
    hipHostFree | hipMemGetInfo | hipMemcpy | hipMemcpyAsync | hipMemset | hipMemsetAsync |
    hipStreamCreate | hipStreamCreateWithFlags | hipStreamDestroy | hipStreamSynchronize |
    hipStreamQuery | hipStreamWaitEvent | hipEventCreate | hipEventCreateWithFlags |
    hipEventDestroy | hipEventRecord | hipEventSynchronize | hipEventQuery |
    hipEventElapsedTime | hipModuleLoad | hipModuleLoadData | hipModuleUnload |
    hipModuleGetFunction | hipModuleGetGlobal | hipModuleLaunchKernel | hipLaunchKernel |
    hipExtModuleLaunchKernel | hipRegisterFatBinary | hipUnregisterFatBinary |
    hipRegisterFunction | hipRegisterVar | hipGetErrorString | hipGetErrorName |
    hipGetLastError | hipPeekAtLastError

text \<open>The symbol each slot is resolved from.\<close>

primrec symbol :: "hip_fn \<Rightarrow> string" where
  "symbol hipInit = ''hipInit''"
| "symbol hipDriverGetVersion = ''hipDriverGetVersion''"
| "symbol hipRuntimeGetVersion = ''hipRuntimeGetVersion''"
| "symbol hipGetDevice = ''hipGetDevice''"
| "symbol hipGetDeviceCount = ''hipGetDeviceCount''"
| "symbol hipSetDevice = ''hipSetDevice''"
| "symbol hipDeviceReset = ''hipDeviceReset''"
| "symbol hipDeviceSynchronize = ''hipDeviceSynchronize''"
| "symbol hipGetDeviceProperties = ''hipGetDeviceProperties''"
| "symbol hipDeviceGetAttribute = ''hipDeviceGetAttribute''"
| "symbol hipDeviceGetName = ''hipDeviceGetName''"
| "symbol hipMalloc = ''hipMalloc''"
| "symbol hipFree = ''hipFree''"
| "symbol hipHostMalloc = ''hipHostMalloc''"
| "symbol hipHostFree = ''hipHostFree''"
| "symbol hipMemGetInfo = ''hipMemGetInfo''"
| "symbol hipMemcpy = ''hipMemcpy''"
| "symbol hipMemcpyAsync = ''hipMemcpyAsync''"
| "symbol hipMemset = ''hipMemset''"
| "symbol hipMemsetAsync = ''hipMemsetAsync''"
| "symbol hipStreamCreate = ''hipStreamCreate''"
| "symbol hipStreamCreateWithFlags = ''hipStreamCreateWithFlags''"
| "symbol hipStreamDestroy = ''hipStreamDestroy''"
| "symbol hipStreamSynchronize = ''hipStreamSynchronize''"
| "symbol hipStreamQuery = ''hipStreamQuery''"
| "symbol hipStreamWaitEvent = ''hipStreamWaitEvent''"
| "symbol hipEventCreate = ''hipEventCreate''"
| "symbol hipEventCreateWithFlags = ''hipEventCreateWithFlags''"
| "symbol hipEventDestroy = ''hipEventDestroy''"
| "symbol hipEventRecord = ''hipEventRecord''"
| "symbol hipEventSynchronize = ''hipEventSynchronize''"
| "symbol hipEventQuery = ''hipEventQuery''"
| "symbol hipEventElapsedTime = ''hipEventElapsedTime''"
| "symbol hipModuleLoad = ''hipModuleLoad''"
| "symbol hipModuleLoadData = ''hipModuleLoadData''"
| "symbol hipModuleUnload = ''hipModuleUnload''"
| "symbol hipModuleGetFunction = ''hipModuleGetFunction''"
| "symbol hipModuleGetGlobal = ''hipModuleGetGlobal''"
| "symbol hipModuleLaunchKernel = ''hipModuleLaunchKernel''"
| "symbol hipLaunchKernel = ''hipLaunchKernel''"
| "symbol hipExtModuleLaunchKernel = ''hipExtModuleLaunchKernel''"
| "symbol hipRegisterFatBinary = ''__hipRegisterFatBinary''"
| "symbol hipUnregisterFatBinary = ''__hipUnregisterFatBinary''"
| "symbol hipRegisterFunction = ''__hipRegisterFunction''"
| "symbol hipRegisterVar = ''__hipRegisterVar''"
| "symbol hipGetErrorString = ''hipGetErrorString''"
| "symbol hipGetErrorName = ''hipGetErrorName''"
| "symbol hipGetLastError = ''hipGetLastError''"
| "symbol hipPeekAtLastError = ''hipPeekAtLastError''"

definition all_slots :: "hip_fn list" where
  "all_slots = [
    hipInit, hipDriverGetVersion, hipRuntimeGetVersion, hipGetDevice, hipGetDeviceCount,
    hipSetDevice, hipDeviceReset, hipDeviceSynchronize, hipGetDeviceProperties,
    hipDeviceGetAttribute, hipDeviceGetName, hipMalloc, hipFree, hipHostMalloc, hipHostFree,
    hipMemGetInfo, hipMemcpy, hipMemcpyAsync, hipMemset, hipMemsetAsync, hipStreamCreate,
    hipStreamCreateWithFlags, hipStreamDestroy, hipStreamSynchronize, hipStreamQuery,
    hipStreamWaitEvent, hipEventCreate, hipEventCreateWithFlags, hipEventDestroy,
    hipEventRecord, hipEventSynchronize, hipEventQuery, hipEventElapsedTime, hipModuleLoad,
    hipModuleLoadData, hipModuleUnload, hipModuleGetFunction, hipModuleGetGlobal,
    hipModuleLaunchKernel, hipLaunchKernel, hipExtModuleLaunchKernel, hipRegisterFatBinary,
    hipUnregisterFatBinary, hipRegisterFunction, hipRegisterVar, hipGetErrorString,
    hipGetErrorName, hipGetLastError, hipPeekAtLastError]"

record dim3 =
  dim_x :: u32
  dim_y :: u32
  dim_z :: u32

text \<open>Arguments as the ABI passes them, and what a function returns.\<close>

datatype hip_arg =
    APtr ptr | AInt i32 | AUint u32 | ASize usize | ADim3 dim3
  | AUlong u64 | AUchar u8 | AUshort u16 | AIpcHandle "u8 list"

text \<open>\<open>RLit\<close> is a string constant of the library itself.\<close>

datatype hip_ret = RError i32 | RPtr ptr | RStr ptr | RLit string | RVoid

text \<open>The parameter types of the function-pointer types.\<close>

datatype arg_kind = KPtr | KInt | KUint | KSize | KDim3 | KUlong | KUchar | KUshort | KIpcHandle

primrec kind_of_arg :: "hip_arg \<Rightarrow> arg_kind" where
  "kind_of_arg (APtr a) = KPtr"
| "kind_of_arg (AInt i) = KInt"
| "kind_of_arg (AUint u) = KUint"
| "kind_of_arg (ASize n) = KSize"
| "kind_of_arg (ADim3 d) = KDim3"
| "kind_of_arg (AUlong n) = KUlong"
| "kind_of_arg (AUchar n) = KUchar"
| "kind_of_arg (AUshort n) = KUshort"
| "kind_of_arg (AIpcHandle h) = KIpcHandle"

primrec signature :: "hip_fn \<Rightarrow> arg_kind list" where
  "signature hipInit = [KUint]"
| "signature hipDriverGetVersion = [KPtr]"
| "signature hipRuntimeGetVersion = [KPtr]"
| "signature hipGetDevice = [KPtr]"
| "signature hipGetDeviceCount = [KPtr]"
| "signature hipSetDevice = [KInt]"
| "signature hipDeviceReset = []"
| "signature hipDeviceSynchronize = []"
| "signature hipGetDeviceProperties = [KPtr, KInt]"
| "signature hipDeviceGetAttribute = [KPtr, KUint, KInt]"
| "signature hipDeviceGetName = [KPtr, KInt, KInt]"
| "signature hipMalloc = [KPtr, KSize]"
| "signature hipFree = [KPtr]"
| "signature hipHostMalloc = [KPtr, KSize, KUint]"
| "signature hipHostFree = [KPtr]"
| "signature hipMemGetInfo = [KPtr, KPtr]"
| "signature hipMemcpy = [KPtr, KPtr, KSize, KInt]"
| "signature hipMemcpyAsync = [KPtr, KPtr, KSize, KInt, KPtr]"
| "signature hipMemset = [KPtr, KInt, KSize]"
| "signature hipMemsetAsync = [KPtr, KInt, KSize, KPtr]"
| "signature hipStreamCreate = [KPtr]"
| "signature hipStreamCreateWithFlags = [KPtr, KUint]"
| "signature hipStreamDestroy = [KPtr]"
| "signature hipStreamSynchronize = [KPtr]"
| "signature hipStreamQuery = [KPtr]"
| "signature hipStreamWaitEvent = [KPtr, KPtr, KUint]"
| "signature hipEventCreate = [KPtr]"
| "signature hipEventCreateWithFlags = [KPtr, KUint]"
| "signature hipEventDestroy = [KPtr]"
| "signature hipEventRecord = [KPtr, KPtr]"
| "signature hipEventSynchronize = [KPtr]"
| "signature hipEventQuery = [KPtr]"
| "signature hipEventElapsedTime = [KPtr, KPtr, KPtr]"
| "signature hipModuleLoad = [KPtr, KPtr]"
| "signature hipModuleLoadData = [KPtr, KPtr]"
| "signature hipModuleUnload = [KPtr]"
| "signature hipModuleGetFunction = [KPtr, KPtr, KPtr]"
| "signature hipModuleGetGlobal = [KPtr, KPtr, KPtr, KPtr]"
| "signature hipModuleLaunchKernel = [KPtr, KUint, KUint, KUint, KUint, KUint, KUint, KUint, KPtr, KPtr, KPtr]"
| "signature hipLaunchKernel = [KPtr, KDim3, KDim3, KPtr, KSize, KPtr]"
| "signature hipExtModuleLaunchKernel = [KPtr, KUint, KUint, KUint, KUint, KUint, KUint, KSize, KPtr, KPtr, KPtr, KPtr, KPtr, KUint]"
| "signature hipRegisterFatBinary = [KPtr]"
| "signature hipUnregisterFatBinary = [KPtr]"
| "signature hipRegisterFunction = [KPtr, KPtr, KPtr, KPtr, KInt, KPtr, KPtr, KPtr, KPtr, KPtr]"
| "signature hipRegisterVar = [KPtr, KPtr, KPtr, KPtr, KInt, KSize, KInt, KInt]"
| "signature hipGetErrorString = [KInt]"
| "signature hipGetErrorName = [KInt]"
| "signature hipGetLastError = []"
| "signature hipPeekAtLastError = []"

definition well_typed :: "hip_fn \<Rightarrow> hip_arg list \<Rightarrow> bool" where
  "well_typed f args = (map kind_of_arg args = signature f)"

text \<open>
  What a non-null slot points to: a function of the backend, by its address, or the wrapper that an
  interceptor has for that slot.
\<close>

datatype hip_impl = Backend ptr | Logging | Tracer

record hip_table =
  tbl_version :: u32
  tbl_struct_size :: u32
  slots :: "hip_fn \<Rightarrow> hip_impl option"

definition memcpy_kind_name :: "i32 \<Rightarrow> string" where
  "memcpy_kind_name kind =
     (if kind = 0 then ''H2H'' else if kind = 1 then ''H2D'' else if kind = 2 then ''D2H''
      else if kind = 3 then ''D2D'' else if kind = 4 then ''Default'' else ''Unknown'')"

section \<open>The process\<close>

record hip_reply =
  h_ret :: i32
  h_res :: ptr
  h_writes :: "(ptr \<times> u8) list"

text \<open>What the caller sees of a reply: an error code, for a few functions a pointer, a C string or nothing.\<close>

definition ret_of :: "hip_fn \<Rightarrow> hip_reply \<Rightarrow> hip_ret" where
  "ret_of f r =
     (if f = hipRegisterFatBinary then RPtr (h_res r)
      else if f \<in> {hipUnregisterFatBinary, hipRegisterFunction, hipRegisterVar} then RVoid
      else if f \<in> {hipGetErrorString, hipGetErrorName} then RStr (h_res r)
      else RError (h_ret r))"

type_synonym hip_call = "ptr \<times> hip_arg list"
type_synonym hip_history = "(hip_call \<times> hip_reply) list"

text \<open>The libraries that \<open>HIP_INTERCEPTION_LIBRARY\<close> may name; \<open>OtherLib\<close> exports no entry point.\<close>

datatype hip_lib = LoggingLib | TracerLib | NoopLib | OtherLib

record hip_env =
  env_var :: "string \<Rightarrow> string option"
  dlopen_backend :: "string \<Rightarrow> ptr"
  dlopen_interceptor :: "string \<Rightarrow> hip_lib option"
  dlsym :: "ptr \<Rightarrow> string \<Rightarrow> ptr"
  backend :: "hip_history \<Rightarrow> (ptr \<Rightarrow> u8) \<Rightarrow> hip_call \<Rightarrow> hip_reply"
  fopen :: "string \<Rightarrow> ptr"
  fdopen_stderr :: ptr
  clock_gettime :: "nat \<Rightarrow> nat \<times> nat"
  staging_addr :: "usize \<Rightarrow> ptr"

subsection \<open>State of the libraries\<close>

record logger =
  lg_file :: ptr
  lg_level :: i32
  lg_owns_file :: bool

datatype buffer_type = BufDevice | BufHost | BufManaged

record tracked_buffer =
  tb_ptr :: ptr
  tb_size :: usize
  tb_type :: buffer_type
  in_use :: bool
  alloc_id :: u64

record buffer_table =
  bt_buffers :: "tracked_buffer list"
  bt_count :: usize
  next_alloc_id :: u64

record kernel_info =
  host_func :: ptr
  kernel_name :: string

record tracer_state =
  tr_real :: ptr
  tr_wrapper :: ptr
  trace_file :: ptr
  trace_level :: i32
  trace_sync :: bool
  trace_dump :: i32
  trace_dump_max :: usize
  kernel_filter :: "string option"
  kernel_count_limit :: i32
  kernel_count :: i32
  kernel_full_dump_list :: "string option"
  owns_file :: bool
  buffers :: buffer_table
  kernels :: "kernel_info list"

record intercept_globals =
  init_done :: bool
  g_backend_lib :: ptr
  g_interceptor_lib :: "hip_lib option"
  g_active_table :: ptr
  g_interceptor_shutdown :: "hip_lib option"
  g_real_table :: ptr

text \<open>
  The process: the calls the backend has served, the memory it shares with its callers, what was
  written to each open C stream and to standard error, how often the clock was read, the function
  tables on the heap, and the globals of the three libraries.
\<close>

record hip =
  calls :: hip_history
  hmem :: "ptr \<Rightarrow> u8"
  files :: "ptr \<Rightarrow> string"
  file_open :: "ptr \<Rightarrow> bool"
  stderr_text :: string
  ticks :: nat
  tables :: "ptr \<rightharpoonup> hip_table"
  next_table :: ptr
  lib_loaded :: "hip_lib \<Rightarrow> bool"
  log_real :: ptr
  logger_of :: logger
  tracer :: "tracer_state option"
  intercept :: intercept_globals

text \<open>A process before any of the libraries has run.\<close>

definition hip_initial :: hip where
  "hip_initial = \<lparr>calls = [], hmem = (\<lambda>_. 0), files = (\<lambda>_. []), file_open = (\<lambda>_. False), stderr_text = [], ticks = 0,
     tables = Map.empty, next_table = 1, lib_loaded = (\<lambda>_. False), log_real = NULL,
     logger_of = \<lparr>lg_file = NULL, lg_level = 2, lg_owns_file = False\<rparr>, tracer = None,
     intercept = \<lparr>init_done = False, g_backend_lib = NULL, g_interceptor_lib = None, g_active_table = NULL,
       g_interceptor_shutdown = None, g_real_table = NULL\<rparr>\<rparr>"

section \<open>Memory\<close>

fun write_bytes :: "(ptr \<times> u8) list \<Rightarrow> (ptr \<Rightarrow> u8) \<Rightarrow> ptr \<Rightarrow> u8" where
  "write_bytes [] m = m"
| "write_bytes ((a, b) # ws) m = write_bytes ws (m(a := b))"

text \<open>Little-endian reads of \<open>n\<close> bytes.\<close>

definition peek_bytes :: "ptr \<Rightarrow> nat \<Rightarrow> hip \<Rightarrow> u8 list" where
  "peek_bytes a n s = map (hmem s) [a ..< a + n]"

definition peek_nat :: "ptr \<Rightarrow> nat \<Rightarrow> hip \<Rightarrow> nat" where
  "peek_nat a n s = foldr (\<lambda>b v. unat b + 256 * v) (peek_bytes a n s) 0"

definition deref_ptr :: "ptr \<Rightarrow> hip \<Rightarrow> ptr" where
  "deref_ptr a s = (if a = NULL then NULL else peek_nat a 8 s)"

text \<open>\<open>if v.is_null() { -1 } else { *v }\<close>.\<close>

definition deref_int_or :: "i32 \<Rightarrow> ptr \<Rightarrow> hip \<Rightarrow> i32" where
  "deref_int_or d a s = (if a = NULL then d else sint (word_of_nat (peek_nat a 4 s) :: u32))"

text \<open>The bytes before the first NUL; there may be none, then the read runs off.\<close>

partial_function (option) cstr_bytes :: "(ptr \<Rightarrow> u8) \<Rightarrow> ptr \<Rightarrow> string option" where
  "cstr_bytes m a =
     (if m a = 0 then Some []
      else do { t \<leftarrow> cstr_bytes m (Suc a); Some (char_of (unat (m a)) # t) })"

definition cstr_or :: "string \<Rightarrow> ptr \<Rightarrow> hip \<Rightarrow> string option" where
  "cstr_or dflt a s =
     (if a = NULL then Some dflt else map_option to_string_lossy (cstr_bytes (hmem s) a))"

text \<open>glibc's \<open>%p\<close>.\<close>

definition p :: "ptr \<Rightarrow> string" where
  "p a = (if a = NULL then ''(nil)'' else ''0x'' @ hex a)"

section \<open>Calls and streams\<close>

definition invoke_sym :: "hip_env \<Rightarrow> ptr \<Rightarrow> hip_arg list \<Rightarrow> hip \<Rightarrow> hip_reply \<times> hip" where
  "invoke_sym E a args s =
     (let r = backend E (calls s) (hmem s) (a, args)
      in (r, s\<lparr>calls := calls s @ [((a, args), r)], hmem := write_bytes (h_writes r) (hmem s)\<rparr>))"

text \<open>
  A wrapper's call through the table it was given: \<open>table.f.unwrap()(args)\<close>. The table handed to an
  interceptor holds backend functions only.
\<close>

definition call_real :: "hip_env \<Rightarrow> ptr \<Rightarrow> hip_fn \<Rightarrow> hip_arg list \<Rightarrow> hip \<Rightarrow> (hip_reply \<times> hip) option" where
  "call_real E tbl f args s =
     (case tables s tbl of
        None \<Rightarrow> None
      | Some t \<Rightarrow> (case slots t f of Some (Backend a) \<Rightarrow> Some (invoke_sym E a args s) | _ \<Rightarrow> None))"

text \<open>\<open>fwrite\<close> to a stream that is not open is undefined.\<close>

definition fwrite :: "ptr \<Rightarrow> string \<Rightarrow> hip \<Rightarrow> hip option" where
  "fwrite f t s = (if file_open s f then Some (s\<lparr>files := (files s)(f := files s f @ t)\<rparr>) else None)"

text \<open>The time-stamped line of \<open>log_msg\<close> and \<open>trace_msg\<close>, written and flushed.\<close>

definition stamped_line :: "hip_env \<Rightarrow> string \<Rightarrow> hip \<Rightarrow> string" where
  "stamped_line E msg s =
     (let (sec, nsec) = clock_gettime E (ticks s)
      in ''['' @ decimal sec @ ''.'' @ pad0 6 (decimal (nsec div 1000)) @ ''] '' @ msg @ [CHR 0x0A])"

text \<open>Opening the log: the named file, or standard error when there is no name or it cannot be opened.\<close>

definition open_log :: "hip_env \<Rightarrow> string \<Rightarrow> string \<Rightarrow> hip \<Rightarrow> (ptr \<times> bool) \<times> hip" where
  "open_log E var complaint s =
     (let to_stderr = (\<lambda>s. ((fdopen_stderr E, False), s\<lparr>file_open := (file_open s)(fdopen_stderr E := True)\<rparr>))
      in case env_var E var of
           Some path \<Rightarrow>
             if path \<noteq> [] then
               let f = fopen E path
               in if f = NULL then
                    to_stderr (s\<lparr>stderr_text := stderr_text s @ complaint @ path @ [CHR 0x0A]\<rparr>)
                  else ((f, True), s\<lparr>files := (files s)(f := []), file_open := (file_open s)(f := True)\<rparr>)
             else to_stderr s
         | None \<Rightarrow> to_stderr s)"

definition fclose_file :: "ptr \<Rightarrow> hip \<Rightarrow> hip" where
  "fclose_file f s = s\<lparr>file_open := (file_open s)(f := False)\<rparr>"

text \<open>\<open>Box::into_raw(Box::new(table))\<close>.\<close>

definition new_table :: "hip_table \<Rightarrow> hip \<Rightarrow> ptr \<times> hip" where
  "new_table t s = (next_table s, s\<lparr>tables := (tables s)(next_table s \<mapsto> t), next_table := Suc (next_table s)\<rparr>)"

text \<open>\<open>w.f = Some(wrap_f)\<close> for each listed slot.\<close>

definition override :: "hip_impl \<Rightarrow> hip_fn list \<Rightarrow> hip_table \<Rightarrow> hip_table" where
  "override w fs t = t\<lparr>slots := (\<lambda>f. if f \<in> set fs then Some w else slots t f)\<rparr>"

section \<open>Facts\<close>

subsection \<open>C strings\<close>

text \<open>A C string can be read exactly when there is a NUL somewhere; the bytes before the first one are read.\<close>

lemma cstr_bytes_terminated:
  assumes "m (a + n) = 0" and "\<And>i. i < n \<Longrightarrow> m (a + i) \<noteq> 0"
  shows "cstr_bytes m a = Some (map (\<lambda>i. char_of (unat (m (a + i)))) [0 ..< n])"
  using assms
proof (induction n arbitrary: a)
  case 0
  then show ?case by (subst cstr_bytes.simps) simp
next
  case (Suc n)
  have "cstr_bytes m (Suc a) = Some (map (\<lambda>i. char_of (unat (m (Suc a + i)))) [0 ..< n])"
    using Suc.prems(1) Suc.prems(2) [of "Suc _"] by (intro Suc.IH) simp_all
  moreover have "[0 ..< Suc n] = 0 # map Suc [0 ..< n]" by (simp add: upt_conv_Cons map_Suc_upt del: upt_Suc)
  ultimately show ?case
    using Suc.prems(2) [of 0] by (subst cstr_bytes.simps) (simp add: comp_def del: upt_Suc)
qed

lemma cstr_bytes_NUL: "cstr_bytes m a = Some t \<Longrightarrow> m (a + length t) = 0"
proof (induction t arbitrary: a)
  case Nil
  then show ?case by (subst (asm) cstr_bytes.simps) (auto split: if_splits elim!: bind_SomeE)
next
  case (Cons c t)
  then have "cstr_bytes m (Suc a) = Some t"
    by (subst (asm) cstr_bytes.simps) (auto split: if_splits elim!: bind_SomeE)
  then show ?case using Cons.IH [of "Suc a"] by simp
qed

lemma cstr_bytes_defined: "(\<exists>t. cstr_bytes m a = Some t) \<longleftrightarrow> (\<exists>n. m (a + n) = 0)"
proof
  assume "\<exists>n. m (a + n) = 0"
  define n where "n = (LEAST n. m (a + n) = 0)"
  have "m (a + n) = 0" "\<And>i. i < n \<Longrightarrow> m (a + i) \<noteq> 0"
    unfolding n_def using \<open>\<exists>n. m (a + n) = 0\<close> by (auto intro: LeastI_ex dest: not_less_Least)
  then show "\<exists>t. cstr_bytes m a = Some t" using cstr_bytes_terminated by blast
qed (auto dest: cstr_bytes_NUL)

text \<open>Every address is followed by a NUL, so every C string can be read.\<close>

definition terminated :: "(ptr \<Rightarrow> u8) \<Rightarrow> bool" where
  "terminated m \<longleftrightarrow> (\<forall>a. \<exists>n. m (a + n) = 0)"

lemma cstr_or_defined: "terminated (hmem s) \<Longrightarrow> \<exists>t. cstr_or d a s = Some t"
  using cstr_bytes_defined [of "hmem s" a] by (auto simp: cstr_or_def terminated_def)

subsection \<open>States that differ in log output only\<close>

definition quiet :: "hip \<Rightarrow> hip \<Rightarrow> bool" where
  "quiet s t \<longleftrightarrow> t = s\<lparr>files := files t, ticks := ticks t\<rparr>"

lemma quiet_refl [simp]: "quiet s s"
  by (simp add: quiet_def)

lemma quiet_trans: "quiet s t \<Longrightarrow> quiet t u \<Longrightarrow> quiet s u"
  unfolding quiet_def by (cases s; cases t; cases u) simp

lemma quietD:
  assumes "quiet s t"
  shows "calls t = calls s" "hmem t = hmem s" "tables t = tables s" "file_open t = file_open s"
    "log_real t = log_real s" "logger_of t = logger_of s" "tracer t = tracer s" "intercept t = intercept s"
    "lib_loaded t = lib_loaded s" "next_table t = next_table s"
  using assms unfolding quiet_def by (cases t, simp)+

lemma fwrite_quiet: "fwrite f x s = Some t \<Longrightarrow> quiet s t"
  by (auto simp: fwrite_def quiet_def split: if_splits)

lemma quiet_ticks: "quiet (s\<lparr>ticks := n\<rparr>) t \<Longrightarrow> quiet s t"
  unfolding quiet_def by (cases s; cases t) simp

lemma invoke_sym_quiet:
  assumes "quiet s t"
  shows "fst (invoke_sym E a args t) = fst (invoke_sym E a args s) \<and>
    quiet (snd (invoke_sym E a args s)) (snd (invoke_sym E a args t))"
  using assms quietD [OF assms] unfolding quiet_def invoke_sym_def Let_def by (cases s; cases t) simp

lemma call_real_quiet:
  assumes "call_real E tbl f args t = Some (r, u)" and "quiet s t"
  obtains v where "call_real E tbl f args s = Some (r, v)" "quiet v u"
  using assms quietD [OF assms(2)] invoke_sym_quiet [OF assms(2), of E _ args]
  by (auto simp: call_real_def prod_eq_iff split: option.splits hip_impl.splits)

lemma call_real_frame:
  assumes "call_real E tbl f args s = Some (r, t)"
  shows "t = s\<lparr>calls := calls t, hmem := hmem t\<rparr>"
  using assms by (auto simp: call_real_def invoke_sym_def Let_def split: option.splits hip_impl.splits)

text \<open>
  A wrapper's outcome stands for the call of \<open>f\<close> through the table \<open>tbl\<close>: the same backend call, its
  result, and a state that differs in log output only.
\<close>

definition stands_for :: "hip_env \<Rightarrow> ptr \<Rightarrow> hip_fn \<Rightarrow> hip_arg list \<Rightarrow> hip \<Rightarrow> hip_ret \<Rightarrow> hip \<Rightarrow> bool" where
  "stands_for E tbl f args s r t \<longleftrightarrow>
     (\<exists>q u. call_real E tbl f args s = Some (q, u) \<and> r = ret_of f q \<and> quiet u t)"

lemma stands_forI:
  "call_real E tbl f args s = Some (q, u) \<Longrightarrow> quiet u t \<Longrightarrow> r = ret_of f q \<Longrightarrow> stands_for E tbl f args s r t"
  by (auto simp: stands_for_def)

lemma stands_for_logged_first:
  "call_real E tbl f args s' = Some (q, t) \<Longrightarrow> quiet s s' \<Longrightarrow> r = ret_of f q \<Longrightarrow> stands_for E tbl f args s r t"
  by (erule (1) call_real_quiet) (rule stands_forI)

lemma cstr_or_None: "terminated (hmem s) \<Longrightarrow> cstr_or d a s \<noteq> None"
  using cstr_or_defined by blast

lemma kind_of_arg_iff:
  "kind_of_arg x = KPtr \<longleftrightarrow> (\<exists>a. x = APtr a)" "kind_of_arg x = KInt \<longleftrightarrow> (\<exists>i. x = AInt i)"
  "kind_of_arg x = KUint \<longleftrightarrow> (\<exists>u. x = AUint u)" "kind_of_arg x = KSize \<longleftrightarrow> (\<exists>n. x = ASize n)"
  "kind_of_arg x = KDim3 \<longleftrightarrow> (\<exists>d. x = ADim3 d)"
  by (cases x; simp)+

section \<open>Interceptors\<close>

text \<open>
  What an interceptor may change besides making the call it stands for: its log and its own state.
\<close>

definition aside :: "hip \<Rightarrow> hip \<Rightarrow> bool" where
  "aside s t \<longleftrightarrow> t = s\<lparr>files := files t, ticks := ticks t, tracer := tracer t\<rparr>"

lemma aside_refl [simp]: "aside s s"
  by (simp add: aside_def)

lemma aside_trans: "aside s t \<Longrightarrow> aside t u \<Longrightarrow> aside s u"
  unfolding aside_def by (cases s; cases t; cases u) simp

lemma asideD:
  assumes "aside s t"
  shows "calls t = calls s" "hmem t = hmem s" "tables t = tables s" "file_open t = file_open s"
    "log_real t = log_real s" "logger_of t = logger_of s" "intercept t = intercept s"
    "lib_loaded t = lib_loaded s" "next_table t = next_table s"
  using assms unfolding aside_def by (cases t, simp)+

lemma quiet_aside: "quiet s t \<Longrightarrow> aside s t"
  unfolding quiet_def aside_def by (cases s; cases t) simp

lemma aside_tracer [simp]: "aside s (s\<lparr>tracer := x\<rparr>)"
  unfolding aside_def by (cases s) simp

text \<open>A call of a backend function depends on the calls so far and the memory only.\<close>

definition same_view :: "hip \<Rightarrow> hip \<Rightarrow> bool" where
  "same_view s t \<longleftrightarrow> calls t = calls s \<and> hmem t = hmem s"

lemma same_view_refl [simp]: "same_view s s"
  by (simp add: same_view_def)

lemma invoke_sym_view:
  assumes "same_view s t" and "backend E' = backend E"
  shows "fst (invoke_sym E' a args t) = fst (invoke_sym E a args s)"
    "same_view (snd (invoke_sym E a args s)) (snd (invoke_sym E' a args t))"
  using assms by (simp_all add: invoke_sym_def same_view_def Let_def)

lemma invoke_sym_frame:
  "snd (invoke_sym E a args s) = s\<lparr>calls := calls (snd (invoke_sym E a args s)), hmem := hmem (snd (invoke_sym E a args s))\<rparr>"
  by (simp add: invoke_sym_def Let_def)

lemma call_real_Some:
  "call_real E tbl f args s = Some (q, u) \<longleftrightarrow>
     (\<exists>t a. tables s tbl = Some t \<and> slots t f = Some (Backend a) \<and> (q, u) = invoke_sym E a args s)"
  by (auto simp: call_real_def split: option.splits hip_impl.splits)

text \<open>
  The contract of an interceptor: a call through one of its wrappers is the call of the function it
  wraps, through the table it was given, and keeps it working. \<open>real\<close> is that table and \<open>ready\<close>
  what its wrappers rely on. The client, a program that makes a sequence of calls, cannot tell.
\<close>

fun run_calls ::
  "(hip_fn \<Rightarrow> hip_arg list \<Rightarrow> hip \<Rightarrow> (hip_ret \<times> hip) option) \<Rightarrow> (hip_fn \<times> hip_arg list) list \<Rightarrow> hip \<Rightarrow>
   (hip_ret list \<times> hip) option" where
  "run_calls call [] s = Some ([], s)"
| "run_calls call ((f, args) # cs) s = do {
     (r, s) \<leftarrow> call f args s;
     (rs, s) \<leftarrow> run_calls call cs s;
     Some (r # rs, s) }"

locale interceptor =
  fixes invoke :: "hip_fn \<Rightarrow> hip_arg list \<Rightarrow> hip \<Rightarrow> (hip_ret \<times> hip) option"
    and real :: "hip \<Rightarrow> ptr"
    and ready :: "hip \<Rightarrow> bool"
    and E :: hip_env
  assumes transparent: "invoke f args s = Some (r, t) \<Longrightarrow> ready s \<Longrightarrow>
      \<exists>q u. call_real E (real s) f args s = Some (q, u) \<and> r = ret_of f q \<and> aside u t \<and> real t = real s \<and> ready t"
begin

lemma invoke_direct:
  assumes "invoke f args s = Some (r, t)" and "ready s" and "same_view s s'" and "tables s (real s) = Some tb"
    and "backend E' = backend E"
  shows "\<exists>a. slots tb f = Some (Backend a) \<and> r = ret_of f (fst (invoke_sym E' a args s')) \<and>
    same_view t (snd (invoke_sym E' a args s')) \<and> tables t = tables s \<and> intercept t = intercept s \<and>
    lib_loaded t = lib_loaded s \<and> real t = real s \<and> ready t"
proof -
  obtain q u where q: "call_real E (real s) f args s = Some (q, u)" "r = ret_of f q" "aside u t" "real t = real s" "ready t"
    using transparent [OF assms(1,2)] by blast
  then obtain a where a: "slots tb f = Some (Backend a)" "invoke_sym E a args s = (q, u)"
    using assms(4) by (auto simp: call_real_Some)
  have fr: "tables u = tables s" "intercept u = intercept s" "lib_loaded u = lib_loaded s"
    using invoke_sym_frame [of E a args s] a(2) by (cases u, simp)+
  have "same_view t u" using asideD [OF q(3)] by (simp add: same_view_def)
  then show ?thesis
    using q a fr asideD [OF q(3)] invoke_sym_view [OF assms(3,5), of a args]
    by (intro exI [of _ a]) (simp add: same_view_def)
qed

end

end
