(* ===== verification/Hip_Logging.thy ===== *)
theory Hip_Logging
  imports Hip_Table
begin

text \<open>
  The logging interceptor (\<open>hip-logging/src/lib.rs\<close>): a wrapper per table slot that calls the real
  function and writes a line about it, and the entry points that install and remove them.

  The theory shows that a wrapper is transparent: it makes the one call it stands for, returns its
  result and changes no memory of the caller.
\<close>

section \<open>Messages\<close>

definition log_msg :: "hip_env \<Rightarrow> i32 \<Rightarrow> string \<Rightarrow> hip \<Rightarrow> hip option" where
  "log_msg E level msg s =
     (let g = logger_of s
      in if level > lg_level g \<or> lg_file g = NULL then Some s
         else fwrite (lg_file g) (stamped_line E msg s) (s\<lparr>ticks := Suc (ticks s)\<rparr>))"

definition device_attributes :: "(nat \<times> string) list" where
  "device_attributes =
    [(0, ''MaxThreadsPerBlock''),
     (1, ''MaxBlockDimX''),
     (2, ''MaxBlockDimY''),
     (3, ''MaxBlockDimZ''),
     (4, ''MaxGridDimX''),
     (5, ''MaxGridDimY''),
     (6, ''MaxGridDimZ''),
     (7, ''MaxSharedMemoryPerBlock''),
     (8, ''TotalConstantMemory''),
     (9, ''WarpSize''),
     (10, ''MaxRegistersPerBlock''),
     (11, ''ClockRate''),
     (15, ''MemoryClockRate''),
     (16, ''MemoryBusWidth''),
     (17, ''MultiProcessorCount''),
     (19, ''ComputeCapabilityMajor''),
     (20, ''ComputeCapabilityMinor''),
     (21, ''L2CacheSize''),
     (22, ''MaxThreadsPerMultiProcessor''),
     (24, ''ConcurrentKernels''),
     (28, ''PCIBusId''),
     (29, ''PCIDeviceId''),
     (32, ''MaxSharedMemoryPerMultiprocessor''),
     (43, ''IsMultiGpuBoard''),
     (70, ''CooperativeLaunch''),
     (71, ''CooperativeMultiDeviceLaunch''),
     (87, ''PageableMemoryAccess''),
     (95, ''ManagedMemory''),
     (96, ''DirectManagedMemAccessFromHost''),
     (100, ''ConcurrentManagedAccess''),
     (101, ''PageableMemoryAccessUsesHostPageTables''),
     (1000, ''GCN_ARCH''),
     (1003, ''GCN_ARCH_NAME'')]"

definition device_attribute_name :: "u32 \<Rightarrow> string" where
  "device_attribute_name attr =
     (case map_of device_attributes (unat attr) of Some t \<Rightarrow> t | None \<Rightarrow> ''attr_'' @ decimal (unat attr))"

section \<open>Wrappers\<close>

definition log_wrap_hipInit ::
  "hip_env \<Rightarrow> u32 \<Rightarrow> hip \<Rightarrow> (i32 \<times> hip) option" where
  "log_wrap_hipInit E flags s = do {
     (r, s) \<leftarrow> call_real E (log_real s) hipInit [AUint flags] s;
     let err = h_ret r;
     s \<leftarrow> log_msg E 2 (''hipInit(flags=0x'' @ hex (unat flags) @ '') -> '' @ show_int err) s;
     Some (err, s) }"

definition log_wrap_hipDriverGetVersion ::
  "hip_env \<Rightarrow> ptr \<Rightarrow> hip \<Rightarrow> (i32 \<times> hip) option" where
  "log_wrap_hipDriverGetVersion E v s = do {
     (r, s) \<leftarrow> call_real E (log_real s) hipDriverGetVersion [APtr v] s;
     let err = h_ret r;
     let val = deref_int_or (- 1) v s;
     s \<leftarrow> log_msg E 2 (''hipDriverGetVersion() -> version='' @ show_int val @ '', ret='' @ show_int err) s;
     Some (err, s) }"

definition log_wrap_hipRuntimeGetVersion ::
  "hip_env \<Rightarrow> ptr \<Rightarrow> hip \<Rightarrow> (i32 \<times> hip) option" where
  "log_wrap_hipRuntimeGetVersion E v s = do {
     (r, s) \<leftarrow> call_real E (log_real s) hipRuntimeGetVersion [APtr v] s;
     let err = h_ret r;
     let val = deref_int_or (- 1) v s;
     s \<leftarrow> log_msg E 2 (''hipRuntimeGetVersion() -> version='' @ show_int val @ '', ret='' @ show_int err) s;
     Some (err, s) }"

definition log_wrap_hipGetDevice ::
  "hip_env \<Rightarrow> ptr \<Rightarrow> hip \<Rightarrow> (i32 \<times> hip) option" where
  "log_wrap_hipGetDevice E dev_id s = do {
     (r, s) \<leftarrow> call_real E (log_real s) hipGetDevice [APtr dev_id] s;
     let err = h_ret r;
     let val = deref_int_or (- 1) dev_id s;
     s \<leftarrow> log_msg E 2 (''hipGetDevice() -> device='' @ show_int val @ '', ret='' @ show_int err) s;
     Some (err, s) }"

definition log_wrap_hipGetDeviceCount ::
  "hip_env \<Rightarrow> ptr \<Rightarrow> hip \<Rightarrow> (i32 \<times> hip) option" where
  "log_wrap_hipGetDeviceCount E count s = do {
     (r, s) \<leftarrow> call_real E (log_real s) hipGetDeviceCount [APtr count] s;
     let err = h_ret r;
     let val = deref_int_or (- 1) count s;
     s \<leftarrow> log_msg E 2 (''hipGetDeviceCount() -> count='' @ show_int val @ '', ret='' @ show_int err) s;
     Some (err, s) }"

definition log_wrap_hipSetDevice ::
  "hip_env \<Rightarrow> i32 \<Rightarrow> hip \<Rightarrow> (i32 \<times> hip) option" where
  "log_wrap_hipSetDevice E dev_id s = do {
     (r, s) \<leftarrow> call_real E (log_real s) hipSetDevice [AInt dev_id] s;
     let err = h_ret r;
     s \<leftarrow> log_msg E 2 (''hipSetDevice('' @ show_int dev_id @ '') -> '' @ show_int err) s;
     Some (err, s) }"

definition log_wrap_hipDeviceSynchronize ::
  "hip_env \<Rightarrow> hip \<Rightarrow> (i32 \<times> hip) option" where
  "log_wrap_hipDeviceSynchronize E s = do {
     (r, s) \<leftarrow> call_real E (log_real s) hipDeviceSynchronize [] s;
     let err = h_ret r;
     s \<leftarrow> log_msg E 2 (''hipDeviceSynchronize() -> '' @ show_int err) s;
     Some (err, s) }"

definition log_wrap_hipGetDeviceProperties ::
  "hip_env \<Rightarrow> ptr \<Rightarrow> i32 \<Rightarrow> hip \<Rightarrow> (i32 \<times> hip) option" where
  "log_wrap_hipGetDeviceProperties E prop dev_id s = do {
     (r, s) \<leftarrow> call_real E (log_real s) hipGetDeviceProperties [APtr prop, AInt dev_id] s;
     let err = h_ret r;
     if err = 0 \<and> prop \<noteq> NULL then do {
       s \<leftarrow> log_msg E 2 (''hipGetDeviceProperties(device='' @ show_int dev_id @ '') -> ret='' @ show_int err) s;
       name \<leftarrow> cstr_or ''(null)'' prop s;
       s \<leftarrow> log_msg E 2 (''  DeviceProps: name='' @ name) s;
       s \<leftarrow> log_msg E 2 ''  DeviceProps: (use hipDeviceGetAttribute logs for individual fields)'' s;
       Some (err, s) }
     else do {
       s \<leftarrow> log_msg E 2 (''hipGetDeviceProperties(device='' @ show_int dev_id @ '') -> ret='' @ show_int err) s;
       Some (err, s) } }"

definition log_wrap_hipDeviceGetAttribute ::
  "hip_env \<Rightarrow> ptr \<Rightarrow> u32 \<Rightarrow> i32 \<Rightarrow> hip \<Rightarrow> (i32 \<times> hip) option" where
  "log_wrap_hipDeviceGetAttribute E value attr dev_id s = do {
     (r, s) \<leftarrow> call_real E (log_real s) hipDeviceGetAttribute [APtr value, AUint attr, AInt dev_id] s;
     let err = h_ret r;
     let val = deref_int_or (- 1) value s;
     s \<leftarrow> log_msg E 2 (''hipDeviceGetAttribute(attr='' @ (device_attribute_name attr) @ ''('' @ decimal (unat attr) @
       ''), device='' @ show_int dev_id @ '') -> value='' @ show_int val @ '', ret='' @ show_int err) s;
     Some (err, s) }"

definition log_wrap_hipDeviceGetName ::
  "hip_env \<Rightarrow> ptr \<Rightarrow> i32 \<Rightarrow> i32 \<Rightarrow> hip \<Rightarrow> (i32 \<times> hip) option" where
  "log_wrap_hipDeviceGetName E name len dev_id s = do {
     (r, s) \<leftarrow> call_real E (log_real s) hipDeviceGetName [APtr name, AInt len, AInt dev_id] s;
     let err = h_ret r;
     text \<leftarrow> cstr_or ''(null)'' name s;
     s \<leftarrow> log_msg E 2 (''hipDeviceGetName(device='' @ show_int dev_id @ '') -> name='' @ text @ '', ret='' @ show_int err) s;
     Some (err, s) }"

definition log_wrap_hipMemGetInfo ::
  "hip_env \<Rightarrow> ptr \<Rightarrow> ptr \<Rightarrow> hip \<Rightarrow> (i32 \<times> hip) option" where
  "log_wrap_hipMemGetInfo E free_mem total_mem s = do {
     (r, s) \<leftarrow> call_real E (log_real s) hipMemGetInfo [APtr free_mem, APtr total_mem] s;
     let err = h_ret r;
     let f = (if free_mem = NULL then 0 else peek_nat free_mem 8 s);
     let t = (if total_mem = NULL then 0 else peek_nat total_mem 8 s);
     s \<leftarrow> log_msg E 2 (''hipMemGetInfo() -> free='' @ (decimal f) @ '', total='' @ (decimal t) @ '', ret='' @
       show_int err) s;
     Some (err, s) }"

definition log_wrap_hipMalloc ::
  "hip_env \<Rightarrow> ptr \<Rightarrow> usize \<Rightarrow> hip \<Rightarrow> (i32 \<times> hip) option" where
  "log_wrap_hipMalloc E ptr sz s = do {
     (r, s) \<leftarrow> call_real E (log_real s) hipMalloc [APtr ptr, ASize sz] s;
     let err = h_ret r;
     let pv = deref_ptr ptr s;
     s \<leftarrow> log_msg E 2 (''hipMalloc(size='' @ decimal (unat sz) @ '') -> ptr='' @ p pv @ '', ret='' @ show_int err) s;
     Some (err, s) }"

definition log_wrap_hipFree ::
  "hip_env \<Rightarrow> ptr \<Rightarrow> hip \<Rightarrow> (i32 \<times> hip) option" where
  "log_wrap_hipFree E ptr s = do {
     (r, s) \<leftarrow> call_real E (log_real s) hipFree [APtr ptr] s;
     let err = h_ret r;
     s \<leftarrow> log_msg E 2 (''hipFree('' @ p ptr @ '') -> '' @ show_int err) s;
     Some (err, s) }"

definition log_wrap_hipHostMalloc ::
  "hip_env \<Rightarrow> ptr \<Rightarrow> usize \<Rightarrow> u32 \<Rightarrow> hip \<Rightarrow> (i32 \<times> hip) option" where
  "log_wrap_hipHostMalloc E ptr sz flags s = do {
     (r, s) \<leftarrow> call_real E (log_real s) hipHostMalloc [APtr ptr, ASize sz, AUint flags] s;
     let err = h_ret r;
     let pv = deref_ptr ptr s;
     s \<leftarrow> log_msg E 2 (''hipHostMalloc(size='' @ decimal (unat sz) @ '', flags=0x'' @ hex (unat flags) @ '') -> ptr='' @
       p pv @ '', ret='' @ show_int err) s;
     Some (err, s) }"

definition log_wrap_hipHostFree ::
  "hip_env \<Rightarrow> ptr \<Rightarrow> hip \<Rightarrow> (i32 \<times> hip) option" where
  "log_wrap_hipHostFree E ptr s = do {
     (r, s) \<leftarrow> call_real E (log_real s) hipHostFree [APtr ptr] s;
     let err = h_ret r;
     s \<leftarrow> log_msg E 2 (''hipHostFree('' @ p ptr @ '') -> '' @ show_int err) s;
     Some (err, s) }"

definition log_wrap_hipMemcpy ::
  "hip_env \<Rightarrow> ptr \<Rightarrow> ptr \<Rightarrow> usize \<Rightarrow> i32 \<Rightarrow> hip \<Rightarrow> (i32 \<times> hip) option" where
  "log_wrap_hipMemcpy E dst src n kind s = do {
     (r, s) \<leftarrow> call_real E (log_real s) hipMemcpy [APtr dst, APtr src, ASize n, AInt kind] s;
     let err = h_ret r;
     s \<leftarrow> log_msg E 2 (''hipMemcpy(dst='' @ p dst @ '', src='' @ p src @ '', size='' @ decimal (unat n) @ '', kind='' @
       (memcpy_kind_name kind) @ '') -> '' @ show_int err) s;
     Some (err, s) }"

definition log_wrap_hipMemcpyAsync ::
  "hip_env \<Rightarrow> ptr \<Rightarrow> ptr \<Rightarrow> usize \<Rightarrow> i32 \<Rightarrow> ptr \<Rightarrow> hip \<Rightarrow> (i32 \<times> hip) option" where
  "log_wrap_hipMemcpyAsync E dst src n kind stream s = do {
     (r, s) \<leftarrow> call_real E (log_real s) hipMemcpyAsync [APtr dst, APtr src, ASize n, AInt kind, APtr stream] s;
     let err = h_ret r;
     s \<leftarrow> log_msg E 2 (''hipMemcpyAsync(dst='' @ p dst @ '', src='' @ p src @ '', size='' @ decimal (unat n) @
       '', kind='' @ (memcpy_kind_name kind) @ '', stream='' @ p stream @ '') -> '' @ show_int err) s;
     Some (err, s) }"

definition log_wrap_hipMemset ::
  "hip_env \<Rightarrow> ptr \<Rightarrow> i32 \<Rightarrow> usize \<Rightarrow> hip \<Rightarrow> (i32 \<times> hip) option" where
  "log_wrap_hipMemset E dst value n s = do {
     (r, s) \<leftarrow> call_real E (log_real s) hipMemset [APtr dst, AInt value, ASize n] s;
     let err = h_ret r;
     s \<leftarrow> log_msg E 2 (''hipMemset(dst='' @ p dst @ '', value=0x'' @ pad0 2 (hex_i32 value) @ '', size='' @
       decimal (unat n) @ '') -> '' @ show_int err) s;
     Some (err, s) }"

definition log_wrap_hipMemsetAsync ::
  "hip_env \<Rightarrow> ptr \<Rightarrow> i32 \<Rightarrow> usize \<Rightarrow> ptr \<Rightarrow> hip \<Rightarrow> (i32 \<times> hip) option" where
  "log_wrap_hipMemsetAsync E dst value n stream s = do {
     (r, s) \<leftarrow> call_real E (log_real s) hipMemsetAsync [APtr dst, AInt value, ASize n, APtr stream] s;
     let err = h_ret r;
     s \<leftarrow> log_msg E 2 (''hipMemsetAsync(dst='' @ p dst @ '', value=0x'' @ pad0 2 (hex_i32 value) @ '', size='' @
       decimal (unat n) @ '', stream='' @ p stream @ '') -> '' @ show_int err) s;
     Some (err, s) }"

definition log_wrap_hipStreamCreate ::
  "hip_env \<Rightarrow> ptr \<Rightarrow> hip \<Rightarrow> (i32 \<times> hip) option" where
  "log_wrap_hipStreamCreate E stream s = do {
     (r, s) \<leftarrow> call_real E (log_real s) hipStreamCreate [APtr stream] s;
     let err = h_ret r;
     let sv = deref_ptr stream s;
     s \<leftarrow> log_msg E 2 (''hipStreamCreate() -> stream='' @ p sv @ '', ret='' @ show_int err) s;
     Some (err, s) }"

definition log_wrap_hipStreamCreateWithFlags ::
  "hip_env \<Rightarrow> ptr \<Rightarrow> u32 \<Rightarrow> hip \<Rightarrow> (i32 \<times> hip) option" where
  "log_wrap_hipStreamCreateWithFlags E stream flags s = do {
     (r, s) \<leftarrow> call_real E (log_real s) hipStreamCreateWithFlags [APtr stream, AUint flags] s;
     let err = h_ret r;
     let sv = deref_ptr stream s;
     s \<leftarrow> log_msg E 2 (''hipStreamCreateWithFlags(flags=0x'' @ hex (unat flags) @ '') -> stream='' @ p sv @ '', ret='' @
       show_int err) s;
     Some (err, s) }"

definition log_wrap_hipStreamDestroy ::
  "hip_env \<Rightarrow> ptr \<Rightarrow> hip \<Rightarrow> (i32 \<times> hip) option" where
  "log_wrap_hipStreamDestroy E stream s = do {
     (r, s) \<leftarrow> call_real E (log_real s) hipStreamDestroy [APtr stream] s;
     let err = h_ret r;
     s \<leftarrow> log_msg E 2 (''hipStreamDestroy(stream='' @ p stream @ '') -> '' @ show_int err) s;
     Some (err, s) }"

definition log_wrap_hipStreamSynchronize ::
  "hip_env \<Rightarrow> ptr \<Rightarrow> hip \<Rightarrow> (i32 \<times> hip) option" where
  "log_wrap_hipStreamSynchronize E stream s = do {
     (r, s) \<leftarrow> call_real E (log_real s) hipStreamSynchronize [APtr stream] s;
     let err = h_ret r;
     s \<leftarrow> log_msg E 2 (''hipStreamSynchronize(stream='' @ p stream @ '') -> '' @ show_int err) s;
     Some (err, s) }"

definition log_wrap_hipStreamQuery ::
  "hip_env \<Rightarrow> ptr \<Rightarrow> hip \<Rightarrow> (i32 \<times> hip) option" where
  "log_wrap_hipStreamQuery E stream s = do {
     (r, s) \<leftarrow> call_real E (log_real s) hipStreamQuery [APtr stream] s;
     let err = h_ret r;
     s \<leftarrow> log_msg E 2 (''hipStreamQuery(stream='' @ p stream @ '') -> '' @ show_int err) s;
     Some (err, s) }"

definition log_wrap_hipStreamWaitEvent ::
  "hip_env \<Rightarrow> ptr \<Rightarrow> ptr \<Rightarrow> u32 \<Rightarrow> hip \<Rightarrow> (i32 \<times> hip) option" where
  "log_wrap_hipStreamWaitEvent E stream event flags s = do {
     (r, s) \<leftarrow> call_real E (log_real s) hipStreamWaitEvent [APtr stream, APtr event, AUint flags] s;
     let err = h_ret r;
     s \<leftarrow> log_msg E 2 (''hipStreamWaitEvent(stream='' @ p stream @ '', event='' @ p event @ '', flags=0x'' @
       hex (unat flags) @ '') -> '' @ show_int err) s;
     Some (err, s) }"

definition log_wrap_hipEventCreate ::
  "hip_env \<Rightarrow> ptr \<Rightarrow> hip \<Rightarrow> (i32 \<times> hip) option" where
  "log_wrap_hipEventCreate E event s = do {
     (r, s) \<leftarrow> call_real E (log_real s) hipEventCreate [APtr event] s;
     let err = h_ret r;
     let ev = deref_ptr event s;
     s \<leftarrow> log_msg E 2 (''hipEventCreate() -> event='' @ p ev @ '', ret='' @ show_int err) s;
     Some (err, s) }"

definition log_wrap_hipEventCreateWithFlags ::
  "hip_env \<Rightarrow> ptr \<Rightarrow> u32 \<Rightarrow> hip \<Rightarrow> (i32 \<times> hip) option" where
  "log_wrap_hipEventCreateWithFlags E event flags s = do {
     (r, s) \<leftarrow> call_real E (log_real s) hipEventCreateWithFlags [APtr event, AUint flags] s;
     let err = h_ret r;
     let ev = deref_ptr event s;
     s \<leftarrow> log_msg E 2 (''hipEventCreateWithFlags(flags=0x'' @ hex (unat flags) @ '') -> event='' @ p ev @ '', ret='' @
       show_int err) s;
     Some (err, s) }"

definition log_wrap_hipEventDestroy ::
  "hip_env \<Rightarrow> ptr \<Rightarrow> hip \<Rightarrow> (i32 \<times> hip) option" where
  "log_wrap_hipEventDestroy E event s = do {
     (r, s) \<leftarrow> call_real E (log_real s) hipEventDestroy [APtr event] s;
     let err = h_ret r;
     s \<leftarrow> log_msg E 2 (''hipEventDestroy(event='' @ p event @ '') -> '' @ show_int err) s;
     Some (err, s) }"

definition log_wrap_hipEventRecord ::
  "hip_env \<Rightarrow> ptr \<Rightarrow> ptr \<Rightarrow> hip \<Rightarrow> (i32 \<times> hip) option" where
  "log_wrap_hipEventRecord E event stream s = do {
     (r, s) \<leftarrow> call_real E (log_real s) hipEventRecord [APtr event, APtr stream] s;
     let err = h_ret r;
     s \<leftarrow> log_msg E 2 (''hipEventRecord(event='' @ p event @ '', stream='' @ p stream @ '') -> '' @ show_int err) s;
     Some (err, s) }"

definition log_wrap_hipEventSynchronize ::
  "hip_env \<Rightarrow> ptr \<Rightarrow> hip \<Rightarrow> (i32 \<times> hip) option" where
  "log_wrap_hipEventSynchronize E event s = do {
     (r, s) \<leftarrow> call_real E (log_real s) hipEventSynchronize [APtr event] s;
     let err = h_ret r;
     s \<leftarrow> log_msg E 2 (''hipEventSynchronize(event='' @ p event @ '') -> '' @ show_int err) s;
     Some (err, s) }"

definition log_wrap_hipEventQuery ::
  "hip_env \<Rightarrow> ptr \<Rightarrow> hip \<Rightarrow> (i32 \<times> hip) option" where
  "log_wrap_hipEventQuery E event s = do {
     (r, s) \<leftarrow> call_real E (log_real s) hipEventQuery [APtr event] s;
     let err = h_ret r;
     s \<leftarrow> log_msg E 2 (''hipEventQuery(event='' @ p event @ '') -> '' @ show_int err) s;
     Some (err, s) }"

definition log_wrap_hipEventElapsedTime ::
  "hip_env \<Rightarrow> ptr \<Rightarrow> ptr \<Rightarrow> ptr \<Rightarrow> hip \<Rightarrow> (i32 \<times> hip) option" where
  "log_wrap_hipEventElapsedTime E ms start stop s = do {
     (r, s) \<leftarrow> call_real E (log_real s) hipEventElapsedTime [APtr ms, APtr start, APtr stop] s;
     let err = h_ret r;
     let v = (if ms = NULL then 0 else word_of_nat (peek_nat ms 4 s));
     s \<leftarrow> log_msg E 2 (''hipEventElapsedTime(start='' @ p start @ '', stop='' @ p stop @ '') -> ms='' @ (show_f32_6 v) @
       '', ret='' @ show_int err) s;
     Some (err, s) }"

definition log_wrap_hipModuleLaunchKernel ::
  "hip_env \<Rightarrow> ptr \<Rightarrow> u32 \<Rightarrow> u32 \<Rightarrow> u32 \<Rightarrow> u32 \<Rightarrow> u32 \<Rightarrow> u32 \<Rightarrow> u32 \<Rightarrow> ptr \<Rightarrow> ptr \<Rightarrow> ptr \<Rightarrow> hip \<Rightarrow> (i32 \<times> hip) option" where
  "log_wrap_hipModuleLaunchKernel E f gx gy gz bx b_y bz shared stream kernel_params extra s = do {
     (r, s) \<leftarrow> call_real E (log_real s) hipModuleLaunchKernel [APtr f, AUint gx, AUint gy, AUint gz, AUint bx, AUint b_y, AUint bz, AUint shared, APtr stream, APtr kernel_params, APtr extra] s;
     let err = h_ret r;
     s \<leftarrow> log_msg E 2 (''hipModuleLaunchKernel(func='' @ p f @ '', grid=('' @ decimal (unat gx) @ '','' @
       decimal (unat gy) @ '','' @ decimal (unat gz) @ ''), block=('' @ decimal (unat bx) @ '','' @
       decimal (unat b_y) @ '','' @ decimal (unat bz) @ ''), shared='' @ decimal (unat shared) @
       '', stream='' @ p stream @ '', extra='' @ p extra @ '') -> '' @ show_int err) s;
     Some (err, s) }"

definition log_wrap_hipExtModuleLaunchKernel ::
  "hip_env \<Rightarrow> ptr \<Rightarrow> u32 \<Rightarrow> u32 \<Rightarrow> u32 \<Rightarrow> u32 \<Rightarrow> u32 \<Rightarrow> u32 \<Rightarrow> usize \<Rightarrow> ptr \<Rightarrow> ptr \<Rightarrow> ptr \<Rightarrow> ptr \<Rightarrow> ptr \<Rightarrow> u32 \<Rightarrow> hip \<Rightarrow> (i32 \<times> hip) option" where
  "log_wrap_hipExtModuleLaunchKernel E f gx gy gz lx ly lz shared stream kernel_params extra start_event stop_event flags s = do {
     (r, s) \<leftarrow> call_real E (log_real s) hipExtModuleLaunchKernel [APtr f, AUint gx, AUint gy, AUint gz, AUint lx, AUint ly, AUint lz, ASize shared, APtr stream, APtr kernel_params, APtr extra, APtr start_event, APtr stop_event, AUint flags] s;
     let err = h_ret r;
     s \<leftarrow> log_msg E 2 (''hipExtModuleLaunchKernel(func='' @ p f @ '', grid=('' @ decimal (unat gx) @ '','' @
       decimal (unat gy) @ '','' @ decimal (unat gz) @ ''), block=('' @ decimal (unat lx) @ '','' @
       decimal (unat ly) @ '','' @ decimal (unat lz) @ ''), shared='' @ decimal (unat shared) @
       '', stream='' @ p stream @ '', flags=0x'' @ hex (unat flags) @ '') -> '' @ show_int err) s;
     Some (err, s) }"

definition log_wrap_hipLaunchKernel ::
  "hip_env \<Rightarrow> ptr \<Rightarrow> dim3 \<Rightarrow> dim3 \<Rightarrow> ptr \<Rightarrow> usize \<Rightarrow> ptr \<Rightarrow> hip \<Rightarrow> (i32 \<times> hip) option" where
  "log_wrap_hipLaunchKernel E func num_blocks dim_blocks args shared stream s = do {
     (r, s) \<leftarrow> call_real E (log_real s) hipLaunchKernel [APtr func, ADim3 num_blocks, ADim3 dim_blocks, APtr args, ASize shared, APtr stream] s;
     let err = h_ret r;
     s \<leftarrow> log_msg E 2 (''hipLaunchKernel(func='' @ p func @ '', grid=('' @ decimal (unat (dim_x num_blocks)) @ '','' @
       decimal (unat (dim_y num_blocks)) @ '','' @ decimal (unat (dim_z num_blocks)) @ ''), block=('' @
       decimal (unat (dim_x dim_blocks)) @ '','' @ decimal (unat (dim_y dim_blocks)) @ '','' @
       decimal (unat (dim_z dim_blocks)) @ ''), shared='' @ decimal (unat shared) @ '', stream='' @
       p stream @ '') -> '' @ show_int err) s;
     Some (err, s) }"

definition log_wrap_hipGetLastError ::
  "hip_env \<Rightarrow> hip \<Rightarrow> (i32 \<times> hip) option" where
  "log_wrap_hipGetLastError E s = do {
     (r, s) \<leftarrow> call_real E (log_real s) hipGetLastError [] s;
     let err = h_ret r;
     s \<leftarrow> (if err \<noteq> 0 then log_msg E 1 (''hipGetLastError() -> '' @ show_int err @ '' (ERROR)'') s
           else log_msg E 3 ''hipGetLastError() -> 0'' s);
     Some (err, s) }"

definition log_wrap_hipPeekAtLastError ::
  "hip_env \<Rightarrow> hip \<Rightarrow> (i32 \<times> hip) option" where
  "log_wrap_hipPeekAtLastError E s = do {
     (r, s) \<leftarrow> call_real E (log_real s) hipPeekAtLastError [] s;
     let err = h_ret r;
     s \<leftarrow> (if err \<noteq> 0 then log_msg E 1 (''hipPeekAtLastError() -> '' @ show_int err @ '' (ERROR)'') s
           else log_msg E 3 ''hipPeekAtLastError() -> 0'' s);
     Some (err, s) }"

definition log_wrap_hipRegisterFatBinary ::
  "hip_env \<Rightarrow> ptr \<Rightarrow> hip \<Rightarrow> (ptr \<times> hip) option" where
  "log_wrap_hipRegisterFatBinary E data s = do {
     (r, s) \<leftarrow> call_real E (log_real s) hipRegisterFatBinary [APtr data] s;
     let result = h_res r;
     s \<leftarrow> log_msg E 2 (''__hipRegisterFatBinary(data='' @ p data @ '') -> handle='' @ p result) s;
     Some (result, s) }"

definition log_wrap_hipUnregisterFatBinary ::
  "hip_env \<Rightarrow> ptr \<Rightarrow> hip \<Rightarrow> hip option" where
  "log_wrap_hipUnregisterFatBinary E handle s = do {
     s \<leftarrow> log_msg E 2 (''__hipUnregisterFatBinary(handle='' @ p handle @ '')'') s;
     (r, s) \<leftarrow> call_real E (log_real s) hipUnregisterFatBinary [APtr handle] s;
     Some s }"

definition log_wrap_hipRegisterFunction ::
  "hip_env \<Rightarrow> ptr \<Rightarrow> ptr \<Rightarrow> ptr \<Rightarrow> ptr \<Rightarrow> i32 \<Rightarrow> ptr \<Rightarrow> ptr \<Rightarrow> ptr \<Rightarrow> ptr \<Rightarrow> ptr \<Rightarrow> hip \<Rightarrow> hip option" where
  "log_wrap_hipRegisterFunction E handle host_fun device_fun device_name thread_limit tid bid block_dim grid_dim w_size s = do {
     device \<leftarrow> cstr_or ''(null)'' device_name s;
     s \<leftarrow> log_msg E 2 (''__hipRegisterFunction(handle='' @ p handle @ '', host='' @ p host_fun @ '', device='' @ device @ '')'') s;
     (r, s) \<leftarrow> call_real E (log_real s) hipRegisterFunction
       [APtr handle, APtr host_fun, APtr device_fun, APtr device_name, AInt thread_limit, APtr tid, APtr bid, APtr block_dim, APtr grid_dim, APtr w_size] s;
     Some s }"

definition log_wrap_hipRegisterVar ::
  "hip_env \<Rightarrow> ptr \<Rightarrow> ptr \<Rightarrow> ptr \<Rightarrow> ptr \<Rightarrow> i32 \<Rightarrow> usize \<Rightarrow> i32 \<Rightarrow> i32 \<Rightarrow> hip \<Rightarrow> hip option" where
  "log_wrap_hipRegisterVar E handle host_var device_address device_name ext sz constant global s = do {
     name \<leftarrow> cstr_or ''(null)'' device_name s;
     s \<leftarrow> log_msg E 2 (''__hipRegisterVar(handle='' @ p handle @ '', name='' @ name @ '', size='' @ decimal (unat sz) @ '')'') s;
     (r, s) \<leftarrow> call_real E (log_real s) hipRegisterVar
       [APtr handle, APtr host_var, APtr device_address, APtr device_name, AInt ext, ASize sz, AInt constant, AInt global] s;
     Some s }"

text \<open>A call through a slot of the wrapper table; arguments of another type are undefined behaviour.\<close>

primrec logging_invoke :: "hip_env \<Rightarrow> hip_fn \<Rightarrow> hip_arg list \<Rightarrow> hip \<Rightarrow> (hip_ret \<times> hip) option" where
  "logging_invoke E hipInit args s =
     (case args of [AUint flags] \<Rightarrow>
        map_option (\<lambda>(e, s). (RError e, s)) (log_wrap_hipInit E flags s) | _ \<Rightarrow> None)"
| "logging_invoke E hipDriverGetVersion args s =
     (case args of [APtr v] \<Rightarrow>
        map_option (\<lambda>(e, s). (RError e, s)) (log_wrap_hipDriverGetVersion E v s) | _ \<Rightarrow> None)"
| "logging_invoke E hipRuntimeGetVersion args s =
     (case args of [APtr v] \<Rightarrow>
        map_option (\<lambda>(e, s). (RError e, s)) (log_wrap_hipRuntimeGetVersion E v s) | _ \<Rightarrow> None)"
| "logging_invoke E hipGetDevice args s =
     (case args of [APtr dev_id] \<Rightarrow>
        map_option (\<lambda>(e, s). (RError e, s)) (log_wrap_hipGetDevice E dev_id s) | _ \<Rightarrow> None)"
| "logging_invoke E hipGetDeviceCount args s =
     (case args of [APtr count] \<Rightarrow>
        map_option (\<lambda>(e, s). (RError e, s)) (log_wrap_hipGetDeviceCount E count s) | _ \<Rightarrow> None)"
| "logging_invoke E hipSetDevice args s =
     (case args of [AInt dev_id] \<Rightarrow>
        map_option (\<lambda>(e, s). (RError e, s)) (log_wrap_hipSetDevice E dev_id s) | _ \<Rightarrow> None)"
| "logging_invoke E hipDeviceReset args s = None"
| "logging_invoke E hipDeviceSynchronize args s =
     (case args of [] \<Rightarrow>
        map_option (\<lambda>(e, s). (RError e, s)) (log_wrap_hipDeviceSynchronize E s) | _ \<Rightarrow> None)"
| "logging_invoke E hipGetDeviceProperties args s =
     (case args of [APtr prop, AInt dev_id] \<Rightarrow>
        map_option (\<lambda>(e, s). (RError e, s)) (log_wrap_hipGetDeviceProperties E prop dev_id s) | _ \<Rightarrow> None)"
| "logging_invoke E hipDeviceGetAttribute args s =
     (case args of [APtr value, AUint attr, AInt dev_id] \<Rightarrow>
        map_option (\<lambda>(e, s). (RError e, s)) (log_wrap_hipDeviceGetAttribute E value attr dev_id s) | _ \<Rightarrow> None)"
| "logging_invoke E hipDeviceGetName args s =
     (case args of [APtr name, AInt len, AInt dev_id] \<Rightarrow>
        map_option (\<lambda>(e, s). (RError e, s)) (log_wrap_hipDeviceGetName E name len dev_id s) | _ \<Rightarrow> None)"
| "logging_invoke E hipMalloc args s =
     (case args of [APtr ptr, ASize sz] \<Rightarrow>
        map_option (\<lambda>(e, s). (RError e, s)) (log_wrap_hipMalloc E ptr sz s) | _ \<Rightarrow> None)"
| "logging_invoke E hipFree args s =
     (case args of [APtr ptr] \<Rightarrow>
        map_option (\<lambda>(e, s). (RError e, s)) (log_wrap_hipFree E ptr s) | _ \<Rightarrow> None)"
| "logging_invoke E hipHostMalloc args s =
     (case args of [APtr ptr, ASize sz, AUint flags] \<Rightarrow>
        map_option (\<lambda>(e, s). (RError e, s)) (log_wrap_hipHostMalloc E ptr sz flags s) | _ \<Rightarrow> None)"
| "logging_invoke E hipHostFree args s =
     (case args of [APtr ptr] \<Rightarrow>
        map_option (\<lambda>(e, s). (RError e, s)) (log_wrap_hipHostFree E ptr s) | _ \<Rightarrow> None)"
| "logging_invoke E hipMemGetInfo args s =
     (case args of [APtr free_mem, APtr total_mem] \<Rightarrow>
        map_option (\<lambda>(e, s). (RError e, s)) (log_wrap_hipMemGetInfo E free_mem total_mem s) | _ \<Rightarrow> None)"
| "logging_invoke E hipMemcpy args s =
     (case args of [APtr dst, APtr src, ASize n, AInt kind] \<Rightarrow>
        map_option (\<lambda>(e, s). (RError e, s)) (log_wrap_hipMemcpy E dst src n kind s) | _ \<Rightarrow> None)"
| "logging_invoke E hipMemcpyAsync args s =
     (case args of [APtr dst, APtr src, ASize n, AInt kind, APtr stream] \<Rightarrow>
        map_option (\<lambda>(e, s). (RError e, s)) (log_wrap_hipMemcpyAsync E dst src n kind stream s) | _ \<Rightarrow> None)"
| "logging_invoke E hipMemset args s =
     (case args of [APtr dst, AInt value, ASize n] \<Rightarrow>
        map_option (\<lambda>(e, s). (RError e, s)) (log_wrap_hipMemset E dst value n s) | _ \<Rightarrow> None)"
| "logging_invoke E hipMemsetAsync args s =
     (case args of [APtr dst, AInt value, ASize n, APtr stream] \<Rightarrow>
        map_option (\<lambda>(e, s). (RError e, s)) (log_wrap_hipMemsetAsync E dst value n stream s) | _ \<Rightarrow> None)"
| "logging_invoke E hipStreamCreate args s =
     (case args of [APtr stream] \<Rightarrow>
        map_option (\<lambda>(e, s). (RError e, s)) (log_wrap_hipStreamCreate E stream s) | _ \<Rightarrow> None)"
| "logging_invoke E hipStreamCreateWithFlags args s =
     (case args of [APtr stream, AUint flags] \<Rightarrow>
        map_option (\<lambda>(e, s). (RError e, s)) (log_wrap_hipStreamCreateWithFlags E stream flags s) | _ \<Rightarrow> None)"
| "logging_invoke E hipStreamDestroy args s =
     (case args of [APtr stream] \<Rightarrow>
        map_option (\<lambda>(e, s). (RError e, s)) (log_wrap_hipStreamDestroy E stream s) | _ \<Rightarrow> None)"
| "logging_invoke E hipStreamSynchronize args s =
     (case args of [APtr stream] \<Rightarrow>
        map_option (\<lambda>(e, s). (RError e, s)) (log_wrap_hipStreamSynchronize E stream s) | _ \<Rightarrow> None)"
| "logging_invoke E hipStreamQuery args s =
     (case args of [APtr stream] \<Rightarrow>
        map_option (\<lambda>(e, s). (RError e, s)) (log_wrap_hipStreamQuery E stream s) | _ \<Rightarrow> None)"
| "logging_invoke E hipStreamWaitEvent args s =
     (case args of [APtr stream, APtr event, AUint flags] \<Rightarrow>
        map_option (\<lambda>(e, s). (RError e, s)) (log_wrap_hipStreamWaitEvent E stream event flags s) | _ \<Rightarrow> None)"
| "logging_invoke E hipEventCreate args s =
     (case args of [APtr event] \<Rightarrow>
        map_option (\<lambda>(e, s). (RError e, s)) (log_wrap_hipEventCreate E event s) | _ \<Rightarrow> None)"
| "logging_invoke E hipEventCreateWithFlags args s =
     (case args of [APtr event, AUint flags] \<Rightarrow>
        map_option (\<lambda>(e, s). (RError e, s)) (log_wrap_hipEventCreateWithFlags E event flags s) | _ \<Rightarrow> None)"
| "logging_invoke E hipEventDestroy args s =
     (case args of [APtr event] \<Rightarrow>
        map_option (\<lambda>(e, s). (RError e, s)) (log_wrap_hipEventDestroy E event s) | _ \<Rightarrow> None)"
| "logging_invoke E hipEventRecord args s =
     (case args of [APtr event, APtr stream] \<Rightarrow>
        map_option (\<lambda>(e, s). (RError e, s)) (log_wrap_hipEventRecord E event stream s) | _ \<Rightarrow> None)"
| "logging_invoke E hipEventSynchronize args s =
     (case args of [APtr event] \<Rightarrow>
        map_option (\<lambda>(e, s). (RError e, s)) (log_wrap_hipEventSynchronize E event s) | _ \<Rightarrow> None)"
| "logging_invoke E hipEventQuery args s =
     (case args of [APtr event] \<Rightarrow>
        map_option (\<lambda>(e, s). (RError e, s)) (log_wrap_hipEventQuery E event s) | _ \<Rightarrow> None)"
| "logging_invoke E hipEventElapsedTime args s =
     (case args of [APtr ms, APtr start, APtr stop] \<Rightarrow>
        map_option (\<lambda>(e, s). (RError e, s)) (log_wrap_hipEventElapsedTime E ms start stop s) | _ \<Rightarrow> None)"
| "logging_invoke E hipModuleLoad args s = None"
| "logging_invoke E hipModuleLoadData args s = None"
| "logging_invoke E hipModuleUnload args s = None"
| "logging_invoke E hipModuleGetFunction args s = None"
| "logging_invoke E hipModuleGetGlobal args s = None"
| "logging_invoke E hipModuleLaunchKernel args s =
     (case args of [APtr f, AUint gx, AUint gy, AUint gz, AUint bx, AUint b_y, AUint bz, AUint shared, APtr stream, APtr kernel_params, APtr extra] \<Rightarrow>
        map_option (\<lambda>(e, s). (RError e, s)) (log_wrap_hipModuleLaunchKernel E f gx gy gz bx b_y bz shared stream kernel_params extra s) | _ \<Rightarrow> None)"
| "logging_invoke E hipLaunchKernel args s =
     (case args of [APtr func, ADim3 num_blocks, ADim3 dim_blocks, APtr args, ASize shared, APtr stream] \<Rightarrow>
        map_option (\<lambda>(e, s). (RError e, s)) (log_wrap_hipLaunchKernel E func num_blocks dim_blocks args shared stream s) | _ \<Rightarrow> None)"
| "logging_invoke E hipExtModuleLaunchKernel args s =
     (case args of [APtr f, AUint gx, AUint gy, AUint gz, AUint lx, AUint ly, AUint lz, ASize shared, APtr stream, APtr kernel_params, APtr extra, APtr start_event, APtr stop_event, AUint flags] \<Rightarrow>
        map_option (\<lambda>(e, s). (RError e, s)) (log_wrap_hipExtModuleLaunchKernel E f gx gy gz lx ly lz shared stream kernel_params extra start_event stop_event flags s) | _ \<Rightarrow> None)"
| "logging_invoke E hipRegisterFatBinary args s =
     (case args of [APtr data] \<Rightarrow>
        map_option (\<lambda>(q, s). (RPtr q, s)) (log_wrap_hipRegisterFatBinary E data s) | _ \<Rightarrow> None)"
| "logging_invoke E hipUnregisterFatBinary args s =
     (case args of [APtr handle] \<Rightarrow>
        map_option (\<lambda>s. (RVoid, s)) (log_wrap_hipUnregisterFatBinary E handle s) | _ \<Rightarrow> None)"
| "logging_invoke E hipRegisterFunction args s =
     (case args of [APtr handle, APtr host_fun, APtr device_fun, APtr device_name, AInt thread_limit, APtr tid, APtr bid, APtr block_dim, APtr grid_dim, APtr w_size] \<Rightarrow>
        map_option (\<lambda>s. (RVoid, s)) (log_wrap_hipRegisterFunction E handle host_fun device_fun device_name thread_limit tid bid block_dim grid_dim w_size s) | _ \<Rightarrow> None)"
| "logging_invoke E hipRegisterVar args s =
     (case args of [APtr handle, APtr host_var, APtr device_address, APtr device_name, AInt ext, ASize sz, AInt constant, AInt global] \<Rightarrow>
        map_option (\<lambda>s. (RVoid, s)) (log_wrap_hipRegisterVar E handle host_var device_address device_name ext sz constant global s) | _ \<Rightarrow> None)"
| "logging_invoke E hipGetErrorString args s = None"
| "logging_invoke E hipGetErrorName args s = None"
| "logging_invoke E hipGetLastError args s =
     (case args of [] \<Rightarrow>
        map_option (\<lambda>(e, s). (RError e, s)) (log_wrap_hipGetLastError E s) | _ \<Rightarrow> None)"
| "logging_invoke E hipPeekAtLastError args s =
     (case args of [] \<Rightarrow>
        map_option (\<lambda>(e, s). (RError e, s)) (log_wrap_hipPeekAtLastError E s) | _ \<Rightarrow> None)"

section \<open>Entry points\<close>

definition logging_slots :: "hip_fn list" where
  "logging_slots = [
     hipInit, hipDriverGetVersion, hipRuntimeGetVersion, hipGetDevice, hipGetDeviceCount,
     hipSetDevice, hipDeviceSynchronize, hipGetDeviceProperties, hipDeviceGetAttribute,
     hipDeviceGetName, hipMalloc, hipFree, hipHostMalloc, hipHostFree, hipMemGetInfo, hipMemcpy,
     hipMemcpyAsync, hipMemset, hipMemsetAsync, hipStreamCreate, hipStreamCreateWithFlags,
     hipStreamDestroy, hipStreamSynchronize, hipStreamQuery, hipStreamWaitEvent, hipEventCreate,
     hipEventCreateWithFlags, hipEventDestroy, hipEventRecord, hipEventSynchronize, hipEventQuery,
     hipEventElapsedTime, hipModuleLaunchKernel, hipExtModuleLaunchKernel, hipLaunchKernel,
     hipRegisterFatBinary, hipUnregisterFatBinary, hipRegisterFunction, hipRegisterVar,
     hipGetLastError, hipPeekAtLastError]"

definition atoi :: "string \<Rightarrow> i32" where
  "atoi s = parse_signed (2 ^ 31 - 1) s"

definition logging_interceptor_init :: "hip_env \<Rightarrow> ptr \<Rightarrow> hip \<Rightarrow> (ptr \<times> hip) option" where
  "logging_interceptor_init E real_functions s = do {
     let s = s\<lparr>log_real := real_functions\<rparr>;
     let ((file, owns_file), s) = open_log E ''HIP_LOG_FILE'' ''hip_logging: failed to open log file: '' s;
     let level = (case env_var E ''HIP_LOG_LEVEL'' of Some t \<Rightarrow> atoi t | None \<Rightarrow> 2);
     let s = s\<lparr>logger_of := \<lparr>lg_file = file, lg_level = level, lg_owns_file = owns_file\<rparr>\<rparr>;
     s \<leftarrow> log_msg E 1 (''HIP Logging initialized (level='' @ show_int level @ '')'') s;
     t \<leftarrow> tables s real_functions;
     Some (new_table (override Logging logging_slots t) s) }"

definition logging_interceptor_shutdown :: "hip_env \<Rightarrow> hip \<Rightarrow> hip option" where
  "logging_interceptor_shutdown E s = do {
     s \<leftarrow> log_msg E 1 ''HIP Logging shutting down'' s;
     let g = logger_of s;
     if lg_owns_file g \<and> lg_file g \<noteq> NULL then
       Some ((fclose_file (lg_file g) s)\<lparr>logger_of := g\<lparr>lg_file := NULL\<rparr>\<rparr>)
     else Some s }"

section \<open>Transparency\<close>

lemma log_msg_quiet: "log_msg E l m s = Some t \<Longrightarrow> quiet s t"
  by (auto simp: log_msg_def Let_def split: if_splits dest: fwrite_quiet intro: quiet_ticks)

text \<open>The log is closed or its stream is open.\<close>

definition log_ready :: "hip \<Rightarrow> bool" where
  "log_ready s \<longleftrightarrow> lg_file (logger_of s) = NULL \<or> file_open s (lg_file (logger_of s))"

lemma log_msg_defined: "log_ready s \<Longrightarrow> \<exists>t. log_msg E l m s = Some t"
  by (auto simp: log_msg_def fwrite_def log_ready_def Let_def)

lemmas log_wrap_defs =
  log_wrap_hipInit_def log_wrap_hipDriverGetVersion_def log_wrap_hipRuntimeGetVersion_def
  log_wrap_hipGetDevice_def log_wrap_hipGetDeviceCount_def log_wrap_hipSetDevice_def
  log_wrap_hipDeviceSynchronize_def log_wrap_hipGetDeviceProperties_def
  log_wrap_hipDeviceGetAttribute_def log_wrap_hipDeviceGetName_def log_wrap_hipMemGetInfo_def
  log_wrap_hipMalloc_def log_wrap_hipFree_def log_wrap_hipHostMalloc_def log_wrap_hipHostFree_def
  log_wrap_hipMemcpy_def log_wrap_hipMemcpyAsync_def log_wrap_hipMemset_def
  log_wrap_hipMemsetAsync_def log_wrap_hipStreamCreate_def log_wrap_hipStreamCreateWithFlags_def
  log_wrap_hipStreamDestroy_def log_wrap_hipStreamSynchronize_def log_wrap_hipStreamQuery_def
  log_wrap_hipStreamWaitEvent_def log_wrap_hipEventCreate_def log_wrap_hipEventCreateWithFlags_def
  log_wrap_hipEventDestroy_def log_wrap_hipEventRecord_def log_wrap_hipEventSynchronize_def
  log_wrap_hipEventQuery_def log_wrap_hipEventElapsedTime_def log_wrap_hipModuleLaunchKernel_def
  log_wrap_hipExtModuleLaunchKernel_def log_wrap_hipLaunchKernel_def log_wrap_hipGetLastError_def
  log_wrap_hipPeekAtLastError_def log_wrap_hipRegisterFatBinary_def
  log_wrap_hipUnregisterFatBinary_def log_wrap_hipRegisterFunction_def log_wrap_hipRegisterVar_def

lemma log_properties_stands_for:
  assumes "log_wrap_hipGetDeviceProperties E prop d s = Some (e, t)"
  shows "stands_for E (log_real s) hipGetDeviceProperties [APtr prop, AInt d] s (RError e) t"
proof -
  obtain q u where q: "call_real E (log_real s) hipGetDeviceProperties [APtr prop, AInt d] s = Some (q, u)"
    "e = h_ret q" "quiet u t"
    using assms
    by (auto simp: log_wrap_hipGetDeviceProperties_def Let_def split: if_splits
        elim!: bind_SomeE dest!: log_msg_quiet) (metis quiet_trans)+
  then show ?thesis by (auto simp: ret_of_def intro: stands_forI)
qed

lemma logging_invoke_stands_for:
  assumes "logging_invoke E f args s = Some (r, t)"
  shows "stands_for E (log_real s) f args s r t"
proof (cases "f = hipGetDeviceProperties")
  case True
  then show ?thesis
    using assms by (auto split: list.splits hip_arg.splits intro: log_properties_stands_for)
next
  case False
  then show ?thesis
    using assms
    by (cases f)
       (auto simp: log_wrap_defs Let_def ret_of_def quietD split: list.splits hip_arg.splits if_splits
         elim!: bind_SomeE dest!: log_msg_quiet intro: stands_forI stands_for_logged_first quiet_trans)
qed

lemma log_ready_quiet: "quiet s t \<Longrightarrow> log_ready t = log_ready s"
  by (simp add: log_ready_def quietD)

lemma log_ready_call: "call_real E tbl f args s = Some (q, u) \<Longrightarrow> log_ready u = log_ready s"
  using call_real_frame [of E tbl f args s q u] unfolding log_ready_def by (cases u) simp

text \<open>After a message to a log that is ready, everything but the log is as before.\<close>

lemma after_log_msg:
  assumes "log_ready s"
  shows "log_msg E l m s \<noteq> None" "log_ready (the (log_msg E l m s))" "log_real (the (log_msg E l m s)) = log_real s"
    "hmem (the (log_msg E l m s)) = hmem s"
    "call_real E tbl f args (the (log_msg E l m s)) = None \<longleftrightarrow> call_real E tbl f args s = None"
proof -
  obtain t where t: "log_msg E l m s = Some t" "quiet s t"
    using log_msg_defined [OF assms, of E l m] log_msg_quiet by blast
  then show "log_msg E l m s \<noteq> None" "log_ready (the (log_msg E l m s))" "log_real (the (log_msg E l m s)) = log_real s"
    "hmem (the (log_msg E l m s)) = hmem s"
    "call_real E tbl f args (the (log_msg E l m s)) = None \<longleftrightarrow> call_real E tbl f args s = None"
    using assms by (simp_all add: quietD log_ready_quiet call_real_def split: option.splits hip_impl.splits)
qed

lemma logging_invoke_defined:
  assumes "f \<in> set logging_slots" and "well_typed f args" and "call_real E (log_real s) f args s = Some (q, u)"
    and "log_ready s" and "terminated (hmem s)" and "terminated (hmem u)"
  shows "logging_invoke E f args s \<noteq> None"
proof -
  have u: "log_ready u" using log_ready_call [OF assms(3)] assms(4) by simp
  show ?thesis
  proof
    assume "logging_invoke E f args s = None"
    then show False
      using assms u
      by (cases f)
         (auto simp: logging_slots_def well_typed_def map_eq_Cons_conv kind_of_arg_iff log_wrap_defs Let_def
            bind_eq_None_conv after_log_msg cstr_or_None split: if_splits prod.splits)
  qed
qed

interpretation logging: interceptor "logging_invoke E" log_real "\<lambda>s. True" E
  for E :: hip_env
proof
  fix f args s r t
  assume "logging_invoke E f args s = Some (r, t)"
  then obtain q u where q: "call_real E (log_real s) f args s = Some (q, u)" "r = ret_of f q" "quiet u t"
    using logging_invoke_stands_for unfolding stands_for_def by blast
  have "log_real u = log_real s" using call_real_frame [OF q(1)] by (cases u) simp
  then show "\<exists>q u. call_real E (log_real s) f args s = Some (q, u) \<and> r = ret_of f q \<and> aside u t \<and>
      log_real t = log_real s \<and> True"
    using q quietD(5) [OF q(3)] quiet_aside by auto
qed

end
