(* ===== verification/Hip_Tracer.thy ===== *)
theory Hip_Tracer
  imports Hip_Table
begin

text \<open>
  The buffer tracer (\<open>hip-buffer-tracer/src/lib.rs\<close>): an interceptor that records which buffers are
  allocated and which kernels are registered, and dumps buffers, or hashes of them, around kernel
  launches. Its state sits behind one mutex that every wrapper holds for its whole body, so calls
  are atomic; a wrapper that runs before the state exists panics.

  The theory shows that the buffer table implements a bag of live allocations, that dumping reads no
  byte it does not have, and that tracing is transparent to the program.
\<close>

section \<open>Messages\<close>

definition trace_msg :: "hip_env \<Rightarrow> i32 \<Rightarrow> string \<Rightarrow> hip \<Rightarrow> hip option" where
  "trace_msg E level msg s = do {
     st \<leftarrow> tracer s;
     if level > trace_level st \<or> trace_file st = NULL then Some s
     else fwrite (trace_file st) (stamped_line E msg s) (s\<lparr>ticks := Suc (ticks s)\<rparr>) }"

definition raw_write :: "string \<Rightarrow> hip \<Rightarrow> hip option" where
  "raw_write t s = do {
     st \<leftarrow> tracer s;
     if trace_file st = NULL then Some s else fwrite (trace_file st) t s }"

definition real_table :: "hip_env \<Rightarrow> hip_fn \<Rightarrow> hip_arg list \<Rightarrow> hip \<Rightarrow> (hip_reply \<times> hip) option" where
  "real_table E f args s = do { st \<leftarrow> tracer s; call_real E (tr_real st) f args s }"

primrec buffer_type_name :: "buffer_type \<Rightarrow> string" where
  "buffer_type_name BufDevice = ''device''"
| "buffer_type_name BufHost = ''host''"
| "buffer_type_name BufManaged = ''managed''"

text \<open>FNV-1a.\<close>

definition compute_hash :: "u8 list \<Rightarrow> u64" where
  "compute_hash data = foldl (\<lambda>hash b. (hash XOR ucast b) * 0x100000001b3) 0xcbf29ce484222325 data"

section \<open>Buffer and kernel tables\<close>

text \<open>\<open>iter().position(q)\<close>.\<close>

fun position :: "('a \<Rightarrow> bool) \<Rightarrow> 'a list \<Rightarrow> nat option" where
  "position q [] = None"
| "position q (x # xs) = (if q x then Some 0 else map_option Suc (position q xs))"

definition MAX_TRACKED_BUFFERS :: nat where
  "MAX_TRACKED_BUFFERS = 65536"

definition buffer_table_add :: "hip_env \<Rightarrow> ptr \<Rightarrow> usize \<Rightarrow> buffer_type \<Rightarrow> hip \<Rightarrow> hip option" where
  "buffer_table_add E ptr sz btype s = do {
     st \<leftarrow> tracer s;
     if ptr = NULL \<or> sz = 0 then Some s
     else case position (\<lambda>b. \<not> in_use b) (bt_buffers (buffers st)) of
       None \<Rightarrow> trace_msg E 1 (''WARNING: buffer table full, cannot track '' @ p ptr) s
     | Some slot \<Rightarrow>
         let bt = buffers st;
             b = \<lparr>tb_ptr = ptr, tb_size = sz, tb_type = btype, in_use = True, alloc_id = next_alloc_id bt\<rparr>
         in Some (s\<lparr>tracer := Some (st\<lparr>buffers :=
              \<lparr>bt_buffers = (bt_buffers bt)[slot := b], bt_count = bt_count bt + 1,
               next_alloc_id = next_alloc_id bt + 1\<rparr>\<rparr>)\<rparr>) }"

definition buffer_table_remove :: "ptr \<Rightarrow> hip \<Rightarrow> hip option" where
  "buffer_table_remove ptr s = do {
     st \<leftarrow> tracer s;
     if ptr = NULL then Some s
     else case position (\<lambda>b. in_use b \<and> tb_ptr b = ptr) (bt_buffers (buffers st)) of
       None \<Rightarrow> Some s
     | Some i \<Rightarrow>
         let bt = buffers st; b = bt_buffers bt ! i
         in Some (s\<lparr>tracer := Some (st\<lparr>buffers :=
              bt\<lparr>bt_buffers := (bt_buffers bt)[i := b\<lparr>in_use := False\<rparr>], bt_count := bt_count bt - 1\<rparr>\<rparr>)\<rparr>) }"

definition kernel_table_add :: "ptr \<Rightarrow> string option \<Rightarrow> hip \<Rightarrow> hip option" where
  "kernel_table_add func name s = do {
     st \<leftarrow> tracer s;
     if func = NULL \<or> (\<exists>k \<in> set (kernels st). host_func k = func) then Some s
     else
       let nm = (case name of Some n \<Rightarrow> n | None \<Rightarrow> ''kernel_'' @ p func)
       in Some (s\<lparr>tracer := Some (st\<lparr>kernels := kernels st @ [\<lparr>host_func = func, kernel_name = nm\<rparr>]\<rparr>)\<rparr>) }"

definition kernel_table_get_name :: "tracer_state \<Rightarrow> ptr \<Rightarrow> string option" where
  "kernel_table_get_name st func = map_option kernel_name (find (\<lambda>k. host_func k = func) (kernels st))"

section \<open>Dumping\<close>

text \<open>\<open>data[i]\<close> panics out of range.\<close>

function hex_loop :: "u8 list \<Rightarrow> nat \<Rightarrow> nat \<Rightarrow> string \<Rightarrow> string option" where
  "hex_loop data i dump_size out =
     (if dump_size \<le> i then Some out
      else if length data \<le> i then None
      else hex_loop data (i + 1) dump_size
             (out @ pad0 2 (hex (unat (data ! i))) @
              (if (i + 1) mod 32 = 0 then CHR 0x0A # ''    ''
               else if (i + 1) mod 4 = 0 then '' '' else [])))"
  by pat_completeness auto
termination
  by (relation "measure (\<lambda>(data, i, n, out). n - i)") auto

declare hex_loop.simps [simp del]

definition dump_buffer_hex :: "u8 list \<Rightarrow> usize \<Rightarrow> usize \<Rightarrow> hip \<Rightarrow> hip option" where
  "dump_buffer_hex data sz max_bytes s = do {
     out \<leftarrow> hex_loop data 0 (min (unat sz) (unat max_bytes)) ''    '';
     let out = out @ (if sz > max_bytes then ''... ('' @ decimal (unat (sz - max_bytes)) @ '' more bytes)'' else []);
     raw_write (out @ [CHR 0x0A]) s }"

definition dump_line :: "tracked_buffer \<Rightarrow> string" where
  "dump_line b =
     ''  [alloc '' @ decimal (unat (alloc_id b)) @ ''] '' @ buffer_type_name (tb_type b) @ '' '' @ p (tb_ptr b) @
     '' size='' @ decimal (unat (tb_size b))"

text \<open>
  Reading the bytes of a buffer: device memory is staged through \<open>hipMemcpy\<close> into a vector that is
  kept from buffer to buffer (\<open>resize\<close> keeps its prefix), host memory is read in place. The result
  is \<open>Inl\<close> of the error when the copy fails.
\<close>

definition resize :: "u8 list \<Rightarrow> nat \<Rightarrow> u8 list" where
  "resize v n = take n v @ replicate (n - length v) 0"

definition read_buffer ::
  "hip_env \<Rightarrow> tracked_buffer \<Rightarrow> usize \<Rightarrow> u8 list \<Rightarrow> hip \<Rightarrow> ((i32 + u8 list) \<times> u8 list \<times> hip) option" where
  "read_buffer E b read_size staging s =
     (if tb_type b = BufDevice then do {
        let staging = resize staging (unat read_size);
        let a = staging_addr E read_size;
        let s = s\<lparr>hmem := write_bytes (zip [a ..< a + unat read_size] staging) (hmem s)\<rparr>;
        (r, s) \<leftarrow> real_table E hipMemcpy [APtr a, APtr (tb_ptr b), ASize read_size, AInt 2] s;
        let staging = peek_bytes a (unat read_size) s;
        Some (if h_ret r \<noteq> 0 then Inl (h_ret r) else Inr staging, staging, s) }
      else Some (Inr (peek_bytes (tb_ptr b) (unat read_size) s), staging, s))"

fun dump_loop ::
  "hip_env \<Rightarrow> bool \<Rightarrow> tracked_buffer list \<Rightarrow> u8 list \<Rightarrow> hip \<Rightarrow> hip option" where
  "dump_loop E force [] staging s = Some s"
| "dump_loop E force (b # bs) staging s = do {
     st \<leftarrow> tracer s;
     if \<not> in_use b \<or> tb_size b = 0 then dump_loop E force bs staging s
     else do {
       let max_dump = (if force then tb_size b else trace_dump_max st);
       let read_size = (if \<not> force \<and> trace_dump_max st > 0 \<and> tb_size b > trace_dump_max st
                        then trace_dump_max st else tb_size b);
       (d, staging, s) \<leftarrow> read_buffer E b read_size staging s;
       case d of
         Inl err \<Rightarrow> do {
           s \<leftarrow> trace_msg E 1 (dump_line b @ '' - MEMCPY FAILED: '' @ show_int err) s;
           dump_loop E force bs staging s }
       | Inr data \<Rightarrow>
           if trace_dump st = 2 \<and> \<not> force then do {
             s \<leftarrow> raw_write (dump_line b @ '' hash=0x'' @ pad0 16 (hex (unat (compute_hash data))) @ [CHR 0x0A]) s;
             dump_loop E force bs staging s }
           else do {
             s \<leftarrow> raw_write (dump_line b @ '':'' @ [CHR 0x0A]) s;
             s \<leftarrow> dump_buffer_hex data (tb_size b) max_dump s;
             dump_loop E force bs staging s } } }"

definition dump_all_buffers_ex :: "hip_env \<Rightarrow> string \<Rightarrow> bool \<Rightarrow> hip \<Rightarrow> hip option" where
  "dump_all_buffers_ex E label force_full_dump s = do {
     st \<leftarrow> tracer s;
     if trace_dump st = 0 then Some s
     else do {
       s \<leftarrow> trace_msg E 3 (''=== Buffer Dump: '' @ label @ '' ('' @ decimal (unat (bt_count (buffers st))) @
              '' buffers)'' @ (if force_full_dump then '' [FULL DUMP]'' else []) @ '' ==='') s;
       dump_loop E force_full_dump (bt_buffers (buffers st)) [] s } }"

section \<open>Which kernels to trace\<close>

definition should_trace_kernel :: "tracer_state \<Rightarrow> string option \<Rightarrow> bool" where
  "should_trace_kernel st name =
     (if kernel_count_limit st > 0 \<and> kernel_count st \<ge> kernel_count_limit st then False
      else case kernel_filter st of
        None \<Rightarrow> True
      | Some filt \<Rightarrow> filt = [] \<or> (case name of Some n \<Rightarrow> contains filt n | None \<Rightarrow> False))"

definition should_full_dump_kernel :: "hip_env \<Rightarrow> string option \<Rightarrow> hip \<Rightarrow> (bool \<times> hip) option" where
  "should_full_dump_kernel E name s = do {
     st \<leftarrow> tracer s;
     case (kernel_full_dump_list st, name) of
       (Some l, Some n) \<Rightarrow>
         (case find (\<lambda>token. token \<noteq> [] \<and> contains token n) (if l = [] then [] else split_at_char (CHR '':'') l) of
            Some token \<Rightarrow> do {
              s \<leftarrow> trace_msg E 3 (''Full dump match: kernel='' @ [CHR 0x27] @ n @ [CHR 0x27] @ '' matches token='' @
                     [CHR 0x27] @ token @ [CHR 0x27]) s;
              Some (True, s) }
          | None \<Rightarrow> Some (False, s))
     | _ \<Rightarrow> Some (False, s) }"

section \<open>Wrappers\<close>

text \<open>
  The body the three launch wrappers share: dumps before and after the launch if the kernel is to
  be traced and tracing synchronises, the launch itself, and the count of traced kernels.
\<close>

definition sync_and_dump :: "hip_env \<Rightarrow> string \<Rightarrow> bool \<Rightarrow> hip \<Rightarrow> hip option" where
  "sync_and_dump E label do_full s = do {
     (r, s) \<leftarrow> real_table E hipDeviceSynchronize [] s;
     dump_all_buffers_ex E label do_full s }"

definition count_kernel :: "hip \<Rightarrow> hip option" where
  "count_kernel s = do {
     st \<leftarrow> tracer s;
     Some (s\<lparr>tracer := Some (st\<lparr>kernel_count := sint (word_of_int (kernel_count st + 1) :: u32)\<rparr>)\<rparr>) }"

definition trace_launch ::
  "hip_env \<Rightarrow> hip_fn \<Rightarrow> ptr \<Rightarrow> (string \<Rightarrow> string) \<Rightarrow> hip_arg list \<Rightarrow> hip \<Rightarrow> (i32 \<times> hip) option" where
  "trace_launch E slot func msg args s = do {
     st \<leftarrow> tracer s;
     let name = kernel_table_get_name st func;
     let shown = (case name of Some n \<Rightarrow> n | None \<Rightarrow> ''(unknown)'');
     let do_trace = should_trace_kernel st name;
     (do_full, s) \<leftarrow> should_full_dump_kernel E name s;
     s \<leftarrow> (if do_trace \<and> trace_sync st
           then sync_and_dump E (''BEFORE kernel #'' @ show_int (kernel_count st) @ '': '' @ shown) do_full s
           else Some s);
     s \<leftarrow> trace_msg E 2 (msg (case name of Some n \<Rightarrow> n | None \<Rightarrow> ''?'')) s;
     (r, s) \<leftarrow> real_table E slot args s;
     let err = h_ret r;
     s \<leftarrow> (if do_trace \<and> trace_sync st
           then sync_and_dump E (''AFTER kernel #'' @ show_int (kernel_count st) @ '': '' @ shown @ '' (ret='' @
                  show_int err @ '')'') do_full s
           else Some s);
     s \<leftarrow> (if do_trace then count_kernel s else Some s);
     s \<leftarrow> trace_msg E 2 (''  -> '' @ show_int err) s;
     Some (err, s) }"

definition trace_wrap_hipMalloc ::
  "hip_env \<Rightarrow> ptr \<Rightarrow> usize \<Rightarrow> hip \<Rightarrow> (i32 \<times> hip) option" where
  "trace_wrap_hipMalloc E ptr sz s = do {
     (r, s) \<leftarrow> real_table E hipMalloc [APtr ptr, ASize sz] s;
     let err = h_ret r;
     s \<leftarrow> (if err = 0 \<and> ptr \<noteq> NULL \<and> deref_ptr ptr s \<noteq> NULL
           then buffer_table_add E (deref_ptr ptr s) sz BufDevice s else Some s);
     let pv = deref_ptr ptr s;
     s \<leftarrow> trace_msg E 2 (''hipMalloc(size='' @ decimal (unat sz) @ '') -> ptr='' @ p pv @ '', ret='' @ show_int err) s;
     Some (err, s) }"

definition trace_wrap_hipFree ::
  "hip_env \<Rightarrow> ptr \<Rightarrow> hip \<Rightarrow> (i32 \<times> hip) option" where
  "trace_wrap_hipFree E ptr s = do {
     s \<leftarrow> buffer_table_remove ptr s;
     (r, s) \<leftarrow> real_table E hipFree [APtr ptr] s;
     let err = h_ret r;
     s \<leftarrow> trace_msg E 2 (''hipFree('' @ p ptr @ '') -> '' @ show_int err) s;
     Some (err, s) }"

definition trace_wrap_hipHostMalloc ::
  "hip_env \<Rightarrow> ptr \<Rightarrow> usize \<Rightarrow> u32 \<Rightarrow> hip \<Rightarrow> (i32 \<times> hip) option" where
  "trace_wrap_hipHostMalloc E ptr sz flags s = do {
     (r, s) \<leftarrow> real_table E hipHostMalloc [APtr ptr, ASize sz, AUint flags] s;
     let err = h_ret r;
     s \<leftarrow> (if err = 0 \<and> ptr \<noteq> NULL \<and> deref_ptr ptr s \<noteq> NULL
           then buffer_table_add E (deref_ptr ptr s) sz BufHost s else Some s);
     let pv = deref_ptr ptr s;
     s \<leftarrow> trace_msg E 2 (''hipHostMalloc(size='' @ decimal (unat sz) @ '', flags=0x'' @ hex (unat flags) @ '') -> ptr='' @
       p pv @ '', ret='' @ show_int err) s;
     Some (err, s) }"

definition trace_wrap_hipHostFree ::
  "hip_env \<Rightarrow> ptr \<Rightarrow> hip \<Rightarrow> (i32 \<times> hip) option" where
  "trace_wrap_hipHostFree E ptr s = do {
     s \<leftarrow> buffer_table_remove ptr s;
     (r, s) \<leftarrow> real_table E hipHostFree [APtr ptr] s;
     let err = h_ret r;
     s \<leftarrow> trace_msg E 2 (''hipHostFree('' @ p ptr @ '') -> '' @ show_int err) s;
     Some (err, s) }"

definition trace_wrap_hipMemcpy ::
  "hip_env \<Rightarrow> ptr \<Rightarrow> ptr \<Rightarrow> usize \<Rightarrow> i32 \<Rightarrow> hip \<Rightarrow> (i32 \<times> hip) option" where
  "trace_wrap_hipMemcpy E dst src n kind s = do {
     (r, s) \<leftarrow> real_table E hipMemcpy [APtr dst, APtr src, ASize n, AInt kind] s;
     let err = h_ret r;
     s \<leftarrow> trace_msg E 2 (''hipMemcpy(dst='' @ p dst @ '', src='' @ p src @ '', size='' @ decimal (unat n) @ '', kind='' @
       (memcpy_kind_name kind) @ '') -> '' @ show_int err) s;
     Some (err, s) }"

definition trace_wrap_hipMemcpyAsync ::
  "hip_env \<Rightarrow> ptr \<Rightarrow> ptr \<Rightarrow> usize \<Rightarrow> i32 \<Rightarrow> ptr \<Rightarrow> hip \<Rightarrow> (i32 \<times> hip) option" where
  "trace_wrap_hipMemcpyAsync E dst src n kind stream s = do {
     (r, s) \<leftarrow> real_table E hipMemcpyAsync [APtr dst, APtr src, ASize n, AInt kind, APtr stream] s;
     let err = h_ret r;
     s \<leftarrow> trace_msg E 2 (''hipMemcpyAsync(dst='' @ p dst @ '', src='' @ p src @ '', size='' @ decimal (unat n) @
       '', kind='' @ (memcpy_kind_name kind) @ '', stream='' @ p stream @ '') -> '' @ show_int err) s;
     Some (err, s) }"

definition trace_wrap_hipMemset ::
  "hip_env \<Rightarrow> ptr \<Rightarrow> i32 \<Rightarrow> usize \<Rightarrow> hip \<Rightarrow> (i32 \<times> hip) option" where
  "trace_wrap_hipMemset E dst value n s = do {
     (r, s) \<leftarrow> real_table E hipMemset [APtr dst, AInt value, ASize n] s;
     let err = h_ret r;
     s \<leftarrow> trace_msg E 2 (''hipMemset(dst='' @ p dst @ '', value=0x'' @ pad0 2 (hex_i32 value) @ '', size='' @
       decimal (unat n) @ '') -> '' @ show_int err) s;
     Some (err, s) }"

definition trace_wrap_hipMemsetAsync ::
  "hip_env \<Rightarrow> ptr \<Rightarrow> i32 \<Rightarrow> usize \<Rightarrow> ptr \<Rightarrow> hip \<Rightarrow> (i32 \<times> hip) option" where
  "trace_wrap_hipMemsetAsync E dst value n stream s = do {
     (r, s) \<leftarrow> real_table E hipMemsetAsync [APtr dst, AInt value, ASize n, APtr stream] s;
     let err = h_ret r;
     s \<leftarrow> trace_msg E 2 (''hipMemsetAsync(dst='' @ p dst @ '', value=0x'' @ pad0 2 (hex_i32 value) @ '', size='' @
       decimal (unat n) @ '', stream='' @ p stream @ '') -> '' @ show_int err) s;
     Some (err, s) }"

definition trace_wrap_hipInit ::
  "hip_env \<Rightarrow> u32 \<Rightarrow> hip \<Rightarrow> (i32 \<times> hip) option" where
  "trace_wrap_hipInit E flags s = do {
     (r, s) \<leftarrow> real_table E hipInit [AUint flags] s;
     let err = h_ret r;
     s \<leftarrow> trace_msg E 2 (''hipInit(flags=0x'' @ hex (unat flags) @ '') -> '' @ show_int err) s;
     Some (err, s) }"

definition trace_wrap_hipGetDevice ::
  "hip_env \<Rightarrow> ptr \<Rightarrow> hip \<Rightarrow> (i32 \<times> hip) option" where
  "trace_wrap_hipGetDevice E device_id s = do {
     (r, s) \<leftarrow> real_table E hipGetDevice [APtr device_id] s;
     let err = h_ret r;
     let v = deref_int_or (- 1) device_id s;
     s \<leftarrow> trace_msg E 2 (''hipGetDevice() -> device='' @ show_int v @ '', ret='' @ show_int err) s;
     Some (err, s) }"

definition trace_wrap_hipGetDeviceCount ::
  "hip_env \<Rightarrow> ptr \<Rightarrow> hip \<Rightarrow> (i32 \<times> hip) option" where
  "trace_wrap_hipGetDeviceCount E count s = do {
     (r, s) \<leftarrow> real_table E hipGetDeviceCount [APtr count] s;
     let err = h_ret r;
     let v = deref_int_or (- 1) count s;
     s \<leftarrow> trace_msg E 2 (''hipGetDeviceCount() -> count='' @ show_int v @ '', ret='' @ show_int err) s;
     Some (err, s) }"

definition trace_wrap_hipSetDevice ::
  "hip_env \<Rightarrow> i32 \<Rightarrow> hip \<Rightarrow> (i32 \<times> hip) option" where
  "trace_wrap_hipSetDevice E device_id s = do {
     (r, s) \<leftarrow> real_table E hipSetDevice [AInt device_id] s;
     let err = h_ret r;
     s \<leftarrow> trace_msg E 2 (''hipSetDevice('' @ show_int device_id @ '') -> '' @ show_int err) s;
     Some (err, s) }"

definition trace_wrap_hipDeviceSynchronize ::
  "hip_env \<Rightarrow> hip \<Rightarrow> (i32 \<times> hip) option" where
  "trace_wrap_hipDeviceSynchronize E s = do {
     (r, s) \<leftarrow> real_table E hipDeviceSynchronize [] s;
     let err = h_ret r;
     s \<leftarrow> trace_msg E 2 (''hipDeviceSynchronize() -> '' @ show_int err) s;
     Some (err, s) }"

definition trace_wrap_hipStreamCreate ::
  "hip_env \<Rightarrow> ptr \<Rightarrow> hip \<Rightarrow> (i32 \<times> hip) option" where
  "trace_wrap_hipStreamCreate E stream s = do {
     (r, s) \<leftarrow> real_table E hipStreamCreate [APtr stream] s;
     let err = h_ret r;
     let sv = deref_ptr stream s;
     s \<leftarrow> trace_msg E 2 (''hipStreamCreate() -> stream='' @ p sv @ '', ret='' @ show_int err) s;
     Some (err, s) }"

definition trace_wrap_hipStreamCreateWithFlags ::
  "hip_env \<Rightarrow> ptr \<Rightarrow> u32 \<Rightarrow> hip \<Rightarrow> (i32 \<times> hip) option" where
  "trace_wrap_hipStreamCreateWithFlags E stream flags s = do {
     (r, s) \<leftarrow> real_table E hipStreamCreateWithFlags [APtr stream, AUint flags] s;
     let err = h_ret r;
     let sv = deref_ptr stream s;
     s \<leftarrow> trace_msg E 2 (''hipStreamCreateWithFlags(flags=0x'' @ hex (unat flags) @ '') -> stream='' @ p sv @ '', ret='' @
       show_int err) s;
     Some (err, s) }"

definition trace_wrap_hipStreamDestroy ::
  "hip_env \<Rightarrow> ptr \<Rightarrow> hip \<Rightarrow> (i32 \<times> hip) option" where
  "trace_wrap_hipStreamDestroy E stream s = do {
     (r, s) \<leftarrow> real_table E hipStreamDestroy [APtr stream] s;
     let err = h_ret r;
     s \<leftarrow> trace_msg E 2 (''hipStreamDestroy(stream='' @ p stream @ '') -> '' @ show_int err) s;
     Some (err, s) }"

definition trace_wrap_hipStreamSynchronize ::
  "hip_env \<Rightarrow> ptr \<Rightarrow> hip \<Rightarrow> (i32 \<times> hip) option" where
  "trace_wrap_hipStreamSynchronize E stream s = do {
     (r, s) \<leftarrow> real_table E hipStreamSynchronize [APtr stream] s;
     let err = h_ret r;
     s \<leftarrow> trace_msg E 2 (''hipStreamSynchronize(stream='' @ p stream @ '') -> '' @ show_int err) s;
     Some (err, s) }"

definition trace_wrap_hipEventCreate ::
  "hip_env \<Rightarrow> ptr \<Rightarrow> hip \<Rightarrow> (i32 \<times> hip) option" where
  "trace_wrap_hipEventCreate E event s = do {
     (r, s) \<leftarrow> real_table E hipEventCreate [APtr event] s;
     let err = h_ret r;
     let ev = deref_ptr event s;
     s \<leftarrow> trace_msg E 2 (''hipEventCreate() -> event='' @ p ev @ '', ret='' @ show_int err) s;
     Some (err, s) }"

definition trace_wrap_hipEventCreateWithFlags ::
  "hip_env \<Rightarrow> ptr \<Rightarrow> u32 \<Rightarrow> hip \<Rightarrow> (i32 \<times> hip) option" where
  "trace_wrap_hipEventCreateWithFlags E event flags s = do {
     (r, s) \<leftarrow> real_table E hipEventCreateWithFlags [APtr event, AUint flags] s;
     let err = h_ret r;
     let ev = deref_ptr event s;
     s \<leftarrow> trace_msg E 2 (''hipEventCreateWithFlags(flags=0x'' @ hex (unat flags) @ '') -> event='' @ p ev @ '', ret='' @
       show_int err) s;
     Some (err, s) }"

definition trace_wrap_hipEventDestroy ::
  "hip_env \<Rightarrow> ptr \<Rightarrow> hip \<Rightarrow> (i32 \<times> hip) option" where
  "trace_wrap_hipEventDestroy E event s = do {
     (r, s) \<leftarrow> real_table E hipEventDestroy [APtr event] s;
     let err = h_ret r;
     s \<leftarrow> trace_msg E 2 (''hipEventDestroy(event='' @ p event @ '') -> '' @ show_int err) s;
     Some (err, s) }"

definition trace_wrap_hipEventRecord ::
  "hip_env \<Rightarrow> ptr \<Rightarrow> ptr \<Rightarrow> hip \<Rightarrow> (i32 \<times> hip) option" where
  "trace_wrap_hipEventRecord E event stream s = do {
     (r, s) \<leftarrow> real_table E hipEventRecord [APtr event, APtr stream] s;
     let err = h_ret r;
     s \<leftarrow> trace_msg E 2 (''hipEventRecord(event='' @ p event @ '', stream='' @ p stream @ '') -> '' @ show_int err) s;
     Some (err, s) }"

definition trace_wrap_hipEventSynchronize ::
  "hip_env \<Rightarrow> ptr \<Rightarrow> hip \<Rightarrow> (i32 \<times> hip) option" where
  "trace_wrap_hipEventSynchronize E event s = do {
     (r, s) \<leftarrow> real_table E hipEventSynchronize [APtr event] s;
     let err = h_ret r;
     s \<leftarrow> trace_msg E 2 (''hipEventSynchronize(event='' @ p event @ '') -> '' @ show_int err) s;
     Some (err, s) }"

definition trace_wrap_hipModuleLaunchKernel ::
  "hip_env \<Rightarrow> ptr \<Rightarrow> u32 \<Rightarrow> u32 \<Rightarrow> u32 \<Rightarrow> u32 \<Rightarrow> u32 \<Rightarrow> u32 \<Rightarrow> u32 \<Rightarrow> ptr \<Rightarrow> ptr \<Rightarrow> ptr \<Rightarrow> hip \<Rightarrow> (i32 \<times> hip) option" where
  "trace_wrap_hipModuleLaunchKernel E f gx gy gz bx b_y bz shared stream kernel_params extra s =
     trace_launch E hipModuleLaunchKernel f
       (\<lambda>name. ''hipModuleLaunchKernel(func='' @ p f @ '' ['' @ name @ ''], grid=('' @ decimal (unat gx) @
          '','' @ decimal (unat gy) @ '','' @ decimal (unat gz) @ ''), block=('' @ decimal (unat bx) @
          '','' @ decimal (unat b_y) @ '','' @ decimal (unat bz) @ ''), shared='' @
          decimal (unat shared) @ '', stream='' @ p stream @ '')'')
       [APtr f, AUint gx, AUint gy, AUint gz, AUint bx, AUint b_y, AUint bz, AUint shared, APtr stream, APtr kernel_params, APtr extra] s"

definition trace_wrap_hipLaunchKernel ::
  "hip_env \<Rightarrow> ptr \<Rightarrow> dim3 \<Rightarrow> dim3 \<Rightarrow> ptr \<Rightarrow> usize \<Rightarrow> ptr \<Rightarrow> hip \<Rightarrow> (i32 \<times> hip) option" where
  "trace_wrap_hipLaunchKernel E function_address num_blocks dim_blocks args shared stream s =
     trace_launch E hipLaunchKernel function_address
       (\<lambda>name. ''hipLaunchKernel(func='' @ p function_address @ '' ['' @ name @ ''], grid=('' @
          decimal (unat (dim_x num_blocks)) @ '','' @ decimal (unat (dim_y num_blocks)) @ '','' @
          decimal (unat (dim_z num_blocks)) @ ''), block=('' @ decimal (unat (dim_x dim_blocks)) @ '','' @
          decimal (unat (dim_y dim_blocks)) @ '','' @ decimal (unat (dim_z dim_blocks)) @ ''), shared='' @
          decimal (unat shared) @ '', stream='' @ p stream @ '')'')
       [APtr function_address, ADim3 num_blocks, ADim3 dim_blocks, APtr args, ASize shared, APtr stream] s"

definition trace_wrap_hipExtModuleLaunchKernel ::
  "hip_env \<Rightarrow> ptr \<Rightarrow> u32 \<Rightarrow> u32 \<Rightarrow> u32 \<Rightarrow> u32 \<Rightarrow> u32 \<Rightarrow> u32 \<Rightarrow> usize \<Rightarrow> ptr \<Rightarrow> ptr \<Rightarrow> ptr \<Rightarrow> ptr \<Rightarrow> ptr \<Rightarrow> u32 \<Rightarrow> hip \<Rightarrow> (i32 \<times> hip) option" where
  "trace_wrap_hipExtModuleLaunchKernel E f gx gy gz lx ly lz shared stream kernel_params extra start_event stop_event flags s =
     trace_launch E hipExtModuleLaunchKernel f
       (\<lambda>name. ''hipExtModuleLaunchKernel(func='' @ p f @ '' ['' @ name @ ''], globalSize=('' @
          decimal (unat gx) @ '','' @ decimal (unat gy) @ '','' @ decimal (unat gz) @ ''), localSize=('' @
          decimal (unat lx) @ '','' @ decimal (unat ly) @ '','' @ decimal (unat lz) @ ''), shared='' @
          decimal (unat shared) @ '', stream='' @ p stream @ '', flags=0x'' @ hex (unat flags) @ '')'')
       [APtr f, AUint gx, AUint gy, AUint gz, AUint lx, AUint ly, AUint lz, ASize shared, APtr stream, APtr kernel_params, APtr extra, APtr start_event, APtr stop_event, AUint flags] s"

definition trace_wrap_hipRegisterFatBinary ::
  "hip_env \<Rightarrow> ptr \<Rightarrow> hip \<Rightarrow> (ptr \<times> hip) option" where
  "trace_wrap_hipRegisterFatBinary E data s = do {
     (r, s) \<leftarrow> real_table E hipRegisterFatBinary [APtr data] s;
     let result = h_res r;
     s \<leftarrow> trace_msg E 2 (''__hipRegisterFatBinary(data='' @ p data @ '') -> handle='' @ p result) s;
     Some (result, s) }"

definition trace_wrap_hipUnregisterFatBinary ::
  "hip_env \<Rightarrow> ptr \<Rightarrow> hip \<Rightarrow> hip option" where
  "trace_wrap_hipUnregisterFatBinary E handle s = do {
     s \<leftarrow> trace_msg E 2 (''__hipUnregisterFatBinary(handle='' @ p handle @ '')'') s;
     (r, s) \<leftarrow> real_table E hipUnregisterFatBinary [APtr handle] s;
     Some s }"

definition trace_wrap_hipRegisterFunction ::
  "hip_env \<Rightarrow> ptr \<Rightarrow> ptr \<Rightarrow> ptr \<Rightarrow> ptr \<Rightarrow> i32 \<Rightarrow> ptr \<Rightarrow> ptr \<Rightarrow> ptr \<Rightarrow> ptr \<Rightarrow> ptr \<Rightarrow> hip \<Rightarrow> hip option" where
  "trace_wrap_hipRegisterFunction E handle host_fun device_fun device_name thread_limit tid bid block_dim grid_dim w_size s = do {
     name \<leftarrow> (if device_name = NULL then Some None else map_option Some (cstr_or [] device_name s));
     s \<leftarrow> kernel_table_add host_fun name s;
     device \<leftarrow> cstr_or ''(null)'' device_name s;
     s \<leftarrow> trace_msg E 2 (''__hipRegisterFunction(handle='' @ p handle @ '', host='' @ p host_fun @ '', device='' @ device @ '')'') s;
     (r, s) \<leftarrow> real_table E hipRegisterFunction
       [APtr handle, APtr host_fun, APtr device_fun, APtr device_name, AInt thread_limit, APtr tid, APtr bid, APtr block_dim, APtr grid_dim, APtr w_size] s;
     Some s }"

definition trace_wrap_hipRegisterVar ::
  "hip_env \<Rightarrow> ptr \<Rightarrow> ptr \<Rightarrow> ptr \<Rightarrow> ptr \<Rightarrow> i32 \<Rightarrow> usize \<Rightarrow> i32 \<Rightarrow> i32 \<Rightarrow> hip \<Rightarrow> hip option" where
  "trace_wrap_hipRegisterVar E handle host_var device_address device_name ext sz constant global s = do {
     name \<leftarrow> cstr_or ''(null)'' device_name s;
     s \<leftarrow> trace_msg E 2 (''__hipRegisterVar(handle='' @ p handle @ '', name='' @ name @ '', size='' @ decimal (unat sz) @ '')'') s;
     (r, s) \<leftarrow> real_table E hipRegisterVar
       [APtr handle, APtr host_var, APtr device_address, APtr device_name, AInt ext, ASize sz, AInt constant, AInt global] s;
     Some s }"

text \<open>A call through a slot of the wrapper table; arguments of another type are undefined behaviour.\<close>

primrec tracer_invoke :: "hip_env \<Rightarrow> hip_fn \<Rightarrow> hip_arg list \<Rightarrow> hip \<Rightarrow> (hip_ret \<times> hip) option" where
  "tracer_invoke E hipInit args s =
     (case args of [AUint flags] \<Rightarrow>
        map_option (\<lambda>(e, s). (RError e, s)) (trace_wrap_hipInit E flags s) | _ \<Rightarrow> None)"
| "tracer_invoke E hipDriverGetVersion args s = None"
| "tracer_invoke E hipRuntimeGetVersion args s = None"
| "tracer_invoke E hipGetDevice args s =
     (case args of [APtr device_id] \<Rightarrow>
        map_option (\<lambda>(e, s). (RError e, s)) (trace_wrap_hipGetDevice E device_id s) | _ \<Rightarrow> None)"
| "tracer_invoke E hipGetDeviceCount args s =
     (case args of [APtr count] \<Rightarrow>
        map_option (\<lambda>(e, s). (RError e, s)) (trace_wrap_hipGetDeviceCount E count s) | _ \<Rightarrow> None)"
| "tracer_invoke E hipSetDevice args s =
     (case args of [AInt device_id] \<Rightarrow>
        map_option (\<lambda>(e, s). (RError e, s)) (trace_wrap_hipSetDevice E device_id s) | _ \<Rightarrow> None)"
| "tracer_invoke E hipDeviceReset args s = None"
| "tracer_invoke E hipDeviceSynchronize args s =
     (case args of [] \<Rightarrow>
        map_option (\<lambda>(e, s). (RError e, s)) (trace_wrap_hipDeviceSynchronize E s) | _ \<Rightarrow> None)"
| "tracer_invoke E hipGetDeviceProperties args s = None"
| "tracer_invoke E hipDeviceGetAttribute args s = None"
| "tracer_invoke E hipDeviceGetName args s = None"
| "tracer_invoke E hipMalloc args s =
     (case args of [APtr ptr, ASize sz] \<Rightarrow>
        map_option (\<lambda>(e, s). (RError e, s)) (trace_wrap_hipMalloc E ptr sz s) | _ \<Rightarrow> None)"
| "tracer_invoke E hipFree args s =
     (case args of [APtr ptr] \<Rightarrow>
        map_option (\<lambda>(e, s). (RError e, s)) (trace_wrap_hipFree E ptr s) | _ \<Rightarrow> None)"
| "tracer_invoke E hipHostMalloc args s =
     (case args of [APtr ptr, ASize sz, AUint flags] \<Rightarrow>
        map_option (\<lambda>(e, s). (RError e, s)) (trace_wrap_hipHostMalloc E ptr sz flags s) | _ \<Rightarrow> None)"
| "tracer_invoke E hipHostFree args s =
     (case args of [APtr ptr] \<Rightarrow>
        map_option (\<lambda>(e, s). (RError e, s)) (trace_wrap_hipHostFree E ptr s) | _ \<Rightarrow> None)"
| "tracer_invoke E hipMemGetInfo args s = None"
| "tracer_invoke E hipMemcpy args s =
     (case args of [APtr dst, APtr src, ASize n, AInt kind] \<Rightarrow>
        map_option (\<lambda>(e, s). (RError e, s)) (trace_wrap_hipMemcpy E dst src n kind s) | _ \<Rightarrow> None)"
| "tracer_invoke E hipMemcpyAsync args s =
     (case args of [APtr dst, APtr src, ASize n, AInt kind, APtr stream] \<Rightarrow>
        map_option (\<lambda>(e, s). (RError e, s)) (trace_wrap_hipMemcpyAsync E dst src n kind stream s) | _ \<Rightarrow> None)"
| "tracer_invoke E hipMemset args s =
     (case args of [APtr dst, AInt value, ASize n] \<Rightarrow>
        map_option (\<lambda>(e, s). (RError e, s)) (trace_wrap_hipMemset E dst value n s) | _ \<Rightarrow> None)"
| "tracer_invoke E hipMemsetAsync args s =
     (case args of [APtr dst, AInt value, ASize n, APtr stream] \<Rightarrow>
        map_option (\<lambda>(e, s). (RError e, s)) (trace_wrap_hipMemsetAsync E dst value n stream s) | _ \<Rightarrow> None)"
| "tracer_invoke E hipStreamCreate args s =
     (case args of [APtr stream] \<Rightarrow>
        map_option (\<lambda>(e, s). (RError e, s)) (trace_wrap_hipStreamCreate E stream s) | _ \<Rightarrow> None)"
| "tracer_invoke E hipStreamCreateWithFlags args s =
     (case args of [APtr stream, AUint flags] \<Rightarrow>
        map_option (\<lambda>(e, s). (RError e, s)) (trace_wrap_hipStreamCreateWithFlags E stream flags s) | _ \<Rightarrow> None)"
| "tracer_invoke E hipStreamDestroy args s =
     (case args of [APtr stream] \<Rightarrow>
        map_option (\<lambda>(e, s). (RError e, s)) (trace_wrap_hipStreamDestroy E stream s) | _ \<Rightarrow> None)"
| "tracer_invoke E hipStreamSynchronize args s =
     (case args of [APtr stream] \<Rightarrow>
        map_option (\<lambda>(e, s). (RError e, s)) (trace_wrap_hipStreamSynchronize E stream s) | _ \<Rightarrow> None)"
| "tracer_invoke E hipStreamQuery args s = None"
| "tracer_invoke E hipStreamWaitEvent args s = None"
| "tracer_invoke E hipEventCreate args s =
     (case args of [APtr event] \<Rightarrow>
        map_option (\<lambda>(e, s). (RError e, s)) (trace_wrap_hipEventCreate E event s) | _ \<Rightarrow> None)"
| "tracer_invoke E hipEventCreateWithFlags args s =
     (case args of [APtr event, AUint flags] \<Rightarrow>
        map_option (\<lambda>(e, s). (RError e, s)) (trace_wrap_hipEventCreateWithFlags E event flags s) | _ \<Rightarrow> None)"
| "tracer_invoke E hipEventDestroy args s =
     (case args of [APtr event] \<Rightarrow>
        map_option (\<lambda>(e, s). (RError e, s)) (trace_wrap_hipEventDestroy E event s) | _ \<Rightarrow> None)"
| "tracer_invoke E hipEventRecord args s =
     (case args of [APtr event, APtr stream] \<Rightarrow>
        map_option (\<lambda>(e, s). (RError e, s)) (trace_wrap_hipEventRecord E event stream s) | _ \<Rightarrow> None)"
| "tracer_invoke E hipEventSynchronize args s =
     (case args of [APtr event] \<Rightarrow>
        map_option (\<lambda>(e, s). (RError e, s)) (trace_wrap_hipEventSynchronize E event s) | _ \<Rightarrow> None)"
| "tracer_invoke E hipEventQuery args s = None"
| "tracer_invoke E hipEventElapsedTime args s = None"
| "tracer_invoke E hipModuleLoad args s = None"
| "tracer_invoke E hipModuleLoadData args s = None"
| "tracer_invoke E hipModuleUnload args s = None"
| "tracer_invoke E hipModuleGetFunction args s = None"
| "tracer_invoke E hipModuleGetGlobal args s = None"
| "tracer_invoke E hipModuleLaunchKernel args s =
     (case args of [APtr f, AUint gx, AUint gy, AUint gz, AUint bx, AUint b_y, AUint bz, AUint shared, APtr stream, APtr kernel_params, APtr extra] \<Rightarrow>
        map_option (\<lambda>(e, s). (RError e, s)) (trace_wrap_hipModuleLaunchKernel E f gx gy gz bx b_y bz shared stream kernel_params extra s) | _ \<Rightarrow> None)"
| "tracer_invoke E hipLaunchKernel args s =
     (case args of [APtr function_address, ADim3 num_blocks, ADim3 dim_blocks, APtr args, ASize shared, APtr stream] \<Rightarrow>
        map_option (\<lambda>(e, s). (RError e, s)) (trace_wrap_hipLaunchKernel E function_address num_blocks dim_blocks args shared stream s) | _ \<Rightarrow> None)"
| "tracer_invoke E hipExtModuleLaunchKernel args s =
     (case args of [APtr f, AUint gx, AUint gy, AUint gz, AUint lx, AUint ly, AUint lz, ASize shared, APtr stream, APtr kernel_params, APtr extra, APtr start_event, APtr stop_event, AUint flags] \<Rightarrow>
        map_option (\<lambda>(e, s). (RError e, s)) (trace_wrap_hipExtModuleLaunchKernel E f gx gy gz lx ly lz shared stream kernel_params extra start_event stop_event flags s) | _ \<Rightarrow> None)"
| "tracer_invoke E hipRegisterFatBinary args s =
     (case args of [APtr data] \<Rightarrow>
        map_option (\<lambda>(q, s). (RPtr q, s)) (trace_wrap_hipRegisterFatBinary E data s) | _ \<Rightarrow> None)"
| "tracer_invoke E hipUnregisterFatBinary args s =
     (case args of [APtr handle] \<Rightarrow>
        map_option (\<lambda>s. (RVoid, s)) (trace_wrap_hipUnregisterFatBinary E handle s) | _ \<Rightarrow> None)"
| "tracer_invoke E hipRegisterFunction args s =
     (case args of [APtr handle, APtr host_fun, APtr device_fun, APtr device_name, AInt thread_limit, APtr tid, APtr bid, APtr block_dim, APtr grid_dim, APtr w_size] \<Rightarrow>
        map_option (\<lambda>s. (RVoid, s)) (trace_wrap_hipRegisterFunction E handle host_fun device_fun device_name thread_limit tid bid block_dim grid_dim w_size s) | _ \<Rightarrow> None)"
| "tracer_invoke E hipRegisterVar args s =
     (case args of [APtr handle, APtr host_var, APtr device_address, APtr device_name, AInt ext, ASize sz, AInt constant, AInt global] \<Rightarrow>
        map_option (\<lambda>s. (RVoid, s)) (trace_wrap_hipRegisterVar E handle host_var device_address device_name ext sz constant global s) | _ \<Rightarrow> None)"
| "tracer_invoke E hipGetErrorString args s = None"
| "tracer_invoke E hipGetErrorName args s = None"
| "tracer_invoke E hipGetLastError args s = None"
| "tracer_invoke E hipPeekAtLastError args s = None"

section \<open>Entry points\<close>

definition tracer_slots :: "hip_fn list" where
  "tracer_slots = [
     hipInit, hipGetDevice, hipGetDeviceCount, hipSetDevice, hipDeviceSynchronize, hipMalloc,
     hipFree, hipHostMalloc, hipHostFree, hipMemcpy, hipMemcpyAsync, hipMemset, hipMemsetAsync,
     hipStreamCreate, hipStreamCreateWithFlags, hipStreamDestroy, hipStreamSynchronize,
     hipEventCreate, hipEventCreateWithFlags, hipEventDestroy, hipEventRecord, hipEventSynchronize,
     hipModuleLaunchKernel, hipLaunchKernel, hipExtModuleLaunchKernel, hipRegisterFatBinary,
     hipUnregisterFatBinary, hipRegisterFunction, hipRegisterVar]"

definition trace_atoi :: "string \<Rightarrow> i32" where
  "trace_atoi s = parse_signed (2 ^ 31 - 1) s"

definition atol :: "string \<Rightarrow> int" where
  "atol s = parse_signed (2 ^ 63 - 1) s"

definition getenv_int :: "hip_env \<Rightarrow> string \<Rightarrow> i32 \<Rightarrow> i32" where
  "getenv_int E k dflt = (case env_var E k of Some t \<Rightarrow> trace_atoi t | None \<Rightarrow> dflt)"

definition empty_slot :: tracked_buffer where
  "empty_slot = \<lparr>tb_ptr = NULL, tb_size = 0, tb_type = BufDevice, in_use = False, alloc_id = 0\<rparr>"

definition initial_tracer :: "hip_env \<Rightarrow> ptr \<Rightarrow> ptr \<Rightarrow> ptr \<Rightarrow> bool \<Rightarrow> tracer_state" where
  "initial_tracer E real_functions wrapper_ptr file owns = \<lparr>
     tr_real = real_functions, tr_wrapper = wrapper_ptr, trace_file = file,
     trace_level = getenv_int E ''HIP_TRACE_LEVEL'' 2,
     trace_sync = (case env_var E ''HIP_TRACE_SYNC'' of Some t \<Rightarrow> trace_atoi t \<noteq> 0 | None \<Rightarrow> False),
     trace_dump = getenv_int E ''HIP_TRACE_DUMP'' 0,
     trace_dump_max = (case env_var E ''HIP_TRACE_DUMP_MAX'' of Some t \<Rightarrow> word_of_int (atol t) | None \<Rightarrow> 1024),
     kernel_filter = env_var E ''HIP_TRACE_KERNEL_FILTER'',
     kernel_count_limit = getenv_int E ''HIP_TRACE_KERNEL_COUNT'' 0,
     kernel_count = 0,
     kernel_full_dump_list = (case env_var E ''HIP_TRACE_KERNEL_FULL_DUMP'' of
        Some t \<Rightarrow> if t = [] then None else Some t | None \<Rightarrow> None),
     owns_file = owns,
     buffers = \<lparr>bt_buffers = replicate MAX_TRACKED_BUFFERS empty_slot, bt_count = 0, next_alloc_id = 1\<rparr>,
     kernels = []\<rparr>"

definition tracer_interceptor_init :: "hip_env \<Rightarrow> ptr \<Rightarrow> hip \<Rightarrow> (ptr \<times> hip) option" where
  "tracer_interceptor_init E real_functions s = do {
     let ((file, owns), s) = open_log E ''HIP_TRACE_FILE'' ''hip_buffer_tracer: failed to open trace file: '' s;
     t \<leftarrow> tables s real_functions;
     let (wrapper_ptr, s) = new_table (override Tracer tracer_slots t) s;
     let st = initial_tracer E real_functions wrapper_ptr file owns;
     let s = s\<lparr>tracer := Some st\<rparr>;
     s \<leftarrow> (case kernel_full_dump_list st of
             Some l \<Rightarrow> trace_msg E 1 (''Full dump enabled for kernels (len='' @ decimal (length l) @ ''): '' @ l) s
           | None \<Rightarrow> Some s);
     s \<leftarrow> trace_msg E 1 ''HIP Buffer Tracer initialized'' s;
     s \<leftarrow> trace_msg E 1 (''  trace_level='' @ show_int (trace_level st) @ '', trace_sync='' @
            (if trace_sync st then ''1'' else ''0'') @ '', trace_dump='' @ show_int (trace_dump st) @ '', dump_max='' @
            decimal (unat (trace_dump_max st))) s;
     s \<leftarrow> (case kernel_filter st of
             Some f \<Rightarrow> if f \<noteq> [] then trace_msg E 1 (''  kernel_filter='' @ f) s else Some s
           | None \<Rightarrow> Some s);
     s \<leftarrow> (if kernel_count_limit st > 0
           then trace_msg E 1 (''  kernel_count_limit='' @ show_int (kernel_count_limit st)) s else Some s);
     Some (wrapper_ptr, s) }"

definition tracer_interceptor_shutdown :: "hip_env \<Rightarrow> hip \<Rightarrow> hip option" where
  "tracer_interceptor_shutdown E s =
     (case tracer s of
        None \<Rightarrow> Some s
      | Some st \<Rightarrow> do {
          s \<leftarrow> trace_msg E 1 ''HIP Buffer Tracer shutting down'' s;
          s \<leftarrow> trace_msg E 1 (''  Total kernels traced: '' @ show_int (kernel_count st)) s;
          s \<leftarrow> trace_msg E 1 (''  Total buffers tracked: '' @ decimal (unat (bt_count (buffers st)))) s;
          let (st, s) = (if owns_file st \<and> trace_file st \<noteq> NULL
                         then (st\<lparr>trace_file := NULL\<rparr>, fclose_file (trace_file st) s) else (st, s));
          let (st, s) = (if tr_wrapper st \<noteq> NULL
                         then (st\<lparr>tr_wrapper := NULL\<rparr>, s\<lparr>tables := (tables s)(tr_wrapper st := None)\<rparr>) else (st, s));
          Some (s\<lparr>tracer := Some st\<rparr>) })"

section \<open>Transparency\<close>

text \<open>The part of the tracer's state that is fixed at its initialisation.\<close>

definition config :: "hip \<Rightarrow> (ptr \<times> ptr \<times> bool \<times> i32 \<times> usize) option" where
  "config s = map_option (\<lambda>st. (tr_real st, trace_file st, trace_sync st, trace_dump st, trace_dump_max st)) (tracer s)"

definition own_changes :: "hip \<Rightarrow> hip \<Rightarrow> bool" where
  "own_changes s t \<longleftrightarrow> aside s t \<and> config t = config s"

lemma own_changes_refl [simp]: "own_changes s s"
  by (simp add: own_changes_def)

lemma own_changes_trans: "own_changes s t \<Longrightarrow> own_changes t u \<Longrightarrow> own_changes s u"
  by (auto simp: own_changes_def intro: aside_trans)

lemma own_changes_quiet: "quiet s t \<Longrightarrow> own_changes s t"
  by (simp add: own_changes_def quiet_aside config_def quietD)

lemma own_changes_ticks: "quiet (s\<lparr>ticks := n\<rparr>) t \<Longrightarrow> own_changes s t"
  by (rule own_changes_quiet, erule quiet_ticks)

lemma trace_msg_own:
  assumes "trace_msg E l m s = Some t"
  shows "own_changes s t"
proof -
  have "t = s \<or> (\<exists>f. fwrite f (stamped_line E m s) (s\<lparr>ticks := Suc (ticks s)\<rparr>) = Some t)"
    using assms by (auto simp: trace_msg_def split: if_splits elim!: bind_SomeE)
  then show ?thesis by (auto dest!: fwrite_quiet own_changes_ticks)
qed

lemma raw_write_own: "raw_write x s = Some t \<Longrightarrow> own_changes s t"
  by (auto simp: raw_write_def split: if_splits elim!: bind_SomeE dest!: fwrite_quiet
      intro: own_changes_quiet)

lemma own_changes_tracer:
  "tracer s = Some st \<Longrightarrow> tr_real st' = tr_real st \<Longrightarrow> trace_file st' = trace_file st \<Longrightarrow> trace_sync st' = trace_sync st \<Longrightarrow>
   trace_dump st' = trace_dump st \<Longrightarrow> trace_dump_max st' = trace_dump_max st \<Longrightarrow> own_changes s (s\<lparr>tracer := Some st'\<rparr>)"
  by (simp add: own_changes_def config_def)

lemma own_changes_upd: "own_changes s (s\<lparr>tracer := x\<rparr>) \<longleftrightarrow> config (s\<lparr>tracer := x\<rparr>) = config s"
  by (simp add: own_changes_def)

lemma buffer_table_add_own: "buffer_table_add E q n ty s = Some t \<Longrightarrow> own_changes s t"
  by (auto simp: buffer_table_add_def Let_def own_changes_upd config_def split: if_splits option.splits
      elim!: bind_SomeE dest!: trace_msg_own)

lemma buffer_table_remove_own: "buffer_table_remove q s = Some t \<Longrightarrow> own_changes s t"
  by (auto simp: buffer_table_remove_def Let_def own_changes_upd config_def split: if_splits option.splits
      elim!: bind_SomeE)

lemma kernel_table_add_own: "kernel_table_add q n s = Some t \<Longrightarrow> own_changes s t"
  by (auto simp: kernel_table_add_def Let_def own_changes_upd config_def split: if_splits elim!: bind_SomeE)

lemma should_full_dump_own: "should_full_dump_kernel E n s = Some (b, t) \<Longrightarrow> own_changes s t"
  by (auto simp: should_full_dump_kernel_def split: option.splits elim!: bind_SomeE dest: trace_msg_own)

lemma count_kernel_own: "count_kernel s = Some t \<Longrightarrow> own_changes s t"
  by (auto simp: count_kernel_def own_changes_upd config_def elim!: bind_SomeE)

lemmas own_steps = count_kernel_own trace_msg_own raw_write_own buffer_table_add_own buffer_table_remove_own kernel_table_add_own
  should_full_dump_own

lemmas trace_wrap_defs =
  trace_wrap_hipMalloc_def trace_wrap_hipFree_def trace_wrap_hipHostMalloc_def
  trace_wrap_hipHostFree_def trace_wrap_hipMemcpy_def trace_wrap_hipMemcpyAsync_def
  trace_wrap_hipMemset_def trace_wrap_hipMemsetAsync_def trace_wrap_hipInit_def
  trace_wrap_hipGetDevice_def trace_wrap_hipGetDeviceCount_def trace_wrap_hipSetDevice_def
  trace_wrap_hipDeviceSynchronize_def trace_wrap_hipStreamCreate_def
  trace_wrap_hipStreamCreateWithFlags_def trace_wrap_hipStreamDestroy_def
  trace_wrap_hipStreamSynchronize_def trace_wrap_hipEventCreate_def
  trace_wrap_hipEventCreateWithFlags_def trace_wrap_hipEventDestroy_def
  trace_wrap_hipEventRecord_def trace_wrap_hipEventSynchronize_def
  trace_wrap_hipModuleLaunchKernel_def trace_wrap_hipLaunchKernel_def
  trace_wrap_hipExtModuleLaunchKernel_def trace_wrap_hipRegisterFatBinary_def
  trace_wrap_hipUnregisterFatBinary_def trace_wrap_hipRegisterFunction_def
  trace_wrap_hipRegisterVar_def

text \<open>
  The outcome of a wrapper stands for the call of \<open>f\<close> through the table the tracer was given.
\<close>

definition traced_for :: "hip_env \<Rightarrow> hip_fn \<Rightarrow> hip_arg list \<Rightarrow> hip \<Rightarrow> hip_ret \<Rightarrow> hip \<Rightarrow> bool" where
  "traced_for E f args s r t \<longleftrightarrow>
     (\<exists>q u. real_table E f args s = Some (q, u) \<and> r = ret_of f q \<and> own_changes u t)"

lemma traced_forI:
  "real_table E f args s = Some (q, u) \<Longrightarrow> own_changes u t \<Longrightarrow> r = ret_of f q \<Longrightarrow> traced_for E f args s r t"
  by (auto simp: traced_for_def)

lemma real_table_own:
  assumes "real_table E f args s' = Some (q, t)" and "own_changes s s'"
  shows "\<exists>u. real_table E f args s = Some (q, u) \<and> own_changes u t"
proof -
  note c = assms(2) [unfolded own_changes_def]
  obtain st' where st': "tracer s' = Some st'" "call_real E (tr_real st') f args s' = Some (q, t)"
    using assms(1) by (auto simp: real_table_def elim!: bind_SomeE)
  then obtain st where st: "tracer s = Some st" "tr_real st = tr_real st'"
    using c by (cases "tracer s") (auto simp: config_def)
  obtain tb a where a: "tables s (tr_real st) = Some tb" "slots tb f = Some (Backend a)" "(q, t) = invoke_sym E a args s'"
    using st' st asideD(3) [of s s'] c by (auto simp: call_real_Some)
  let ?u = "snd (invoke_sym E a args s)"
  have q: "invoke_sym E a args s = (q, ?u)"
    using a(3) asideD(1,2) [of s s'] c by (auto simp: invoke_sym_def Let_def)
  have "own_changes ?u t"
    using a(3) c asideD(1,2) [of s s'] unfolding own_changes_def aside_def config_def
    by (cases s; cases s'; cases t) (auto simp: invoke_sym_def Let_def)
  then show ?thesis using st a q by (auto simp: real_table_def call_real_def)
qed

lemma traced_for_first:
  "real_table E f args s' = Some (q, t') \<Longrightarrow> own_changes s s' \<Longrightarrow> own_changes t' t \<Longrightarrow> r = ret_of f q \<Longrightarrow>
   traced_for E f args s r t"
  using real_table_own [of E f args s' q t' s] by (auto simp: traced_for_def intro: own_changes_trans)

text \<open>The two shapes of a wrapper: call and report, or report (or record) and call.\<close>

lemma traced_for_then:
  "real_table E f args s = Some (q, u) \<Longrightarrow> own_changes u v \<Longrightarrow> own_changes v t \<Longrightarrow> r = ret_of f q \<Longrightarrow>
   traced_for E f args s r t"
  by (auto intro: traced_forI own_changes_trans)

lemma traced_for_after:
  "real_table E f args v = Some (q, t) \<Longrightarrow> own_changes s u \<Longrightarrow> own_changes u v \<Longrightarrow> r = ret_of f q \<Longrightarrow>
   traced_for E f args s r t"
  by (auto intro: traced_for_first own_changes_trans own_changes_refl)

lemmas traced_for_rules = traced_forI traced_for_then traced_for_first traced_for_after

lemma trace_launch_traced:
  assumes "trace_launch E slot func msg args s = Some (e, t)" and "tracer s = Some st" and "\<not> trace_sync st"
    and "\<And>q. ret_of slot q = RError (h_ret q)"
  shows "traced_for E slot args s (RError e) t"
proof -
  obtain q s1 s2 u v where "own_changes s s1" "own_changes s1 s2" "own_changes u v" "own_changes v t"
    and q: "real_table E slot args s2 = Some (q, u)" "e = h_ret q"
    using assms(1-3)
    by (auto simp: trace_launch_def Let_def split: if_splits elim!: bind_SomeE dest!: own_steps)
  then have "own_changes s s2" "own_changes u t" by (blast intro: own_changes_trans)+
  then show ?thesis using q assms(4) by (auto intro: traced_for_first)
qed

lemma trace_hipMalloc_traced:
  assumes "trace_wrap_hipMalloc E ptr sz s = Some (e, t)"
  shows "traced_for E hipMalloc [APtr ptr, ASize sz] s (RError e) t"
proof -
  obtain q u v where "real_table E hipMalloc [APtr ptr, ASize sz] s = Some (q, u)" "e = h_ret q" "own_changes u v" "own_changes v t"
    using assms
    by (auto simp: trace_wrap_hipMalloc_def Let_def split: if_splits elim!: bind_SomeE dest!: own_steps)
  then show ?thesis by (auto simp: ret_of_def intro: traced_for_then)
qed

lemma trace_hipHostMalloc_traced:
  assumes "trace_wrap_hipHostMalloc E ptr sz flags s = Some (e, t)"
  shows "traced_for E hipHostMalloc [APtr ptr, ASize sz, AUint flags] s (RError e) t"
proof -
  obtain q u v where "real_table E hipHostMalloc [APtr ptr, ASize sz, AUint flags] s = Some (q, u)" "e = h_ret q" "own_changes u v" "own_changes v t"
    using assms
    by (auto simp: trace_wrap_hipHostMalloc_def Let_def split: if_splits elim!: bind_SomeE dest!: own_steps)
  then show ?thesis by (auto simp: ret_of_def intro: traced_for_then)
qed

lemma tracer_invoke_traced:
  assumes "tracer_invoke E f args s = Some (r, t)" and "tracer s = Some st" and "\<not> trace_sync st"
  shows "traced_for E f args s r t"
proof (cases "f = hipMalloc \<or> f = hipHostMalloc")
  case True
  then show ?thesis
    using assms(1) trace_hipMalloc_traced trace_hipHostMalloc_traced
    by (auto split: list.splits hip_arg.splits)
next
  case False
  then show ?thesis
    using assms
    by (cases f)
       (auto simp: trace_wrap_defs Let_def ret_of_def split: list.splits hip_arg.splits
         elim!: bind_SomeE dest!: own_steps trace_launch_traced [OF _ assms(2,3)] intro: traced_for_rules)
qed

interpretation tracing: interceptor "tracer_invoke E" "\<lambda>s. case config s of Some c \<Rightarrow> fst c | None \<Rightarrow> NULL"
    "\<lambda>s. \<exists>st. tracer s = Some st \<and> \<not> trace_sync st" E
  for E :: hip_env
proof
  fix f args s r t
  assume i: "tracer_invoke E f args s = Some (r, t)" and "\<exists>st. tracer s = Some st \<and> \<not> trace_sync st"
  then obtain st where st: "tracer s = Some st" "\<not> trace_sync st" by blast
  obtain q u where q: "real_table E f args s = Some (q, u)" "r = ret_of f q" "own_changes u t"
    using tracer_invoke_traced [OF i st] unfolding traced_for_def by blast
  then have c: "call_real E (tr_real st) f args s = Some (q, u)" using st by (simp add: real_table_def)
  have "tracer u = tracer s" using call_real_frame [OF c] by (cases u) simp
  then have cf: "config t = config s" using q(3) by (simp add: own_changes_def config_def)
  then obtain st' where "tracer t = Some st'" "\<not> trace_sync st'"
    using st by (cases "tracer t") (auto simp: config_def)
  moreover have "(case config s of Some c \<Rightarrow> fst c | None \<Rightarrow> NULL) = tr_real st" using st by (simp add: config_def)
  ultimately show "\<exists>q u. call_real E (case config s of Some c \<Rightarrow> fst c | None \<Rightarrow> NULL) f args s = Some (q, u) \<and> r = ret_of f q \<and>
      aside u t \<and> (case config t of Some c \<Rightarrow> fst c | None \<Rightarrow> NULL) = (case config s of Some c \<Rightarrow> fst c | None \<Rightarrow> NULL) \<and>
      (\<exists>st. tracer t = Some st \<and> \<not> trace_sync st)"
    using c cf q(2,3) by (auto simp: own_changes_def)
qed

end
