(* ===== verification/Hip_Buffers.thy ===== *)
theory Hip_Buffers
  imports Hip_Tracer "HOL-Library.Multiset"
begin

text \<open>
  Correctness of the tracer's bookkeeping and dumps (\<open>hip-buffer-tracer/src/lib.rs\<close>): the slot table
  implements a bag of live allocations, a dump never indexes past the bytes it read, and around a
  kernel launch the backend sees nothing but the launch, synchronisations and device-to-host copies.
\<close>

section \<open>The slot table\<close>

text \<open>An allocation as the tracer reports it: address, size, kind and number.\<close>

type_synonym allocation = "ptr \<times> usize \<times> buffer_type \<times> u64"

definition allocation_of :: "tracked_buffer \<Rightarrow> allocation" where
  "allocation_of b = (tb_ptr b, tb_size b, tb_type b, alloc_id b)"

definition live :: "tracked_buffer list \<Rightarrow> allocation multiset" where
  "live bs = image_mset allocation_of (filter_mset in_use (mset bs))"

definition table_ok :: "buffer_table \<Rightarrow> bool" where
  "table_ok bt \<longleftrightarrow> length (bt_buffers bt) = MAX_TRACKED_BUFFERS \<and> unat (bt_count bt) = size (live (bt_buffers bt))"

lemma position_Some: "position q xs = Some i \<Longrightarrow> i < length xs \<and> q (xs ! i) \<and> (\<forall>j < i. \<not> q (xs ! j))"
proof (induction xs arbitrary: i)
  case (Cons x xs)
  then show ?case by (auto split: if_splits simp: less_Suc_eq_0_disj)
qed simp

lemma position_None: "position q xs = None \<longleftrightarrow> (\<forall>x \<in> set xs. \<not> q x)"
  by (induction xs) auto

lemma live_update:
  assumes "i < length bs"
  shows "live (bs[i := b]) = (if in_use b then {#allocation_of b#} else {#}) +
    (live bs - (if in_use (bs ! i) then {#allocation_of (bs ! i)#} else {#}))"
proof -
  obtain M where M: "mset bs = add_mset (bs ! i) M" using assms by (metis insert_DiffM nth_mem_mset)
  then have "mset (bs[i := b]) = add_mset b M" using assms by (simp add: mset_update)
  then show ?thesis using M by (simp add: live_def)
qed

lemma size_live_le: "size (live bs) \<le> length bs"
  unfolding live_def using size_filter_mset_lesseq [of in_use "mset bs"] by simp

lemma free_slot_iff: "position (\<lambda>b. \<not> in_use b) bs = None \<longleftrightarrow> size (live bs) = length bs"
proof -
  have "(\<forall>b \<in> set bs. in_use b) \<longleftrightarrow> filter_mset in_use (mset bs) = mset bs" by (simp add: filter_mset_eq_conv)
  also have "\<dots> \<longleftrightarrow> size (filter_mset in_use (mset bs)) = size (mset bs)"
    by (metis multiset_filter_subset mset_subset_size nless_le subset_mset.le_less)
  finally show ?thesis by (simp add: position_None live_def)
qed

section \<open>Messages\<close>

lemma trace_msg_ok:
  assumes "tracer s = Some st" and "trace_file st = NULL \<or> file_open s (trace_file st)"
  shows "\<exists>t. trace_msg E l m s = Some t \<and> tracer t = tracer s \<and> file_open t = file_open s \<and> tables t = tables s \<and>
    calls t = calls s"
  using assms by (cases "l > trace_level st \<or> trace_file st = NULL") (auto simp: trace_msg_def fwrite_def)

lemma raw_write_ok:
  assumes "tracer s = Some st" and "trace_file st = NULL \<or> file_open s (trace_file st)"
  shows "\<exists>t. raw_write x s = Some t \<and> tracer t = tracer s \<and> file_open t = file_open s \<and> tables t = tables s \<and>
    calls t = calls s"
  using assms by (cases "trace_file st = NULL") (auto simp: raw_write_def fwrite_def)

section \<open>Refinement\<close>

text \<open>
  What the bookkeeping promises: it holds a bag of allocations; recording one adds it under the next
  number unless the arguments are void or the bag is full, and forgetting an address takes one
  allocation at that address out, if there is one.
\<close>

locale allocation_bag =
  fixes inv :: "'s \<Rightarrow> bool"
    and bag :: "'s \<Rightarrow> allocation multiset"
    and next_id :: "'s \<Rightarrow> u64"
    and add :: "ptr \<Rightarrow> usize \<Rightarrow> buffer_type \<Rightarrow> 's \<Rightarrow> 's option"
    and forget :: "ptr \<Rightarrow> 's \<Rightarrow> 's option"
    and cap :: nat
  assumes add_bag: "inv s \<Longrightarrow> \<exists>t. add a n ty s = Some t \<and> inv t \<and>
      (if a = NULL \<or> n = 0 \<or> size (bag s) = cap then bag t = bag s \<and> next_id t = next_id s
       else bag t = add_mset (a, n, ty, next_id s) (bag s) \<and> next_id t = next_id s + 1)"
    and forget_bag: "inv s \<Longrightarrow> \<exists>t. forget a s = Some t \<and> inv t \<and> next_id t = next_id s \<and>
      (if a = NULL \<or> a \<notin> fst ` set_mset (bag s) then bag t = bag s
       else \<exists>e. e \<in># bag s \<and> fst e = a \<and> bag t = bag s - {#e#})"
    and cap_bag: "inv s \<Longrightarrow> size (bag s) \<le> cap"
begin

text \<open>How many live allocations there are at an address.\<close>

definition at :: "ptr \<Rightarrow> 's \<Rightarrow> nat" where
  "at a s = size (filter_mset (\<lambda>e. fst e = a) (bag s))"

lemma add_at:
  assumes "inv s" and "size (bag s) < cap" and "a \<noteq> NULL" and "n \<noteq> 0"
  shows "\<exists>t. add a n ty s = Some t \<and> inv t \<and> size (bag t) = Suc (size (bag s)) \<and>
    (\<forall>b. at b t = (if b = a then 1 else 0) + at b s)"
  using add_bag [OF assms(1), of a n ty] assms(2-4) by (auto simp: at_def)

lemma forget_at:
  assumes "inv s" and "a \<noteq> NULL"
  shows "\<exists>t. forget a s = Some t \<and> inv t \<and> size (bag t) \<le> size (bag s) \<and>
    (\<forall>b. at b t = (if b = a then at a s - 1 else at b s))"
proof -
  obtain t where t: "forget a s = Some t" "inv t"
    "if a \<notin> fst ` set_mset (bag s) then bag t = bag s else \<exists>e. e \<in># bag s \<and> fst e = a \<and> bag t = bag s - {#e#}"
    using forget_bag [OF assms(1), of a] assms(2) by auto
  show ?thesis
  proof (cases "a \<in> fst ` set_mset (bag s)")
    case True
    then obtain e where e: "e \<in># bag s" "fst e = a" "bag t = bag s - {#e#}" using t(3) by auto
    then obtain M where "bag s = add_mset e M" by (metis insert_DiffM)
    then show ?thesis using t e by (auto simp: at_def)
  next
    case False
    then have z: "filter_mset (\<lambda>e. fst e = a) (bag s) = {#}" by (intro multiset_eqI) (force simp: count_eq_zero_iff)
    have "bag t = bag s" using t(3) False by simp
    then show ?thesis using t(1,2) by (intro exI [of _ t]) (simp add: at_def z)
  qed
qed

end

text \<open>The tracer's table is such a bag, of at most 65536 allocations.\<close>

definition buffers_ready :: "hip \<Rightarrow> bool" where
  "buffers_ready s \<longleftrightarrow> (\<exists>st. tracer s = Some st \<and> table_ok (buffers st) \<and>
     (trace_file st = NULL \<or> file_open s (trace_file st)))"

definition live_buffers :: "hip \<Rightarrow> allocation multiset" where
  "live_buffers s = (case tracer s of Some st \<Rightarrow> live (bt_buffers (buffers st)) | None \<Rightarrow> {#})"

definition next_buffer_id :: "hip \<Rightarrow> u64" where
  "next_buffer_id s = (case tracer s of Some st \<Rightarrow> next_alloc_id (buffers st) | None \<Rightarrow> 0)"

lemma count_add:
  assumes "unat (c :: u64) < 65536"
  shows "unat (c + 1) = Suc (unat c)"
  using assms word64_no_overflow [of c 1] by simp

lemma add_refines:
  assumes "buffers_ready s"
  shows "\<exists>t. buffer_table_add E a n ty s = Some t \<and> buffers_ready t \<and>
    (if a = NULL \<or> n = 0 \<or> size (live_buffers s) = MAX_TRACKED_BUFFERS
     then live_buffers t = live_buffers s \<and> next_buffer_id t = next_buffer_id s
     else live_buffers t = add_mset (a, n, ty, next_buffer_id s) (live_buffers s) \<and> next_buffer_id t = next_buffer_id s + 1)"
proof -
  obtain st where st: "tracer s = Some st" "table_ok (buffers st)" "trace_file st = NULL \<or> file_open s (trace_file st)"
    using assms by (auto simp: buffers_ready_def)
  let ?bs = "bt_buffers (buffers st)"
  have len: "length ?bs = MAX_TRACKED_BUFFERS" and cnt: "unat (bt_count (buffers st)) = size (live ?bs)"
    using st(2) by (auto simp: table_ok_def)
  show ?thesis
  proof (cases "a = NULL \<or> n = 0")
    case True
    then show ?thesis using st assms by (auto simp: buffer_table_add_def)
  next
    case False
    note nz = False
    show ?thesis
    proof (cases "position (\<lambda>b. \<not> in_use b) ?bs")
      case None
      then have full: "size (live_buffers s) = MAX_TRACKED_BUFFERS"
        using st len by (simp add: free_slot_iff live_buffers_def)
      obtain t where t: "trace_msg E 1 (''WARNING: buffer table full, cannot track '' @ p a) s = Some t"
        "tracer t = tracer s" "file_open t = file_open s"
        using trace_msg_ok [OF st(1,3)] by blast
      then have "buffer_table_add E a n ty s = Some t"
        using st nz None by (simp add: buffer_table_add_def)
      then show ?thesis
        using t(2,3) full assms by (simp add: buffers_ready_def live_buffers_def next_buffer_id_def)
    next
      case (Some i)
      have i: "i < length ?bs" "\<not> in_use (?bs ! i)" using position_Some [OF Some] by auto
      have nf: "size (live ?bs) \<noteq> length ?bs" using Some free_slot_iff [of ?bs] by auto
      then have lt: "unat (bt_count (buffers st)) < 65536"
        using size_live_le [of ?bs] len cnt by (simp add: MAX_TRACKED_BUFFERS_def)
      let ?b = "\<lparr>tb_ptr = a, tb_size = n, tb_type = ty, in_use = True, alloc_id = next_alloc_id (buffers st)\<rparr>"
      let ?st = "st\<lparr>buffers := \<lparr>bt_buffers = ?bs[i := ?b], bt_count = bt_count (buffers st) + 1,
          next_alloc_id = next_alloc_id (buffers st) + 1\<rparr>\<rparr>"
      have l: "live (?bs[i := ?b]) = add_mset (a, n, ty, next_alloc_id (buffers st)) (live ?bs)"
        using live_update [OF i(1), of ?b] i(2) by (simp add: allocation_of_def)
      have "table_ok (buffers ?st)" using l len cnt count_add [OF lt] by (simp add: table_ok_def)
      then have "buffers_ready (s\<lparr>tracer := Some ?st\<rparr>)" using st by (auto simp: buffers_ready_def)
      moreover have "buffer_table_add E a n ty s = Some (s\<lparr>tracer := Some ?st\<rparr>)"
        using st Some nz by (simp add: buffer_table_add_def Let_def)
      ultimately show ?thesis
        using l nz nf len st by (simp add: live_buffers_def next_buffer_id_def)
    qed
  qed
qed

lemma remove_refines:
  assumes "buffers_ready s"
  shows "\<exists>t. buffer_table_remove a s = Some t \<and> buffers_ready t \<and> next_buffer_id t = next_buffer_id s \<and>
    (if a = NULL \<or> a \<notin> fst ` set_mset (live_buffers s) then live_buffers t = live_buffers s
     else \<exists>e. e \<in># live_buffers s \<and> fst e = a \<and> live_buffers t = live_buffers s - {#e#})"
proof -
  obtain st where st: "tracer s = Some st" "table_ok (buffers st)" "trace_file st = NULL \<or> file_open s (trace_file st)"
    using assms by (auto simp: buffers_ready_def)
  let ?bs = "bt_buffers (buffers st)" and ?q = "\<lambda>b. in_use b \<and> tb_ptr b = a"
  have mem: "a \<in> fst ` set_mset (live ?bs) \<longleftrightarrow> (\<exists>b \<in> set ?bs. ?q b)"
    by (force simp: live_def allocation_of_def image_iff)
  show ?thesis
  proof (cases "position ?q ?bs")
    case None
    then have "a \<notin> fst ` set_mset (live_buffers s)" using mem st by (simp add: position_None live_buffers_def)
    then show ?thesis using None st assms by (auto simp: buffer_table_remove_def)
  next
    case (Some i)
    have i: "i < length ?bs" "?q (?bs ! i)" using position_Some [OF Some] by auto
    then have m: "a \<in> fst ` set_mset (live_buffers s)" using mem st by (auto simp: live_buffers_def)
    let ?b = "(?bs ! i)\<lparr>in_use := False\<rparr>" and ?e = "allocation_of (?bs ! i)"
    let ?st = "st\<lparr>buffers := (buffers st)\<lparr>bt_buffers := ?bs[i := ?b], bt_count := bt_count (buffers st) - 1\<rparr>\<rparr>"
    have l: "live (?bs[i := ?b]) = live ?bs - {#?e#}" using live_update [OF i(1), of ?b] i(2) by simp
    have e: "?e \<in># live ?bs" "fst ?e = a" using i by (auto simp: live_def allocation_of_def)
    have c: "unat (bt_count (buffers st)) = size (live ?bs)" using st(2) by (simp add: table_ok_def)
    then have "bt_count (buffers st) \<noteq> 0" using e(1) by (metis empty_iff set_mset_empty size_eq_0_iff_empty unat_0)
    then have "unat (bt_count (buffers st) - 1) = unat (bt_count (buffers st)) - 1" by (rule unat_minus_one)
    then have "table_ok (buffers ?st)" using st(2) l e c by (simp add: table_ok_def size_Diff_singleton)
    then have rdy: "buffers_ready (s\<lparr>tracer := Some ?st\<rparr>)" using st by (auto simp: buffers_ready_def)
    show ?thesis
    proof (cases "a = NULL")
      case True
      then show ?thesis using st assms by (auto simp: buffer_table_remove_def)
    next
      case False
      then have "buffer_table_remove a s = Some (s\<lparr>tracer := Some ?st\<rparr>)"
        using st Some by (simp add: buffer_table_remove_def Let_def)
      moreover have "?e \<in># live_buffers s" "live_buffers (s\<lparr>tracer := Some ?st\<rparr>) = live_buffers s - {#?e#}"
        "next_buffer_id (s\<lparr>tracer := Some ?st\<rparr>) = next_buffer_id s"
        using e l st by (simp_all add: live_buffers_def next_buffer_id_def)
      moreover from this have "\<exists>e. e \<in># live_buffers s \<and> fst e = a \<and>
          live_buffers (s\<lparr>tracer := Some ?st\<rparr>) = live_buffers s - {#e#}" using e(2) by blast
      ultimately show ?thesis
        using False m rdy by (intro exI [of _ "s\<lparr>tracer := Some ?st\<rparr>"]) (simp del: split_paired_Ex)
    qed
  qed
qed

interpretation tracked: allocation_bag buffers_ready live_buffers next_buffer_id "buffer_table_add E"
    buffer_table_remove MAX_TRACKED_BUFFERS
  for E :: hip_env
proof
  fix s
  assume "buffers_ready s"
  then obtain st where "tracer s = Some st" "length (bt_buffers (buffers st)) = MAX_TRACKED_BUFFERS"
    by (auto simp: buffers_ready_def table_ok_def)
  then show "size (live_buffers s) \<le> MAX_TRACKED_BUFFERS"
    using size_live_le [of "bt_buffers (buffers st)"] by (simp add: live_buffers_def)
qed (use add_refines remove_refines in blast)+

subsection \<open>Runs\<close>

text \<open>The allocations and frees the wrappers report, and how many allocations they leave live at an address.\<close>

datatype mem_event = Allocated ptr usize buffer_type | Freed ptr

fun track :: "hip_env \<Rightarrow> mem_event list \<Rightarrow> hip \<Rightarrow> hip option" where
  "track E [] s = Some s"
| "track E (Allocated a n ty # es) s = do { s \<leftarrow> buffer_table_add E a n ty s; track E es s }"
| "track E (Freed a # es) s = do { s \<leftarrow> buffer_table_remove a s; track E es s }"

fun live_after :: "mem_event list \<Rightarrow> (ptr \<Rightarrow> nat) \<Rightarrow> ptr \<Rightarrow> nat" where
  "live_after [] f = f"
| "live_after (Allocated a n ty # es) f = live_after es (f(a := f a + 1))"
| "live_after (Freed a # es) f = live_after es (f(a := f a - 1))"

fun valid_event :: "mem_event \<Rightarrow> bool" where
  "valid_event (Allocated a n ty) = (a \<noteq> NULL \<and> n \<noteq> 0)"
| "valid_event (Freed a) = (a \<noteq> NULL)"

fun allocations :: "mem_event list \<Rightarrow> nat" where
  "allocations [] = 0"
| "allocations (Allocated a n ty # es) = Suc (allocations es)"
| "allocations (Freed a # es) = allocations es"

definition live_at :: "hip \<Rightarrow> ptr \<Rightarrow> nat" where
  "live_at s a = size (filter_mset (\<lambda>e. fst e = a) (live_buffers s))"

lemma live_at_tracked: "live_at s a = tracked.at a s"
  by (simp add: live_at_def tracked.at_def)

lemma track_counts:
  assumes "buffers_ready s" and "size (live_buffers s) + allocations es \<le> MAX_TRACKED_BUFFERS"
    and "list_all valid_event es"
  shows "\<exists>t. track E es s = Some t \<and> buffers_ready t \<and> live_at t = live_after es (live_at s)"
  using assms
proof (induction es arbitrary: s)
  case Nil
  then show ?case by simp
next
  case (Cons e es)
  show ?case
  proof (cases e)
    case (Allocated a n ty)
    obtain t where t: "buffer_table_add E a n ty s = Some t" "buffers_ready t"
      "size (live_buffers t) = Suc (size (live_buffers s))"
      "\<And>b. tracked.at b t = (if b = a then 1 else 0) + tracked.at b s"
      using tracked.add_at [OF Cons.prems(1), of a n E ty] Cons.prems(2,3) Allocated by auto
    have "live_at t = (live_at s)(a := live_at s a + 1)" using t(4) by (auto simp: live_at_tracked fun_eq_iff)
    then show ?thesis using Cons.IH [OF t(2)] Cons.prems t(1,3) Allocated by (auto simp: fun_upd_def)
  next
    case (Freed a)
    have nz: "a \<noteq> NULL" using Cons.prems(3) Freed by simp
    obtain t where t: "buffer_table_remove a s = Some t" "buffers_ready t"
      "size (live_buffers t) \<le> size (live_buffers s)"
      "\<And>b. tracked.at b t = (if b = a then tracked.at a s - 1 else tracked.at b s)"
      using tracked.forget_at [OF Cons.prems(1) nz] by auto
    have "live_at t = (live_at s)(a := live_at s a - 1)" using t(4) by (auto simp: live_at_tracked fun_eq_iff)
    then show ?thesis using Cons.IH [OF t(2)] Cons.prems t(1,3) Freed by (auto simp: fun_upd_def)
  qed
qed

section \<open>Dumps\<close>

text \<open>The text of byte \<open>i\<close> of a dump with what follows it.\<close>

definition hex_cell :: "u8 list \<Rightarrow> nat \<Rightarrow> string" where
  "hex_cell data i = pad0 2 (hex (unat (data ! i))) @
     (if (i + 1) mod 32 = 0 then CHR 0x0A # ''    '' else if (i + 1) mod 4 = 0 then '' '' else [])"

lemma hex_loop_eq:
  assumes "n \<le> length data"
  shows "hex_loop data i n out = Some (out @ concat (map (hex_cell data) [i ..< n]))"
  using assms
proof (induction data i n out rule: hex_loop.induct)
  case (1 data i n out)
  show ?case
  proof (cases "n \<le> i")
    case True
    then show ?thesis by (subst hex_loop.simps) simp
  next
    case False
    then have "[i ..< n] = i # [i + 1 ..< n]" by (simp add: upt_conv_Cons)
    moreover have "hex_loop data i n out = hex_loop data (i + 1) n (out @ hex_cell data i)"
      using False 1(2) by (subst hex_loop.simps) (simp add: hex_cell_def)
    ultimately show ?thesis using 1(1) [of] False 1(2) by (simp add: hex_cell_def)
  qed
qed

text \<open>
  The calls that tracing adds to those of the program: a synchronisation or a copy to the host.
\<close>

definition real_slots :: "hip \<Rightarrow> hip_fn \<Rightarrow> hip_impl option" where
  "real_slots s f = do { st \<leftarrow> tracer s; tb \<leftarrow> tables s (tr_real st); slots tb f }"

definition probe :: "(hip_fn \<Rightarrow> hip_impl option) \<Rightarrow> hip_call \<Rightarrow> bool" where
  "probe R c \<longleftrightarrow> (\<exists>a. R hipDeviceSynchronize = Some (Backend a) \<and> c = (a, [])) \<or>
     (\<exists>a d b n. R hipMemcpy = Some (Backend a) \<and> c = (a, [APtr d, APtr b, ASize n, AInt 2]))"

definition probes :: "(hip_fn \<Rightarrow> hip_impl option) \<Rightarrow> hip_history \<Rightarrow> bool" where
  "probes R cs \<longleftrightarrow> (\<forall>c \<in> set cs. probe R (fst c))"

definition probes_to :: "hip \<Rightarrow> hip \<Rightarrow> bool" where
  "probes_to s t \<longleftrightarrow> tracer t = tracer s \<and> file_open t = file_open s \<and> tables t = tables s \<and>
     (\<exists>cs. calls t = calls s @ cs \<and> probes (real_slots s) cs)"

lemma real_slots_cong: "tracer t = tracer s \<Longrightarrow> tables t = tables s \<Longrightarrow> real_slots t = real_slots s"
  by (simp add: real_slots_def fun_eq_iff)

lemma probes_append [simp]: "probes R (xs @ ys) \<longleftrightarrow> probes R xs \<and> probes R ys"
  by (auto simp: probes_def)

lemma probes_to_refl [simp]: "probes_to s s"
  by (simp add: probes_to_def probes_def)

lemma probes_to_trans: "probes_to s t \<Longrightarrow> probes_to t u \<Longrightarrow> probes_to s u"
  using real_slots_cong [of t s] by (auto simp: probes_to_def)

lemma probes_to_same:
  "tracer t = tracer s \<Longrightarrow> file_open t = file_open s \<Longrightarrow> tables t = tables s \<Longrightarrow> calls t = calls s \<Longrightarrow> probes_to s t"
  by (simp add: probes_to_def probes_def)

text \<open>What a dump needs: the tracer, an open stream or none, and \<open>hipMemcpy\<close> in the real table.\<close>

definition can_trace :: "hip_fn list \<Rightarrow> hip \<Rightarrow> bool" where
  "can_trace fs s \<longleftrightarrow> (\<exists>st tb. tracer s = Some st \<and> (trace_file st = NULL \<or> file_open s (trace_file st)) \<and>
     tables s (tr_real st) = Some tb \<and> (\<forall>f \<in> set fs. \<exists>a. slots tb f = Some (Backend a)))"

lemma can_trace_probes: "can_trace fs s \<Longrightarrow> probes_to s t \<Longrightarrow> can_trace fs t"
  by (simp add: can_trace_def probes_to_def)

lemma can_trace_subset: "can_trace fs s \<Longrightarrow> set gs \<subseteq> set fs \<Longrightarrow> can_trace gs s"
  unfolding can_trace_def by blast

lemma can_trace_msg: "can_trace fs s \<Longrightarrow> \<exists>t. trace_msg E l m s = Some t \<and> probes_to s t"
  using trace_msg_ok [of s _ E l m] probes_to_same [of _ s] by (metis can_trace_def)

lemma can_raw_write: "can_trace fs s \<Longrightarrow> \<exists>t. raw_write x s = Some t \<and> probes_to s t"
  using raw_write_ok [of s _ x] probes_to_same [of _ s] by (metis can_trace_def)

text \<open>A call through the real table, of a function that is there.\<close>

lemma can_call:
  assumes "can_trace fs s" and "f \<in> set fs"
  shows "\<exists>a q t. real_table E f args s = Some (q, t) \<and> tracer t = tracer s \<and> file_open t = file_open s \<and>
    tables t = tables s \<and> calls t = calls s @ [((a, args), q)] \<and> real_slots s f = Some (Backend a)"
proof -
  obtain st tb a where st: "tracer s = Some st" "tables s (tr_real st) = Some tb" "slots tb f = Some (Backend a)"
    using assms by (auto simp: can_trace_def)
  then have "real_table E f args s = Some (invoke_sym E a args s)" by (simp add: real_table_def call_real_def)
  moreover have "real_slots s f = Some (Backend a)" using st by (simp add: real_slots_def)
  ultimately show ?thesis by (auto simp: invoke_sym_def Let_def)
qed

lemma read_buffer_ok:
  assumes "can_trace [hipMemcpy] s"
  shows "\<exists>d stg t. read_buffer E b n staging s = Some (d, stg, t) \<and> probes_to s t \<and>
    (\<forall>data. d = Inr data \<longrightarrow> length data = unat n)"
proof (cases "tb_type b = BufDevice")
  case True
  let ?a = "staging_addr E n"
  let ?s = "s\<lparr>hmem := write_bytes (zip [?a ..< ?a + unat n] (resize staging (unat n))) (hmem s)\<rparr>"
  let ?args = "[APtr ?a, APtr (tb_ptr b), ASize n, AInt 2]"
  have "can_trace [hipMemcpy] ?s" using assms by (simp add: can_trace_def)
  then obtain a q u where q: "real_table E hipMemcpy ?args ?s = Some (q, u)" "tracer u = tracer s"
      "file_open u = file_open s" "tables u = tables s" "calls u = calls s @ [((a, ?args), q)]"
      "real_slots s hipMemcpy = Some (Backend a)"
    using real_slots_cong [of ?s s] can_call [of "[hipMemcpy]" ?s hipMemcpy E ?args] by auto
  then have "probes_to s u" by (simp add: probes_to_def probes_def probe_def)
  moreover have "read_buffer E b n staging s = Some (if h_ret q \<noteq> 0 then Inl (h_ret q) else Inr (peek_bytes ?a (unat n) u),
      peek_bytes ?a (unat n) u, u)"
    using True q(1) by (simp add: read_buffer_def Let_def)
  ultimately show ?thesis by (simp add: peek_bytes_def)
next
  case False
  then show ?thesis by (simp add: read_buffer_def peek_bytes_def)
qed

lemma dump_buffer_hex_ok:
  assumes "can_trace fs s" and "min (unat n) (unat mx) \<le> length data"
  shows "\<exists>t. dump_buffer_hex data n mx s = Some t \<and> probes_to s t"
  using can_raw_write [OF assms(1)] hex_loop_eq [OF assms(2), of 0 "''    ''"]
  unfolding dump_buffer_hex_def Let_def by force

lemma dump_used_ok:
  assumes "can_trace [hipMemcpy] s" and st: "tracer s = Some st" and used: "\<not> (\<not> in_use b \<or> tb_size b = 0)"
    and rest: "\<And>stg t. probes_to s t \<Longrightarrow> \<exists>u. dump_loop E force bs stg t = Some u \<and> probes_to s u"
  shows "\<exists>t. dump_loop E force (b # bs) staging s = Some t \<and> probes_to s t"
proof -
  let ?mx = "if force then tb_size b else trace_dump_max st"
  let ?n = "if \<not> force \<and> trace_dump_max st > 0 \<and> tb_size b > trace_dump_max st then trace_dump_max st else tb_size b"
  have le: "min (unat (tb_size b)) (unat ?mx) \<le> unat ?n" by (auto simp: word_less_nat_alt)
  obtain d stg t where d: "read_buffer E b ?n staging s = Some (d, stg, t)" "probes_to s t"
    "\<And>data. d = Inr data \<Longrightarrow> length data = unat ?n"
    using read_buffer_ok [OF assms(1), of E b ?n staging] by blast
  have ct: "can_trace [hipMemcpy] t" using can_trace_probes [OF assms(1) d(2)] .
  note to_s = probes_to_trans [OF d(2)]
  consider err where "d = Inl err" | data where "d = Inr data" "trace_dump st = 2 \<and> \<not> force"
    | data where "d = Inr data" "\<not> (trace_dump st = 2 \<and> \<not> force)" by (cases d) auto
  then show ?thesis
  proof cases
    case 1
    obtain u where u: "trace_msg E 1 (dump_line b @ '' - MEMCPY FAILED: '' @ show_int err) t = Some u" "probes_to t u"
      using can_trace_msg [OF ct] by blast
    then show ?thesis using rest [OF to_s [OF u(2)]] st used d(1) 1 by (simp add: Let_def)
  next
    case 2
    obtain u where u: "raw_write (dump_line b @ '' hash=0x'' @ pad0 16 (hex (unat (compute_hash data))) @ [CHR 0x0A]) t = Some u"
        "probes_to t u"
      using can_raw_write [OF ct] by blast
    then show ?thesis using rest [OF to_s [OF u(2)]] st used d(1) 2 by (simp add: Let_def)
  next
    case 3
    obtain u where u: "raw_write (dump_line b @ '':'' @ [CHR 0x0A]) t = Some u" "probes_to t u"
      using can_raw_write [OF ct] by blast
    obtain v where v: "dump_buffer_hex data (tb_size b) ?mx u = Some v" "probes_to u v"
      using dump_buffer_hex_ok [OF can_trace_probes [OF ct u(2)], of "tb_size b" ?mx data] le d(3) [OF 3(1)] by auto
    obtain w where w: "dump_loop E force bs stg v = Some w" "probes_to s w"
      using rest [OF to_s [OF probes_to_trans [OF u(2) v(2)]]] by blast
    have "dump_loop E force (b # bs) staging s = Some w"
      using st used d(1) 3(1) u(1) v(1) w(1) by (simp add: Let_def if_not_P [OF 3(2)])
    then show ?thesis using w(2) by blast
  qed
qed

lemma dump_loop_ok:
  assumes "can_trace [hipMemcpy] s"
  shows "\<exists>t. dump_loop E force bs staging s = Some t \<and> probes_to s t"
  using assms
proof (induction bs arbitrary: staging s)
  case Nil
  then show ?case by simp
next
  case (Cons b bs)
  obtain st where st: "tracer s = Some st" using Cons.prems by (auto simp: can_trace_def)
  have rest: "\<exists>u. dump_loop E force bs stg t = Some u \<and> probes_to s u" if "probes_to s t" for stg t
    using Cons.IH [OF can_trace_probes [OF Cons.prems that]] probes_to_trans [OF that] by blast
  show ?case
    using dump_used_ok [OF Cons.prems st _ rest] st Cons by (cases "\<not> in_use b \<or> tb_size b = 0") auto
qed

lemma dump_all_ok:
  assumes "can_trace [hipMemcpy] s"
  shows "\<exists>t. dump_all_buffers_ex E label force s = Some t \<and> probes_to s t"
proof -
  obtain st where st: "tracer s = Some st" using assms by (auto simp: can_trace_def)
  show ?thesis
  proof (cases "trace_dump st = 0")
    case True
    then show ?thesis using st by (simp add: dump_all_buffers_ex_def)
  next
    case False
    obtain t where t: "trace_msg E 3 (''=== Buffer Dump: '' @ label @ '' ('' @ decimal (unat (bt_count (buffers st))) @
              '' buffers)'' @ (if force then '' [FULL DUMP]'' else []) @ '' ==='') s = Some t" "probes_to s t"
      using can_trace_msg [OF assms] by blast
    then obtain u where "dump_loop E force (bt_buffers (buffers st)) [] t = Some u" "probes_to t u"
      using dump_loop_ok can_trace_probes [OF assms] by blast
    then show ?thesis using st False t probes_to_trans by (auto simp: dump_all_buffers_ex_def)
  qed
qed

section \<open>Launches\<close>

definition launch_slots :: "hip_fn list" where
  "launch_slots = [hipModuleLaunchKernel, hipLaunchKernel, hipExtModuleLaunchKernel]"

lemma full_dump_ok:
  assumes "can_trace fs s"
  shows "\<exists>b t. should_full_dump_kernel E name s = Some (b, t) \<and> probes_to s t"
proof -
  obtain st where st: "tracer s = Some st" using assms by (auto simp: can_trace_def)
  have "\<exists>b t. (do { s \<leftarrow> trace_msg E 3 x s; Some (True, s) }) = Some (b, t) \<and> probes_to s t" for x
    using can_trace_msg [OF assms, of E 3 x] by auto
  then show ?thesis using st by (auto simp: should_full_dump_kernel_def split: option.splits)
qed

lemma sync_and_dump_ok:
  assumes "can_trace [hipMemcpy, hipDeviceSynchronize, f] s"
  shows "\<exists>t. sync_and_dump E label full s = Some t \<and> probes_to s t"
proof -
  obtain q u where q: "real_table E hipDeviceSynchronize [] s = Some (q, u)" "probes_to s u"
    using can_call [OF assms, of hipDeviceSynchronize E "[]"] by (auto simp: probes_to_def probes_def probe_def)
  then have "can_trace [hipMemcpy] u"
    using can_trace_subset [OF can_trace_probes [OF assms], of u "[hipMemcpy]"] by auto
  then obtain t where "dump_all_buffers_ex E label full u = Some t" "probes_to u t" using dump_all_ok by blast
  then show ?thesis using q probes_to_trans by (auto simp: sync_and_dump_def)
qed

lemma maybe_dump_ok:
  assumes "can_trace [hipMemcpy, hipDeviceSynchronize, f] s"
  shows "\<exists>t. (if c then sync_and_dump E label full s else Some s) = Some t \<and> probes_to s t"
  using sync_and_dump_ok [OF assms] by (cases c) auto

lemma count_kernel_ok:
  assumes "can_trace fs s"
  shows "\<exists>t. count_kernel s = Some t \<and> can_trace fs t \<and> calls t = calls s \<and> real_slots t = real_slots s"
  using assms by (auto simp: can_trace_def count_kernel_def real_slots_def fun_eq_iff)

text \<open>A launch makes its call exactly once, between probes.\<close>

definition launched :: "hip_fn \<Rightarrow> hip_arg list \<Rightarrow> hip \<Rightarrow> i32 \<Rightarrow> hip \<Rightarrow> bool" where
  "launched f args s e t \<longleftrightarrow> (\<exists>pre a q post. calls t = calls s @ pre @ [((a, args), q)] @ post \<and> e = h_ret q \<and>
     real_slots s f = Some (Backend a) \<and> probes (real_slots s) pre \<and> probes (real_slots s) post)"

lemma trace_launch_ok:
  assumes "can_trace [hipMemcpy, hipDeviceSynchronize, slot] s"
  shows "\<exists>e t. trace_launch E slot func msg args s = Some (e, t) \<and> launched slot args s e t"
proof -
  let ?fs = "[hipMemcpy, hipDeviceSynchronize, slot]"
  obtain st where st: "tracer s = Some st" using assms by (auto simp: can_trace_def)
  let ?name = "kernel_table_get_name st func"
  let ?shown = "case ?name of Some n \<Rightarrow> n | None \<Rightarrow> ''(unknown)''"
  let ?tr = "should_trace_kernel st ?name"
  obtain full s1 where s1: "should_full_dump_kernel E ?name s = Some (full, s1)" "probes_to s s1"
    using full_dump_ok [OF assms] by blast
  obtain s2 where s2: "(if ?tr \<and> trace_sync st
      then sync_and_dump E (''BEFORE kernel #'' @ show_int (kernel_count st) @ '': '' @ ?shown) full s1 else Some s1) = Some s2"
      "probes_to s1 s2"
    using maybe_dump_ok [OF can_trace_probes [OF assms s1(2)]] by blast
  have p2: "probes_to s s2" using s1(2) s2(2) probes_to_trans by blast
  obtain s3 where s3: "trace_msg E 2 (msg (case ?name of Some n \<Rightarrow> n | None \<Rightarrow> ''?'')) s2 = Some s3" "probes_to s2 s3"
    using can_trace_msg [OF can_trace_probes [OF assms p2]] by blast
  have p3: "probes_to s s3" using p2 s3(2) probes_to_trans by blast
  obtain a q s4 where s4: "real_table E slot args s3 = Some (q, s4)" "tracer s4 = tracer s3" "file_open s4 = file_open s3"
      "tables s4 = tables s3" "calls s4 = calls s3 @ [((a, args), q)]" "real_slots s3 slot = Some (Backend a)"
    using can_call [OF can_trace_probes [OF assms p3], of slot E args] by auto
  have c4: "can_trace ?fs s4" using can_trace_probes [OF assms p3] s4 by (simp add: can_trace_def)
  obtain s5 where s5: "(if ?tr \<and> trace_sync st
      then sync_and_dump E (''AFTER kernel #'' @ show_int (kernel_count st) @ '': '' @ ?shown @ '' (ret='' @
        show_int (h_ret q) @ '')'') full s4 else Some s4) = Some s5" "probes_to s4 s5"
    using maybe_dump_ok [OF c4] by blast
  obtain s6 where s6: "(if ?tr then count_kernel s5 else Some s5) = Some s6" "can_trace ?fs s6" "calls s6 = calls s5" "real_slots s6 = real_slots s5"
    using count_kernel_ok [OF can_trace_probes [OF c4 s5(2)]] can_trace_probes [OF c4 s5(2)] by (cases ?tr) auto
  obtain t where t: "trace_msg E 2 (''  -> '' @ show_int (h_ret q)) s6 = Some t" "probes_to s6 t"
    using can_trace_msg [OF s6(2)] by blast
  have "trace_launch E slot func msg args s = Some (h_ret q, t)"
    unfolding trace_launch_def Let_def using st s1(1) s2(1) s3(1) s4(1) s5(1) s6(1) t(1) by simp
  moreover have "launched slot args s (h_ret q) t"
  proof -
    obtain pre where "calls s3 = calls s @ pre" "probes (real_slots s) pre" "real_slots s3 = real_slots s"
      using p3 real_slots_cong [of s3 s] by (auto simp: probes_to_def)
    moreover have "real_slots s4 = real_slots s3" "real_slots s6 = real_slots s5" "real_slots s5 = real_slots s4"
      using real_slots_cong [of s4 s3] s4 s5(2) real_slots_cong [of s5 s4] s6(4) by (auto simp: probes_to_def)
    moreover obtain post where "calls t = calls s4 @ post" "probes (real_slots s4) post"
      using s5(2) s6(3) t(2) calculation by (auto simp: probes_to_def)
    ultimately show ?thesis using s4(5,6) by (auto simp: launched_def)
  qed
  ultimately show ?thesis by blast
qed

section \<open>Properties\<close>

text \<open>
  C7. The slot table refines a bag of allocations. Recording adds the allocation under the next
  number, unless it is void or 65536 are live; forgetting takes one allocation at the address out
  if there is one; and over any sequence of allocations and frees, as long as no more than 65536 were
  recorded, the number of slots in use at each address is the number of allocations at it minus
  the frees that found one.
\<close>

theorem buffer_table_refines:
  assumes "buffers_ready s" and "size (live_buffers s) + allocations es \<le> MAX_TRACKED_BUFFERS" and "list_all valid_event es"
  shows "(\<forall>a n ty. \<exists>t. buffer_table_add E a n ty s = Some t \<and> buffers_ready t \<and>
      live_buffers t = (if a = NULL \<or> n = 0 \<or> size (live_buffers s) = MAX_TRACKED_BUFFERS then live_buffers s
        else add_mset (a, n, ty, next_buffer_id s) (live_buffers s))) \<and>
    (\<forall>a. \<exists>t. buffer_table_remove a s = Some t \<and> buffers_ready t \<and>
      (if a = NULL \<or> a \<notin> fst ` set_mset (live_buffers s) then live_buffers t = live_buffers s
       else \<exists>e. e \<in># live_buffers s \<and> fst e = a \<and> live_buffers t = live_buffers s - {#e#})) \<and>
    (\<exists>t. track E es s = Some t \<and> buffers_ready t \<and> live_at t = live_after es (live_at s))"
proof -
  have "\<exists>t. buffer_table_add E a n ty s = Some t \<and> buffers_ready t \<and>
      live_buffers t = (if a = NULL \<or> n = 0 \<or> size (live_buffers s) = MAX_TRACKED_BUFFERS then live_buffers s
        else add_mset (a, n, ty, next_buffer_id s) (live_buffers s))" for a n ty
    using tracked.add_bag [OF assms(1), of E a n ty] by (auto split: if_splits)
  moreover have "\<exists>t. buffer_table_remove a s = Some t \<and> buffers_ready t \<and>
      (if a = NULL \<or> a \<notin> fst ` set_mset (live_buffers s) then live_buffers t = live_buffers s
       else \<exists>e. e \<in># live_buffers s \<and> fst e = a \<and> live_buffers t = live_buffers s - {#e#})" for a
    using tracked.forget_bag [OF assms(1), of a] by blast
  ultimately show ?thesis using track_counts [OF assms] by blast
qed


text \<open>A process with a complete backend, traced with synchronisation and dumps, no stream for the trace.\<close>

definition demo_hip_env :: hip_env where
  "demo_hip_env = \<lparr>env_var = (\<lambda>k. if k = ''HIP_TRACE_SYNC'' \<or> k = ''HIP_TRACE_DUMP'' then Some ''1'' else None),
     dlopen_backend = (\<lambda>_. 5), dlopen_interceptor = (\<lambda>_. Some TracerLib), dlsym = (\<lambda>_ _. 7),
     backend = (\<lambda>_ _ _. \<lparr>h_ret = 0, h_res = 9, h_writes = []\<rparr>), fopen = (\<lambda>_. NULL), fdopen_stderr = NULL,
     clock_gettime = (\<lambda>_. (0, 0)), staging_addr = (\<lambda>_. 4096)\<rparr>"

definition demo_table :: hip_table where
  "demo_table = \<lparr>tbl_version = 1, tbl_struct_size = 400, slots = (\<lambda>_. Some (Backend 7))\<rparr>"

definition demo_traced :: hip where
  "demo_traced = hip_initial\<lparr>tables := [1 \<mapsto> demo_table],
     tracer := Some (initial_tracer demo_hip_env 1 2 NULL False)\<rparr>"

lemma live_empty_slots: "live (replicate n empty_slot) = {#}"
  by (induction n) (simp_all add: live_def empty_slot_def)

lemma demo_traced_ready: "buffers_ready demo_traced" "live_buffers demo_traced = {#}" "can_trace fs demo_traced"
  by (auto simp: buffers_ready_def demo_traced_def initial_tracer_def table_ok_def live_empty_slots live_buffers_def
      can_trace_def hip_initial_def demo_table_def)

theorem buffer_table_refines_witness:
  "\<exists>t. track demo_hip_env [Allocated 64 16 BufDevice, Allocated 96 8 BufHost, Freed 64] demo_traced = Some t \<and>
     live_at t 64 = 0 \<and> live_at t 96 = 1"
proof -
  let ?es = "[Allocated 64 16 BufDevice, Allocated 96 8 BufHost, Freed 64]"
  have "size (live_buffers demo_traced) + allocations ?es \<le> MAX_TRACKED_BUFFERS" "list_all valid_event ?es"
    by (simp_all add: demo_traced_ready MAX_TRACKED_BUFFERS_def)
  from buffer_table_refines [OF demo_traced_ready(1) this] obtain t where
    "track demo_hip_env ?es demo_traced = Some t" "live_at t = live_after ?es (live_at demo_traced)" by blast
  moreover have "live_at demo_traced a = 0" for a by (simp add: live_at_def demo_traced_ready)
  ultimately show ?thesis by simp
qed


end
