(* ===== verification/Hip_Intercept.thy ===== *)
theory Hip_Intercept
  imports Hip_Logging Hip_Buffers
begin

text \<open>
  The passthrough library (\<open>hip-intercept/src/lib.rs\<close>), loaded in place of the HIP runtime: it opens
  the real library, fills the function table from it, hands the table to an interceptor if one is
  configured, and forwards every exported function through the active table. The no-op interceptor
  (\<open>hip-noop/src/lib.rs\<close>) is here too.

  \<open>std::sync::Once\<close> runs the initialisation once, before any forwarded call; an initialisation that
  aborts is \<open>None\<close>.

  The theory shows that interception is transparent from the start of the process on, for the logging
  interceptor and for the tracer when it does not synchronise, what happens to functions that the
  backend lacks, and that no call reaches a closed stream.
\<close>

section \<open>Initialisation\<close>

definition default_backend :: string where
  "default_backend = ''/opt/rocm/lib/libamdhip64.so''"

definition backend_path :: "hip_env \<Rightarrow> string" where
  "backend_path E = (case env_var E ''HIP_PASSTHROUGH_BACKEND_LIB'' of
     Some path \<Rightarrow> if path = [] then default_backend else path | None \<Rightarrow> default_backend)"

text \<open>\<open>load_all!\<close>: a slot per symbol, null if the library lacks it.\<close>

definition load_sym :: "hip_env \<Rightarrow> ptr \<Rightarrow> string \<Rightarrow> ptr" where
  "load_sym E lib name = dlsym E lib name"

definition load_all :: "hip_env \<Rightarrow> ptr \<Rightarrow> hip_table" where
  "load_all E lib = \<lparr>tbl_version = 1, tbl_struct_size = 400,
     slots = (\<lambda>f. let a = load_sym E lib (symbol f) in if a = NULL then None else Some (Backend a))\<rparr>"

definition noop_interceptor_init :: "ptr \<Rightarrow> hip \<Rightarrow> (ptr \<times> hip) option" where
  "noop_interceptor_init real_functions s = Some (NULL, s)"

definition noop_interceptor_shutdown :: "hip \<Rightarrow> hip option" where
  "noop_interceptor_shutdown s = Some s"

text \<open>The \<open>hip_interceptor_init\<close> and \<open>hip_interceptor_shutdown\<close> of a library, if it has them.\<close>

primrec lib_init :: "hip_env \<Rightarrow> hip_lib \<Rightarrow> ptr \<Rightarrow> hip \<Rightarrow> (ptr \<times> hip) option" where
  "lib_init E LoggingLib real s = logging_interceptor_init E real s"
| "lib_init E TracerLib real s = tracer_interceptor_init E real s"
| "lib_init E NoopLib real s = noop_interceptor_init real s"
| "lib_init E OtherLib real s = Some (NULL, s)"

primrec lib_shutdown :: "hip_env \<Rightarrow> hip_lib \<Rightarrow> hip \<Rightarrow> hip option" where
  "lib_shutdown E LoggingLib s = logging_interceptor_shutdown E s"
| "lib_shutdown E TracerLib s = tracer_interceptor_shutdown E s"
| "lib_shutdown E NoopLib s = noop_interceptor_shutdown s"
| "lib_shutdown E OtherLib s = Some s"

definition load_interceptor :: "hip_env \<Rightarrow> ptr \<Rightarrow> hip \<Rightarrow> hip option" where
  "load_interceptor E real_ptr s =
     (case env_var E ''HIP_INTERCEPTION_LIBRARY'' of
        Some path \<Rightarrow>
          if path = [] then Some s
          else (case dlopen_interceptor E path of
             None \<Rightarrow> Some s
           | Some lib \<Rightarrow> do {
               let s = s\<lparr>intercept := (intercept s)\<lparr>g_interceptor_lib := Some lib\<rparr>,
                         lib_loaded := (lib_loaded s)(lib := True)\<rparr>;
               (table, s) \<leftarrow> lib_init E lib real_ptr s;
               let s = (if table \<noteq> NULL then s\<lparr>intercept := (intercept s)\<lparr>g_active_table := table\<rparr>\<rparr> else s);
               let sh = (if lib = OtherLib then None else Some lib);
               Some (s\<lparr>intercept := (intercept s)\<lparr>g_interceptor_shutdown := sh\<rparr>\<rparr>) })
      | None \<Rightarrow> Some s)"

definition intercept_init :: "hip_env \<Rightarrow> hip \<Rightarrow> hip option" where
  "intercept_init E s = do {
     let lib = dlopen_backend E (backend_path E);
     if lib = NULL then None
     else do {
       let s = s\<lparr>intercept := (intercept s)\<lparr>g_backend_lib := lib\<rparr>\<rparr>;
       let (real_ptr, s) = new_table (load_all E lib) s;
       let s = s\<lparr>intercept := (intercept s)\<lparr>g_real_table := real_ptr, g_active_table := real_ptr\<rparr>\<rparr>;
       load_interceptor E real_ptr s } }"

definition ensure_init :: "hip_env \<Rightarrow> hip \<Rightarrow> hip option" where
  "ensure_init E s =
     (if init_done (intercept s) then Some s
      else do {
        s \<leftarrow> intercept_init E s;
        Some (s\<lparr>intercept := (intercept s)\<lparr>init_done := True\<rparr>\<rparr>) })"

definition early_init :: "hip_env \<Rightarrow> hip \<Rightarrow> hip option" where
  "early_init E s = ensure_init E s"

definition intercept_fini :: "hip_env \<Rightarrow> hip \<Rightarrow> hip option" where
  "intercept_fini E s = do {
     s \<leftarrow> (case g_interceptor_shutdown (intercept s) of Some lib \<Rightarrow> lib_shutdown E lib s | None \<Rightarrow> Some s);
     Some (case g_interceptor_lib (intercept s) of
             Some lib \<Rightarrow> s\<lparr>lib_loaded := (lib_loaded s)(lib := False)\<rparr> | None \<Rightarrow> s) }"

section \<open>Forwarding\<close>

definition active :: "hip_env \<Rightarrow> hip \<Rightarrow> (ptr \<times> hip) option" where
  "active E s =
     (if g_active_table (intercept s) = NULL then do {
        s \<leftarrow> ensure_init E s;
        Some (g_active_table (intercept s), s) }
      else Some (g_active_table (intercept s), s))"

definition hip_passthrough_get_real_table :: "hip_env \<Rightarrow> hip \<Rightarrow> (ptr \<times> hip) option" where
  "hip_passthrough_get_real_table E s = do { s \<leftarrow> ensure_init E s; Some (g_real_table (intercept s), s) }"

definition hip_passthrough_get_active_table :: "hip_env \<Rightarrow> hip \<Rightarrow> (ptr \<times> hip) option" where
  "hip_passthrough_get_active_table E s = do { s \<leftarrow> ensure_init E s; active E s }"

text \<open>A call through a function pointer of the table; the code of a closed library is gone.\<close>

primrec call_impl :: "hip_env \<Rightarrow> hip_impl \<Rightarrow> hip_fn \<Rightarrow> hip_arg list \<Rightarrow> hip \<Rightarrow> (hip_ret \<times> hip) option" where
  "call_impl E (Backend a) f args s = (let (r, s) = invoke_sym E a args s in Some (ret_of f r, s))"
| "call_impl E Logging f args s = (if lib_loaded s LoggingLib then logging_invoke E f args s else None)"
| "call_impl E Tracer f args s = (if lib_loaded s TracerLib then tracer_invoke E f args s else None)"

text \<open>What an exported function returns when its slot is null.\<close>

definition missing :: "hip_fn \<Rightarrow> hip_ret" where
  "missing f =
     (if f = hipRegisterFatBinary then RPtr NULL
      else if f \<in> {hipUnregisterFatBinary, hipRegisterFunction, hipRegisterVar} then RVoid
      else if f \<in> {hipGetErrorString, hipGetErrorName} then RLit ''unknown''
      else RError 0)"

text \<open>The exported functions (\<open>fwd!\<close> and those written out).\<close>

definition fwd :: "hip_env \<Rightarrow> hip_fn \<Rightarrow> hip_arg list \<Rightarrow> hip \<Rightarrow> (hip_ret \<times> hip) option" where
  "fwd E f args s = do {
     s \<leftarrow> ensure_init E s;
     (t, s) \<leftarrow> active E s;
     tbl \<leftarrow> tables s t;
     case slots tbl f of
       Some impl \<Rightarrow> call_impl E impl f args s
     | None \<Rightarrow> Some (missing f, s) }"

text \<open>\<open>backend_sym\<close>, for the exports that bypass the table.\<close>

definition backend_sym :: "hip_env \<Rightarrow> string \<Rightarrow> hip \<Rightarrow> (ptr \<times> hip) option" where
  "backend_sym E name s = do {
     s \<leftarrow> ensure_init E s;
     let lib = g_backend_lib (intercept s);
     Some (if lib = NULL then NULL else dlsym E lib name, s) }"

section \<open>The state after initialisation\<close>

text \<open>The process with no interceptor configured.\<close>

definition plain_env :: "hip_env \<Rightarrow> hip_env" where
  "plain_env E = E\<lparr>env_var := (env_var E)(''HIP_INTERCEPTION_LIBRARY'' := None)\<rparr>"

lemma plain_env_simps [simp]:
  "dlopen_backend (plain_env E) = dlopen_backend E" "dlsym (plain_env E) = dlsym E" "backend (plain_env E) = backend E"
  "env_var (plain_env E) ''HIP_INTERCEPTION_LIBRARY'' = None" "backend_path (plain_env E) = backend_path E"
  "load_all (plain_env E) lib = load_all E lib"
  by (simp_all add: plain_env_def backend_path_def load_all_def load_sym_def)

text \<open>
  \<open>serving R w s\<close>: initialised, and the active table is \<open>R\<close> with some slots replaced by the wrappers
  \<open>w\<close> of an interceptor that is loaded and was given \<open>R\<close>.
\<close>

definition backed :: "hip_table \<Rightarrow> hip_impl option \<Rightarrow> hip \<Rightarrow> bool" where
  "backed R w s \<longleftrightarrow> (case w of
     None \<Rightarrow> True
   | Some Logging \<Rightarrow> lib_loaded s LoggingLib \<and> tables s (log_real s) = Some R
   | Some Tracer \<Rightarrow> lib_loaded s TracerLib \<and>
       (\<exists>st. tracer s = Some st \<and> \<not> trace_sync st \<and> tables s (tr_real st) = Some R)
   | Some (Backend a) \<Rightarrow> False)"

definition serving :: "hip_table \<Rightarrow> hip_impl option \<Rightarrow> hip \<Rightarrow> bool" where
  "serving R w s \<longleftrightarrow> init_done (intercept s) \<and> g_active_table (intercept s) \<noteq> NULL \<and> backed R w s \<and>
     (\<exists>tb. tables s (g_active_table (intercept s)) = Some tb \<and> (\<forall>f. slots tb f = slots R f \<or> w \<noteq> None \<and> slots tb f = w))"

definition real_only :: "hip_table \<Rightarrow> bool" where
  "real_only R \<longleftrightarrow> (\<forall>f w. slots R f = Some w \<longrightarrow> (\<exists>a. w = Backend a))"

lemma real_only_load_all [simp]: "real_only (load_all E lib)"
  by (simp add: real_only_def load_all_def Let_def)

lemma fwd_serving:
  assumes "serving R w s" and "tables s (g_active_table (intercept s)) = Some tb"
  shows "fwd E f args s = (case slots tb f of Some impl \<Rightarrow> call_impl E impl f args s | None \<Rightarrow> Some (missing f, s))"
  using assms by (auto simp: fwd_def ensure_init_def active_def serving_def)

lemma serving_frame:
  assumes "serving R w s" and "tables t = tables s" and "intercept t = intercept s" and "backed R w t"
  shows "serving R w t"
  using assms by (simp add: serving_def)

lemma backed_invoke_sym:
  assumes "backed R w s"
  shows "backed R w (snd (invoke_sym E a args s))"
  using assms invoke_sym_frame [of E a args s]
  by (cases "snd (invoke_sym E a args s)") (auto simp: backed_def split: option.splits hip_impl.splits)

lemma serving_invoke_sym:
  assumes "serving R w s"
  shows "serving R w (snd (invoke_sym E a args s))"
proof -
  have "tables (snd (invoke_sym E a args s)) = tables s" "intercept (snd (invoke_sym E a args s)) = intercept s"
    by (simp_all add: invoke_sym_def Let_def)
  then show ?thesis using serving_frame [OF assms] backed_invoke_sym assms by (simp add: serving_def)
qed

text \<open>Without an interceptor a call goes straight to the backend.\<close>

lemma fwd_plain:
  assumes "serving R None t" and "real_only R"
  shows "fwd E f args t = (case slots R f of
     Some (Backend a) \<Rightarrow> Some (ret_of f (fst (invoke_sym E a args t)), snd (invoke_sym E a args t))
   | _ \<Rightarrow> Some (missing f, t))"
proof -
  obtain tb where tb: "tables t (g_active_table (intercept t)) = Some tb" "\<And>f. slots tb f = slots R f"
    using assms(1) by (auto simp: serving_def)
  have "slots R f = None \<or> (\<exists>a. slots R f = Some (Backend a))" using assms(2) by (cases "slots R f") (auto simp: real_only_def)
  then show ?thesis using fwd_serving [OF assms(1) tb(1)] tb(2) [of f] by (auto split: prod.splits)
qed

text \<open>One call, with and without the interceptor.\<close>

text \<open>
  A call served by an interceptor's wrapper: it comes down to the backend's function, and the
  interceptor serves the next call too.
\<close>

lemma logging_serves:
  assumes i: "logging_invoke E f args s = Some (r, s')" and s: "serving R (Some Logging) s"
    and "same_view s t" and "backend E' = backend E"
  shows "\<exists>a. slots R f = Some (Backend a) \<and> r = ret_of f (fst (invoke_sym E' a args t)) \<and>
    same_view s' (snd (invoke_sym E' a args t)) \<and> serving R (Some Logging) s'"
proof -
  have bk: "backed R (Some Logging) s" using s by (simp add: serving_def)
  then have R: "tables s (log_real s) = Some R" by (simp add: backed_def)
  obtain a where a: "slots R f = Some (Backend a)" "r = ret_of f (fst (invoke_sym E' a args t))"
      "same_view s' (snd (invoke_sym E' a args t))" "tables s' = tables s" "intercept s' = intercept s"
      "lib_loaded s' = lib_loaded s" "log_real s' = log_real s"
    using logging.invoke_direct [OF i TrueI assms(3) R assms(4)] by blast
  then have "serving R (Some Logging) s'" using serving_frame [OF s] bk by (simp add: backed_def)
  with a show ?thesis by blast
qed

lemma tracing_serves:
  assumes i: "tracer_invoke E f args s = Some (r, s')" and s: "serving R (Some Tracer) s"
    and "same_view s t" and "backend E' = backend E"
  shows "\<exists>a. slots R f = Some (Backend a) \<and> r = ret_of f (fst (invoke_sym E' a args t)) \<and>
    same_view s' (snd (invoke_sym E' a args t)) \<and> serving R (Some Tracer) s'"
proof -
  have bk: "backed R (Some Tracer) s" using s by (simp add: serving_def)
  then obtain st where st: "tracer s = Some st" "\<not> trace_sync st" and R: "tables s (tr_real st) = Some R"
    by (auto simp: backed_def)
  let ?real = "\<lambda>s. case config s of Some c \<Rightarrow> fst c | None \<Rightarrow> NULL"
  have rs: "?real s = tr_real st" using st by (simp add: config_def)
  have ready: "\<exists>st. tracer s = Some st \<and> \<not> trace_sync st" using st by blast
  obtain a where a: "slots R f = Some (Backend a)" "r = ret_of f (fst (invoke_sym E' a args t))"
      "same_view s' (snd (invoke_sym E' a args t))" "tables s' = tables s" "intercept s' = intercept s"
      "lib_loaded s' = lib_loaded s" "?real s' = ?real s" "\<exists>st. tracer s' = Some st \<and> \<not> trace_sync st"
    using tracing.invoke_direct [OF i ready assms(3) _ assms(4), of R] R rs by auto
  then have "backed R (Some Tracer) s'" using bk R rs by (auto simp: backed_def config_def)
  then have "serving R (Some Tracer) s'" using serving_frame [OF s a(4,5)] by blast
  with a show ?thesis by blast
qed

lemma fwd_simulates:
  assumes "fwd E f args s = Some (r, s')" and "serving R w s" and "serving R None t" and "same_view s t"
    and "real_only R" and "backend E' = backend E"
  shows "\<exists>t'. fwd E' f args t = Some (r, t') \<and> serving R w s' \<and> serving R None t' \<and> same_view s' t'"
proof -
  obtain tb where tb: "tables s (g_active_table (intercept s)) = Some tb"
      "slots tb f = slots R f \<or> w \<noteq> None \<and> slots tb f = w"
    using assms(2) by (auto simp: serving_def)
  note fs = assms(1) [unfolded fwd_serving [OF assms(2) tb(1)]]
  have direct: ?thesis if "\<exists>a. slots R f = Some (Backend a) \<and> r = ret_of f (fst (invoke_sym E' a args t)) \<and>
      same_view s' (snd (invoke_sym E' a args t)) \<and> serving R w s'"
    using that fwd_plain [OF assms(3,5), of E' f args] serving_invoke_sym [OF assms(3), of E' _ args] by auto
  show ?thesis
  proof (cases "slots tb f = slots R f")
    case True
    show ?thesis
    proof (cases "slots R f")
      case None
      then show ?thesis using fs True assms fwd_plain [OF assms(3,5), of E' f args] by auto
    next
      case (Some impl)
      then obtain a where a: "impl = Backend a" using assms(5) by (auto simp: real_only_def)
      note v = invoke_sym_view [OF assms(4,6), of a args]
      have "r = ret_of f (fst (invoke_sym E a args s))" "s' = snd (invoke_sym E a args s)"
        using fs True Some a by (auto split: prod.splits)
      then show ?thesis using Some a v serving_invoke_sym [OF assms(2)] by (intro direct) auto
    qed
  next
    case False
    then obtain impl where w: "w = Some impl" "slots tb f = Some impl" using tb(2) by auto
    then have bk: "backed R (Some impl) s" using assms(2) by (simp add: serving_def)
    show ?thesis
    proof (cases impl)
      case (Backend a)
      then show ?thesis using bk by (simp add: backed_def)
    next
      case Logging
      then have "logging_invoke E f args s = Some (r, s')" using fs w bk by (auto simp: backed_def split: if_splits)
      then show ?thesis using logging_serves [OF _ _ assms(4,6)] assms(2) w Logging by (intro direct) blast
    next
      case Tracer
      then have "tracer_invoke E f args s = Some (r, s')" using fs w bk by (auto simp: backed_def split: if_splits)
      then show ?thesis using tracing_serves [OF _ _ assms(4,6)] assms(2) w Tracer by (intro direct) blast
    qed
  qed
qed

lemma run_simulates:
  assumes "run_calls (fwd E) cs s = Some (rs, s')" and "serving R w s" and "serving R None t" and "same_view s t"
    and "real_only R" and "backend E' = backend E"
  shows "\<exists>t'. run_calls (fwd E') cs t = Some (rs, t') \<and> same_view s' t'"
  using assms
proof (induction cs arbitrary: s t rs)
  case (Cons c cs)
  obtain f args where c: "c = (f, args)" by fastforce
  obtain r u rs' where u: "fwd E f args s = Some (r, u)" "run_calls (fwd E) cs u = Some (rs', s')" "rs = r # rs'"
    using Cons.prems(1) c by (auto elim!: bind_SomeE)
  obtain v where v: "fwd E' f args t = Some (r, v)" "serving R w u" "serving R None v" "same_view u v"
    using fwd_simulates [OF u(1) Cons.prems(2-6)] by blast
  obtain t' where "run_calls (fwd E') cs v = Some (rs', t')" "same_view s' t'"
    using Cons.IH [OF u(2) v(2-4) Cons.prems(5,6)] by blast
  then show ?case using u v c by auto
qed simp

lemma open_log_frame:
  "open_log E v c s = (fo, t) \<Longrightarrow> calls t = calls s \<and> hmem t = hmem s \<and> tables t = tables s \<and> next_table t = next_table s \<and>
     intercept t = intercept s \<and> lib_loaded t = lib_loaded s \<and> log_real t = log_real s \<and> tracer t = tracer s"
  by (auto simp: open_log_def Let_def split: option.splits if_splits)

lemma open_log_ready: "open_log E v c s = ((f, b), t) \<Longrightarrow> f = NULL \<or> file_open t f"
  by (auto simp: open_log_def Let_def split: option.splits if_splits)

lemma logging_init_effect:
  assumes "logging_interceptor_init E real s = Some (w, t)"
  shows "\<exists>R. tables s real = Some R \<and> w = next_table s \<and> tables t = (tables s)(w \<mapsto> override Logging logging_slots R) \<and>
    log_real t = real \<and> intercept t = intercept s \<and> lib_loaded t = lib_loaded s \<and> calls t = calls s \<and> hmem t = hmem s \<and>
    log_ready t"
proof -
  obtain f b u where o: "open_log E ''HIP_LOG_FILE'' ''hip_logging: failed to open log file: '' (s\<lparr>log_real := real\<rparr>) = ((f, b), u)"
    by (metis prod.collapse)
  note fr = open_log_frame [OF o] and rdy = open_log_ready [OF o]
  let ?lv = "case env_var E ''HIP_LOG_LEVEL'' of Some t \<Rightarrow> atoi t | None \<Rightarrow> 2"
  let ?u = "u\<lparr>logger_of := \<lparr>lg_file = f, lg_level = ?lv, lg_owns_file = b\<rparr>\<rparr>"
  obtain v R where v: "log_msg E 1 (''HIP Logging initialized (level='' @ show_int ?lv @ '')'') ?u = Some v"
    "tables v real = Some R" "(w, t) = new_table (override Logging logging_slots R) v"
    using assms o by (auto simp: logging_interceptor_init_def Let_def elim!: bind_SomeE)
  note q = quietD [OF log_msg_quiet [OF v(1)]]
  have "log_ready ?u" using rdy by (auto simp: log_ready_def)
  then have "log_ready v" using log_ready_quiet [OF log_msg_quiet [OF v(1)]] by simp
  then show ?thesis using q v fr by (auto simp: new_table_def log_ready_def)
qed

lemma trace_msg_frame:
  assumes "trace_msg E l m s = Some t"
  shows "calls t = calls s \<and> hmem t = hmem s \<and> tables t = tables s \<and> intercept t = intercept s \<and> lib_loaded t = lib_loaded s \<and>
    tracer t = tracer s \<and> file_open t = file_open s"
proof -
  have "t = s \<or> (\<exists>f. fwrite f (stamped_line E m s) (s\<lparr>ticks := Suc (ticks s)\<rparr>) = Some t)"
    using assms by (auto simp: trace_msg_def split: if_splits elim!: bind_SomeE)
  then show ?thesis by (auto simp: fwrite_def split: if_splits)
qed

lemma tracer_init_effect:
  assumes "tracer_interceptor_init E real s = Some (w, t)"
  shows "\<exists>R f b. tables s real = Some R \<and> w = next_table s \<and> tables t = (tables s)(w \<mapsto> override Tracer tracer_slots R) \<and>
    tracer t = Some (initial_tracer E real w f b) \<and> intercept t = intercept s \<and> lib_loaded t = lib_loaded s \<and>
    calls t = calls s \<and> hmem t = hmem s"
proof -
  obtain f b u where o: "open_log E ''HIP_TRACE_FILE'' ''hip_buffer_tracer: failed to open trace file: '' s = ((f, b), u)"
    by (metis prod.collapse)
  note fr = open_log_frame [OF o]
  obtain R where R: "tables u real = Some R" using assms o by (auto simp: tracer_interceptor_init_def Let_def elim!: bind_SomeE)
  let ?v = "(snd (new_table (override Tracer tracer_slots R) u))\<lparr>tracer := Some (initial_tracer E real (next_table u) f b)\<rparr>"
  have "w = next_table u \<and> calls t = calls ?v \<and> hmem t = hmem ?v \<and> tables t = tables ?v \<and> intercept t = intercept ?v \<and>
      lib_loaded t = lib_loaded ?v \<and> tracer t = tracer ?v"
    using assms o R
    by (auto simp: tracer_interceptor_init_def new_table_def Let_def split: option.splits if_splits
        elim!: bind_SomeE dest!: trace_msg_frame)
  then show ?thesis using fr R by (auto simp: new_table_def)
qed

text \<open>Tracing does not synchronise.\<close>

definition no_sync :: "hip_env \<Rightarrow> bool" where
  "no_sync E \<longleftrightarrow> (case env_var E ''HIP_TRACE_SYNC'' of Some t \<Rightarrow> trace_atoi t = 0 | None \<Rightarrow> True)"

lemma no_sync_initial: "no_sync E \<Longrightarrow> \<not> trace_sync (initial_tracer E real w f b)"
  by (simp add: initial_tracer_def no_sync_def split: option.splits)

abbreviation backend_handle :: "hip_env \<Rightarrow> ptr" where
  "backend_handle E \<equiv> dlopen_backend E (backend_path E)"

abbreviation real_functions :: "hip_env \<Rightarrow> hip_table" where
  "real_functions E \<equiv> load_all E (backend_handle E)"

text \<open>The state in which the interceptor is loaded: the real table is at address 1.\<close>

definition with_real_table :: "hip_env \<Rightarrow> hip" where
  "with_real_table E = hip_initial\<lparr>tables := [1 \<mapsto> real_functions E], next_table := 2,
     intercept := (intercept hip_initial)\<lparr>g_backend_lib := backend_handle E, g_real_table := 1, g_active_table := 1\<rparr>\<rparr>"

lemma intercept_init_eq:
  "intercept_init E hip_initial = (if backend_handle E = NULL then None else load_interceptor E 1 (with_real_table E))"
  by (simp add: intercept_init_def Let_def new_table_def with_real_table_def hip_initial_def numeral_2_eq_2)

lemma plain_init:
  assumes "backend_handle E \<noteq> NULL"
  shows "\<exists>t. ensure_init (plain_env E) hip_initial = Some t \<and> serving (real_functions E) None t \<and> same_view hip_initial t"
proof -
  have "ensure_init (plain_env E) hip_initial = Some ((with_real_table E)\<lparr>intercept :=
      (intercept (with_real_table E))\<lparr>init_done := True\<rparr>\<rparr>)"
    using assms intercept_init_eq [of "plain_env E"]
    by (simp add: ensure_init_def load_interceptor_def with_real_table_def hip_initial_def)
  then show ?thesis
    by (simp add: serving_def backed_def with_real_table_def same_view_def hip_initial_def)
qed

lemma with_real_table_simps [simp]:
  "tables (with_real_table E) = [1 \<mapsto> real_functions E]" "next_table (with_real_table E) = 2"
  "g_active_table (intercept (with_real_table E)) = 1" "calls (with_real_table E) = []"
  "hmem (with_real_table E) = hmem hip_initial" "\<not> init_done (intercept hip_initial)" "calls hip_initial = []"
  by (simp_all add: with_real_table_def hip_initial_def)

text \<open>The interceptor that the environment names, if it can be opened.\<close>

definition chosen_lib :: "hip_env \<Rightarrow> hip_lib option" where
  "chosen_lib E = (case env_var E ''HIP_INTERCEPTION_LIBRARY'' of
     Some path \<Rightarrow> if path = [] then None else dlopen_interceptor E path | None \<Rightarrow> None)"

text \<open>What initialisation leaves, by interceptor.\<close>

definition initialised :: "hip_env \<Rightarrow> hip_impl option \<Rightarrow> hip_fn list \<Rightarrow> hip \<Rightarrow> bool" where
  "initialised E w fs s \<longleftrightarrow> init_done (intercept s) \<and> g_active_table (intercept s) \<noteq> NULL \<and> same_view hip_initial s \<and>
     tables s (g_active_table (intercept s)) = Some (case w of None \<Rightarrow> real_functions E | Some i \<Rightarrow> override i fs (real_functions E))"

lemma ensure_init_initial:
  assumes "ensure_init E hip_initial = Some s"
  obtains u where "backend_handle E \<noteq> NULL" "load_interceptor E 1 (with_real_table E) = Some u"
    "s = u\<lparr>intercept := (intercept u)\<lparr>init_done := True\<rparr>\<rparr>"
  using assms intercept_init_eq [of E] by (auto simp: ensure_init_def split: if_splits elim!: bind_SomeE)

lemma load_chosen:
  "load_interceptor E 1 (with_real_table E) = (case chosen_lib E of
     None \<Rightarrow> Some (with_real_table E)
   | Some lib \<Rightarrow> do {
       (table, s) \<leftarrow> lib_init E lib 1 ((with_real_table E)\<lparr>intercept := (intercept (with_real_table E))\<lparr>
          g_interceptor_lib := Some lib\<rparr>, lib_loaded := (lib_loaded (with_real_table E))(lib := True)\<rparr>);
       let s = (if table \<noteq> NULL then s\<lparr>intercept := (intercept s)\<lparr>g_active_table := table\<rparr>\<rparr> else s);
       Some (s\<lparr>intercept := (intercept s)\<lparr>g_interceptor_shutdown := (if lib = OtherLib then None else Some lib)\<rparr>\<rparr>) })"
  by (simp add: load_interceptor_def chosen_lib_def Let_def split: option.splits)

lemma init_logging:
  assumes "ensure_init E hip_initial = Some s" and "chosen_lib E = Some LoggingLib"
  shows "initialised E (Some Logging) logging_slots s \<and> backed (real_functions E) (Some Logging) s \<and> log_ready s"
proof -
  obtain u where u: "load_interceptor E 1 (with_real_table E) = Some u" "s = u\<lparr>intercept := (intercept u)\<lparr>init_done := True\<rparr>\<rparr>"
    using ensure_init_initial [OF assms(1)] by blast
  obtain table v where i: "logging_interceptor_init E 1 ((with_real_table E)\<lparr>intercept := (intercept (with_real_table E))\<lparr>
          g_interceptor_lib := Some LoggingLib\<rparr>, lib_loaded := (lib_loaded (with_real_table E))(LoggingLib := True)\<rparr>) = Some (table, v)"
    and v: "u = (if table \<noteq> NULL then v\<lparr>intercept := (intercept v)\<lparr>g_active_table := table\<rparr>\<rparr> else v)\<lparr>intercept :=
       (intercept (if table \<noteq> NULL then v\<lparr>intercept := (intercept v)\<lparr>g_active_table := table\<rparr>\<rparr> else v))\<lparr>
         g_interceptor_shutdown := Some LoggingLib\<rparr>\<rparr>"
    using u(1) [unfolded load_chosen assms(2)] by (auto simp: Let_def elim!: bind_SomeE)
  from logging_init_effect [OF i] show ?thesis
    using u(2) v by (auto simp: initialised_def backed_def same_view_def log_ready_def)
qed

lemma init_tracer:
  assumes "ensure_init E hip_initial = Some s" and "chosen_lib E = Some TracerLib"
  shows "initialised E (Some Tracer) tracer_slots s \<and> (no_sync E \<longrightarrow> backed (real_functions E) (Some Tracer) s)"
proof -
  obtain u where u: "load_interceptor E 1 (with_real_table E) = Some u" "s = u\<lparr>intercept := (intercept u)\<lparr>init_done := True\<rparr>\<rparr>"
    using ensure_init_initial [OF assms(1)] by blast
  obtain table v where i: "tracer_interceptor_init E 1 ((with_real_table E)\<lparr>intercept := (intercept (with_real_table E))\<lparr>
          g_interceptor_lib := Some TracerLib\<rparr>, lib_loaded := (lib_loaded (with_real_table E))(TracerLib := True)\<rparr>) = Some (table, v)"
    and v: "u = (if table \<noteq> NULL then v\<lparr>intercept := (intercept v)\<lparr>g_active_table := table\<rparr>\<rparr> else v)\<lparr>intercept :=
       (intercept (if table \<noteq> NULL then v\<lparr>intercept := (intercept v)\<lparr>g_active_table := table\<rparr>\<rparr> else v))\<lparr>
         g_interceptor_shutdown := Some TracerLib\<rparr>\<rparr>"
    using u(1) [unfolded load_chosen assms(2)] by (auto simp: Let_def elim!: bind_SomeE)
  from tracer_init_effect [OF i] show ?thesis
    using u(2) v no_sync_initial [of E] by (auto simp: initialised_def backed_def same_view_def initial_tracer_def)
qed

lemma lib_init_keeps_globals: "lib_init E lib real s = Some (w, t) \<Longrightarrow> intercept t = intercept s"
  by (cases lib) (auto simp: noop_interceptor_init_def dest: logging_init_effect tracer_init_effect)

lemma init_backend_lib:
  assumes "ensure_init E hip_initial = Some s"
  shows "g_backend_lib (intercept s) = backend_handle E"
proof -
  obtain u where u: "load_interceptor E 1 (with_real_table E) = Some u" "s = u\<lparr>intercept := (intercept u)\<lparr>init_done := True\<rparr>\<rparr>"
    using ensure_init_initial [OF assms] by blast
  have "g_backend_lib (intercept u) = g_backend_lib (intercept (with_real_table E))"
    using u(1) [unfolded load_chosen]
    by (auto simp: Let_def split: option.splits elim!: bind_SomeE dest!: lib_init_keeps_globals)
  then show ?thesis using u(2) by (simp add: with_real_table_def)
qed

lemma init_plain:
  assumes "ensure_init E hip_initial = Some s" and "chosen_lib E \<notin> {Some LoggingLib, Some TracerLib}"
  shows "initialised E None [] s"
proof -
  obtain u where u: "load_interceptor E 1 (with_real_table E) = Some u" "s = u\<lparr>intercept := (intercept u)\<lparr>init_done := True\<rparr>\<rparr>"
    using ensure_init_initial [OF assms(1)] by blast
  show ?thesis
  proof (cases "chosen_lib E")
    case None
    then show ?thesis using u(1) [unfolded load_chosen] u(2) by (auto simp: initialised_def same_view_def)
  next
    case (Some lib)
    then show ?thesis
      using u(1) [unfolded load_chosen] u(2) assms(2)
      by (cases lib) (auto simp: initialised_def same_view_def Let_def noop_interceptor_init_def)
  qed
qed

lemma initialised_serving:
  assumes "initialised E w fs s" and "backed (real_functions E) w s"
  shows "serving (real_functions E) w s"
  using assms by (cases w) (auto simp: initialised_def serving_def override_def backed_def)

lemma init_serving:
  assumes "ensure_init E hip_initial = Some s" and "no_sync E"
  shows "backend_handle E \<noteq> NULL \<and> same_view hip_initial s \<and> (\<exists>w. serving (real_functions E) w s)"
proof -
  obtain w fs where "initialised E w fs s" "backed (real_functions E) w s"
    using init_logging [OF assms(1)] init_tracer [OF assms(1)] init_plain [OF assms(1)] assms(2)
    by (cases "chosen_lib E \<in> {Some LoggingLib, Some TracerLib}") (auto simp: backed_def [of _ None])
  then show ?thesis
    using initialised_serving ensure_init_initial [OF assms(1)] by (metis initialised_def)
qed

lemma ensure_init_done: "ensure_init E s = Some t \<Longrightarrow> init_done (intercept t)"
  by (auto simp: ensure_init_def split: if_splits elim!: bind_SomeE)

lemma fwd_init: "ensure_init E s = Some t \<Longrightarrow> fwd E f args s = fwd E f args t"
  using ensure_init_done [of E s t] by (simp add: fwd_def ensure_init_def [of E t])

section \<open>Properties\<close>

text \<open>
  C6. Interception is transparent. Take any sequence of HIP calls from the start of the process. If
  it returns with an interceptor configured (logging, no-op, none at all, or the tracer without
  synchronisation), then without one the same calls return the same results, the backend has
  served exactly the same calls, and the memory it shares with the program is the same.
\<close>

theorem interception_transparent:
  assumes "run_calls (fwd E) cs hip_initial = Some (rs, s)" and "no_sync E"
  shows "\<exists>t. run_calls (fwd (plain_env E)) cs hip_initial = Some (rs, t) \<and> calls t = calls s \<and> hmem t = hmem s"
proof (cases cs)
  case Nil
  then show ?thesis using assms by auto
next
  case (Cons c cs')
  obtain f args where c: "c = (f, args)" by fastforce
  obtain s0 where s0: "ensure_init E hip_initial = Some s0"
    using assms(1) Cons c by (auto simp: fwd_def elim!: bind_SomeE)
  obtain w where w: "backend_handle E \<noteq> NULL" "same_view hip_initial s0" "serving (real_functions E) w s0"
    using init_serving [OF s0 assms(2)] by blast
  obtain t0 where t0: "ensure_init (plain_env E) hip_initial = Some t0" "serving (real_functions E) None t0"
      "same_view hip_initial t0"
    using plain_init [OF w(1)] by blast
  have "run_calls (fwd E) cs s0 = Some (rs, s)" using assms(1) Cons c fwd_init [OF s0] by simp
  moreover have "same_view s0 t0" using w(2) t0(3) by (simp add: same_view_def)
  ultimately obtain t where "run_calls (fwd (plain_env E)) cs t0 = Some (rs, t)" "same_view s t"
    using run_simulates [OF _ w(3) t0(2), of E cs rs s "plain_env E"] by auto
  then show ?thesis using Cons c fwd_init [OF t0(1)] by (auto simp: same_view_def)
qed

text \<open>A wrapper that returns has found its function in the table it was given.\<close>

lemma wrapper_found:
  assumes "call_impl E impl f args s = Some (r, t)" and "backed R (Some impl) s"
  shows "\<exists>a. slots R f = Some (Backend a)"
proof (cases impl)
  case (Backend a)
  then show ?thesis using assms(2) by (simp add: backed_def)
next
  case Logging
  then have "logging_invoke E f args s = Some (r, t)" "tables s (log_real s) = Some R"
    using assms by (auto simp: backed_def split: if_splits)
  then show ?thesis using logging.invoke_direct [of E f args s r t s R E] by auto
next
  case Tracer
  then obtain st where "tracer_invoke E f args s = Some (r, t)" "tracer s = Some st" "\<not> trace_sync st" "tables s (tr_real st) = Some R"
    using assms by (auto simp: backed_def split: if_splits)
  then show ?thesis using tracing.invoke_direct [of E f args s r t s R E] by (auto simp: config_def)
qed

lemma plain_missing:
  assumes "backend_handle E \<noteq> NULL" and "slots (real_functions E) f = None"
  shows "\<exists>t. fwd (plain_env E) f args hip_initial = Some (missing f, t) \<and> calls t = []"
proof -
  obtain t where t: "ensure_init (plain_env E) hip_initial = Some t" "serving (real_functions E) None t" "same_view hip_initial t"
    using plain_init [OF assms(1)] by blast
  then show ?thesis
    using fwd_init [OF t(1)] fwd_plain [OF t(2), of "plain_env E" f args] assms(2) by (simp add: same_view_def)
qed

text \<open>
  C38. A function that the backend lacks. Without an interceptor, calling it returns the documented
  default and does nothing; with the logging interceptor or the tracer, which wrap the slot without
  looking at it, the same call never returns.
\<close>

theorem missing_function_aborts:
  assumes "(chosen_lib E, fs) = (Some LoggingLib, logging_slots) \<or> (chosen_lib E, fs) = (Some TracerLib, tracer_slots) \<and> no_sync E"
    and "f \<in> set fs" and "backend_handle E \<noteq> NULL" and "dlsym E (backend_handle E) (symbol f) = NULL"
  shows "fwd E f args hip_initial = None \<and>
    (\<exists>t. fwd (plain_env E) f args hip_initial = Some (missing f, t) \<and> calls t = [])"
proof -
  have none: "slots (real_functions E) f = None" using assms(4) by (simp add: load_all_def load_sym_def)
  have "fwd E f args hip_initial = None"
  proof (rule ccontr)
    assume "fwd E f args hip_initial \<noteq> None"
    then obtain r t s where s: "fwd E f args hip_initial = Some (r, t)" "ensure_init E hip_initial = Some s"
      by (fastforce simp: fwd_def elim!: bind_SomeE)
    obtain w where w: "initialised E (Some w) fs s" "backed (real_functions E) (Some w) s"
      using assms(1) init_logging [OF s(2)] init_tracer [OF s(2)] by auto
    have "call_impl E w f args s = Some (r, t)"
      using fwd_serving [OF initialised_serving [OF w], of "override w fs (real_functions E)" E f args] w(1) assms(2)
        fwd_init [OF s(2)] s(1)
      by (simp add: initialised_def override_def)
    from wrapper_found [OF this w(2)] none show False by simp
  qed
  then show ?thesis using plain_missing [OF assms(3) none] by blast
qed

subsection \<open>Shutdown\<close>

text \<open>The life of the logging interceptor after its initialisation.\<close>

inductive logging_step :: "hip_env \<Rightarrow> hip \<Rightarrow> hip \<Rightarrow> bool" for E :: hip_env where
  wrapper: "logging_invoke E f args s = Some (r, t) \<Longrightarrow> logging_step E s t"
| stop: "logging_interceptor_shutdown E s = Some t \<Longrightarrow> logging_step E s t"

inductive_cases logging_stepE: "logging_step E s t"

lemma logging_invoke_ready:
  assumes "logging_invoke E f args s = Some (r, t)" and "log_ready s"
  shows "log_ready t"
proof -
  obtain q u where "call_real E (log_real s) f args s = Some (q, u)" "quiet u t"
    using logging_invoke_stands_for [OF assms(1)] by (auto simp: stands_for_def)
  then show ?thesis using assms(2) log_ready_call log_ready_quiet by blast
qed

lemma logging_shutdown_ready:
  assumes "logging_interceptor_shutdown E s = Some t" and "log_ready s"
  shows "log_ready t"
proof -
  obtain u where u: "log_msg E 1 ''HIP Logging shutting down'' s = Some u"
    "t = (if lg_owns_file (logger_of u) \<and> lg_file (logger_of u) \<noteq> NULL
      then (fclose_file (lg_file (logger_of u)) u)\<lparr>logger_of := (logger_of u)\<lparr>lg_file := NULL\<rparr>\<rparr> else u)"
    using assms(1) by (auto simp: logging_interceptor_shutdown_def Let_def split: if_splits elim!: bind_SomeE)
  then show ?thesis using assms(2) log_ready_quiet [OF log_msg_quiet [OF u(1)]] by (auto simp: log_ready_def)
qed

interpretation log_life: preserved "logging_step E" log_ready
  for E :: hip_env
  by unfold_locales (auto elim!: logging_stepE intro: logging_invoke_ready logging_shutdown_ready)

text \<open>
  C39. The log is never written after it was closed. From initialisation on, through any sequence of
  wrapped calls and shutdowns, the logger either has no stream or an open one, so writing a message
  is always defined; and a shutdown that closes the stream leaves later messages without effect.
\<close>

theorem logging_stream_open:
  assumes "logging_interceptor_init E real s0 = Some (w, s1)" and "reachable_from (logging_step E) s1 s"
  shows "log_msg E l m s \<noteq> None \<and>
    (\<forall>t. logging_interceptor_shutdown E s = Some t \<and> lg_owns_file (logger_of s) \<longrightarrow>
      lg_file (logger_of t) = NULL \<and> log_msg E l m t = Some t \<and>
      (lg_file (logger_of s) \<noteq> NULL \<longrightarrow> \<not> file_open t (lg_file (logger_of s))))"
proof -
  have ready: "log_ready s" using log_life.inv_reachable [OF assms(2)] logging_init_effect [OF assms(1)] by blast
  have "lg_file (logger_of t) = NULL \<and> log_msg E l m t = Some t \<and>
      (lg_file (logger_of s) \<noteq> NULL \<longrightarrow> \<not> file_open t (lg_file (logger_of s)))"
    if t: "logging_interceptor_shutdown E s = Some t" and o: "lg_owns_file (logger_of s)" for t
  proof -
    obtain u where u: "log_msg E 1 ''HIP Logging shutting down'' s = Some u"
      "t = (if lg_owns_file (logger_of u) \<and> lg_file (logger_of u) \<noteq> NULL
        then (fclose_file (lg_file (logger_of u)) u)\<lparr>logger_of := (logger_of u)\<lparr>lg_file := NULL\<rparr>\<rparr> else u)"
      using t by (auto simp: logging_interceptor_shutdown_def Let_def split: if_splits elim!: bind_SomeE)
    note q = quietD [OF log_msg_quiet [OF u(1)]]
    then show ?thesis using u(2) o by (auto simp: log_msg_def fclose_file_def)
  qed
  then show ?thesis using after_log_msg(1) [OF ready, of E l m] by blast
qed


subsection \<open>Examples\<close>

text \<open>A process with the logging interceptor whose backend has every function but \<open>hipMemGetInfo\<close>.\<close>

definition demo_log_env :: hip_env where
  "demo_log_env = demo_hip_env\<lparr>env_var := (\<lambda>k. if k = ''HIP_INTERCEPTION_LIBRARY'' then Some ''log'' else None),
     dlopen_interceptor := (\<lambda>_. Some LoggingLib),
     dlsym := (\<lambda>_ name. if name = ''hipMemGetInfo'' then NULL else 7)\<rparr>"

lemma demo_log_env_simps [simp]:
  "chosen_lib demo_log_env = Some LoggingLib" "no_sync demo_log_env" "backend_handle demo_log_env = 5"
  "env_var demo_log_env ''HIP_LOG_FILE'' = None" "env_var demo_log_env ''HIP_LOG_LEVEL'' = None"
  "fdopen_stderr demo_log_env = NULL"
  "dlsym demo_log_env lib name = (if name = ''hipMemGetInfo'' then NULL else 7)"
  by (simp_all add: demo_log_env_def demo_hip_env_def chosen_lib_def no_sync_def)

lemma demo_log_init: "\<exists>w t. logging_interceptor_init demo_log_env 1 (with_real_table demo_log_env) = Some (w, t)"
  by (simp add: logging_interceptor_init_def open_log_def log_msg_def new_table_def Let_def)

lemma demo_log_starts: "\<exists>s. ensure_init demo_log_env hip_initial = Some s"
proof -
  let ?L = "(with_real_table demo_log_env)\<lparr>intercept := (intercept (with_real_table demo_log_env))\<lparr>
      g_interceptor_lib := Some LoggingLib\<rparr>, lib_loaded := (lib_loaded (with_real_table demo_log_env))(LoggingLib := True)\<rparr>"
  have "\<exists>w t. logging_interceptor_init demo_log_env 1 ?L = Some (w, t)"
    by (simp add: logging_interceptor_init_def open_log_def log_msg_def new_table_def Let_def)
  then show ?thesis
    unfolding ensure_init_def intercept_init_eq load_chosen by (auto simp: Let_def)
qed

text \<open>States of that process in which the interceptor serves.\<close>

definition logs :: "hip \<Rightarrow> bool" where
  "logs s \<longleftrightarrow> initialised demo_log_env (Some Logging) logging_slots (s\<lparr>calls := []\<rparr>) \<and>
     backed (real_functions demo_log_env) (Some Logging) s \<and> log_ready s"

lemma logs_step:
  assumes "logs s" and "f \<in> {hipSetDevice, hipMalloc}" and "well_typed f args"
  shows "\<exists>r t. fwd demo_log_env f args s = Some (r, t) \<and> logs t"
proof -
  let ?E = demo_log_env and ?R = "real_functions demo_log_env"
  have s: "initialised ?E (Some Logging) logging_slots (s\<lparr>calls := []\<rparr>)" "backed ?R (Some Logging) s" "log_ready s"
    using assms(1) by (auto simp: logs_def)
  have f: "f \<in> set logging_slots" using assms(2) by (auto simp: logging_slots_def)
  have "slots ?R f = Some (Backend 7)" using assms(2) by (auto simp: load_all_def load_sym_def)
  then have q: "call_real ?E (log_real s) f args s = Some (invoke_sym ?E 7 args s)"
    using s(2) by (simp add: backed_def call_real_def)
  obtain q u where u: "invoke_sym ?E 7 args s = (q, u)" by fastforce
  then have fr: "hmem u = hmem s" "u = s\<lparr>calls := calls u\<rparr>"
    by (auto simp: invoke_sym_def Let_def demo_log_env_def demo_hip_env_def)
  have m: "terminated (hmem s)" using s(1) by (auto simp: initialised_def same_view_def terminated_def hip_initial_def)
  obtain r t where i: "logging_invoke ?E f args s = Some (r, t)"
    using logging_invoke_defined [OF f assms(3) _ s(3) m, of ?E q u] q u fr(1) m by auto
  have "fwd ?E f args s = Some (r, t)"
    using i s f by (simp add: fwd_def ensure_init_def active_def override_def backed_def initialised_def)
  moreover have "quiet u t" using logging_invoke_stands_for [OF i] q u by (auto simp: stands_for_def)
  then have "tables t = tables s" "intercept t = intercept s" "hmem t = hmem s" "lib_loaded t = lib_loaded s" "log_real t = log_real s"
    using fr quietD [of u t] by (cases u, simp)+
  ultimately show ?thesis
    using s logging_invoke_ready [OF i s(3)] by (auto simp: logs_def initialised_def backed_def same_view_def)
qed

theorem interception_transparent_witness:
  "\<exists>rs s t. run_calls (fwd demo_log_env) [(hipSetDevice, [AInt 0]), (hipMalloc, [APtr 64, ASize 16])] hip_initial = Some (rs, s) \<and>
     run_calls (fwd (plain_env demo_log_env)) [(hipSetDevice, [AInt 0]), (hipMalloc, [APtr 64, ASize 16])] hip_initial = Some (rs, t) \<and>
     calls t = calls s"
proof -
  let ?E = demo_log_env
  obtain s0 where s0: "ensure_init ?E hip_initial = Some s0" using demo_log_starts by blast
  have "logs s0" using init_logging [OF s0] by (auto simp: logs_def initialised_def same_view_def)
  then obtain r1 s1 where s1: "fwd ?E hipSetDevice [AInt 0] s0 = Some (r1, s1)" "logs s1"
    using logs_step [of s0 hipSetDevice "[AInt 0]"] by (auto simp: well_typed_def)
  obtain r2 s2 where s2: "fwd ?E hipMalloc [APtr 64, ASize 16] s1 = Some (r2, s2)"
    using logs_step [OF s1(2), of hipMalloc "[APtr 64, ASize 16]"] by (auto simp: well_typed_def)
  have run: "run_calls (fwd ?E) [(hipSetDevice, [AInt 0]), (hipMalloc, [APtr 64, ASize 16])] hip_initial = Some ([r1, r2], s2)"
    using s1(1) s2 fwd_init [OF s0] by simp
  show ?thesis using interception_transparent [OF run] run by auto
qed

theorem missing_function_aborts_witness:
  "fwd demo_log_env hipMemGetInfo [APtr 64, APtr 72] hip_initial = None \<and>
   (\<exists>t. fwd (plain_env demo_log_env) hipMemGetInfo [APtr 64, APtr 72] hip_initial = Some (RError 0, t))"
  using missing_function_aborts [of demo_log_env logging_slots hipMemGetInfo "[APtr 64, APtr 72]"]
  by (auto simp: logging_slots_def missing_def)

theorem logging_stream_open_witness:
  "\<exists>w s. logging_interceptor_init demo_log_env 1 (with_real_table demo_log_env) = Some (w, s) \<and>
     log_msg demo_log_env 1 ''m'' s \<noteq> None"
proof -
  obtain w s where i: "logging_interceptor_init demo_log_env 1 (with_real_table demo_log_env) = Some (w, s)"
    using demo_log_init by blast
  then show ?thesis using logging_stream_open [OF i reach_start, of 1 "''m''"] by blast
qed


end
