(* ===== verification/Hip_Passthrough.thy ===== *)
theory Hip_Passthrough
  imports Hip_Intercept
begin

text \<open>
  The exports that bypass the function table (\<open>hip-intercept/src/passthrough_generated.rs\<close>): 304
  trampolines that look a symbol up in the backend and forward their arguments to it. Each is
  transcribed as data (its name and parameters, the symbol it looks up, the types it calls it with
  and the arguments it passes, in order); \<open>passthrough\<close> is the body they all share.

  The theory shows that every one of them is the call of the backend function of its own name with
  exactly the arguments it was given.
\<close>

section \<open>The trampolines\<close>

datatype export_result = ErrorCode | CString | NoResult

record export =
  ex_name :: string
  ex_params :: "(string \<times> arg_kind) list"
  ex_symbol :: string
  ex_types :: "arg_kind list"
  ex_args :: "string list"
  ex_result :: export_result

definition no_symbol :: "export_result \<Rightarrow> hip_ret" where
  "no_symbol k = (case k of ErrorCode \<Rightarrow> RError 1 | CString \<Rightarrow> RLit ''unknown'' | NoResult \<Rightarrow> RVoid)"

definition export_ret :: "export_result \<Rightarrow> hip_reply \<Rightarrow> hip_ret" where
  "export_ret k r = (case k of ErrorCode \<Rightarrow> RError (h_ret r) | CString \<Rightarrow> RStr (h_res r) | NoResult \<Rightarrow> RVoid)"

text \<open>
  The body of a trampoline, for actual arguments \<open>args\<close>: the parameters named in its call, passed as
  the types of its function pointer. A value passed as another type is undefined.
\<close>

definition forwarded :: "export \<Rightarrow> hip_arg list \<Rightarrow> hip_arg list option" where
  "forwarded e args =
     (let xs = map (map_of (zip (map fst (ex_params e)) args)) (ex_args e)
      in if None \<in> set xs \<or> map kind_of_arg (map the xs) \<noteq> ex_types e then None else Some (map the xs))"

definition passthrough :: "hip_env \<Rightarrow> export \<Rightarrow> hip_arg list \<Rightarrow> hip \<Rightarrow> (hip_ret \<times> hip) option" where
  "passthrough E e args s = do {
     s \<leftarrow> ensure_init E s;
     (a, s) \<leftarrow> backend_sym E (ex_symbol e) s;
     if a = NULL then Some (no_symbol (ex_result e), s)
     else do {
       xs \<leftarrow> forwarded e args;
       let (r, s) = invoke_sym E a xs s;
       Some (export_ret (ex_result e) r, s) } }"

section \<open>The exports\<close>

definition exports_1 :: "export list" where
  "exports_1 = [
    \<lparr>ex_name = ''hipGetDevicePropertiesR0600'',
      ex_params = [(''prop'', KPtr), (''deviceId'', KInt)],
      ex_symbol = ''hipGetDevicePropertiesR0600'', ex_types = [KPtr, KInt],
      ex_args = [''prop'', ''deviceId''], ex_result = ErrorCode\<rparr>,
    \<lparr>ex_name = ''hipMemcpyWithStream'',
      ex_params = [(''dst'', KPtr), (''src'', KPtr), (''sizeBytes'', KSize), (''kind'', KInt), (''stream'', KPtr)],
      ex_symbol = ''hipMemcpyWithStream'', ex_types = [KPtr, KPtr, KSize, KInt, KPtr],
      ex_args = [''dst'', ''src'', ''sizeBytes'', ''kind'', ''stream''], ex_result = ErrorCode\<rparr>,
    \<lparr>ex_name = ''hipMallocAsync'',
      ex_params = [(''dev_ptr'', KPtr), (''size'', KSize), (''stream'', KPtr)],
      ex_symbol = ''hipMallocAsync'', ex_types = [KPtr, KSize, KPtr],
      ex_args = [''dev_ptr'', ''size'', ''stream''], ex_result = ErrorCode\<rparr>,
    \<lparr>ex_name = ''hipFreeAsync'',
      ex_params = [(''dev_ptr'', KPtr), (''stream'', KPtr)],
      ex_symbol = ''hipFreeAsync'', ex_types = [KPtr, KPtr],
      ex_args = [''dev_ptr'', ''stream''], ex_result = ErrorCode\<rparr>,
    \<lparr>ex_name = ''hipMemPoolCreate'',
      ex_params = [(''mem_pool'', KPtr), (''pool_props'', KPtr)],
      ex_symbol = ''hipMemPoolCreate'', ex_types = [KPtr, KPtr],
      ex_args = [''mem_pool'', ''pool_props''], ex_result = ErrorCode\<rparr>,
    \<lparr>ex_name = ''hipMemPoolDestroy'',
      ex_params = [(''mem_pool'', KPtr)],
      ex_symbol = ''hipMemPoolDestroy'', ex_types = [KPtr],
      ex_args = [''mem_pool''], ex_result = ErrorCode\<rparr>,
    \<lparr>ex_name = ''hipDeviceGetDefaultMemPool'',
      ex_params = [(''mem_pool'', KPtr), (''device'', KInt)],
      ex_symbol = ''hipDeviceGetDefaultMemPool'', ex_types = [KPtr, KInt],
      ex_args = [''mem_pool'', ''device''], ex_result = ErrorCode\<rparr>,
    \<lparr>ex_name = ''hipDeviceSetMemPool'',
      ex_params = [(''device'', KInt), (''mem_pool'', KPtr)],
      ex_symbol = ''hipDeviceSetMemPool'', ex_types = [KInt, KPtr],
      ex_args = [''device'', ''mem_pool''], ex_result = ErrorCode\<rparr>,
    \<lparr>ex_name = ''hipDeviceGetMemPool'',
      ex_params = [(''mem_pool'', KPtr), (''device'', KInt)],
      ex_symbol = ''hipDeviceGetMemPool'', ex_types = [KPtr, KInt],
      ex_args = [''mem_pool'', ''device''], ex_result = ErrorCode\<rparr>,
    \<lparr>ex_name = ''hipMallocFromPoolAsync'',
      ex_params = [(''dev_ptr'', KPtr), (''size'', KSize), (''mem_pool'', KPtr), (''stream'', KPtr)],
      ex_symbol = ''hipMallocFromPoolAsync'', ex_types = [KPtr, KSize, KPtr, KPtr],
      ex_args = [''dev_ptr'', ''size'', ''mem_pool'', ''stream''], ex_result = ErrorCode\<rparr>,
    \<lparr>ex_name = ''hipMemPoolSetAttribute'',
      ex_params = [(''mem_pool'', KPtr), (''attr'', KUint), (''value'', KPtr)],
      ex_symbol = ''hipMemPoolSetAttribute'', ex_types = [KPtr, KUint, KPtr],
      ex_args = [''mem_pool'', ''attr'', ''value''], ex_result = ErrorCode\<rparr>,
    \<lparr>ex_name = ''hipMemPoolGetAttribute'',
      ex_params = [(''mem_pool'', KPtr), (''attr'', KUint), (''value'', KPtr)],
      ex_symbol = ''hipMemPoolGetAttribute'', ex_types = [KPtr, KUint, KPtr],
      ex_args = [''mem_pool'', ''attr'', ''value''], ex_result = ErrorCode\<rparr>,
    \<lparr>ex_name = ''hipMemPoolTrimTo'',
      ex_params = [(''mem_pool'', KPtr), (''min_bytes_to_hold'', KSize)],
      ex_symbol = ''hipMemPoolTrimTo'', ex_types = [KPtr, KSize],
      ex_args = [''mem_pool'', ''min_bytes_to_hold''], ex_result = ErrorCode\<rparr>,
    \<lparr>ex_name = ''hipMemcpy2D'',
      ex_params = [(''dst'', KPtr), (''dpitch'', KSize), (''src'', KPtr), (''spitch'', KSize), (''width'', KSize), (''height'', KSize), (''kind'', KInt)],
      ex_symbol = ''hipMemcpy2D'', ex_types = [KPtr, KSize, KPtr, KSize, KSize, KSize, KInt],
      ex_args = [''dst'', ''dpitch'', ''src'', ''spitch'', ''width'', ''height'', ''kind''], ex_result = ErrorCode\<rparr>,
    \<lparr>ex_name = ''hipMemcpy2DAsync'',
      ex_params = [(''dst'', KPtr), (''dpitch'', KSize), (''src'', KPtr), (''spitch'', KSize), (''width'', KSize), (''height'', KSize), (''kind'', KInt), (''stream'', KPtr)],
      ex_symbol = ''hipMemcpy2DAsync'', ex_types = [KPtr, KSize, KPtr, KSize, KSize, KSize, KInt, KPtr],
      ex_args = [''dst'', ''dpitch'', ''src'', ''spitch'', ''width'', ''height'', ''kind'', ''stream''], ex_result = ErrorCode\<rparr>,
    \<lparr>ex_name = ''hipMemcpyDtoD'',
      ex_params = [(''dst'', KPtr), (''src'', KPtr), (''sizeBytes'', KSize)],
      ex_symbol = ''hipMemcpyDtoD'', ex_types = [KPtr, KPtr, KSize],
      ex_args = [''dst'', ''src'', ''sizeBytes''], ex_result = ErrorCode\<rparr>]"

definition exports_2 :: "export list" where
  "exports_2 = [
    \<lparr>ex_name = ''hipMemcpyDtoDAsync'',
      ex_params = [(''dst'', KPtr), (''src'', KPtr), (''sizeBytes'', KSize), (''stream'', KPtr)],
      ex_symbol = ''hipMemcpyDtoDAsync'', ex_types = [KPtr, KPtr, KSize, KPtr],
      ex_args = [''dst'', ''src'', ''sizeBytes'', ''stream''], ex_result = ErrorCode\<rparr>,
    \<lparr>ex_name = ''hipMemcpyDtoH'',
      ex_params = [(''dst'', KPtr), (''src'', KPtr), (''sizeBytes'', KSize)],
      ex_symbol = ''hipMemcpyDtoH'', ex_types = [KPtr, KPtr, KSize],
      ex_args = [''dst'', ''src'', ''sizeBytes''], ex_result = ErrorCode\<rparr>,
    \<lparr>ex_name = ''hipMemcpyDtoHAsync'',
      ex_params = [(''dst'', KPtr), (''src'', KPtr), (''sizeBytes'', KSize), (''stream'', KPtr)],
      ex_symbol = ''hipMemcpyDtoHAsync'', ex_types = [KPtr, KPtr, KSize, KPtr],
      ex_args = [''dst'', ''src'', ''sizeBytes'', ''stream''], ex_result = ErrorCode\<rparr>,
    \<lparr>ex_name = ''hipMemcpyHtoD'',
      ex_params = [(''dst'', KPtr), (''src'', KPtr), (''sizeBytes'', KSize)],
      ex_symbol = ''hipMemcpyHtoD'', ex_types = [KPtr, KPtr, KSize],
      ex_args = [''dst'', ''src'', ''sizeBytes''], ex_result = ErrorCode\<rparr>,
    \<lparr>ex_name = ''hipMemcpyHtoDAsync'',
      ex_params = [(''dst'', KPtr), (''src'', KPtr), (''sizeBytes'', KSize), (''stream'', KPtr)],
      ex_symbol = ''hipMemcpyHtoDAsync'', ex_types = [KPtr, KPtr, KSize, KPtr],
      ex_args = [''dst'', ''src'', ''sizeBytes'', ''stream''], ex_result = ErrorCode\<rparr>,
    \<lparr>ex_name = ''hipMemset2D'',
      ex_params = [(''dst'', KPtr), (''pitch'', KSize), (''value'', KInt), (''width'', KSize), (''height'', KSize)],
      ex_symbol = ''hipMemset2D'', ex_types = [KPtr, KSize, KInt, KSize, KSize],
      ex_args = [''dst'', ''pitch'', ''value'', ''width'', ''height''], ex_result = ErrorCode\<rparr>,
    \<lparr>ex_name = ''hipMemset2DAsync'',
      ex_params = [(''dst'', KPtr), (''pitch'', KSize), (''value'', KInt), (''width'', KSize), (''height'', KSize), (''stream'', KPtr)],
      ex_symbol = ''hipMemset2DAsync'', ex_types = [KPtr, KSize, KInt, KSize, KSize, KPtr],
      ex_args = [''dst'', ''pitch'', ''value'', ''width'', ''height'', ''stream''], ex_result = ErrorCode\<rparr>,
    \<lparr>ex_name = ''hipMemsetD8'',
      ex_params = [(''dst'', KPtr), (''value'', KUchar), (''count'', KSize)],
      ex_symbol = ''hipMemsetD8'', ex_types = [KPtr, KUchar, KSize],
      ex_args = [''dst'', ''value'', ''count''], ex_result = ErrorCode\<rparr>,
    \<lparr>ex_name = ''hipMemsetD8Async'',
      ex_params = [(''dst'', KPtr), (''value'', KUchar), (''count'', KSize), (''stream'', KPtr)],
      ex_symbol = ''hipMemsetD8Async'', ex_types = [KPtr, KUchar, KSize, KPtr],
      ex_args = [''dst'', ''value'', ''count'', ''stream''], ex_result = ErrorCode\<rparr>,
    \<lparr>ex_name = ''hipMemsetD16'',
      ex_params = [(''dst'', KPtr), (''value'', KUshort), (''count'', KSize)],
      ex_symbol = ''hipMemsetD16'', ex_types = [KPtr, KUshort, KSize],
      ex_args = [''dst'', ''value'', ''count''], ex_result = ErrorCode\<rparr>,
    \<lparr>ex_name = ''hipMemsetD16Async'',
      ex_params = [(''dst'', KPtr), (''value'', KUshort), (''count'', KSize), (''stream'', KPtr)],
      ex_symbol = ''hipMemsetD16Async'', ex_types = [KPtr, KUshort, KSize, KPtr],
      ex_args = [''dst'', ''value'', ''count'', ''stream''], ex_result = ErrorCode\<rparr>,
    \<lparr>ex_name = ''hipMemsetD32'',
      ex_params = [(''dst'', KPtr), (''value'', KInt), (''count'', KSize)],
      ex_symbol = ''hipMemsetD32'', ex_types = [KPtr, KInt, KSize],
      ex_args = [''dst'', ''value'', ''count''], ex_result = ErrorCode\<rparr>,
    \<lparr>ex_name = ''hipMemsetD32Async'',
      ex_params = [(''dst'', KPtr), (''value'', KInt), (''count'', KSize), (''stream'', KPtr)],
      ex_symbol = ''hipMemsetD32Async'', ex_types = [KPtr, KInt, KSize, KPtr],
      ex_args = [''dst'', ''value'', ''count'', ''stream''], ex_result = ErrorCode\<rparr>,
    \<lparr>ex_name = ''hipPointerGetAttributes'',
      ex_params = [(''attributes'', KPtr), (''ptr'', KPtr)],
      ex_symbol = ''hipPointerGetAttributes'', ex_types = [KPtr, KPtr],
      ex_args = [''attributes'', ''ptr''], ex_result = ErrorCode\<rparr>,
    \<lparr>ex_name = ''hipPointerGetAttribute'',
      ex_params = [(''data'', KPtr), (''attribute'', KInt), (''ptr'', KPtr)],
      ex_symbol = ''hipPointerGetAttribute'', ex_types = [KPtr, KInt, KPtr],
      ex_args = [''data'', ''attribute'', ''ptr''], ex_result = ErrorCode\<rparr>,
    \<lparr>ex_name = ''hipDrvPointerGetAttributes'',
      ex_params = [(''numAttributes'', KUint), (''attributes'', KPtr), (''data'', KPtr), (''ptr'', KPtr)],
      ex_symbol = ''hipDrvPointerGetAttributes'', ex_types = [KUint, KPtr, KPtr, KPtr],
      ex_args = [''numAttributes'', ''attributes'', ''data'', ''ptr''], ex_result = ErrorCode\<rparr>]"

definition exports_3 :: "export list" where
  "exports_3 = [
    \<lparr>ex_name = ''hipFuncSetAttribute'',
      ex_params = [(''func'', KPtr), (''attr'', KInt), (''value'', KInt)],
      ex_symbol = ''hipFuncSetAttribute'', ex_types = [KPtr, KInt, KInt],
      ex_args = [''func'', ''attr'', ''value''], ex_result = ErrorCode\<rparr>,
    \<lparr>ex_name = ''hipFuncSetCacheConfig'',
      ex_params = [(''func'', KPtr), (''config'', KInt)],
      ex_symbol = ''hipFuncSetCacheConfig'', ex_types = [KPtr, KInt],
      ex_args = [''func'', ''config''], ex_result = ErrorCode\<rparr>,
    \<lparr>ex_name = ''hipFuncSetSharedMemConfig'',
      ex_params = [(''func'', KPtr), (''config'', KInt)],
      ex_symbol = ''hipFuncSetSharedMemConfig'', ex_types = [KPtr, KInt],
      ex_args = [''func'', ''config''], ex_result = ErrorCode\<rparr>,
    \<lparr>ex_name = ''hipFuncGetAttributes'',
      ex_params = [(''attr'', KPtr), (''func'', KPtr)],
      ex_symbol = ''hipFuncGetAttributes'', ex_types = [KPtr, KPtr],
      ex_args = [''attr'', ''func''], ex_result = ErrorCode\<rparr>,
    \<lparr>ex_name = ''hipFuncGetAttribute'',
      ex_params = [(''value'', KPtr), (''attrib'', KInt), (''hfunc'', KPtr)],
      ex_symbol = ''hipFuncGetAttribute'', ex_types = [KPtr, KInt, KPtr],
      ex_args = [''value'', ''attrib'', ''hfunc''], ex_result = ErrorCode\<rparr>,
    \<lparr>ex_name = ''hipOccupancyMaxActiveBlocksPerMultiprocessor'',
      ex_params = [(''numBlocks'', KPtr), (''f'', KPtr), (''blockSize'', KInt), (''dynamicSMemSize'', KSize)],
      ex_symbol = ''hipOccupancyMaxActiveBlocksPerMultiprocessor'', ex_types = [KPtr, KPtr, KInt, KSize],
      ex_args = [''numBlocks'', ''f'', ''blockSize'', ''dynamicSMemSize''], ex_result = ErrorCode\<rparr>,
    \<lparr>ex_name = ''hipOccupancyMaxActiveBlocksPerMultiprocessorWithFlags'',
      ex_params = [(''numBlocks'', KPtr), (''f'', KPtr), (''blockSize'', KInt), (''dynamicSMemSize'', KSize), (''flags'', KUint)],
      ex_symbol = ''hipOccupancyMaxActiveBlocksPerMultiprocessorWithFlags'', ex_types = [KPtr, KPtr, KInt, KSize, KUint],
      ex_args = [''numBlocks'', ''f'', ''blockSize'', ''dynamicSMemSize'', ''flags''], ex_result = ErrorCode\<rparr>,
    \<lparr>ex_name = ''hipOccupancyMaxPotentialBlockSize'',
      ex_params = [(''gridSize'', KPtr), (''blockSize'', KPtr), (''f'', KPtr), (''dynamicSMemSize'', KSize), (''blockSizeLimit'', KInt)],
      ex_symbol = ''hipOccupancyMaxPotentialBlockSize'', ex_types = [KPtr, KPtr, KPtr, KSize, KInt],
      ex_args = [''gridSize'', ''blockSize'', ''f'', ''dynamicSMemSize'', ''blockSizeLimit''], ex_result = ErrorCode\<rparr>,
    \<lparr>ex_name = ''hipDeviceGetStreamPriorityRange'',
      ex_params = [(''leastPriority'', KPtr), (''greatestPriority'', KPtr)],
      ex_symbol = ''hipDeviceGetStreamPriorityRange'', ex_types = [KPtr, KPtr],
      ex_args = [''leastPriority'', ''greatestPriority''], ex_result = ErrorCode\<rparr>,
    \<lparr>ex_name = ''hipDeviceCanAccessPeer'',
      ex_params = [(''canAccessPeer'', KPtr), (''deviceId'', KInt), (''peerDeviceId'', KInt)],
      ex_symbol = ''hipDeviceCanAccessPeer'', ex_types = [KPtr, KInt, KInt],
      ex_args = [''canAccessPeer'', ''deviceId'', ''peerDeviceId''], ex_result = ErrorCode\<rparr>,
    \<lparr>ex_name = ''hipDeviceEnablePeerAccess'',
      ex_params = [(''peerDeviceId'', KInt), (''flags'', KUint)],
      ex_symbol = ''hipDeviceEnablePeerAccess'', ex_types = [KInt, KUint],
      ex_args = [''peerDeviceId'', ''flags''], ex_result = ErrorCode\<rparr>,
    \<lparr>ex_name = ''hipDeviceDisablePeerAccess'',
      ex_params = [(''peerDeviceId'', KInt)],
      ex_symbol = ''hipDeviceDisablePeerAccess'', ex_types = [KInt],
      ex_args = [''peerDeviceId''], ex_result = ErrorCode\<rparr>,
    \<lparr>ex_name = ''hipDeviceGetByPCIBusId'',
      ex_params = [(''device'', KPtr), (''pciBusId'', KPtr)],
      ex_symbol = ''hipDeviceGetByPCIBusId'', ex_types = [KPtr, KPtr],
      ex_args = [''device'', ''pciBusId''], ex_result = ErrorCode\<rparr>,
    \<lparr>ex_name = ''hipDeviceGetPCIBusId'',
      ex_params = [(''pciBusId'', KPtr), (''len'', KInt), (''device'', KInt)],
      ex_symbol = ''hipDeviceGetPCIBusId'', ex_types = [KPtr, KInt, KInt],
      ex_args = [''pciBusId'', ''len'', ''device''], ex_result = ErrorCode\<rparr>,
    \<lparr>ex_name = ''hipIpcGetMemHandle'',
      ex_params = [(''handle'', KPtr), (''devPtr'', KPtr)],
      ex_symbol = ''hipIpcGetMemHandle'', ex_types = [KPtr, KPtr],
      ex_args = [''handle'', ''devPtr''], ex_result = ErrorCode\<rparr>,
    \<lparr>ex_name = ''hipIpcOpenMemHandle'',
      ex_params = [(''devPtr'', KPtr), (''handle'', KIpcHandle), (''flags'', KUint)],
      ex_symbol = ''hipIpcOpenMemHandle'', ex_types = [KPtr, KIpcHandle, KUint],
      ex_args = [''devPtr'', ''handle'', ''flags''], ex_result = ErrorCode\<rparr>]"

definition exports_4 :: "export list" where
  "exports_4 = [
    \<lparr>ex_name = ''hipIpcCloseMemHandle'',
      ex_params = [(''devPtr'', KPtr)],
      ex_symbol = ''hipIpcCloseMemHandle'', ex_types = [KPtr],
      ex_args = [''devPtr''], ex_result = ErrorCode\<rparr>,
    \<lparr>ex_name = ''hipIpcGetEventHandle'',
      ex_params = [(''handle'', KPtr), (''event'', KPtr)],
      ex_symbol = ''hipIpcGetEventHandle'', ex_types = [KPtr, KPtr],
      ex_args = [''handle'', ''event''], ex_result = ErrorCode\<rparr>,
    \<lparr>ex_name = ''hipIpcOpenEventHandle'',
      ex_params = [(''event'', KPtr), (''handle'', KIpcHandle)],
      ex_symbol = ''hipIpcOpenEventHandle'', ex_types = [KPtr, KIpcHandle],
      ex_args = [''event'', ''handle''], ex_result = ErrorCode\<rparr>,
    \<lparr>ex_name = ''hipLaunchHostFunc'',
      ex_params = [(''stream'', KPtr), (''fn_cb'', KPtr), (''userData'', KPtr)],
      ex_symbol = ''hipLaunchHostFunc'', ex_types = [KPtr, KPtr, KPtr],
      ex_args = [''stream'', ''fn_cb'', ''userData''], ex_result = ErrorCode\<rparr>,
    \<lparr>ex_name = ''hipStreamAddCallback'',
      ex_params = [(''stream'', KPtr), (''callback'', KPtr), (''userData'', KPtr), (''flags'', KUint)],
      ex_symbol = ''hipStreamAddCallback'', ex_types = [KPtr, KPtr, KPtr, KUint],
      ex_args = [''stream'', ''callback'', ''userData'', ''flags''], ex_result = ErrorCode\<rparr>,
    \<lparr>ex_name = ''hipStreamGetCaptureInfo'',
      ex_params = [(''stream'', KPtr), (''pCaptureStatus'', KPtr), (''pId'', KPtr)],
      ex_symbol = ''hipStreamGetCaptureInfo'', ex_types = [KPtr, KPtr, KPtr],
      ex_args = [''stream'', ''pCaptureStatus'', ''pId''], ex_result = ErrorCode\<rparr>,
    \<lparr>ex_name = ''hipStreamBeginCapture'',
      ex_params = [(''stream'', KPtr), (''mode'', KInt)],
      ex_symbol = ''hipStreamBeginCapture'', ex_types = [KPtr, KInt],
      ex_args = [''stream'', ''mode''], ex_result = ErrorCode\<rparr>,
    \<lparr>ex_name = ''hipStreamEndCapture'',
      ex_params = [(''stream'', KPtr), (''pGraph'', KPtr)],
      ex_symbol = ''hipStreamEndCapture'', ex_types = [KPtr, KPtr],
      ex_args = [''stream'', ''pGraph''], ex_result = ErrorCode\<rparr>,
    \<lparr>ex_name = ''hipGraphCreate'',
      ex_params = [(''pGraph'', KPtr), (''flags'', KUint)],
      ex_symbol = ''hipGraphCreate'', ex_types = [KPtr, KUint],
      ex_args = [''pGraph'', ''flags''], ex_result = ErrorCode\<rparr>,
    \<lparr>ex_name = ''hipGraphDestroy'',
      ex_params = [(''graph'', KPtr)],
      ex_symbol = ''hipGraphDestroy'', ex_types = [KPtr],
      ex_args = [''graph''], ex_result = ErrorCode\<rparr>,
    \<lparr>ex_name = ''hipGraphInstantiate'',
      ex_params = [(''pGraphExec'', KPtr), (''graph'', KPtr), (''pErrorNode'', KPtr), (''pLogBuffer'', KPtr), (''bufferSize'', KSize)],
      ex_symbol = ''hipGraphInstantiate'', ex_types = [KPtr, KPtr, KPtr, KPtr, KSize],
      ex_args = [''pGraphExec'', ''graph'', ''pErrorNode'', ''pLogBuffer'', ''bufferSize''], ex_result = ErrorCode\<rparr>,
    \<lparr>ex_name = ''hipGraphLaunch'',
      ex_params = [(''graphExec'', KPtr), (''stream'', KPtr)],
      ex_symbol = ''hipGraphLaunch'', ex_types = [KPtr, KPtr],
      ex_args = [''graphExec'', ''stream''], ex_result = ErrorCode\<rparr>,
    \<lparr>ex_name = ''hipGraphExecDestroy'',
      ex_params = [(''graphExec'', KPtr)],
      ex_symbol = ''hipGraphExecDestroy'', ex_types = [KPtr],
      ex_args = [''graphExec''], ex_result = ErrorCode\<rparr>,
    \<lparr>ex_name = ''hipHostRegister'',
      ex_params = [(''hostPtr'', KPtr), (''sizeBytes'', KSize), (''flags'', KUint)],
      ex_symbol = ''hipHostRegister'', ex_types = [KPtr, KSize, KUint],
      ex_args = [''hostPtr'', ''sizeBytes'', ''flags''], ex_result = ErrorCode\<rparr>,
    \<lparr>ex_name = ''hipHostUnregister'',
      ex_params = [(''hostPtr'', KPtr)],
      ex_symbol = ''hipHostUnregister'', ex_types = [KPtr],
      ex_args = [''hostPtr''], ex_result = ErrorCode\<rparr>,
    \<lparr>ex_name = ''hipHostGetDevicePointer'',
      ex_params = [(''devPtr'', KPtr), (''hostPtr'', KPtr), (''flags'', KUint)],
      ex_symbol = ''hipHostGetDevicePointer'', ex_types = [KPtr, KPtr, KUint],
      ex_args = [''devPtr'', ''hostPtr'', ''flags''], ex_result = ErrorCode\<rparr>]"

definition exports_5 :: "export list" where
  "exports_5 = [
    \<lparr>ex_name = ''hipHostGetFlags'',
      ex_params = [(''flagsPtr'', KPtr), (''hostPtr'', KPtr)],
      ex_symbol = ''hipHostGetFlags'', ex_types = [KPtr, KPtr],
      ex_args = [''flagsPtr'', ''hostPtr''], ex_result = ErrorCode\<rparr>,
    \<lparr>ex_name = ''hipModuleLoadDataEx'',
      ex_params = [(''module'', KPtr), (''image'', KPtr), (''numOptions'', KUint), (''options'', KPtr), (''optionValues'', KPtr)],
      ex_symbol = ''hipModuleLoadDataEx'', ex_types = [KPtr, KPtr, KUint, KPtr, KPtr],
      ex_args = [''module'', ''image'', ''numOptions'', ''options'', ''optionValues''], ex_result = ErrorCode\<rparr>,
    \<lparr>ex_name = ''hipModuleOccupancyMaxPotentialBlockSize'',
      ex_params = [(''gridSize'', KPtr), (''blockSize'', KPtr), (''f'', KPtr), (''dynSharedMemPerBlk'', KSize), (''blockSizeLimit'', KInt)],
      ex_symbol = ''hipModuleOccupancyMaxPotentialBlockSize'', ex_types = [KPtr, KPtr, KPtr, KSize, KInt],
      ex_args = [''gridSize'', ''blockSize'', ''f'', ''dynSharedMemPerBlk'', ''blockSizeLimit''], ex_result = ErrorCode\<rparr>,
    \<lparr>ex_name = ''hipModuleOccupancyMaxActiveBlocksPerMultiprocessor'',
      ex_params = [(''numBlocks'', KPtr), (''f'', KPtr), (''blockSize'', KInt), (''dynSharedMemPerBlk'', KSize)],
      ex_symbol = ''hipModuleOccupancyMaxActiveBlocksPerMultiprocessor'', ex_types = [KPtr, KPtr, KInt, KSize],
      ex_args = [''numBlocks'', ''f'', ''blockSize'', ''dynSharedMemPerBlk''], ex_result = ErrorCode\<rparr>,
    \<lparr>ex_name = ''hipMallocPitch'',
      ex_params = [(''ptr'', KPtr), (''pitch'', KPtr), (''width'', KSize), (''height'', KSize)],
      ex_symbol = ''hipMallocPitch'', ex_types = [KPtr, KPtr, KSize, KSize],
      ex_args = [''ptr'', ''pitch'', ''width'', ''height''], ex_result = ErrorCode\<rparr>,
    \<lparr>ex_name = ''hipMallocManaged'',
      ex_params = [(''dev_ptr'', KPtr), (''size'', KSize), (''flags'', KUint)],
      ex_symbol = ''hipMallocManaged'', ex_types = [KPtr, KSize, KUint],
      ex_args = [''dev_ptr'', ''size'', ''flags''], ex_result = ErrorCode\<rparr>,
    \<lparr>ex_name = ''hipMemPrefetchAsync'',
      ex_params = [(''dev_ptr'', KPtr), (''count'', KSize), (''device'', KInt), (''stream'', KPtr)],
      ex_symbol = ''hipMemPrefetchAsync'', ex_types = [KPtr, KSize, KInt, KPtr],
      ex_args = [''dev_ptr'', ''count'', ''device'', ''stream''], ex_result = ErrorCode\<rparr>,
    \<lparr>ex_name = ''hipMemAdvise'',
      ex_params = [(''dev_ptr'', KPtr), (''count'', KSize), (''advice'', KInt), (''device'', KInt)],
      ex_symbol = ''hipMemAdvise'', ex_types = [KPtr, KSize, KInt, KInt],
      ex_args = [''dev_ptr'', ''count'', ''advice'', ''device''], ex_result = ErrorCode\<rparr>,
    \<lparr>ex_name = ''hipMemRangeGetAttribute'',
      ex_params = [(''data'', KPtr), (''dataSize'', KSize), (''attribute'', KInt), (''dev_ptr'', KPtr), (''count'', KSize)],
      ex_symbol = ''hipMemRangeGetAttribute'', ex_types = [KPtr, KSize, KInt, KPtr, KSize],
      ex_args = [''data'', ''dataSize'', ''attribute'', ''dev_ptr'', ''count''], ex_result = ErrorCode\<rparr>,
    \<lparr>ex_name = ''hipCtxCreate'',
      ex_params = [(''ctx'', KPtr), (''flags'', KUint), (''device'', KInt)],
      ex_symbol = ''hipCtxCreate'', ex_types = [KPtr, KUint, KInt],
      ex_args = [''ctx'', ''flags'', ''device''], ex_result = ErrorCode\<rparr>,
    \<lparr>ex_name = ''hipCtxDestroy'',
      ex_params = [(''ctx'', KPtr)],
      ex_symbol = ''hipCtxDestroy'', ex_types = [KPtr],
      ex_args = [''ctx''], ex_result = ErrorCode\<rparr>,
    \<lparr>ex_name = ''hipCtxGetCurrent'',
      ex_params = [(''ctx'', KPtr)],
      ex_symbol = ''hipCtxGetCurrent'', ex_types = [KPtr],
      ex_args = [''ctx''], ex_result = ErrorCode\<rparr>,
    \<lparr>ex_name = ''hipCtxSetCurrent'',
      ex_params = [(''ctx'', KPtr)],
      ex_symbol = ''hipCtxSetCurrent'', ex_types = [KPtr],
      ex_args = [''ctx''], ex_result = ErrorCode\<rparr>,
    \<lparr>ex_name = ''hipCtxPushCurrent'',
      ex_params = [(''ctx'', KPtr)],
      ex_symbol = ''hipCtxPushCurrent'', ex_types = [KPtr],
      ex_args = [''ctx''], ex_result = ErrorCode\<rparr>,
    \<lparr>ex_name = ''hipCtxPopCurrent'',
      ex_params = [(''ctx'', KPtr)],
      ex_symbol = ''hipCtxPopCurrent'', ex_types = [KPtr],
      ex_args = [''ctx''], ex_result = ErrorCode\<rparr>,
    \<lparr>ex_name = ''hipCtxGetDevice'',
      ex_params = [(''device'', KPtr)],
      ex_symbol = ''hipCtxGetDevice'', ex_types = [KPtr],
      ex_args = [''device''], ex_result = ErrorCode\<rparr>]"

definition exports_6 :: "export list" where
  "exports_6 = [
    \<lparr>ex_name = ''hipCtxSynchronize'',
      ex_params = [],
      ex_symbol = ''hipCtxSynchronize'', ex_types = [],
      ex_args = [], ex_result = ErrorCode\<rparr>,
    \<lparr>ex_name = ''hipDevicePrimaryCtxRetain'',
      ex_params = [(''pctx'', KPtr), (''dev'', KInt)],
      ex_symbol = ''hipDevicePrimaryCtxRetain'', ex_types = [KPtr, KInt],
      ex_args = [''pctx'', ''dev''], ex_result = ErrorCode\<rparr>,
    \<lparr>ex_name = ''hipDevicePrimaryCtxRelease'',
      ex_params = [(''dev'', KInt)],
      ex_symbol = ''hipDevicePrimaryCtxRelease'', ex_types = [KInt],
      ex_args = [''dev''], ex_result = ErrorCode\<rparr>,
    \<lparr>ex_name = ''hipDevicePrimaryCtxSetFlags'',
      ex_params = [(''dev'', KInt), (''flags'', KUint)],
      ex_symbol = ''hipDevicePrimaryCtxSetFlags'', ex_types = [KInt, KUint],
      ex_args = [''dev'', ''flags''], ex_result = ErrorCode\<rparr>,
    \<lparr>ex_name = ''hipDevicePrimaryCtxGetState'',
      ex_params = [(''dev'', KInt), (''flags'', KPtr), (''active'', KPtr)],
      ex_symbol = ''hipDevicePrimaryCtxGetState'', ex_types = [KInt, KPtr, KPtr],
      ex_args = [''dev'', ''flags'', ''active''], ex_result = ErrorCode\<rparr>,
    \<lparr>ex_name = ''hipDevicePrimaryCtxReset'',
      ex_params = [(''dev'', KInt)],
      ex_symbol = ''hipDevicePrimaryCtxReset'', ex_types = [KInt],
      ex_args = [''dev''], ex_result = ErrorCode\<rparr>,
    \<lparr>ex_name = ''hipDeviceGet'',
      ex_params = [(''device'', KPtr), (''ordinal'', KInt)],
      ex_symbol = ''hipDeviceGet'', ex_types = [KPtr, KInt],
      ex_args = [''device'', ''ordinal''], ex_result = ErrorCode\<rparr>,
    \<lparr>ex_name = ''hipDeviceComputeCapability'',
      ex_params = [(''major'', KPtr), (''minor'', KPtr), (''device'', KInt)],
      ex_symbol = ''hipDeviceComputeCapability'', ex_types = [KPtr, KPtr, KInt],
      ex_args = [''major'', ''minor'', ''device''], ex_result = ErrorCode\<rparr>,
    \<lparr>ex_name = ''hipDeviceTotalMem'',
      ex_params = [(''bytes'', KPtr), (''device'', KInt)],
      ex_symbol = ''hipDeviceTotalMem'', ex_types = [KPtr, KInt],
      ex_args = [''bytes'', ''device''], ex_result = ErrorCode\<rparr>,
    \<lparr>ex_name = ''hipMemGetAddressRange'',
      ex_params = [(''pbase'', KPtr), (''psize'', KPtr), (''dptr'', KPtr)],
      ex_symbol = ''hipMemGetAddressRange'', ex_types = [KPtr, KPtr, KPtr],
      ex_args = [''pbase'', ''psize'', ''dptr''], ex_result = ErrorCode\<rparr>,
    \<lparr>ex_name = ''hipMemAllocPitch'',
      ex_params = [(''dptr'', KPtr), (''pitch'', KPtr), (''widthInBytes'', KSize), (''height'', KSize), (''elementSizeBytes'', KUint)],
      ex_symbol = ''hipMemAllocPitch'', ex_types = [KPtr, KPtr, KSize, KSize, KUint],
      ex_args = [''dptr'', ''pitch'', ''widthInBytes'', ''height'', ''elementSizeBytes''], ex_result = ErrorCode\<rparr>,
    \<lparr>ex_name = ''hipMemAlloc'',
      ex_params = [(''dptr'', KPtr), (''size'', KSize)],
      ex_symbol = ''hipMemAlloc'', ex_types = [KPtr, KSize],
      ex_args = [''dptr'', ''size''], ex_result = ErrorCode\<rparr>,
    \<lparr>ex_name = ''hipMemFree'',
      ex_params = [(''dptr'', KPtr)],
      ex_symbol = ''hipMemFree'', ex_types = [KPtr],
      ex_args = [''dptr''], ex_result = ErrorCode\<rparr>,
    \<lparr>ex_name = ''hipMemcpyFromSymbol'',
      ex_params = [(''dst'', KPtr), (''symbol'', KPtr), (''sizeBytes'', KSize), (''offset'', KSize), (''kind'', KInt)],
      ex_symbol = ''hipMemcpyFromSymbol'', ex_types = [KPtr, KPtr, KSize, KSize, KInt],
      ex_args = [''dst'', ''symbol'', ''sizeBytes'', ''offset'', ''kind''], ex_result = ErrorCode\<rparr>,
    \<lparr>ex_name = ''hipMemcpyFromSymbolAsync'',
      ex_params = [(''dst'', KPtr), (''symbol'', KPtr), (''sizeBytes'', KSize), (''offset'', KSize), (''kind'', KInt), (''stream'', KPtr)],
      ex_symbol = ''hipMemcpyFromSymbolAsync'', ex_types = [KPtr, KPtr, KSize, KSize, KInt, KPtr],
      ex_args = [''dst'', ''symbol'', ''sizeBytes'', ''offset'', ''kind'', ''stream''], ex_result = ErrorCode\<rparr>,
    \<lparr>ex_name = ''hipMemcpyToSymbol'',
      ex_params = [(''symbol'', KPtr), (''src'', KPtr), (''sizeBytes'', KSize), (''offset'', KSize), (''kind'', KInt)],
      ex_symbol = ''hipMemcpyToSymbol'', ex_types = [KPtr, KPtr, KSize, KSize, KInt],
      ex_args = [''symbol'', ''src'', ''sizeBytes'', ''offset'', ''kind''], ex_result = ErrorCode\<rparr>]"

definition exports_7 :: "export list" where
  "exports_7 = [
    \<lparr>ex_name = ''hipMemcpyToSymbolAsync'',
      ex_params = [(''symbol'', KPtr), (''src'', KPtr), (''sizeBytes'', KSize), (''offset'', KSize), (''kind'', KInt), (''stream'', KPtr)],
      ex_symbol = ''hipMemcpyToSymbolAsync'', ex_types = [KPtr, KPtr, KSize, KSize, KInt, KPtr],
      ex_args = [''symbol'', ''src'', ''sizeBytes'', ''offset'', ''kind'', ''stream''], ex_result = ErrorCode\<rparr>,
    \<lparr>ex_name = ''hipGetSymbolAddress'',
      ex_params = [(''devPtr'', KPtr), (''symbol'', KPtr)],
      ex_symbol = ''hipGetSymbolAddress'', ex_types = [KPtr, KPtr],
      ex_args = [''devPtr'', ''symbol''], ex_result = ErrorCode\<rparr>,
    \<lparr>ex_name = ''hipGetSymbolSize'',
      ex_params = [(''size'', KPtr), (''symbol'', KPtr)],
      ex_symbol = ''hipGetSymbolSize'', ex_types = [KPtr, KPtr],
      ex_args = [''size'', ''symbol''], ex_result = ErrorCode\<rparr>,
    \<lparr>ex_name = ''hipMemcpyPeer'',
      ex_params = [(''dst'', KPtr), (''dstDeviceId'', KInt), (''src'', KPtr), (''srcDeviceId'', KInt), (''sizeBytes'', KSize)],
      ex_symbol = ''hipMemcpyPeer'', ex_types = [KPtr, KInt, KPtr, KInt, KSize],
      ex_args = [''dst'', ''dstDeviceId'', ''src'', ''srcDeviceId'', ''sizeBytes''], ex_result = ErrorCode\<rparr>,
    \<lparr>ex_name = ''hipMemcpyPeerAsync'',
      ex_params = [(''dst'', KPtr), (''dstDeviceId'', KInt), (''src'', KPtr), (''srcDeviceId'', KInt), (''sizeBytes'', KSize), (''stream'', KPtr)],
      ex_symbol = ''hipMemcpyPeerAsync'', ex_types = [KPtr, KInt, KPtr, KInt, KSize, KPtr],
      ex_args = [''dst'', ''dstDeviceId'', ''src'', ''srcDeviceId'', ''sizeBytes'', ''stream''], ex_result = ErrorCode\<rparr>,
    \<lparr>ex_name = ''hipBindTexture'',
      ex_params = [(''offset'', KPtr), (''tex'', KPtr), (''devPtr'', KPtr), (''desc'', KPtr), (''size'', KSize)],
      ex_symbol = ''hipBindTexture'', ex_types = [KPtr, KPtr, KPtr, KPtr, KSize],
      ex_args = [''offset'', ''tex'', ''devPtr'', ''desc'', ''size''], ex_result = ErrorCode\<rparr>,
    \<lparr>ex_name = ''hipUnbindTexture'',
      ex_params = [(''tex'', KPtr)],
      ex_symbol = ''hipUnbindTexture'', ex_types = [KPtr],
      ex_args = [''tex''], ex_result = ErrorCode\<rparr>,
    \<lparr>ex_name = ''hipExtLaunchKernel'',
      ex_params = [(''function_address'', KPtr), (''numBlocks'', KDim3), (''dimBlocks'', KDim3), (''args'', KPtr), (''sharedMemBytes'', KSize), (''stream'', KPtr), (''startEvent'', KPtr), (''stopEvent'', KPtr), (''flags'', KInt)],
      ex_symbol = ''hipExtLaunchKernel'', ex_types = [KPtr, KDim3, KDim3, KPtr, KSize, KPtr, KPtr, KPtr, KInt],
      ex_args = [''function_address'', ''numBlocks'', ''dimBlocks'', ''args'', ''sharedMemBytes'', ''stream'', ''startEvent'', ''stopEvent'', ''flags''], ex_result = ErrorCode\<rparr>,
    \<lparr>ex_name = ''hipDeviceSetCacheConfig'',
      ex_params = [(''cacheConfig'', KInt)],
      ex_symbol = ''hipDeviceSetCacheConfig'', ex_types = [KInt],
      ex_args = [''cacheConfig''], ex_result = ErrorCode\<rparr>,
    \<lparr>ex_name = ''hipDeviceGetCacheConfig'',
      ex_params = [(''cacheConfig'', KPtr)],
      ex_symbol = ''hipDeviceGetCacheConfig'', ex_types = [KPtr],
      ex_args = [''cacheConfig''], ex_result = ErrorCode\<rparr>,
    \<lparr>ex_name = ''hipDeviceSetSharedMemConfig'',
      ex_params = [(''config'', KInt)],
      ex_symbol = ''hipDeviceSetSharedMemConfig'', ex_types = [KInt],
      ex_args = [''config''], ex_result = ErrorCode\<rparr>,
    \<lparr>ex_name = ''hipDeviceGetSharedMemConfig'',
      ex_params = [(''pConfig'', KPtr)],
      ex_symbol = ''hipDeviceGetSharedMemConfig'', ex_types = [KPtr],
      ex_args = [''pConfig''], ex_result = ErrorCode\<rparr>,
    \<lparr>ex_name = ''hipDeviceGetLimit'',
      ex_params = [(''pValue'', KPtr), (''limit'', KInt)],
      ex_symbol = ''hipDeviceGetLimit'', ex_types = [KPtr, KInt],
      ex_args = [''pValue'', ''limit''], ex_result = ErrorCode\<rparr>,
    \<lparr>ex_name = ''hipDeviceSetLimit'',
      ex_params = [(''limit'', KInt), (''value'', KSize)],
      ex_symbol = ''hipDeviceSetLimit'', ex_types = [KInt, KSize],
      ex_args = [''limit'', ''value''], ex_result = ErrorCode\<rparr>,
    \<lparr>ex_name = ''hipDeviceGetUuid'',
      ex_params = [(''uuid'', KPtr), (''device'', KInt)],
      ex_symbol = ''hipDeviceGetUuid'', ex_types = [KPtr, KInt],
      ex_args = [''uuid'', ''device''], ex_result = ErrorCode\<rparr>,
    \<lparr>ex_name = ''hipSetDeviceFlags'',
      ex_params = [(''flags'', KUint)],
      ex_symbol = ''hipSetDeviceFlags'', ex_types = [KUint],
      ex_args = [''flags''], ex_result = ErrorCode\<rparr>]"

definition exports_8 :: "export list" where
  "exports_8 = [
    \<lparr>ex_name = ''hipGetDeviceFlags'',
      ex_params = [(''flags'', KPtr)],
      ex_symbol = ''hipGetDeviceFlags'', ex_types = [KPtr],
      ex_args = [''flags''], ex_result = ErrorCode\<rparr>,
    \<lparr>ex_name = ''hipChooseDevice'',
      ex_params = [(''device'', KPtr), (''prop'', KPtr)],
      ex_symbol = ''hipChooseDevice'', ex_types = [KPtr, KPtr],
      ex_args = [''device'', ''prop''], ex_result = ErrorCode\<rparr>,
    \<lparr>ex_name = ''hipImportExternalMemory'',
      ex_params = [(''extMem_out'', KPtr), (''memHandleDesc'', KPtr)],
      ex_symbol = ''hipImportExternalMemory'', ex_types = [KPtr, KPtr],
      ex_args = [''extMem_out'', ''memHandleDesc''], ex_result = ErrorCode\<rparr>,
    \<lparr>ex_name = ''hipExternalMemoryGetMappedBuffer'',
      ex_params = [(''devPtr'', KPtr), (''extMem'', KPtr), (''bufferDesc'', KPtr)],
      ex_symbol = ''hipExternalMemoryGetMappedBuffer'', ex_types = [KPtr, KPtr, KPtr],
      ex_args = [''devPtr'', ''extMem'', ''bufferDesc''], ex_result = ErrorCode\<rparr>,
    \<lparr>ex_name = ''hipDestroyExternalMemory'',
      ex_params = [(''extMem'', KPtr)],
      ex_symbol = ''hipDestroyExternalMemory'', ex_types = [KPtr],
      ex_args = [''extMem''], ex_result = ErrorCode\<rparr>,
    \<lparr>ex_name = ''hipImportExternalSemaphore'',
      ex_params = [(''extSem_out'', KPtr), (''semHandleDesc'', KPtr)],
      ex_symbol = ''hipImportExternalSemaphore'', ex_types = [KPtr, KPtr],
      ex_args = [''extSem_out'', ''semHandleDesc''], ex_result = ErrorCode\<rparr>,
    \<lparr>ex_name = ''hipSignalExternalSemaphoresAsync'',
      ex_params = [(''extSemArray'', KPtr), (''paramsArray'', KPtr), (''numExtSems'', KUint), (''stream'', KPtr)],
      ex_symbol = ''hipSignalExternalSemaphoresAsync'', ex_types = [KPtr, KPtr, KUint, KPtr],
      ex_args = [''extSemArray'', ''paramsArray'', ''numExtSems'', ''stream''], ex_result = ErrorCode\<rparr>,
    \<lparr>ex_name = ''hipWaitExternalSemaphoresAsync'',
      ex_params = [(''extSemArray'', KPtr), (''paramsArray'', KPtr), (''numExtSems'', KUint), (''stream'', KPtr)],
      ex_symbol = ''hipWaitExternalSemaphoresAsync'', ex_types = [KPtr, KPtr, KUint, KPtr],
      ex_args = [''extSemArray'', ''paramsArray'', ''numExtSems'', ''stream''], ex_result = ErrorCode\<rparr>,
    \<lparr>ex_name = ''hipDestroyExternalSemaphore'',
      ex_params = [(''extSem'', KPtr)],
      ex_symbol = ''hipDestroyExternalSemaphore'', ex_types = [KPtr],
      ex_args = [''extSem''], ex_result = ErrorCode\<rparr>,
    \<lparr>ex_name = ''hipExtGetLastError'',
      ex_params = [],
      ex_symbol = ''hipExtGetLastError'', ex_types = [],
      ex_args = [], ex_result = ErrorCode\<rparr>,
    \<lparr>ex_name = ''hipDrvGetErrorString'',
      ex_params = [(''hipError'', KInt), (''pStr'', KPtr)],
      ex_symbol = ''hipDrvGetErrorString'', ex_types = [KInt, KPtr],
      ex_args = [''hipError'', ''pStr''], ex_result = CString\<rparr>,
    \<lparr>ex_name = ''hipDrvGetErrorName'',
      ex_params = [(''hipError'', KInt), (''pStr'', KPtr)],
      ex_symbol = ''hipDrvGetErrorName'', ex_types = [KInt, KPtr],
      ex_args = [''hipError'', ''pStr''], ex_result = CString\<rparr>,
    \<lparr>ex_name = ''hipThreadExchangeStreamCaptureMode'',
      ex_params = [(''mode'', KPtr)],
      ex_symbol = ''hipThreadExchangeStreamCaptureMode'', ex_types = [KPtr],
      ex_args = [''mode''], ex_result = ErrorCode\<rparr>,
    \<lparr>ex_name = ''hipMemPoolSetAccess'',
      ex_params = [(''memPool'', KPtr), (''descList'', KPtr), (''count'', KSize)],
      ex_symbol = ''hipMemPoolSetAccess'', ex_types = [KPtr, KPtr, KSize],
      ex_args = [''memPool'', ''descList'', ''count''], ex_result = ErrorCode\<rparr>,
    \<lparr>ex_name = ''hipMemPoolGetAccess'',
      ex_params = [(''flags'', KPtr), (''memPool'', KPtr), (''location'', KPtr)],
      ex_symbol = ''hipMemPoolGetAccess'', ex_types = [KPtr, KPtr, KPtr],
      ex_args = [''flags'', ''memPool'', ''location''], ex_result = ErrorCode\<rparr>,
    \<lparr>ex_name = ''hipMemPoolExportToShareableHandle'',
      ex_params = [(''shareableHandle'', KPtr), (''memPool'', KPtr), (''handleType'', KInt), (''flags'', KUint)],
      ex_symbol = ''hipMemPoolExportToShareableHandle'', ex_types = [KPtr, KPtr, KInt, KUint],
      ex_args = [''shareableHandle'', ''memPool'', ''handleType'', ''flags''], ex_result = ErrorCode\<rparr>]"

definition exports_9 :: "export list" where
  "exports_9 = [
    \<lparr>ex_name = ''hipMemPoolImportFromShareableHandle'',
      ex_params = [(''memPool'', KPtr), (''shareableHandle'', KPtr), (''handleType'', KInt), (''flags'', KUint)],
      ex_symbol = ''hipMemPoolImportFromShareableHandle'', ex_types = [KPtr, KPtr, KInt, KUint],
      ex_args = [''memPool'', ''shareableHandle'', ''handleType'', ''flags''], ex_result = ErrorCode\<rparr>,
    \<lparr>ex_name = ''hipMemPoolExportPointer'',
      ex_params = [(''exportData'', KPtr), (''dev_ptr'', KPtr)],
      ex_symbol = ''hipMemPoolExportPointer'', ex_types = [KPtr, KPtr],
      ex_args = [''exportData'', ''dev_ptr''], ex_result = ErrorCode\<rparr>,
    \<lparr>ex_name = ''hipMemPoolImportPointer'',
      ex_params = [(''dev_ptr'', KPtr), (''memPool'', KPtr), (''exportData'', KPtr)],
      ex_symbol = ''hipMemPoolImportPointer'', ex_types = [KPtr, KPtr, KPtr],
      ex_args = [''dev_ptr'', ''memPool'', ''exportData''], ex_result = ErrorCode\<rparr>,
    \<lparr>ex_name = ''hipGraphInstantiateWithFlags'',
      ex_params = [(''pGraphExec'', KPtr), (''graph'', KPtr), (''flags'', KUlong)],
      ex_symbol = ''hipGraphInstantiateWithFlags'', ex_types = [KPtr, KPtr, KUlong],
      ex_args = [''pGraphExec'', ''graph'', ''flags''], ex_result = ErrorCode\<rparr>,
    \<lparr>ex_name = ''hipGraphUpload'',
      ex_params = [(''graphExec'', KPtr), (''stream'', KPtr)],
      ex_symbol = ''hipGraphUpload'', ex_types = [KPtr, KPtr],
      ex_args = [''graphExec'', ''stream''], ex_result = ErrorCode\<rparr>,
    \<lparr>ex_name = ''hipGraphAddMemcpyNode'',
      ex_params = [(''pGraphNode'', KPtr), (''graph'', KPtr), (''pDependencies'', KPtr), (''numDependencies'', KSize), (''pCopyParams'', KPtr)],
      ex_symbol = ''hipGraphAddMemcpyNode'', ex_types = [KPtr, KPtr, KPtr, KSize, KPtr],
      ex_args = [''pGraphNode'', ''graph'', ''pDependencies'', ''numDependencies'', ''pCopyParams''], ex_result = ErrorCode\<rparr>,
    \<lparr>ex_name = ''hipGraphAddMemsetNode'',
      ex_params = [(''pGraphNode'', KPtr), (''graph'', KPtr), (''pDependencies'', KPtr), (''numDependencies'', KSize), (''pMemsetParams'', KPtr)],
      ex_symbol = ''hipGraphAddMemsetNode'', ex_types = [KPtr, KPtr, KPtr, KSize, KPtr],
      ex_args = [''pGraphNode'', ''graph'', ''pDependencies'', ''numDependencies'', ''pMemsetParams''], ex_result = ErrorCode\<rparr>,
    \<lparr>ex_name = ''hipGraphAddKernelNode'',
      ex_params = [(''pGraphNode'', KPtr), (''graph'', KPtr), (''pDependencies'', KPtr), (''numDependencies'', KSize), (''pNodeParams'', KPtr)],
      ex_symbol = ''hipGraphAddKernelNode'', ex_types = [KPtr, KPtr, KPtr, KSize, KPtr],
      ex_args = [''pGraphNode'', ''graph'', ''pDependencies'', ''numDependencies'', ''pNodeParams''], ex_result = ErrorCode\<rparr>,
    \<lparr>ex_name = ''hipGraphGetNodes'',
      ex_params = [(''graph'', KPtr), (''nodes'', KPtr), (''numNodes'', KPtr)],
      ex_symbol = ''hipGraphGetNodes'', ex_types = [KPtr, KPtr, KPtr],
      ex_args = [''graph'', ''nodes'', ''numNodes''], ex_result = ErrorCode\<rparr>,
    \<lparr>ex_name = ''hipGraphGetRootNodes'',
      ex_params = [(''graph'', KPtr), (''pRootNodes'', KPtr), (''pNumRootNodes'', KPtr)],
      ex_symbol = ''hipGraphGetRootNodes'', ex_types = [KPtr, KPtr, KPtr],
      ex_args = [''graph'', ''pRootNodes'', ''pNumRootNodes''], ex_result = ErrorCode\<rparr>,
    \<lparr>ex_name = ''hipGraphNodeGetType'',
      ex_params = [(''node'', KPtr), (''pType'', KPtr)],
      ex_symbol = ''hipGraphNodeGetType'', ex_types = [KPtr, KPtr],
      ex_args = [''node'', ''pType''], ex_result = ErrorCode\<rparr>,
    \<lparr>ex_name = ''hipStreamGetCaptureInfo_v2'',
      ex_params = [(''stream'', KPtr), (''captureStatus_out'', KPtr), (''id_out'', KPtr), (''graph_out'', KPtr), (''dependencies_out'', KPtr), (''numDependencies_out'', KPtr)],
      ex_symbol = ''hipStreamGetCaptureInfo_v2'', ex_types = [KPtr, KPtr, KPtr, KPtr, KPtr, KPtr],
      ex_args = [''stream'', ''captureStatus_out'', ''id_out'', ''graph_out'', ''dependencies_out'', ''numDependencies_out''], ex_result = ErrorCode\<rparr>,
    \<lparr>ex_name = ''hipLaunchCooperativeKernel'',
      ex_params = [(''f'', KPtr), (''gridDim'', KDim3), (''blockDim'', KDim3), (''kernelParams'', KPtr), (''sharedMemBytes'', KUint), (''stream'', KPtr)],
      ex_symbol = ''hipLaunchCooperativeKernel'', ex_types = [KPtr, KDim3, KDim3, KPtr, KUint, KPtr],
      ex_args = [''f'', ''gridDim'', ''blockDim'', ''kernelParams'', ''sharedMemBytes'', ''stream''], ex_result = ErrorCode\<rparr>,
    \<lparr>ex_name = ''hipOccupancyMaxPotentialBlockSizeWithFlags'',
      ex_params = [(''gridSize'', KPtr), (''blockSize'', KPtr), (''f'', KPtr), (''dynamicSMemSize'', KSize), (''blockSizeLimit'', KInt), (''flags'', KUint)],
      ex_symbol = ''hipOccupancyMaxPotentialBlockSizeWithFlags'', ex_types = [KPtr, KPtr, KPtr, KSize, KInt, KUint],
      ex_args = [''gridSize'', ''blockSize'', ''f'', ''dynamicSMemSize'', ''blockSizeLimit'', ''flags''], ex_result = ErrorCode\<rparr>,
    \<lparr>ex_name = ''hipMallocArray'',
      ex_params = [(''array'', KPtr), (''desc'', KPtr), (''width'', KSize), (''height'', KSize), (''flags'', KUint)],
      ex_symbol = ''hipMallocArray'', ex_types = [KPtr, KPtr, KSize, KSize, KUint],
      ex_args = [''array'', ''desc'', ''width'', ''height'', ''flags''], ex_result = ErrorCode\<rparr>,
    \<lparr>ex_name = ''hipFreeArray'',
      ex_params = [(''array'', KPtr)],
      ex_symbol = ''hipFreeArray'', ex_types = [KPtr],
      ex_args = [''array''], ex_result = ErrorCode\<rparr>]"

definition exports_10 :: "export list" where
  "exports_10 = [
    \<lparr>ex_name = ''hipMalloc3DArray'',
      ex_params = [(''array'', KPtr), (''desc'', KPtr), (''extent'', KPtr), (''flags'', KUint)],
      ex_symbol = ''hipMalloc3DArray'', ex_types = [KPtr, KPtr, KPtr, KUint],
      ex_args = [''array'', ''desc'', ''extent'', ''flags''], ex_result = ErrorCode\<rparr>,
    \<lparr>ex_name = ''hipArrayGetInfo'',
      ex_params = [(''desc'', KPtr), (''extent'', KPtr), (''flags'', KPtr), (''array'', KPtr)],
      ex_symbol = ''hipArrayGetInfo'', ex_types = [KPtr, KPtr, KPtr, KPtr],
      ex_args = [''desc'', ''extent'', ''flags'', ''array''], ex_result = ErrorCode\<rparr>,
    \<lparr>ex_name = ''hipMemcpy3D'',
      ex_params = [(''p'', KPtr)],
      ex_symbol = ''hipMemcpy3D'', ex_types = [KPtr],
      ex_args = [''p''], ex_result = ErrorCode\<rparr>,
    \<lparr>ex_name = ''hipMemcpy3DAsync'',
      ex_params = [(''p'', KPtr), (''stream'', KPtr)],
      ex_symbol = ''hipMemcpy3DAsync'', ex_types = [KPtr, KPtr],
      ex_args = [''p'', ''stream''], ex_result = ErrorCode\<rparr>,
    \<lparr>ex_name = ''hipMemcpyToArray'',
      ex_params = [(''dst'', KPtr), (''wOffset'', KSize), (''hOffset'', KSize), (''src'', KPtr), (''count'', KSize), (''kind'', KInt)],
      ex_symbol = ''hipMemcpyToArray'', ex_types = [KPtr, KSize, KSize, KPtr, KSize, KInt],
      ex_args = [''dst'', ''wOffset'', ''hOffset'', ''src'', ''count'', ''kind''], ex_result = ErrorCode\<rparr>,
    \<lparr>ex_name = ''hipMemcpyFromArray'',
      ex_params = [(''dst'', KPtr), (''src'', KPtr), (''wOffset'', KSize), (''hOffset'', KSize), (''count'', KSize), (''kind'', KInt)],
      ex_symbol = ''hipMemcpyFromArray'', ex_types = [KPtr, KPtr, KSize, KSize, KSize, KInt],
      ex_args = [''dst'', ''src'', ''wOffset'', ''hOffset'', ''count'', ''kind''], ex_result = ErrorCode\<rparr>,
    \<lparr>ex_name = ''hipMemcpy2DToArray'',
      ex_params = [(''dst'', KPtr), (''wOffset'', KSize), (''hOffset'', KSize), (''src'', KPtr), (''spitch'', KSize), (''width'', KSize), (''height'', KSize), (''kind'', KInt)],
      ex_symbol = ''hipMemcpy2DToArray'', ex_types = [KPtr, KSize, KSize, KPtr, KSize, KSize, KSize, KInt],
      ex_args = [''dst'', ''wOffset'', ''hOffset'', ''src'', ''spitch'', ''width'', ''height'', ''kind''], ex_result = ErrorCode\<rparr>,
    \<lparr>ex_name = ''hipMemcpy2DFromArray'',
      ex_params = [(''dst'', KPtr), (''dpitch'', KSize), (''src'', KPtr), (''wOffset'', KSize), (''hOffset'', KSize), (''width'', KSize), (''height'', KSize), (''kind'', KInt)],
      ex_symbol = ''hipMemcpy2DFromArray'', ex_types = [KPtr, KSize, KPtr, KSize, KSize, KSize, KSize, KInt],
      ex_args = [''dst'', ''dpitch'', ''src'', ''wOffset'', ''hOffset'', ''width'', ''height'', ''kind''], ex_result = ErrorCode\<rparr>,
    \<lparr>ex_name = ''hipMemcpyAtoH'',
      ex_params = [(''dst'', KPtr), (''srcArray'', KPtr), (''srcOffset'', KSize), (''count'', KSize)],
      ex_symbol = ''hipMemcpyAtoH'', ex_types = [KPtr, KPtr, KSize, KSize],
      ex_args = [''dst'', ''srcArray'', ''srcOffset'', ''count''], ex_result = ErrorCode\<rparr>,
    \<lparr>ex_name = ''hipMemcpyHtoA'',
      ex_params = [(''dstArray'', KPtr), (''dstOffset'', KSize), (''srcHost'', KPtr), (''count'', KSize)],
      ex_symbol = ''hipMemcpyHtoA'', ex_types = [KPtr, KSize, KPtr, KSize],
      ex_args = [''dstArray'', ''dstOffset'', ''srcHost'', ''count''], ex_result = ErrorCode\<rparr>,
    \<lparr>ex_name = ''hipMallocMipmappedArray'',
      ex_params = [(''mipmappedArray'', KPtr), (''desc'', KPtr), (''extent'', KPtr), (''numLevels'', KUint), (''flags'', KUint)],
      ex_symbol = ''hipMallocMipmappedArray'', ex_types = [KPtr, KPtr, KPtr, KUint, KUint],
      ex_args = [''mipmappedArray'', ''desc'', ''extent'', ''numLevels'', ''flags''], ex_result = ErrorCode\<rparr>,
    \<lparr>ex_name = ''hipFreeMipmappedArray'',
      ex_params = [(''mipmappedArray'', KPtr)],
      ex_symbol = ''hipFreeMipmappedArray'', ex_types = [KPtr],
      ex_args = [''mipmappedArray''], ex_result = ErrorCode\<rparr>,
    \<lparr>ex_name = ''hipGetMipmappedArrayLevel'',
      ex_params = [(''levelArray'', KPtr), (''mipmappedArray'', KPtr), (''level'', KUint)],
      ex_symbol = ''hipGetMipmappedArrayLevel'', ex_types = [KPtr, KPtr, KUint],
      ex_args = [''levelArray'', ''mipmappedArray'', ''level''], ex_result = ErrorCode\<rparr>,
    \<lparr>ex_name = ''hipExtMallocWithFlags'',
      ex_params = [(''ptr'', KPtr), (''sizeBytes'', KSize), (''flags'', KUint)],
      ex_symbol = ''hipExtMallocWithFlags'', ex_types = [KPtr, KSize, KUint],
      ex_args = [''ptr'', ''sizeBytes'', ''flags''], ex_result = ErrorCode\<rparr>,
    \<lparr>ex_name = ''hipRuntimeGetVersion_r'',
      ex_params = [(''runtimeVersion'', KPtr)],
      ex_symbol = ''hipRuntimeGetVersion_r'', ex_types = [KPtr],
      ex_args = [''runtimeVersion''], ex_result = ErrorCode\<rparr>,
    \<lparr>ex_name = ''hipCreateSurfaceObject'',
      ex_params = [(''pSurfObject'', KPtr), (''pResDesc'', KPtr)],
      ex_symbol = ''hipCreateSurfaceObject'', ex_types = [KPtr, KPtr],
      ex_args = [''pSurfObject'', ''pResDesc''], ex_result = ErrorCode\<rparr>]"

definition exports_11 :: "export list" where
  "exports_11 = [
    \<lparr>ex_name = ''hipDestroySurfaceObject'',
      ex_params = [(''surfaceObject'', KUlong)],
      ex_symbol = ''hipDestroySurfaceObject'', ex_types = [KUlong],
      ex_args = [''surfaceObject''], ex_result = ErrorCode\<rparr>,
    \<lparr>ex_name = ''hipCreateTextureObject'',
      ex_params = [(''pTexObject'', KPtr), (''pResDesc'', KPtr), (''pTexDesc'', KPtr), (''pResViewDesc'', KPtr)],
      ex_symbol = ''hipCreateTextureObject'', ex_types = [KPtr, KPtr, KPtr, KPtr],
      ex_args = [''pTexObject'', ''pResDesc'', ''pTexDesc'', ''pResViewDesc''], ex_result = ErrorCode\<rparr>,
    \<lparr>ex_name = ''hipDestroyTextureObject'',
      ex_params = [(''textureObject'', KUlong)],
      ex_symbol = ''hipDestroyTextureObject'', ex_types = [KUlong],
      ex_args = [''textureObject''], ex_result = ErrorCode\<rparr>,
    \<lparr>ex_name = ''hipGetTextureObjectResourceDesc'',
      ex_params = [(''pResDesc'', KPtr), (''textureObject'', KUlong)],
      ex_symbol = ''hipGetTextureObjectResourceDesc'', ex_types = [KPtr, KUlong],
      ex_args = [''pResDesc'', ''textureObject''], ex_result = ErrorCode\<rparr>,
    \<lparr>ex_name = ''hipGetTextureObjectTextureDesc'',
      ex_params = [(''pTexDesc'', KPtr), (''textureObject'', KUlong)],
      ex_symbol = ''hipGetTextureObjectTextureDesc'', ex_types = [KPtr, KUlong],
      ex_args = [''pTexDesc'', ''textureObject''], ex_result = ErrorCode\<rparr>,
    \<lparr>ex_name = ''hipGetChannelDesc'',
      ex_params = [(''desc'', KPtr), (''array'', KPtr)],
      ex_symbol = ''hipGetChannelDesc'', ex_types = [KPtr, KPtr],
      ex_args = [''desc'', ''array''], ex_result = ErrorCode\<rparr>,
    \<lparr>ex_name = ''hipTexRefSetArray'',
      ex_params = [(''texRef'', KPtr), (''array'', KPtr), (''flags'', KUint)],
      ex_symbol = ''hipTexRefSetArray'', ex_types = [KPtr, KPtr, KUint],
      ex_args = [''texRef'', ''array'', ''flags''], ex_result = ErrorCode\<rparr>,
    \<lparr>ex_name = ''hipTexRefSetAddress'',
      ex_params = [(''offset'', KPtr), (''texRef'', KPtr), (''devPtr'', KPtr), (''size'', KSize)],
      ex_symbol = ''hipTexRefSetAddress'', ex_types = [KPtr, KPtr, KPtr, KSize],
      ex_args = [''offset'', ''texRef'', ''devPtr'', ''size''], ex_result = ErrorCode\<rparr>,
    \<lparr>ex_name = ''hipTexRefSetAddress2D'',
      ex_params = [(''texRef'', KPtr), (''desc'', KPtr), (''devPtr'', KPtr), (''pitch'', KSize)],
      ex_symbol = ''hipTexRefSetAddress2D'', ex_types = [KPtr, KPtr, KPtr, KSize],
      ex_args = [''texRef'', ''desc'', ''devPtr'', ''pitch''], ex_result = ErrorCode\<rparr>,
    \<lparr>ex_name = ''hipTexRefSetFormat'',
      ex_params = [(''texRef'', KPtr), (''format'', KInt), (''numComponents'', KInt)],
      ex_symbol = ''hipTexRefSetFormat'', ex_types = [KPtr, KInt, KInt],
      ex_args = [''texRef'', ''format'', ''numComponents''], ex_result = ErrorCode\<rparr>,
    \<lparr>ex_name = ''hipTexRefSetFlags'',
      ex_params = [(''texRef'', KPtr), (''flags'', KUint)],
      ex_symbol = ''hipTexRefSetFlags'', ex_types = [KPtr, KUint],
      ex_args = [''texRef'', ''flags''], ex_result = ErrorCode\<rparr>,
    \<lparr>ex_name = ''hipTexRefSetFilterMode'',
      ex_params = [(''texRef'', KPtr), (''fm'', KInt)],
      ex_symbol = ''hipTexRefSetFilterMode'', ex_types = [KPtr, KInt],
      ex_args = [''texRef'', ''fm''], ex_result = ErrorCode\<rparr>,
    \<lparr>ex_name = ''hipTexRefSetAddressMode'',
      ex_params = [(''texRef'', KPtr), (''dim'', KInt), (''am'', KInt)],
      ex_symbol = ''hipTexRefSetAddressMode'', ex_types = [KPtr, KInt, KInt],
      ex_args = [''texRef'', ''dim'', ''am''], ex_result = ErrorCode\<rparr>,
    \<lparr>ex_name = ''hipTexRefGetAddress'',
      ex_params = [(''dptr'', KPtr), (''texRef'', KPtr)],
      ex_symbol = ''hipTexRefGetAddress'', ex_types = [KPtr, KPtr],
      ex_args = [''dptr'', ''texRef''], ex_result = ErrorCode\<rparr>,
    \<lparr>ex_name = ''hipModuleGetTexRef'',
      ex_params = [(''texRef'', KPtr), (''hmod'', KPtr), (''name'', KPtr)],
      ex_symbol = ''hipModuleGetTexRef'', ex_types = [KPtr, KPtr, KPtr],
      ex_args = [''texRef'', ''hmod'', ''name''], ex_result = ErrorCode\<rparr>,
    \<lparr>ex_name = ''hipStreamUpdateCaptureDependencies'',
      ex_params = [(''stream'', KPtr), (''dependencies'', KPtr), (''numDependencies'', KSize), (''flags'', KUint)],
      ex_symbol = ''hipStreamUpdateCaptureDependencies'', ex_types = [KPtr, KPtr, KSize, KUint],
      ex_args = [''stream'', ''dependencies'', ''numDependencies'', ''flags''], ex_result = ErrorCode\<rparr>]"

definition exports_12 :: "export list" where
  "exports_12 = [
    \<lparr>ex_name = ''hipUserObjectCreate'',
      ex_params = [(''object_out'', KPtr), (''ptr'', KPtr), (''destroy'', KPtr), (''initialRefcount'', KUint), (''flags'', KUint)],
      ex_symbol = ''hipUserObjectCreate'', ex_types = [KPtr, KPtr, KPtr, KUint, KUint],
      ex_args = [''object_out'', ''ptr'', ''destroy'', ''initialRefcount'', ''flags''], ex_result = ErrorCode\<rparr>,
    \<lparr>ex_name = ''hipUserObjectRelease'',
      ex_params = [(''object'', KPtr), (''count'', KUint)],
      ex_symbol = ''hipUserObjectRelease'', ex_types = [KPtr, KUint],
      ex_args = [''object'', ''count''], ex_result = ErrorCode\<rparr>,
    \<lparr>ex_name = ''hipUserObjectRetain'',
      ex_params = [(''object'', KPtr), (''count'', KUint)],
      ex_symbol = ''hipUserObjectRetain'', ex_types = [KPtr, KUint],
      ex_args = [''object'', ''count''], ex_result = ErrorCode\<rparr>,
    \<lparr>ex_name = ''hipGraphRetainUserObject'',
      ex_params = [(''graph'', KPtr), (''object'', KPtr), (''count'', KUint), (''flags'', KUint)],
      ex_symbol = ''hipGraphRetainUserObject'', ex_types = [KPtr, KPtr, KUint, KUint],
      ex_args = [''graph'', ''object'', ''count'', ''flags''], ex_result = ErrorCode\<rparr>,
    \<lparr>ex_name = ''hipGraphReleaseUserObject'',
      ex_params = [(''graph'', KPtr), (''object'', KPtr), (''count'', KUint)],
      ex_symbol = ''hipGraphReleaseUserObject'', ex_types = [KPtr, KPtr, KUint],
      ex_args = [''graph'', ''object'', ''count''], ex_result = ErrorCode\<rparr>,
    \<lparr>ex_name = ''hipGraphAddHostNode'',
      ex_params = [(''pGraphNode'', KPtr), (''graph'', KPtr), (''pDependencies'', KPtr), (''numDependencies'', KSize), (''pNodeParams'', KPtr)],
      ex_symbol = ''hipGraphAddHostNode'', ex_types = [KPtr, KPtr, KPtr, KSize, KPtr],
      ex_args = [''pGraphNode'', ''graph'', ''pDependencies'', ''numDependencies'', ''pNodeParams''], ex_result = ErrorCode\<rparr>,
    \<lparr>ex_name = ''hipGraphAddEventRecordNode'',
      ex_params = [(''pGraphNode'', KPtr), (''graph'', KPtr), (''pDependencies'', KPtr), (''numDependencies'', KSize), (''event'', KPtr)],
      ex_symbol = ''hipGraphAddEventRecordNode'', ex_types = [KPtr, KPtr, KPtr, KSize, KPtr],
      ex_args = [''pGraphNode'', ''graph'', ''pDependencies'', ''numDependencies'', ''event''], ex_result = ErrorCode\<rparr>,
    \<lparr>ex_name = ''hipGraphAddEventWaitNode'',
      ex_params = [(''pGraphNode'', KPtr), (''graph'', KPtr), (''pDependencies'', KPtr), (''numDependencies'', KSize), (''event'', KPtr)],
      ex_symbol = ''hipGraphAddEventWaitNode'', ex_types = [KPtr, KPtr, KPtr, KSize, KPtr],
      ex_args = [''pGraphNode'', ''graph'', ''pDependencies'', ''numDependencies'', ''event''], ex_result = ErrorCode\<rparr>,
    \<lparr>ex_name = ''hipGraphAddChildGraphNode'',
      ex_params = [(''pGraphNode'', KPtr), (''graph'', KPtr), (''pDependencies'', KPtr), (''numDependencies'', KSize), (''childGraph'', KPtr)],
      ex_symbol = ''hipGraphAddChildGraphNode'', ex_types = [KPtr, KPtr, KPtr, KSize, KPtr],
      ex_args = [''pGraphNode'', ''graph'', ''pDependencies'', ''numDependencies'', ''childGraph''], ex_result = ErrorCode\<rparr>,
    \<lparr>ex_name = ''hipGraphAddEmptyNode'',
      ex_params = [(''pGraphNode'', KPtr), (''graph'', KPtr), (''pDependencies'', KPtr), (''numDependencies'', KSize)],
      ex_symbol = ''hipGraphAddEmptyNode'', ex_types = [KPtr, KPtr, KPtr, KSize],
      ex_args = [''pGraphNode'', ''graph'', ''pDependencies'', ''numDependencies''], ex_result = ErrorCode\<rparr>,
    \<lparr>ex_name = ''hipGraphAddDependencies'',
      ex_params = [(''graph'', KPtr), (''from'', KPtr), (''to'', KPtr), (''numDependencies'', KSize)],
      ex_symbol = ''hipGraphAddDependencies'', ex_types = [KPtr, KPtr, KPtr, KSize],
      ex_args = [''graph'', ''from'', ''to'', ''numDependencies''], ex_result = ErrorCode\<rparr>,
    \<lparr>ex_name = ''hipGraphRemoveDependencies'',
      ex_params = [(''graph'', KPtr), (''from'', KPtr), (''to'', KPtr), (''numDependencies'', KSize)],
      ex_symbol = ''hipGraphRemoveDependencies'', ex_types = [KPtr, KPtr, KPtr, KSize],
      ex_args = [''graph'', ''from'', ''to'', ''numDependencies''], ex_result = ErrorCode\<rparr>,
    \<lparr>ex_name = ''hipGraphDestroyNode'',
      ex_params = [(''node'', KPtr)],
      ex_symbol = ''hipGraphDestroyNode'', ex_types = [KPtr],
      ex_args = [''node''], ex_result = ErrorCode\<rparr>,
    \<lparr>ex_name = ''hipGraphClone'',
      ex_params = [(''pGraphClone'', KPtr), (''originalGraph'', KPtr)],
      ex_symbol = ''hipGraphClone'', ex_types = [KPtr, KPtr],
      ex_args = [''pGraphClone'', ''originalGraph''], ex_result = ErrorCode\<rparr>,
    \<lparr>ex_name = ''hipGraphNodeFindInClone'',
      ex_params = [(''pNode'', KPtr), (''originalNode'', KPtr), (''clonedGraph'', KPtr)],
      ex_symbol = ''hipGraphNodeFindInClone'', ex_types = [KPtr, KPtr, KPtr],
      ex_args = [''pNode'', ''originalNode'', ''clonedGraph''], ex_result = ErrorCode\<rparr>,
    \<lparr>ex_name = ''hipGraphNodeGetDependencies'',
      ex_params = [(''node'', KPtr), (''pDependencies'', KPtr), (''pNumDependencies'', KPtr)],
      ex_symbol = ''hipGraphNodeGetDependencies'', ex_types = [KPtr, KPtr, KPtr],
      ex_args = [''node'', ''pDependencies'', ''pNumDependencies''], ex_result = ErrorCode\<rparr>]"

definition exports_13 :: "export list" where
  "exports_13 = [
    \<lparr>ex_name = ''hipGraphNodeGetDependentNodes'',
      ex_params = [(''node'', KPtr), (''pDependentNodes'', KPtr), (''pNumDependentNodes'', KPtr)],
      ex_symbol = ''hipGraphNodeGetDependentNodes'', ex_types = [KPtr, KPtr, KPtr],
      ex_args = [''node'', ''pDependentNodes'', ''pNumDependentNodes''], ex_result = ErrorCode\<rparr>,
    \<lparr>ex_name = ''hipGraphGetEdges'',
      ex_params = [(''graph'', KPtr), (''from'', KPtr), (''to'', KPtr), (''numEdges'', KPtr)],
      ex_symbol = ''hipGraphGetEdges'', ex_types = [KPtr, KPtr, KPtr, KPtr],
      ex_args = [''graph'', ''from'', ''to'', ''numEdges''], ex_result = ErrorCode\<rparr>,
    \<lparr>ex_name = ''hipGraphExecUpdate'',
      ex_params = [(''hGraphExec'', KPtr), (''hGraph'', KPtr), (''hErrorNode_out'', KPtr), (''updateResult_out'', KPtr)],
      ex_symbol = ''hipGraphExecUpdate'', ex_types = [KPtr, KPtr, KPtr, KPtr],
      ex_args = [''hGraphExec'', ''hGraph'', ''hErrorNode_out'', ''updateResult_out''], ex_result = ErrorCode\<rparr>,
    \<lparr>ex_name = ''hipGraphKernelNodeGetParams'',
      ex_params = [(''node'', KPtr), (''pNodeParams'', KPtr)],
      ex_symbol = ''hipGraphKernelNodeGetParams'', ex_types = [KPtr, KPtr],
      ex_args = [''node'', ''pNodeParams''], ex_result = ErrorCode\<rparr>,
    \<lparr>ex_name = ''hipGraphKernelNodeSetParams'',
      ex_params = [(''node'', KPtr), (''pNodeParams'', KPtr)],
      ex_symbol = ''hipGraphKernelNodeSetParams'', ex_types = [KPtr, KPtr],
      ex_args = [''node'', ''pNodeParams''], ex_result = ErrorCode\<rparr>,
    \<lparr>ex_name = ''hipGraphExecKernelNodeSetParams'',
      ex_params = [(''hGraphExec'', KPtr), (''node'', KPtr), (''pNodeParams'', KPtr)],
      ex_symbol = ''hipGraphExecKernelNodeSetParams'', ex_types = [KPtr, KPtr, KPtr],
      ex_args = [''hGraphExec'', ''node'', ''pNodeParams''], ex_result = ErrorCode\<rparr>,
    \<lparr>ex_name = ''hipGraphMemcpyNodeGetParams'',
      ex_params = [(''node'', KPtr), (''pNodeParams'', KPtr)],
      ex_symbol = ''hipGraphMemcpyNodeGetParams'', ex_types = [KPtr, KPtr],
      ex_args = [''node'', ''pNodeParams''], ex_result = ErrorCode\<rparr>,
    \<lparr>ex_name = ''hipGraphMemcpyNodeSetParams'',
      ex_params = [(''node'', KPtr), (''pNodeParams'', KPtr)],
      ex_symbol = ''hipGraphMemcpyNodeSetParams'', ex_types = [KPtr, KPtr],
      ex_args = [''node'', ''pNodeParams''], ex_result = ErrorCode\<rparr>,
    \<lparr>ex_name = ''hipGraphMemsetNodeGetParams'',
      ex_params = [(''node'', KPtr), (''pNodeParams'', KPtr)],
      ex_symbol = ''hipGraphMemsetNodeGetParams'', ex_types = [KPtr, KPtr],
      ex_args = [''node'', ''pNodeParams''], ex_result = ErrorCode\<rparr>,
    \<lparr>ex_name = ''hipGraphMemsetNodeSetParams'',
      ex_params = [(''node'', KPtr), (''pNodeParams'', KPtr)],
      ex_symbol = ''hipGraphMemsetNodeSetParams'', ex_types = [KPtr, KPtr],
      ex_args = [''node'', ''pNodeParams''], ex_result = ErrorCode\<rparr>,
    \<lparr>ex_name = ''hipGraphHostNodeGetParams'',
      ex_params = [(''node'', KPtr), (''pNodeParams'', KPtr)],
      ex_symbol = ''hipGraphHostNodeGetParams'', ex_types = [KPtr, KPtr],
      ex_args = [''node'', ''pNodeParams''], ex_result = ErrorCode\<rparr>,
    \<lparr>ex_name = ''hipGraphHostNodeSetParams'',
      ex_params = [(''node'', KPtr), (''pNodeParams'', KPtr)],
      ex_symbol = ''hipGraphHostNodeSetParams'', ex_types = [KPtr, KPtr],
      ex_args = [''node'', ''pNodeParams''], ex_result = ErrorCode\<rparr>,
    \<lparr>ex_name = ''hipGraphChildGraphNodeGetGraph'',
      ex_params = [(''node'', KPtr), (''pGraph'', KPtr)],
      ex_symbol = ''hipGraphChildGraphNodeGetGraph'', ex_types = [KPtr, KPtr],
      ex_args = [''node'', ''pGraph''], ex_result = ErrorCode\<rparr>,
    \<lparr>ex_name = ''hipGraphEventRecordNodeGetEvent'',
      ex_params = [(''node'', KPtr), (''event_out'', KPtr)],
      ex_symbol = ''hipGraphEventRecordNodeGetEvent'', ex_types = [KPtr, KPtr],
      ex_args = [''node'', ''event_out''], ex_result = ErrorCode\<rparr>,
    \<lparr>ex_name = ''hipGraphEventRecordNodeSetEvent'',
      ex_params = [(''node'', KPtr), (''event'', KPtr)],
      ex_symbol = ''hipGraphEventRecordNodeSetEvent'', ex_types = [KPtr, KPtr],
      ex_args = [''node'', ''event''], ex_result = ErrorCode\<rparr>,
    \<lparr>ex_name = ''hipGraphEventWaitNodeGetEvent'',
      ex_params = [(''node'', KPtr), (''event_out'', KPtr)],
      ex_symbol = ''hipGraphEventWaitNodeGetEvent'', ex_types = [KPtr, KPtr],
      ex_args = [''node'', ''event_out''], ex_result = ErrorCode\<rparr>]"

definition exports_14 :: "export list" where
  "exports_14 = [
    \<lparr>ex_name = ''hipGraphEventWaitNodeSetEvent'',
      ex_params = [(''node'', KPtr), (''event'', KPtr)],
      ex_symbol = ''hipGraphEventWaitNodeSetEvent'', ex_types = [KPtr, KPtr],
      ex_args = [''node'', ''event''], ex_result = ErrorCode\<rparr>,
    \<lparr>ex_name = ''hipGraphDebugDotPrint'',
      ex_params = [(''graph'', KPtr), (''path'', KPtr), (''flags'', KUint)],
      ex_symbol = ''hipGraphDebugDotPrint'', ex_types = [KPtr, KPtr, KUint],
      ex_args = [''graph'', ''path'', ''flags''], ex_result = ErrorCode\<rparr>,
    \<lparr>ex_name = ''hipGraphAddMemFreeNode'',
      ex_params = [(''pGraphNode'', KPtr), (''graph'', KPtr), (''pDependencies'', KPtr), (''numDependencies'', KSize), (''dptr'', KPtr)],
      ex_symbol = ''hipGraphAddMemFreeNode'', ex_types = [KPtr, KPtr, KPtr, KSize, KPtr],
      ex_args = [''pGraphNode'', ''graph'', ''pDependencies'', ''numDependencies'', ''dptr''], ex_result = ErrorCode\<rparr>,
    \<lparr>ex_name = ''hipGraphAddMemAllocNode'',
      ex_params = [(''pGraphNode'', KPtr), (''graph'', KPtr), (''pDependencies'', KPtr), (''numDependencies'', KSize), (''pNodeParams'', KPtr)],
      ex_symbol = ''hipGraphAddMemAllocNode'', ex_types = [KPtr, KPtr, KPtr, KSize, KPtr],
      ex_args = [''pGraphNode'', ''graph'', ''pDependencies'', ''numDependencies'', ''pNodeParams''], ex_result = ErrorCode\<rparr>,
    \<lparr>ex_name = ''hipGraphMemAllocNodeGetParams'',
      ex_params = [(''node'', KPtr), (''pNodeParams'', KPtr)],
      ex_symbol = ''hipGraphMemAllocNodeGetParams'', ex_types = [KPtr, KPtr],
      ex_args = [''node'', ''pNodeParams''], ex_result = ErrorCode\<rparr>,
    \<lparr>ex_name = ''hipGraphMemFreeNodeGetParams'',
      ex_params = [(''node'', KPtr), (''dev_ptr'', KPtr)],
      ex_symbol = ''hipGraphMemFreeNodeGetParams'', ex_types = [KPtr, KPtr],
      ex_args = [''node'', ''dev_ptr''], ex_result = ErrorCode\<rparr>,
    \<lparr>ex_name = ''hipDeviceGraphMemTrim'',
      ex_params = [(''device'', KInt)],
      ex_symbol = ''hipDeviceGraphMemTrim'', ex_types = [KInt],
      ex_args = [''device''], ex_result = ErrorCode\<rparr>,
    \<lparr>ex_name = ''hipDeviceGetGraphMemAttribute'',
      ex_params = [(''device'', KInt), (''attr'', KInt), (''value'', KPtr)],
      ex_symbol = ''hipDeviceGetGraphMemAttribute'', ex_types = [KInt, KInt, KPtr],
      ex_args = [''device'', ''attr'', ''value''], ex_result = ErrorCode\<rparr>,
    \<lparr>ex_name = ''hipDeviceSetGraphMemAttribute'',
      ex_params = [(''device'', KInt), (''attr'', KInt), (''value'', KPtr)],
      ex_symbol = ''hipDeviceSetGraphMemAttribute'', ex_types = [KInt, KInt, KPtr],
      ex_args = [''device'', ''attr'', ''value''], ex_result = ErrorCode\<rparr>,
    \<lparr>ex_name = ''hipStreamGetDevice'',
      ex_params = [(''stream'', KPtr), (''device'', KPtr)],
      ex_symbol = ''hipStreamGetDevice'', ex_types = [KPtr, KPtr],
      ex_args = [''stream'', ''device''], ex_result = ErrorCode\<rparr>,
    \<lparr>ex_name = ''hipStreamAttachMemAsync'',
      ex_params = [(''stream'', KPtr), (''dev_ptr'', KPtr), (''length'', KSize), (''flags'', KUint)],
      ex_symbol = ''hipStreamAttachMemAsync'', ex_types = [KPtr, KPtr, KSize, KUint],
      ex_args = [''stream'', ''dev_ptr'', ''length'', ''flags''], ex_result = ErrorCode\<rparr>,
    \<lparr>ex_name = ''hipKernelNameRef'',
      ex_params = [(''hostFunction'', KPtr)],
      ex_symbol = ''hipKernelNameRef'', ex_types = [KPtr],
      ex_args = [''hostFunction''], ex_result = CString\<rparr>,
    \<lparr>ex_name = ''hipKernelNameRefByPtr'',
      ex_params = [(''hostFunction'', KPtr), (''stream'', KPtr)],
      ex_symbol = ''hipKernelNameRefByPtr'', ex_types = [KPtr, KPtr],
      ex_args = [''hostFunction'', ''stream''], ex_result = CString\<rparr>,
    \<lparr>ex_name = ''hipLaunchKernelGGL'',
      ex_params = [(''func'', KPtr), (''gridDim'', KDim3), (''blockDim'', KDim3), (''sharedMem'', KSize), (''stream'', KPtr), (''kernelParams'', KPtr)],
      ex_symbol = ''hipLaunchKernelGGL'', ex_types = [KPtr, KDim3, KDim3, KSize, KPtr, KPtr],
      ex_args = [''func'', ''gridDim'', ''blockDim'', ''sharedMem'', ''stream'', ''kernelParams''], ex_result = ErrorCode\<rparr>,
    \<lparr>ex_name = ''hipModuleOccupancyMaxPotentialBlockSizeWithFlags'',
      ex_params = [(''gridSize'', KPtr), (''blockSize'', KPtr), (''f'', KPtr), (''dynSharedMemPerBlk'', KSize), (''blockSizeLimit'', KInt), (''flags'', KUint)],
      ex_symbol = ''hipModuleOccupancyMaxPotentialBlockSizeWithFlags'', ex_types = [KPtr, KPtr, KPtr, KSize, KInt, KUint],
      ex_args = [''gridSize'', ''blockSize'', ''f'', ''dynSharedMemPerBlk'', ''blockSizeLimit'', ''flags''], ex_result = ErrorCode\<rparr>,
    \<lparr>ex_name = ''hipModuleOccupancyMaxActiveBlocksPerMultiprocessorWithFlags'',
      ex_params = [(''numBlocks'', KPtr), (''f'', KPtr), (''blockSize'', KInt), (''dynSharedMemPerBlk'', KSize), (''flags'', KUint)],
      ex_symbol = ''hipModuleOccupancyMaxActiveBlocksPerMultiprocessorWithFlags'', ex_types = [KPtr, KPtr, KInt, KSize, KUint],
      ex_args = [''numBlocks'', ''f'', ''blockSize'', ''dynSharedMemPerBlk'', ''flags''], ex_result = ErrorCode\<rparr>]"

definition exports_15 :: "export list" where
  "exports_15 = [
    \<lparr>ex_name = ''hipProfilerStart'',
      ex_params = [],
      ex_symbol = ''hipProfilerStart'', ex_types = [],
      ex_args = [], ex_result = ErrorCode\<rparr>,
    \<lparr>ex_name = ''hipProfilerStop'',
      ex_params = [],
      ex_symbol = ''hipProfilerStop'', ex_types = [],
      ex_args = [], ex_result = ErrorCode\<rparr>,
    \<lparr>ex_name = ''hipApiVersion'',
      ex_params = [(''apiVersion'', KPtr)],
      ex_symbol = ''hipApiVersion'', ex_types = [KPtr],
      ex_args = [''apiVersion''], ex_result = ErrorCode\<rparr>,
    \<lparr>ex_name = ''hipMallocHost'',
      ex_params = [(''ptr'', KPtr), (''size'', KSize)],
      ex_symbol = ''hipMallocHost'', ex_types = [KPtr, KSize],
      ex_args = [''ptr'', ''size''], ex_result = ErrorCode\<rparr>,
    \<lparr>ex_name = ''hipFreeHost'',
      ex_params = [(''ptr'', KPtr)],
      ex_symbol = ''hipFreeHost'', ex_types = [KPtr],
      ex_args = [''ptr''], ex_result = ErrorCode\<rparr>,
    \<lparr>ex_name = ''hipConfigureCall'',
      ex_params = [(''gridDim'', KDim3), (''blockDim'', KDim3), (''sharedMem'', KSize), (''stream'', KPtr)],
      ex_symbol = ''hipConfigureCall'', ex_types = [KDim3, KDim3, KSize, KPtr],
      ex_args = [''gridDim'', ''blockDim'', ''sharedMem'', ''stream''], ex_result = ErrorCode\<rparr>,
    \<lparr>ex_name = ''hipSetupArgument'',
      ex_params = [(''arg'', KPtr), (''size'', KSize), (''offset'', KSize)],
      ex_symbol = ''hipSetupArgument'', ex_types = [KPtr, KSize, KSize],
      ex_args = [''arg'', ''size'', ''offset''], ex_result = ErrorCode\<rparr>,
    \<lparr>ex_name = ''hipLaunchByPtr'',
      ex_params = [(''func'', KPtr)],
      ex_symbol = ''hipLaunchByPtr'', ex_types = [KPtr],
      ex_args = [''func''], ex_result = ErrorCode\<rparr>,
    \<lparr>ex_name = ''hipLaunchCooperativeKernelMultiDevice'',
      ex_params = [(''launchParamsList'', KPtr), (''numDevices'', KInt), (''flags'', KUint)],
      ex_symbol = ''hipLaunchCooperativeKernelMultiDevice'', ex_types = [KPtr, KInt, KUint],
      ex_args = [''launchParamsList'', ''numDevices'', ''flags''], ex_result = ErrorCode\<rparr>,
    \<lparr>ex_name = ''hipExtLaunchMultiKernelMultiDevice'',
      ex_params = [(''launchParamsList'', KPtr), (''numDevices'', KInt), (''flags'', KUint)],
      ex_symbol = ''hipExtLaunchMultiKernelMultiDevice'', ex_types = [KPtr, KInt, KUint],
      ex_args = [''launchParamsList'', ''numDevices'', ''flags''], ex_result = ErrorCode\<rparr>,
    \<lparr>ex_name = ''hipMemGetAllocationGranularity'',
      ex_params = [(''granularity'', KPtr), (''prop'', KPtr), (''option'', KInt)],
      ex_symbol = ''hipMemGetAllocationGranularity'', ex_types = [KPtr, KPtr, KInt],
      ex_args = [''granularity'', ''prop'', ''option''], ex_result = ErrorCode\<rparr>,
    \<lparr>ex_name = ''hipMemAddressReserve'',
      ex_params = [(''ptr'', KPtr), (''size'', KSize), (''alignment'', KSize), (''addr'', KPtr), (''flags'', KUlong)],
      ex_symbol = ''hipMemAddressReserve'', ex_types = [KPtr, KSize, KSize, KPtr, KUlong],
      ex_args = [''ptr'', ''size'', ''alignment'', ''addr'', ''flags''], ex_result = ErrorCode\<rparr>,
    \<lparr>ex_name = ''hipMemAddressFree'',
      ex_params = [(''devPtr'', KPtr), (''size'', KSize)],
      ex_symbol = ''hipMemAddressFree'', ex_types = [KPtr, KSize],
      ex_args = [''devPtr'', ''size''], ex_result = ErrorCode\<rparr>,
    \<lparr>ex_name = ''hipMemCreate'',
      ex_params = [(''handle'', KPtr), (''size'', KSize), (''prop'', KPtr), (''flags'', KUlong)],
      ex_symbol = ''hipMemCreate'', ex_types = [KPtr, KSize, KPtr, KUlong],
      ex_args = [''handle'', ''size'', ''prop'', ''flags''], ex_result = ErrorCode\<rparr>,
    \<lparr>ex_name = ''hipMemRelease'',
      ex_params = [(''handle'', KPtr)],
      ex_symbol = ''hipMemRelease'', ex_types = [KPtr],
      ex_args = [''handle''], ex_result = ErrorCode\<rparr>,
    \<lparr>ex_name = ''hipMemMap'',
      ex_params = [(''ptr'', KPtr), (''size'', KSize), (''offset'', KSize), (''handle'', KPtr), (''flags'', KUlong)],
      ex_symbol = ''hipMemMap'', ex_types = [KPtr, KSize, KSize, KPtr, KUlong],
      ex_args = [''ptr'', ''size'', ''offset'', ''handle'', ''flags''], ex_result = ErrorCode\<rparr>]"

definition exports_16 :: "export list" where
  "exports_16 = [
    \<lparr>ex_name = ''hipMemUnmap'',
      ex_params = [(''ptr'', KPtr), (''size'', KSize)],
      ex_symbol = ''hipMemUnmap'', ex_types = [KPtr, KSize],
      ex_args = [''ptr'', ''size''], ex_result = ErrorCode\<rparr>,
    \<lparr>ex_name = ''hipMemSetAccess'',
      ex_params = [(''ptr'', KPtr), (''size'', KSize), (''desc'', KPtr), (''count'', KSize)],
      ex_symbol = ''hipMemSetAccess'', ex_types = [KPtr, KSize, KPtr, KSize],
      ex_args = [''ptr'', ''size'', ''desc'', ''count''], ex_result = ErrorCode\<rparr>,
    \<lparr>ex_name = ''hipMemGetAccess'',
      ex_params = [(''flags'', KPtr), (''location'', KPtr), (''ptr'', KPtr)],
      ex_symbol = ''hipMemGetAccess'', ex_types = [KPtr, KPtr, KPtr],
      ex_args = [''flags'', ''location'', ''ptr''], ex_result = ErrorCode\<rparr>,
    \<lparr>ex_name = ''hipMemExportToShareableHandle'',
      ex_params = [(''shareableHandle'', KPtr), (''handle'', KPtr), (''handleType'', KInt), (''flags'', KUlong)],
      ex_symbol = ''hipMemExportToShareableHandle'', ex_types = [KPtr, KPtr, KInt, KUlong],
      ex_args = [''shareableHandle'', ''handle'', ''handleType'', ''flags''], ex_result = ErrorCode\<rparr>,
    \<lparr>ex_name = ''hipMemImportFromShareableHandle'',
      ex_params = [(''handle'', KPtr), (''osHandle'', KPtr), (''shHandleType'', KInt)],
      ex_symbol = ''hipMemImportFromShareableHandle'', ex_types = [KPtr, KPtr, KInt],
      ex_args = [''handle'', ''osHandle'', ''shHandleType''], ex_result = ErrorCode\<rparr>,
    \<lparr>ex_name = ''hipMemGetAllocationPropertiesFromHandle'',
      ex_params = [(''prop'', KPtr), (''handle'', KPtr)],
      ex_symbol = ''hipMemGetAllocationPropertiesFromHandle'', ex_types = [KPtr, KPtr],
      ex_args = [''prop'', ''handle''], ex_result = ErrorCode\<rparr>,
    \<lparr>ex_name = ''hipMemRetainAllocationHandle'',
      ex_params = [(''handle'', KPtr), (''addr'', KPtr)],
      ex_symbol = ''hipMemRetainAllocationHandle'', ex_types = [KPtr, KPtr],
      ex_args = [''handle'', ''addr''], ex_result = ErrorCode\<rparr>,
    \<lparr>ex_name = ''hipMemPtrGetInfo'',
      ex_params = [(''ptr'', KPtr), (''size'', KPtr)],
      ex_symbol = ''hipMemPtrGetInfo'', ex_types = [KPtr, KPtr],
      ex_args = [''ptr'', ''size''], ex_result = ErrorCode\<rparr>,
    \<lparr>ex_name = ''hipExtStreamCreateWithCUMask'',
      ex_params = [(''stream'', KPtr), (''cuMaskSize'', KUint), (''cuMask'', KPtr)],
      ex_symbol = ''hipExtStreamCreateWithCUMask'', ex_types = [KPtr, KUint, KPtr],
      ex_args = [''stream'', ''cuMaskSize'', ''cuMask''], ex_result = ErrorCode\<rparr>,
    \<lparr>ex_name = ''hipExtStreamGetCUMask'',
      ex_params = [(''stream'', KPtr), (''cuMaskSize'', KUint), (''cuMask'', KPtr)],
      ex_symbol = ''hipExtStreamGetCUMask'', ex_types = [KPtr, KUint, KPtr],
      ex_args = [''stream'', ''cuMaskSize'', ''cuMask''], ex_result = ErrorCode\<rparr>,
    \<lparr>ex_name = ''hipHccModuleLaunchKernel'',
      ex_params = [(''f'', KPtr), (''globalWorkSizeX'', KUint), (''globalWorkSizeY'', KUint), (''globalWorkSizeZ'', KUint), (''blockDimX'', KUint), (''blockDimY'', KUint), (''blockDimZ'', KUint), (''sharedMemBytes'', KSize), (''hStream'', KPtr), (''kernelParams'', KPtr), (''extra'', KPtr), (''startEvent'', KPtr), (''stopEvent'', KPtr)],
      ex_symbol = ''hipHccModuleLaunchKernel'', ex_types = [KPtr, KUint, KUint, KUint, KUint, KUint, KUint, KSize, KPtr, KPtr, KPtr, KPtr, KPtr],
      ex_args = [''f'', ''globalWorkSizeX'', ''globalWorkSizeY'', ''globalWorkSizeZ'', ''blockDimX'', ''blockDimY'', ''blockDimZ'', ''sharedMemBytes'', ''hStream'', ''kernelParams'', ''extra'', ''startEvent'', ''stopEvent''], ex_result = ErrorCode\<rparr>,
    \<lparr>ex_name = ''hipDeviceGetUuidString'',
      ex_params = [(''uuid'', KPtr), (''device'', KInt)],
      ex_symbol = ''hipDeviceGetUuidString'', ex_types = [KPtr, KInt],
      ex_args = [''uuid'', ''device''], ex_result = ErrorCode\<rparr>,
    \<lparr>ex_name = ''hipMalloc3D'',
      ex_params = [(''pitchedDevPtr'', KPtr), (''extent'', KPtr)],
      ex_symbol = ''hipMalloc3D'', ex_types = [KPtr, KPtr],
      ex_args = [''pitchedDevPtr'', ''extent''], ex_result = ErrorCode\<rparr>,
    \<lparr>ex_name = ''hipMemset3D'',
      ex_params = [(''pitchedDevPtr'', KPtr), (''value'', KInt), (''extent'', KPtr)],
      ex_symbol = ''hipMemset3D'', ex_types = [KPtr, KInt, KPtr],
      ex_args = [''pitchedDevPtr'', ''value'', ''extent''], ex_result = ErrorCode\<rparr>,
    \<lparr>ex_name = ''hipMemset3DAsync'',
      ex_params = [(''pitchedDevPtr'', KPtr), (''value'', KInt), (''extent'', KPtr), (''stream'', KPtr)],
      ex_symbol = ''hipMemset3DAsync'', ex_types = [KPtr, KInt, KPtr, KPtr],
      ex_args = [''pitchedDevPtr'', ''value'', ''extent'', ''stream''], ex_result = ErrorCode\<rparr>,
    \<lparr>ex_name = ''hipGetArrayDescriptor'',
      ex_params = [(''pArrayDescriptor'', KPtr), (''array'', KPtr)],
      ex_symbol = ''hipGetArrayDescriptor'', ex_types = [KPtr, KPtr],
      ex_args = [''pArrayDescriptor'', ''array''], ex_result = ErrorCode\<rparr>]"

definition exports_17 :: "export list" where
  "exports_17 = [
    \<lparr>ex_name = ''hipArrayCreate'',
      ex_params = [(''pHandle'', KPtr), (''pAllocateArray'', KPtr)],
      ex_symbol = ''hipArrayCreate'', ex_types = [KPtr, KPtr],
      ex_args = [''pHandle'', ''pAllocateArray''], ex_result = ErrorCode\<rparr>,
    \<lparr>ex_name = ''hipArray3DCreate'',
      ex_params = [(''pHandle'', KPtr), (''pAllocateArray'', KPtr)],
      ex_symbol = ''hipArray3DCreate'', ex_types = [KPtr, KPtr],
      ex_args = [''pHandle'', ''pAllocateArray''], ex_result = ErrorCode\<rparr>,
    \<lparr>ex_name = ''hipArrayGetDescriptor'',
      ex_params = [(''pArrayDescriptor'', KPtr), (''array'', KPtr)],
      ex_symbol = ''hipArrayGetDescriptor'', ex_types = [KPtr, KPtr],
      ex_args = [''pArrayDescriptor'', ''array''], ex_result = ErrorCode\<rparr>,
    \<lparr>ex_name = ''hipArray3DGetDescriptor'',
      ex_params = [(''pArrayDescriptor'', KPtr), (''array'', KPtr)],
      ex_symbol = ''hipArray3DGetDescriptor'', ex_types = [KPtr, KPtr],
      ex_args = [''pArrayDescriptor'', ''array''], ex_result = ErrorCode\<rparr>,
    \<lparr>ex_name = ''hipExternalMemoryGetMappedMipmappedArray'',
      ex_params = [(''mipmap'', KPtr), (''extMem'', KPtr), (''mipmapDesc'', KPtr)],
      ex_symbol = ''hipExternalMemoryGetMappedMipmappedArray'', ex_types = [KPtr, KPtr, KPtr],
      ex_args = [''mipmap'', ''extMem'', ''mipmapDesc''], ex_result = ErrorCode\<rparr>,
    \<lparr>ex_name = ''hipDeviceGetDefaultMemPoolR0600'',
      ex_params = [(''memPool'', KPtr), (''device'', KInt)],
      ex_symbol = ''hipDeviceGetDefaultMemPoolR0600'', ex_types = [KPtr, KInt],
      ex_args = [''memPool'', ''device''], ex_result = ErrorCode\<rparr>,
    \<lparr>ex_name = ''hipModuleLaunchCooperativeKernel'',
      ex_params = [(''f'', KPtr), (''gridDimX'', KUint), (''gridDimY'', KUint), (''gridDimZ'', KUint), (''blockDimX'', KUint), (''blockDimY'', KUint), (''blockDimZ'', KUint), (''sharedMemBytes'', KUint), (''stream'', KPtr), (''kernelParams'', KPtr)],
      ex_symbol = ''hipModuleLaunchCooperativeKernel'', ex_types = [KPtr, KUint, KUint, KUint, KUint, KUint, KUint, KUint, KPtr, KPtr],
      ex_args = [''f'', ''gridDimX'', ''gridDimY'', ''gridDimZ'', ''blockDimX'', ''blockDimY'', ''blockDimZ'', ''sharedMemBytes'', ''stream'', ''kernelParams''], ex_result = ErrorCode\<rparr>,
    \<lparr>ex_name = ''hipModuleLaunchCooperativeKernelMultiDevice'',
      ex_params = [(''launchParamsList'', KPtr), (''numDevices'', KUint), (''flags'', KUint)],
      ex_symbol = ''hipModuleLaunchCooperativeKernelMultiDevice'', ex_types = [KPtr, KUint, KUint],
      ex_args = [''launchParamsList'', ''numDevices'', ''flags''], ex_result = ErrorCode\<rparr>,
    \<lparr>ex_name = ''hipOccupancyMaxPotentialBlockSizeVariableSMem'',
      ex_params = [(''minGridSize'', KPtr), (''blockSize'', KPtr), (''func'', KPtr), (''blockSizeToDynamicSMemSize'', KPtr), (''blockSizeLimit'', KInt)],
      ex_symbol = ''hipOccupancyMaxPotentialBlockSizeVariableSMem'', ex_types = [KPtr, KPtr, KPtr, KPtr, KInt],
      ex_args = [''minGridSize'', ''blockSize'', ''func'', ''blockSizeToDynamicSMemSize'', ''blockSizeLimit''], ex_result = ErrorCode\<rparr>,
    \<lparr>ex_name = ''hipOccupancyMaxPotentialBlockSizeVariableSMemWithFlags'',
      ex_params = [(''minGridSize'', KPtr), (''blockSize'', KPtr), (''func'', KPtr), (''blockSizeToDynamicSMemSize'', KPtr), (''blockSizeLimit'', KInt), (''flags'', KUint)],
      ex_symbol = ''hipOccupancyMaxPotentialBlockSizeVariableSMemWithFlags'', ex_types = [KPtr, KPtr, KPtr, KPtr, KInt, KUint],
      ex_args = [''minGridSize'', ''blockSize'', ''func'', ''blockSizeToDynamicSMemSize'', ''blockSizeLimit'', ''flags''], ex_result = ErrorCode\<rparr>,
    \<lparr>ex_name = ''hipDeviceGetP2PAttribute'',
      ex_params = [(''value'', KPtr), (''attr'', KInt), (''srcDevice'', KInt), (''dstDevice'', KInt)],
      ex_symbol = ''hipDeviceGetP2PAttribute'', ex_types = [KPtr, KInt, KInt, KInt],
      ex_args = [''value'', ''attr'', ''srcDevice'', ''dstDevice''], ex_result = ErrorCode\<rparr>,
    \<lparr>ex_name = ''hipDeviceGetArchConfig'',
      ex_params = [(''major'', KPtr), (''minor'', KPtr), (''device'', KInt)],
      ex_symbol = ''hipDeviceGetArchConfig'', ex_types = [KPtr, KPtr, KInt],
      ex_args = [''major'', ''minor'', ''device''], ex_result = ErrorCode\<rparr>,
    \<lparr>ex_name = ''hipDrvMemcpy2DUnaligned'',
      ex_params = [(''pCopy'', KPtr)],
      ex_symbol = ''hipDrvMemcpy2DUnaligned'', ex_types = [KPtr],
      ex_args = [''pCopy''], ex_result = ErrorCode\<rparr>,
    \<lparr>ex_name = ''hipDrvMemcpy3D'',
      ex_params = [(''p'', KPtr)],
      ex_symbol = ''hipDrvMemcpy3D'', ex_types = [KPtr],
      ex_args = [''p''], ex_result = ErrorCode\<rparr>,
    \<lparr>ex_name = ''hipDrvMemcpy3DAsync'',
      ex_params = [(''p'', KPtr), (''stream'', KPtr)],
      ex_symbol = ''hipDrvMemcpy3DAsync'', ex_types = [KPtr, KPtr],
      ex_args = [''p'', ''stream''], ex_result = ErrorCode\<rparr>,
    \<lparr>ex_name = ''hipModuleLoadGlobal'',
      ex_params = [(''dptr'', KPtr), (''bytes'', KPtr), (''hmod'', KPtr), (''name'', KPtr)],
      ex_symbol = ''hipModuleLoadGlobal'', ex_types = [KPtr, KPtr, KPtr, KPtr],
      ex_args = [''dptr'', ''bytes'', ''hmod'', ''name''], ex_result = ErrorCode\<rparr>]"

definition exports_18 :: "export list" where
  "exports_18 = [
    \<lparr>ex_name = ''hipDeviceGetAttributeByName'',
      ex_params = [(''value'', KPtr), (''attr_name'', KPtr), (''device'', KInt)],
      ex_symbol = ''hipDeviceGetAttributeByName'', ex_types = [KPtr, KPtr, KInt],
      ex_args = [''value'', ''attr_name'', ''device''], ex_result = ErrorCode\<rparr>,
    \<lparr>ex_name = ''hipStreamWriteValue32'',
      ex_params = [(''stream'', KPtr), (''ptr'', KPtr), (''value'', KUint), (''flags'', KUint)],
      ex_symbol = ''hipStreamWriteValue32'', ex_types = [KPtr, KPtr, KUint, KUint],
      ex_args = [''stream'', ''ptr'', ''value'', ''flags''], ex_result = ErrorCode\<rparr>,
    \<lparr>ex_name = ''hipStreamWriteValue64'',
      ex_params = [(''stream'', KPtr), (''ptr'', KPtr), (''value'', KUlong), (''flags'', KUint)],
      ex_symbol = ''hipStreamWriteValue64'', ex_types = [KPtr, KPtr, KUlong, KUint],
      ex_args = [''stream'', ''ptr'', ''value'', ''flags''], ex_result = ErrorCode\<rparr>,
    \<lparr>ex_name = ''hipStreamWaitValue32'',
      ex_params = [(''stream'', KPtr), (''ptr'', KPtr), (''value'', KUint), (''flags'', KUint), (''mask'', KUint)],
      ex_symbol = ''hipStreamWaitValue32'', ex_types = [KPtr, KPtr, KUint, KUint, KUint],
      ex_args = [''stream'', ''ptr'', ''value'', ''flags'', ''mask''], ex_result = ErrorCode\<rparr>,
    \<lparr>ex_name = ''hipStreamWaitValue64'',
      ex_params = [(''stream'', KPtr), (''ptr'', KPtr), (''value'', KUlong), (''flags'', KUint), (''mask'', KUlong)],
      ex_symbol = ''hipStreamWaitValue64'', ex_types = [KPtr, KPtr, KUlong, KUint, KUlong],
      ex_args = [''stream'', ''ptr'', ''value'', ''flags'', ''mask''], ex_result = ErrorCode\<rparr>,
    \<lparr>ex_name = ''hipDrvMemcpy2D'',
      ex_params = [(''pCopy'', KPtr)],
      ex_symbol = ''hipDrvMemcpy2D'', ex_types = [KPtr],
      ex_args = [''pCopy''], ex_result = ErrorCode\<rparr>,
    \<lparr>ex_name = ''hipRtcCompileProgram'',
      ex_params = [(''prog'', KPtr), (''numOptions'', KInt), (''options'', KPtr)],
      ex_symbol = ''hipRtcCompileProgram'', ex_types = [KPtr, KInt, KPtr],
      ex_args = [''prog'', ''numOptions'', ''options''], ex_result = ErrorCode\<rparr>,
    \<lparr>ex_name = ''hipRtcCreateProgram'',
      ex_params = [(''prog'', KPtr), (''src'', KPtr), (''name'', KPtr), (''numHeaders'', KInt), (''headers'', KPtr), (''includeNames'', KPtr)],
      ex_symbol = ''hipRtcCreateProgram'', ex_types = [KPtr, KPtr, KPtr, KInt, KPtr, KPtr],
      ex_args = [''prog'', ''src'', ''name'', ''numHeaders'', ''headers'', ''includeNames''], ex_result = ErrorCode\<rparr>,
    \<lparr>ex_name = ''hipRtcDestroyProgram'',
      ex_params = [(''prog'', KPtr)],
      ex_symbol = ''hipRtcDestroyProgram'', ex_types = [KPtr],
      ex_args = [''prog''], ex_result = ErrorCode\<rparr>,
    \<lparr>ex_name = ''hipRtcGetCode'',
      ex_params = [(''prog'', KPtr), (''code'', KPtr)],
      ex_symbol = ''hipRtcGetCode'', ex_types = [KPtr, KPtr],
      ex_args = [''prog'', ''code''], ex_result = ErrorCode\<rparr>,
    \<lparr>ex_name = ''hipRtcGetCodeSize'',
      ex_params = [(''prog'', KPtr), (''codeSizeRet'', KPtr)],
      ex_symbol = ''hipRtcGetCodeSize'', ex_types = [KPtr, KPtr],
      ex_args = [''prog'', ''codeSizeRet''], ex_result = ErrorCode\<rparr>,
    \<lparr>ex_name = ''hipRtcGetProgramLog'',
      ex_params = [(''prog'', KPtr), (''log'', KPtr)],
      ex_symbol = ''hipRtcGetProgramLog'', ex_types = [KPtr, KPtr],
      ex_args = [''prog'', ''log''], ex_result = ErrorCode\<rparr>,
    \<lparr>ex_name = ''hipRtcGetProgramLogSize'',
      ex_params = [(''prog'', KPtr), (''logSizeRet'', KPtr)],
      ex_symbol = ''hipRtcGetProgramLogSize'', ex_types = [KPtr, KPtr],
      ex_args = [''prog'', ''logSizeRet''], ex_result = ErrorCode\<rparr>,
    \<lparr>ex_name = ''hipGetDeviceProperties_v2'',
      ex_params = [(''prop'', KPtr), (''device'', KInt)],
      ex_symbol = ''hipGetDeviceProperties_v2'', ex_types = [KPtr, KInt],
      ex_args = [''prop'', ''device''], ex_result = ErrorCode\<rparr>,
    \<lparr>ex_name = ''hipGLGetDevices'',
      ex_params = [(''pHipDeviceCount'', KPtr), (''pHipDevices'', KPtr), (''hipDeviceCount'', KUint), (''deviceList'', KInt)],
      ex_symbol = ''hipGLGetDevices'', ex_types = [KPtr, KPtr, KUint, KInt],
      ex_args = [''pHipDeviceCount'', ''pHipDevices'', ''hipDeviceCount'', ''deviceList''], ex_result = ErrorCode\<rparr>,
    \<lparr>ex_name = ''hipGraphicsGLRegisterBuffer'',
      ex_params = [(''resource'', KPtr), (''buffer'', KUint), (''flags'', KUint)],
      ex_symbol = ''hipGraphicsGLRegisterBuffer'', ex_types = [KPtr, KUint, KUint],
      ex_args = [''resource'', ''buffer'', ''flags''], ex_result = ErrorCode\<rparr>]"

definition exports_19 :: "export list" where
  "exports_19 = [
    \<lparr>ex_name = ''hipGraphicsGLRegisterImage'',
      ex_params = [(''resource'', KPtr), (''image'', KUint), (''target'', KUint), (''flags'', KUint)],
      ex_symbol = ''hipGraphicsGLRegisterImage'', ex_types = [KPtr, KUint, KUint, KUint],
      ex_args = [''resource'', ''image'', ''target'', ''flags''], ex_result = ErrorCode\<rparr>,
    \<lparr>ex_name = ''hipGraphicsMapResources'',
      ex_params = [(''count'', KInt), (''resources'', KPtr), (''stream'', KPtr)],
      ex_symbol = ''hipGraphicsMapResources'', ex_types = [KInt, KPtr, KPtr],
      ex_args = [''count'', ''resources'', ''stream''], ex_result = ErrorCode\<rparr>,
    \<lparr>ex_name = ''hipGraphicsUnmapResources'',
      ex_params = [(''count'', KInt), (''resources'', KPtr), (''stream'', KPtr)],
      ex_symbol = ''hipGraphicsUnmapResources'', ex_types = [KInt, KPtr, KPtr],
      ex_args = [''count'', ''resources'', ''stream''], ex_result = ErrorCode\<rparr>,
    \<lparr>ex_name = ''hipGraphicsResourceGetMappedPointer'',
      ex_params = [(''devPtr'', KPtr), (''size'', KPtr), (''resource'', KPtr)],
      ex_symbol = ''hipGraphicsResourceGetMappedPointer'', ex_types = [KPtr, KPtr, KPtr],
      ex_args = [''devPtr'', ''size'', ''resource''], ex_result = ErrorCode\<rparr>,
    \<lparr>ex_name = ''hipGraphicsSubResourceGetMappedArray'',
      ex_params = [(''array'', KPtr), (''resource'', KPtr), (''arrayIndex'', KUint), (''mipLevel'', KUint)],
      ex_symbol = ''hipGraphicsSubResourceGetMappedArray'', ex_types = [KPtr, KPtr, KUint, KUint],
      ex_args = [''array'', ''resource'', ''arrayIndex'', ''mipLevel''], ex_result = ErrorCode\<rparr>,
    \<lparr>ex_name = ''hipGraphicsUnregisterResource'',
      ex_params = [(''resource'', KPtr)],
      ex_symbol = ''hipGraphicsUnregisterResource'', ex_types = [KPtr],
      ex_args = [''resource''], ex_result = ErrorCode\<rparr>,
    \<lparr>ex_name = ''hipGetStreamDeviceId'',
      ex_params = [(''stream'', KPtr), (''deviceId'', KPtr)],
      ex_symbol = ''hipGetStreamDeviceId'', ex_types = [KPtr, KPtr],
      ex_args = [''stream'', ''deviceId''], ex_result = ErrorCode\<rparr>,
    \<lparr>ex_name = ''hipStreamIsCapturing'',
      ex_params = [(''stream'', KPtr), (''pCaptureStatus'', KPtr)],
      ex_symbol = ''hipStreamIsCapturing'', ex_types = [KPtr, KPtr],
      ex_args = [''stream'', ''pCaptureStatus''], ex_result = ErrorCode\<rparr>,
    \<lparr>ex_name = ''hipStreamCreateWithPriority'',
      ex_params = [(''stream'', KPtr), (''flags'', KUint), (''priority'', KInt)],
      ex_symbol = ''hipStreamCreateWithPriority'', ex_types = [KPtr, KUint, KInt],
      ex_args = [''stream'', ''flags'', ''priority''], ex_result = ErrorCode\<rparr>,
    \<lparr>ex_name = ''hipStreamGetPriority'',
      ex_params = [(''stream'', KPtr), (''priority'', KPtr)],
      ex_symbol = ''hipStreamGetPriority'', ex_types = [KPtr, KPtr],
      ex_args = [''stream'', ''priority''], ex_result = ErrorCode\<rparr>,
    \<lparr>ex_name = ''hipStreamGetFlags'',
      ex_params = [(''stream'', KPtr), (''flags'', KPtr)],
      ex_symbol = ''hipStreamGetFlags'', ex_types = [KPtr, KPtr],
      ex_args = [''stream'', ''flags''], ex_result = ErrorCode\<rparr>,
    \<lparr>ex_name = ''__hipPushCallConfiguration'',
      ex_params = [(''gridDim'', KDim3), (''blockDim'', KDim3), (''sharedMem'', KSize), (''stream'', KPtr)],
      ex_symbol = ''__hipPushCallConfiguration'', ex_types = [KDim3, KDim3, KSize, KPtr],
      ex_args = [''gridDim'', ''blockDim'', ''sharedMem'', ''stream''], ex_result = ErrorCode\<rparr>,
    \<lparr>ex_name = ''__hipPopCallConfiguration'',
      ex_params = [(''gridDim'', KPtr), (''blockDim'', KPtr), (''sharedMem'', KPtr), (''stream'', KPtr)],
      ex_symbol = ''__hipPopCallConfiguration'', ex_types = [KPtr, KPtr, KPtr, KPtr],
      ex_args = [''gridDim'', ''blockDim'', ''sharedMem'', ''stream''], ex_result = ErrorCode\<rparr>,
    \<lparr>ex_name = ''__hipRegisterSurface'',
      ex_params = [(''fatCubinHandle'', KPtr), (''hostVar'', KPtr), (''deviceAddress'', KPtr), (''deviceName'', KPtr), (''dim'', KInt), (''ext'', KInt)],
      ex_symbol = ''__hipRegisterSurface'', ex_types = [KPtr, KPtr, KPtr, KPtr, KInt, KInt],
      ex_args = [''fatCubinHandle'', ''hostVar'', ''deviceAddress'', ''deviceName'', ''dim'', ''ext''], ex_result = NoResult\<rparr>,
    \<lparr>ex_name = ''__hipRegisterTexture'',
      ex_params = [(''fatCubinHandle'', KPtr), (''hostVar'', KPtr), (''deviceAddress'', KPtr), (''deviceName'', KPtr), (''dim'', KInt), (''norm'', KInt), (''ext'', KInt)],
      ex_symbol = ''__hipRegisterTexture'', ex_types = [KPtr, KPtr, KPtr, KPtr, KInt, KInt, KInt],
      ex_args = [''fatCubinHandle'', ''hostVar'', ''deviceAddress'', ''deviceName'', ''dim'', ''norm'', ''ext''], ex_result = NoResult\<rparr>,
    \<lparr>ex_name = ''__hipRegisterManagedVar'',
      ex_params = [(''hipModule'', KPtr), (''pointer'', KPtr), (''init_value'', KPtr), (''name'', KPtr), (''size'', KSize), (''align'', KUint)],
      ex_symbol = ''__hipRegisterManagedVar'', ex_types = [KPtr, KPtr, KPtr, KPtr, KSize, KUint],
      ex_args = [''hipModule'', ''pointer'', ''init_value'', ''name'', ''size'', ''align''], ex_result = NoResult\<rparr>]"

definition passthrough_exports :: "export list" where
  "passthrough_exports = concat [
     exports_1, exports_2, exports_3, exports_4, exports_5, exports_6, exports_7, exports_8,
     exports_9, exports_10, exports_11, exports_12, exports_13, exports_14, exports_15, exports_16,
     exports_17, exports_18, exports_19]"

section \<open>Faithful forwarding\<close>

definition faithful :: "export \<Rightarrow> bool" where
  "faithful e \<longleftrightarrow> ex_symbol e = ex_name e \<and> ex_args e = map fst (ex_params e) \<and> ex_types e = map snd (ex_params e) \<and>
     distinct (ex_args e)"

lemma exports_1_faithful: "list_all faithful exports_1"
  by (simp add: exports_1_def faithful_def)

lemma exports_2_faithful: "list_all faithful exports_2"
  by (simp add: exports_2_def faithful_def)

lemma exports_3_faithful: "list_all faithful exports_3"
  by (simp add: exports_3_def faithful_def)

lemma exports_4_faithful: "list_all faithful exports_4"
  by (simp add: exports_4_def faithful_def)

lemma exports_5_faithful: "list_all faithful exports_5"
  by (simp add: exports_5_def faithful_def)

lemma exports_6_faithful: "list_all faithful exports_6"
  by (simp add: exports_6_def faithful_def)

lemma exports_7_faithful: "list_all faithful exports_7"
  by (simp add: exports_7_def faithful_def)

lemma exports_8_faithful: "list_all faithful exports_8"
  by (simp add: exports_8_def faithful_def)

lemma exports_9_faithful: "list_all faithful exports_9"
  by (simp add: exports_9_def faithful_def)

lemma exports_10_faithful: "list_all faithful exports_10"
  by (simp add: exports_10_def faithful_def)

lemma exports_11_faithful: "list_all faithful exports_11"
  by (simp add: exports_11_def faithful_def)

lemma exports_12_faithful: "list_all faithful exports_12"
  by (simp add: exports_12_def faithful_def)

lemma exports_13_faithful: "list_all faithful exports_13"
  by (simp add: exports_13_def faithful_def)

lemma exports_14_faithful: "list_all faithful exports_14"
  by (simp add: exports_14_def faithful_def)

lemma exports_15_faithful: "list_all faithful exports_15"
  by (simp add: exports_15_def faithful_def)

lemma exports_16_faithful: "list_all faithful exports_16"
  by (simp add: exports_16_def faithful_def)

lemma exports_17_faithful: "list_all faithful exports_17"
  by (simp add: exports_17_def faithful_def)

lemma exports_18_faithful: "list_all faithful exports_18"
  by (simp add: exports_18_def faithful_def)

lemma exports_19_faithful: "list_all faithful exports_19"
  by (simp add: exports_19_def faithful_def)

lemmas exports_faithful =
  exports_1_faithful exports_2_faithful exports_3_faithful exports_4_faithful exports_5_faithful
  exports_6_faithful exports_7_faithful exports_8_faithful exports_9_faithful exports_10_faithful
  exports_11_faithful exports_12_faithful exports_13_faithful exports_14_faithful exports_15_faithful
  exports_16_faithful exports_17_faithful exports_18_faithful exports_19_faithful

lemma passthrough_exports_faithful: "e \<in> set passthrough_exports \<Longrightarrow> faithful e"
  using exports_faithful by (auto simp: passthrough_exports_def list_all_iff)

lemma forwarded_faithful:
  assumes "faithful e" and "map kind_of_arg args = map snd (ex_params e)"
  shows "forwarded e args = Some args"
proof -
  have len: "length args = length (ex_params e)" using assms(2) by (metis length_map)
  let ?ns = "map fst (ex_params e)"
  have "map_of (zip ?ns args) (?ns ! i) = Some (args ! i)" if "i < length args" for i
  proof (rule map_of_zip_nth)
    show "distinct ?ns" using assms(1) by (auto simp: faithful_def)
  qed (use that len in simp_all)
  then have "map (map_of (zip ?ns args)) ?ns = map Some args"
    using len by (intro nth_equalityI) simp_all
  then show ?thesis using assms by (simp add: forwarded_def faithful_def Let_def comp_def)
qed

text \<open>
  C13. Every one of the 304 direct exports forwards faithfully: called with arguments of its
  parameter types, it looks up the backend function of its own name and calls it, once, with exactly
  these arguments in order, returning its result; if the backend lacks the function it returns the
  error code 1 (\<open>unknown\<close> for strings) and calls nothing.
\<close>

theorem passthrough_forwards:
  assumes "e \<in> set passthrough_exports" and "map kind_of_arg args = map snd (ex_params e)"
    and "ensure_init E s = Some s1" and "g_backend_lib (intercept s1) \<noteq> NULL"
    and "a = dlsym E (g_backend_lib (intercept s1)) (ex_name e)"
  shows "length passthrough_exports = 304 \<and>
    passthrough E e args s = Some (if a = NULL then (no_symbol (ex_result e), s1)
      else (export_ret (ex_result e) (fst (invoke_sym E a args s1)), snd (invoke_sym E a args s1)))"
proof -
  have f: "faithful e" using passthrough_exports_faithful [OF assms(1)] .
  have "backend_sym E (ex_symbol e) s1 = Some (a, s1)"
    using f assms(4,5) ensure_init_done [OF assms(3)] by (simp add: backend_sym_def ensure_init_def faithful_def Let_def)
  then have "passthrough E e args s = Some (if a = NULL then (no_symbol (ex_result e), s1)
      else (export_ret (ex_result e) (fst (invoke_sym E a args s1)), snd (invoke_sym E a args s1)))"
    using assms(3) forwarded_faithful [OF f assms(2)] by (simp add: passthrough_def prod.case_eq_if)
  moreover have "length passthrough_exports = 304"
    unfolding passthrough_exports_def
    by (simp add: exports_1_def exports_2_def exports_3_def exports_4_def exports_5_def exports_6_def
      exports_7_def exports_8_def exports_9_def exports_10_def exports_11_def exports_12_def
      exports_13_def exports_14_def exports_15_def exports_16_def exports_17_def exports_18_def
      exports_19_def)
  ultimately show ?thesis by blast
qed

text \<open>\<open>hipMallocAsync\<close>, the third of them, in a process with the logging interceptor.\<close>

theorem passthrough_forwards_witness:
  "\<exists>s1. ensure_init demo_log_env hip_initial = Some s1 \<and>
     passthrough demo_log_env (exports_1 ! 2) [APtr 64, ASize 32, APtr NULL] hip_initial =
       Some (RError 0, snd (invoke_sym demo_log_env 7 [APtr 64, ASize 32, APtr NULL] s1))"
proof -
  obtain s1 where s1: "ensure_init demo_log_env hip_initial = Some s1" using demo_log_starts by blast
  have e: "exports_1 ! 2 \<in> set passthrough_exports" "ex_name (exports_1 ! 2) = ''hipMallocAsync''"
    "map snd (ex_params (exports_1 ! 2)) = [KPtr, KSize, KPtr]" "ex_result (exports_1 ! 2) = ErrorCode"
    by (simp_all add: passthrough_exports_def exports_1_def)
  have b: "g_backend_lib (intercept s1) = 5"
    using s1 init_backend_lib by fastforce
  show ?thesis
    using passthrough_forwards [OF e(1) _ s1, of "[APtr 64, ASize 32, APtr NULL]" 7] e b s1
    by (simp add: export_ret_def invoke_sym_def Let_def demo_log_env_def demo_hip_env_def)
qed

end
