(* ===== verification/Spec2Isabelle.thy ===== *)
theory Spec2Isabelle
  imports Fuzz_Buffers Abi_Layout Mock Hip_Passthrough
begin

text \<open>
  Verification of \<open>hrx-system-rs\<close>, the Rust port of a GPU runtime layer. The repository has two
  halves that share no code, and so does the development.

  \<^bold>\<open>libhrx\<close> (\<open>crates/hrx-libhrx\<close>, over \<open>crates/iree-hal\<close> and \<open>crates/iree-sys\<close>) is a C library of
  opaque, reference-counted handles (devices, buffers, views, semaphores, fences, streams,
  executables, modules, functions, value lists) on top of the IREE runtime. What makes it correct
  is mostly ownership: each handle is an \<open>Arc\<close>, each object owns references to IREE objects, and
  every error path has to give back what it took. Streams add a protocol: recorded work is
  submitted in order on a timeline semaphore.

  \<^bold>\<open>The HIP interception libraries\<close> (\<open>crates/hip-*\<close>) stand in for the HIP runtime: an exported
  function looks its implementation up in a table, which an interceptor (logging, buffer tracing,
  or none) may have replaced by wrappers around the real functions.

  \<^bold>\<open>How the code is modelled.\<close>
  Every exported function is one definition of the same name, from an environment, its arguments and
  the state to \<open>None\<close> (a panic or undefined behaviour: a null or dead handle is dereferenced, an
  \<open>expect\<close> fails, a wrapper unwraps an empty slot) or to its result and the new state. Machine
  integers are words and wrap, as the release build's do. A Rust \<open>String\<close> is a list of characters,
  one per byte. Errors are values: an \<open>hrx_status\<close> is \<open>None\<close> for OK, otherwise the heap-allocated
  code and message.

  What is not in the repository is a parameter. The IREE runtime is the field \<open>iree\<close> of \<open>env\<close>, a
  function from the calls made so far and the next call to the reply, and \<open>malloc_ok\<close> says which
  allocations succeed; likewise \<open>hip_env\<close> holds the HIP backend, the dynamic loader, the environment
  variables, the C streams and the clock. Calls are logged with their replies (\<open>trace\<close>, \<open>calls\<close>), so
  that theorems can say which calls were made, in which order and with which arguments. The few
  assumptions on these parameters are explicit hypotheses (\<open>reliable\<close>: status payloads can be allocated and a
  creation that reports success returns an object), each with a witness.

  \<^bold>\<open>Theories of libhrx\<close>, in the order of their imports:
  \<^item> \<open>Prelude\<close>: machine types, reachability, the locales \<open>preserved\<close> (an invariant of a step relation)
    and \<open>monotone_measure\<close>, facts on \<open>option\<close>.
  \<^item> \<open>Iree\<close>: the foreign functions as data (\<open>iree_call\<close>), the by-value structs and the effect of a call
    on reference counts, \<open>balance\<close> (\<open>crates/iree-sys\<close>).
  \<^item> \<open>Objects\<close>: one record per Rust struct behind a handle, the heap of \<open>Arc\<close>s, the globals of
    \<open>runtime.rs\<close>, the caller's memory; \<open>hrx\<close> is the state of the library.
  \<^item> \<open>Status\<close> (\<open>common.rs\<close>, \<open>status.rs\<close>), \<open>Handle\<close> (\<open>handle.rs\<close>; locale \<open>refcounted\<close>), \<open>Iree_Hal\<close>
    (the owning wrappers of \<open>crates/iree-hal\<close>).
  \<^item> \<open>Ownership\<close>: \<open>held\<close> counts the IREE references that live objects, globals and pools own, and
    \<open>surplus\<close> is the difference to \<open>balance\<close>: constant means no leak and no double release. The
    locale \<open>owned_object\<close> reduces a release to the drop of the object's fields; every kind of handle
    interprets it.
  \<^item> \<open>Device\<close>, \<open>Semaphore\<close>, \<open>Fence\<close>, \<open>Buffer\<close>, \<open>Buffer_View\<close>, \<open>Value_List\<close>, \<open>Host_Allocator\<close>,
    \<open>Executable\<close>, \<open>Queue_Ops\<close>, \<open>Stream\<close>, \<open>Runtime\<close>, \<open>Pool\<close>, \<open>Buffer_Allocate\<close>, \<open>Vm_Module\<close>: the source
    file of the same name each (\<open>hrx_buffer_allocate\<close> of \<open>buffer.rs\<close> is in \<open>Buffer_Allocate\<close>, since it
    needs streams and pools; \<open>module.rs\<close> is \<open>Vm_Module\<close>).
  \<^item> \<open>Handle_Ledger\<close>: the same ledger one level up. \<open>owed\<close> is the strong count of an object less the
    handles that other objects and the accelerators hold on it, so what its clients must still
    release (locale \<open>counted_object\<close>, interpreted by every kind of handle).
  \<^item> \<open>Api\<close>: the interface as step relations over all of them, and the ledger of its runs;
    \<open>Handle_Steps\<close>: what every call does to \<open>owed\<close>.
  \<^item> \<open>Client\<close>: the runs of a client that releases only handles it owns: they keep the heap well typed,
    its releases always return (locale \<open>progressing_object\<close>), and everything can be let go.
  \<^item> \<open>Fuzz\<close>, \<open>Fuzz_Buffers\<close>: the two programs of \<open>fuzz/fuzz_targets\<close> as such clients, run on any input
    (locale \<open>drained\<close>).
  \<^item> \<open>Abi_Layout\<close>: the \<open>repr(C)\<close> structs with their C layout, the compile-time assertions of
    \<open>abi_layout.rs\<close> and \<open>pool.rs\<close>, and the setters that write into parameter blobs.
  \<^item> \<open>Mock\<close>: the reference-counted stand-in for IREE of the Miri lane (\<open>iree-sys/src/mock.rs\<close> and its
    shims) and the tests of the wrappers that run on it.

  \<^bold>\<open>Theories of the HIP libraries\<close>:
  \<^item> \<open>Text\<close>: the formatting, parsing and UTF-8 decoding of the Rust standard library that the sources
    use (also by \<open>Runtime\<close>).
  \<^item> \<open>Hip_Table\<close>: the function table (\<open>hip-function-table\<close>), the process state \<open>hip\<close> and the locale
    \<open>interceptor\<close>: a wrapper calls the real function once with its own arguments and returns its
    result, and otherwise only touches its own state and output.
  \<^item> \<open>Hip_Logging\<close> and \<open>Hip_Tracer\<close>: the two interceptors, one definition per wrapper
    (\<open>log_wrap_X\<close>, \<open>trace_wrap_X\<close> for the Rust \<open>wrap_X\<close>) with the text it writes; both interpret
    \<open>interceptor\<close>, the tracer for every function but kernel launches.
  \<^item> \<open>Hip_Buffers\<close>: the tracer's slot table against its specification, a multiset of live allocations
    (locale \<open>allocation_bag\<close>), and what tracing a launch adds.
  \<^item> \<open>Hip_Intercept\<close>: loading the backend and the interceptor, the table-routed exports, the
    destructor, and the no-op interceptor (\<open>hip-intercept/src/lib.rs\<close>, \<open>hip-noop\<close>).
  \<^item> \<open>Hip_Passthrough\<close>: the generated exports that bypass the table.

  \<^bold>\<open>What is shown.\<close>
  \<^item> Ownership: along every run of calls of the interface, the IREE references outstanding are
    exactly those the live objects hold, and none are left when these are gone; handles are
    dropped exactly once and in field order; creation, transfer and release of every kind of
    object keep the surplus; failing initialisations, module loads, file loads and
    pool creations undo themselves; along every run of runtime calls the shared state is counted by
    its users; along every run of stream calls nothing leaks.
  \<^item> Clients: for a client that releases only what it owns, every handle in the heap is live and of the
    right type, the strong counts are the numbers of owners, every release returns and all that
    was created can be let go. Both fuzz targets are such clients: they end on every input, use
    no dead handle and give everything back. Miri, run on the mock, reports exactly the histories
    that overdraw the ledger used in these statements.
  \<^item> Layout: fields are aligned, disjoint and inside their struct, the asserted offsets hold, and the
    writes into the executable parameters land on their fields.
  \<^item> Streams: recorded work has a command buffer, the timeline never goes back, a flush submits the
    recorded commands once between the current timepoint and the next, stream-ordered allocation
    takes its place on the timeline.
  \<^item> Data: map and unmap, status codes, VM integers and buffer-view shapes survive their
    conversions; the bounds checks of transfers, and where they wrap.
  \<^item> Interception: with either interceptor (or none) a program gets the same results and the
    backend serves the same calls; the log is never written after it was closed; the slot table of
    the tracer refines a bag of allocations; tracing a launch terminates and adds only
    synchronisations and reads; all 304 direct exports forward their arguments faithfully; what
    happens when a function is missing and after the destructor.

  \<^bold>\<open>Loops\<close> are mostly structural recursions over the list of what they iterate over (semaphores, bindings,
  dimensions, devices, tracked buffers), so no fuel is needed; the loops of the fuzz targets, which read a
  varying number of bytes per round, have a termination proof; the scan for the end of a C string
  (\<open>cstr_bytes\<close> in \<open>Hip_Table\<close>) is a partial function that is \<open>None\<close> when no NUL byte follows, and is
  shown to be defined whenever one does.

  \<^bold>\<open>Not modelled.\<close>
  \<^item> Concurrency: calls are atomic steps in any order. The mutexes are therefore not states, and a
    poisoned lock or a call that re-enters a locked section does not occur.
  \<^item> Build scripts, crate roots and the unit tests of the crates other than those run on the mock:
    they have no run-time behaviour of the libraries.
  \<^item> The entries of the pool's function table are called by IREE, at moments of its choosing; the
    operations are modelled and their effects proved, their scheduling is not.
  \<^item> Allocation failure of the Rust global allocator (it aborts). The layout
    theory gives the C structs their offsets, but memory itself is a map from addresses to typed
    cells: reading a field at another type than it was written is undefined, not reinterpreted.
\<close>

end
